(* ===== verification/Prelude.thy ===== *)
theory Prelude
  imports Main "HOL-Library.AList"
begin

text \<open>
  Shared vocabulary of the development: JSON values, Go error values, the values a Go
  \<^verbatim>\<open>any\<close> can hold in this code base, the \<^verbatim>\<open>sync.Map\<close> abstraction with its interface
  (a locale) and its executable model (an association list), dynamically typed map keys,
  and the generic list lemmas the components use.
\<close>

section \<open>Collections of facts\<close>

named_theorems frame_simps \<open>what an operation leaves unchanged\<close>
named_theorems codec_simps \<open>evaluation of JSON encoders and decoders\<close>
named_theorems inv_intros \<open>preservation of component invariants\<close>

section \<open>JSON values, errors, dynamic values\<close>

text \<open>
  A JSON number is a decimal \<open>m / 10 ^ k\<close> (a positive exponent is folded into \<open>m\<close>).
  An object keeps its members in the order of the text, duplicates included, because
  \<^verbatim>\<open>encoding/json\<close> processes members in that order.
\<close>

datatype json =
    JNull
  | JBool bool
  | JNum int nat
  | JStr string
  | JArr "json list"
  | JObj "(string \<times> json) list"

text \<open>
  Go errors. \<open>ErrNew\<close> is \<^verbatim>\<open>errors.New\<close> or \<^verbatim>\<open>fmt.Errorf\<close> without \<^verbatim>\<open>%w\<close> (the format's
  text), \<open>ErrWrap\<close> is \<^verbatim>\<open>fmt.Errorf\<close> with one or more \<^verbatim>\<open>%w\<close> (the format string and the
  wrapped errors), \<open>ErrRPC\<close> is a \<^verbatim>\<open>JSONRPCError\<close> used as an error (code, message, data).
  \<open>gany\<close> is what a \<^verbatim>\<open>map[string]any\<close> of this code holds: JSON data, or an error value.
\<close>

datatype go_error =
    ErrCanceled
  | ErrDeadlineExceeded
  | ErrNew string
  | ErrWrap string "go_error list"
  | ErrRPC int string "(string \<times> gany) list"
and gany =
    AnyJson json
  | AnyErr go_error

text \<open>\<^verbatim>\<open>errors.Is\<close> against a sentinel: the error itself or anything it wraps.\<close>

fun errors_Is :: "go_error \<Rightarrow> go_error \<Rightarrow> bool" where
  "errors_Is (ErrWrap f es) t = (ErrWrap f es = t \<or> list_ex (\<lambda>e. errors_Is e t) es)"
| "errors_Is e t = (e = t)"

text \<open>
  \<^verbatim>\<open>json.Marshal\<close> of a dynamic value. The error values this code puts into a map are
  made by \<^verbatim>\<open>errors.New\<close> and \<^verbatim>\<open>fmt.Errorf\<close>; their struct types have no exported field and no
  \<^verbatim>\<open>MarshalJSON\<close> method, so they marshal to the empty object.
\<close>

fun marshal_any :: "gany \<Rightarrow> json" where
  "marshal_any (AnyJson j) = j"
| "marshal_any (AnyErr e) = JObj []"

text \<open>Results of fallible Go functions: \<open>Inl\<close> the error, \<open>Inr\<close> the value.\<close>

type_synonym 'a res = "go_error + 'a"

definition res_bind :: "'a res \<Rightarrow> ('a \<Rightarrow> 'b res) \<Rightarrow> 'b res" where
  "res_bind r f = (case r of Inl e \<Rightarrow> Inl e | Inr x \<Rightarrow> f x)"

lemma res_bind_simps [simp]:
  "res_bind (Inl e) f = Inl e"
  "res_bind (Inr x) f = f x"
  by (simp_all add: res_bind_def)

lemma res_bind_eq_Inr:
  "res_bind r f = Inr y \<longleftrightarrow> (\<exists>x. r = Inr x \<and> f x = Inr y)"
  by (cases r) auto

section \<open>sync.Map\<close>

text \<open>
  The interface the server and the client rely on: \<open>Store\<close>, \<open>Load\<close>, \<open>Delete\<close> and the
  enumeration \<open>Range\<close>. \<open>Range\<close> visits every key that is present exactly once; Go leaves
  the order open, the laws do too.
\<close>

locale sync_map =
  fixes empty :: "'m"
    and load :: "'m \<Rightarrow> 'k \<Rightarrow> 'v option"
    and store :: "'k \<Rightarrow> 'v \<Rightarrow> 'm \<Rightarrow> 'm"
    and delete :: "'k \<Rightarrow> 'm \<Rightarrow> 'm"
    and range :: "'m \<Rightarrow> ('k \<times> 'v) list"
    and wf :: "'m \<Rightarrow> bool"
  assumes load_empty: "load empty k = None"
    and load_store: "load (store k v m) k' = (if k' = k then Some v else load m k')"
    and load_delete: "load (delete k m) k' = (if k' = k then None else load m k')"
    and range_set: "wf m \<Longrightarrow> (k, v) \<in> set (range m) \<longleftrightarrow> load m k = Some v"
    and range_distinct: "wf m \<Longrightarrow> distinct (map fst (range m))"
    and wf_empty: "wf empty"
    and wf_store: "wf m \<Longrightarrow> wf (store k v m)"
    and wf_delete: "wf m \<Longrightarrow> wf (delete k m)"
begin

lemma load_store_same: "load (store k v m) k = Some v"
  by (simp add: load_store)

lemma load_store_other: "k' \<noteq> k \<Longrightarrow> load (store k v m) k' = load m k'"
  by (simp add: load_store)

lemma load_delete_store: "load (delete k (store k v m)) k' = load (delete k m) k'"
  by (simp add: load_store load_delete)

lemma store_persists: "load m k \<noteq> None \<Longrightarrow> load (store k' v m) k \<noteq> None"
  by (simp add: load_store)

lemma range_after_delete:
  "wf m \<Longrightarrow> (k', v) \<in> set (range (delete k m)) \<longleftrightarrow> k' \<noteq> k \<and> (k', v) \<in> set (range m)"
  by (simp add: range_set wf_delete load_delete)

lemma range_after_store:
  "wf m \<Longrightarrow> (k', v') \<in> set (range (store k v m)) \<longleftrightarrow>
     (if k' = k then v' = v else (k', v') \<in> set (range m))"
  by (auto simp add: range_set wf_store load_store)

end

type_synonym ('k, 'v) smap = "('k \<times> 'v) list"

definition smap_load :: "('k, 'v) smap \<Rightarrow> 'k \<Rightarrow> 'v option" where
  "smap_load m k = map_of m k"

definition smap_store :: "'k \<Rightarrow> 'v \<Rightarrow> ('k, 'v) smap \<Rightarrow> ('k, 'v) smap" where
  "smap_store k v m = AList.update k v m"

definition smap_delete :: "'k \<Rightarrow> ('k, 'v) smap \<Rightarrow> ('k, 'v) smap" where
  "smap_delete k m = AList.delete k m"

definition smap_range :: "('k, 'v) smap \<Rightarrow> ('k \<times> 'v) list" where
  "smap_range m = m"

definition smap_wf :: "('k, 'v) smap \<Rightarrow> bool" where
  "smap_wf m \<longleftrightarrow> distinct (map fst m)"

interpretation sm: sync_map "[]" smap_load smap_store smap_delete smap_range smap_wf
proof unfold_locales
  fix k k' :: 'k and v :: 'v and m :: "('k, 'v) smap"
  show "smap_load [] k = None" by (simp add: smap_load_def)
  show "smap_load (smap_store k v m) k' = (if k' = k then Some v else smap_load m k')"
    by (simp add: smap_load_def smap_store_def update_conv')
  show "smap_load (smap_delete k m) k' = (if k' = k then None else smap_load m k')"
    by (simp add: smap_load_def smap_delete_def delete_conv')
  show "smap_wf []" by (simp add: smap_wf_def)
  assume wf: "smap_wf m"
  then show "(k, v) \<in> set (smap_range m) \<longleftrightarrow> smap_load m k = Some v"
    by (simp add: smap_wf_def smap_range_def smap_load_def)
  from wf show "distinct (map fst (smap_range m))"
    by (simp add: smap_wf_def smap_range_def)
  from wf show "smap_wf (smap_store k v m)"
    by (simp add: smap_wf_def smap_store_def distinct_update)
  from wf show "smap_wf (smap_delete k m)"
    by (simp add: smap_wf_def smap_delete_def distinct_delete)
qed

lemmas smap_simps [simp] = sm.load_empty sm.load_store sm.load_delete
lemmas smap_wf_intros [simp, intro] = sm.wf_empty sm.wf_store sm.wf_delete

text \<open>For evaluation of closed states.\<close>

lemmas smap_eval = smap_load_def smap_store_def smap_delete_def smap_range_def

lemma smap_load_Some_set: "smap_load m k = Some v \<Longrightarrow> (k, v) \<in> set m"
  by (simp add: smap_load_def map_of_SomeD)

lemma smap_store_set: "x \<in> set (smap_store k v m) \<Longrightarrow> x = (k, v) \<or> x \<in> set m"
proof (induction m)
  case Nil
  then show ?case by (simp add: smap_store_def)
next
  case (Cons a m)
  then show ?case
    by (cases a) (auto simp: smap_store_def split: if_splits)
qed

lemma smap_delete_set: "x \<in> set (smap_delete k m) \<Longrightarrow> x \<in> set m"
  by (auto simp: smap_delete_def AList.delete_eq)

lemma smap_store_fresh: "k \<notin> fst ` set m \<Longrightarrow> smap_store k v m = m @ [(k, v)]"
  by (induction m) (auto simp: smap_store_def)

text \<open>
  A key of a \<^verbatim>\<open>sync.Map\<close> is an \<^verbatim>\<open>any\<close>: two keys are equal only if their dynamic types are
  equal. This code uses \<^verbatim>\<open>string\<close> and \<^verbatim>\<open>MustString\<close> keys.
\<close>

datatype gokey = KString string | KMustString string

section \<open>Generic list lemmas\<close>

lemma nth_list_update_if:
  "i < length xs \<Longrightarrow> xs[i := x] ! j = (if j = i then x else xs ! j)"
  by simp

lemma list_all_update:
  "list_all P xs \<Longrightarrow> P x \<Longrightarrow> list_all P (xs[i := x])"
  by (auto simp: list_all_iff dest: set_update_subset_insert [THEN subsetD])

lemma nth_update_proj:
  "h (f (xs ! i)) = h (xs ! i) \<Longrightarrow> h (xs[i := f (xs ! i)] ! j) = h (xs ! j)"
  by (cases "i < length xs") (auto simp: nth_list_update list_update_beyond not_less)

lemma filter_append_single [simp]:
  "filter P (xs @ [x]) = filter P xs @ (if P x then [x] else [])"
  by simp

end
