(* ===== verification/Numbers.thy ===== *)
theory Numbers
  imports Prelude
begin

text \<open>
  Go's numbers as far as the code uses them: \<^verbatim>\<open>float64\<close> values obtained from JSON numerals
  (round to nearest, ties to even, 53 bits), the conversion \<^verbatim>\<open>int(v)\<close> of a \<^verbatim>\<open>float64\<close>, and
  decimal printing and parsing of 64-bit integers (\<^verbatim>\<open>fmt.Sprintf("%d", n)\<close>, \<^verbatim>\<open>strconv.Atoi\<close>).
\<close>

section \<open>Machine integers\<close>

definition int64_min :: int where "int64_min = - (2 ^ 63)"
definition int64_max :: int where "int64_max = 2 ^ 63 - 1"

definition in_int64 :: "int \<Rightarrow> bool" where
  "in_int64 n \<longleftrightarrow> int64_min \<le> n \<and> n \<le> int64_max"

text \<open>Two's complement wrap-around of \<^verbatim>\<open>int\<close> arithmetic on a 64-bit platform.\<close>

definition wrap64 :: "int \<Rightarrow> int" where
  "wrap64 n = (n + 2 ^ 63) mod 2 ^ 64 - 2 ^ 63"

lemma wrap64_in_int64: "in_int64 (wrap64 n)"
proof -
  have "0 \<le> (n + 2 ^ 63) mod 2 ^ 64" and "(n + 2 ^ 63) mod 2 ^ 64 < (2 ^ 64 :: int)"
    by (simp_all only: pos_mod_sign pos_mod_bound zero_less_power zero_less_numeral)
  then show ?thesis
    by (simp add: wrap64_def in_int64_def int64_min_def int64_max_def)
qed

lemma wrap64_id: "in_int64 n \<Longrightarrow> wrap64 n = n"
  by (simp add: wrap64_def in_int64_def int64_min_def int64_max_def)

section \<open>float64\<close>

text \<open>A finite \<^verbatim>\<open>float64\<close> is \<open>m * 2 ^ e\<close>; the two components are kept as they are computed.\<close>

datatype f64 = F64 (f64_mant: int) (f64_exp: int)

fun nbits :: "nat \<Rightarrow> nat" where
  "nbits n = (if n = 0 then 0 else Suc (nbits (n div 2)))"

declare nbits.simps [simp del]

definition round_half_even :: "nat \<Rightarrow> nat \<Rightarrow> nat" where
  "round_half_even p q =
     (let d = p div q; r = p mod q in
      if 2 * r < q then d else if q < 2 * r then Suc d else if even d then d else Suc d)"

text \<open>\<open>scale_ratio p q e\<close> is the pair whose quotient is \<open>p / q * 2 ^ (-e)\<close>.\<close>

definition scale_ratio :: "nat \<Rightarrow> nat \<Rightarrow> int \<Rightarrow> nat \<times> nat" where
  "scale_ratio p q e = (if 0 \<le> e then (p, q * 2 ^ nat e) else (p * 2 ^ nat (- e), q))"

definition f64_of_ratio :: "nat \<Rightarrow> nat \<Rightarrow> nat \<times> int" where
  "f64_of_ratio p q =
     (if p = 0 then (0, 0)
      else
        let e0 = int (nbits p) - int (nbits q) - 53;
            (a, b) = scale_ratio p q e0;
            e1 = (if b * 2 ^ 53 \<le> a then e0 + 1 else e0);
            e = max e1 (- 1074);
            (a', b') = scale_ratio p q e
        in (round_half_even a' b', e))"

text \<open>
  \<^verbatim>\<open>strconv.ParseFloat\<close> of the decimal \<open>m / 10 ^ k\<close>; \<open>None\<close> is the range error of a
  numeral beyond the largest finite \<^verbatim>\<open>float64\<close>.
\<close>

definition f64_of_decimal :: "int \<Rightarrow> nat \<Rightarrow> f64 option" where
  "f64_of_decimal m k =
     (let (r, e) = f64_of_ratio (nat \<bar>m\<bar>) (10 ^ k) in
      if 971 < e \<or> (e = 971 \<and> 2 ^ 53 \<le> r) then None
      else Some (F64 (sgn m * int r) e))"

text \<open>Truncation towards zero.\<close>

definition f64_trunc :: "f64 \<Rightarrow> int" where
  "f64_trunc v =
     (if 0 \<le> f64_exp v then f64_mant v * 2 ^ nat (f64_exp v)
      else sgn (f64_mant v) * (\<bar>f64_mant v\<bar> div 2 ^ nat (- f64_exp v)))"

text \<open>
  The conversion \<^verbatim>\<open>int(v)\<close>. Outside the range of \<^verbatim>\<open>int\<close> the language leaves the value to
  the implementation; this is the amd64 one.
\<close>

definition int_of_f64 :: "f64 \<Rightarrow> int" where
  "int_of_f64 v = (if in_int64 (f64_trunc v) then f64_trunc v else int64_min)"

lemma nbits_bounds: "0 < n \<Longrightarrow> 2 ^ (nbits n - 1) \<le> n \<and> n < 2 ^ nbits n"
proof (induction n rule: nbits.induct)
  case (1 n)
  show ?case
  proof (cases "n = 1")
    case True
    then show ?thesis by (simp add: nbits.simps)
  next
    case False
    with 1 have half: "0 < n div 2" by simp
    with 1 have IH: "2 ^ (nbits (n div 2) - 1) \<le> n div 2" "n div 2 < 2 ^ nbits (n div 2)"
      by simp_all
    have pos: "0 < nbits (n div 2)" using half by (subst nbits.simps) simp
    have eq: "nbits n = Suc (nbits (n div 2))" using 1 by (subst nbits.simps) simp
    have "(2::nat) ^ nbits (n div 2) = 2 * 2 ^ (nbits (n div 2) - 1)"
      using pos by (cases "nbits (n div 2)") simp_all
    with IH have "2 ^ nbits (n div 2) \<le> n" and "n < 2 * 2 ^ nbits (n div 2)"
      by linarith+
    with eq show ?thesis by simp
  qed
qed

lemma nbits_le:
  assumes "n < 2 ^ k"
  shows "nbits n \<le> k"
proof (rule ccontr)
  assume k: "\<not> nbits n \<le> k"
  then have "0 < n" by (cases "n = 0") (simp_all add: nbits.simps [of 0])
  then have "2 ^ (nbits n - 1) \<le> n" using nbits_bounds by simp
  moreover have "(2::nat) ^ k \<le> 2 ^ (nbits n - 1)" using k by (intro power_increasing) simp_all
  ultimately show False using assms by linarith
qed

lemma nbits_one [simp]: "nbits (Suc 0) = 1"
  by (simp add: nbits.simps)

text \<open>
  Every integer of at most 53 bits is exact: reading its numeral and converting back gives
  the integer itself.
\<close>

lemma f64_of_ratio_exact:
  assumes "0 < n" and "n < 2 ^ 53"
  shows "f64_of_ratio n 1 = (n * 2 ^ (53 - nbits n), int (nbits n) - 53)"
proof -
  let ?b = "nbits n"
  have b: "2 ^ (?b - 1) \<le> n" "n < 2 ^ ?b" using nbits_bounds [OF assms(1)] by simp_all
  have b53: "?b \<le> 53" using assms(2) by (rule nbits_le)
  have b0: "0 < ?b" using assms(1) by (subst nbits.simps) simp
  define e0 where "e0 = int ?b - 1 - 53"
  have nat_e0: "nat (- e0) = 54 - ?b" using b53 by (simp add: e0_def)
  have e0neg: "e0 < 0" using b53 by (simp add: e0_def)
  have "2 ^ 53 = (2::nat) ^ (?b - 1) * 2 ^ (54 - ?b)"
    using b0 b53 by (simp only: power_add [symmetric]) simp
  also have "\<dots> \<le> n * 2 ^ (54 - ?b)" using b(1) by simp
  finally have ge: "2 ^ 53 \<le> n * 2 ^ (54 - ?b)" .
  have e1: "max (e0 + 1) (- 1074) = int ?b - 53" using b0 by (simp add: e0_def)
  have sc: "scale_ratio n 1 (int ?b - 53) = (n * 2 ^ (53 - ?b), 1)"
    using b53 by (auto simp: scale_ratio_def nat_diff_distrib')
  have sc0: "scale_ratio n 1 e0 = (n * 2 ^ (54 - ?b), 1)"
    using e0neg nat_e0 by (simp add: scale_ratio_def)
  have "int (nbits n) - int (nbits 1) - 53 = e0" by (simp add: e0_def)
  then show ?thesis
    using assms(1) ge e1 sc sc0
    by (simp add: f64_of_ratio_def Let_def round_half_even_def del: One_nat_def)
qed

lemma f64_decimal_exact:
  assumes "\<bar>n\<bar> < 2 ^ 53"
  shows "\<exists>v. f64_of_decimal n 0 = Some v \<and> f64_trunc v = n \<and> int_of_f64 v = n"
proof (cases "n = 0")
  case True
  then show ?thesis
    by (simp add: f64_of_decimal_def f64_of_ratio_def f64_trunc_def int_of_f64_def in_int64_def
        int64_min_def int64_max_def)
next
  case False
  let ?a = "nat \<bar>n\<bar>"
  let ?b = "nbits ?a"
  have pos: "0 < ?a" using False by simp
  have bound: "?a < 2 ^ 53" using assms by (simp add: nat_less_iff)
  have b53: "?b \<le> 53" using bound by (rule nbits_le)
  let ?v = "F64 (sgn n * int (?a * 2 ^ (53 - ?b))) (int ?b - 53)"
  have dec: "f64_of_decimal n 0 = Some ?v"
    using f64_of_ratio_exact [OF pos bound] b53 by (simp add: f64_of_decimal_def Let_def)
  have shift: "nat (53 - int ?b) = 53 - ?b" using b53 by (simp add: nat_diff_distrib')
  have tr: "f64_trunc ?v = n"
  proof (cases "?b = 53")
    case True
    then show ?thesis by (simp add: f64_trunc_def sgn_mult_abs)
  next
    case False
    with b53 shift have "f64_trunc ?v = sgn n * \<bar>n\<bar>"
      by (simp add: f64_trunc_def abs_mult sgn_mult abs_sgn_eq \<open>n \<noteq> 0\<close>)
    then show ?thesis by (simp add: sgn_mult_abs)
  qed
  have "in_int64 n" using assms by (simp add: in_int64_def int64_min_def int64_max_def abs_less_iff)
  with dec tr show ?thesis by (auto simp: int_of_f64_def)
qed

section \<open>Decimal printing and parsing\<close>

definition digit_char :: "nat \<Rightarrow> char" where
  "digit_char d = char_of (48 + d)"

definition is_digit :: "char \<Rightarrow> bool" where
  "is_digit c \<longleftrightarrow> 48 \<le> (of_char c :: nat) \<and> (of_char c :: nat) \<le> 57"

definition digit_val :: "char \<Rightarrow> nat" where
  "digit_val c = of_char c - 48"

fun show_nat :: "nat \<Rightarrow> string" where
  "show_nat n = (if n < 10 then [digit_char n] else show_nat (n div 10) @ [digit_char (n mod 10)])"

declare show_nat.simps [simp del]

text \<open>\<^verbatim>\<open>fmt.Sprintf("%d", n)\<close>.\<close>

definition show_int :: "int \<Rightarrow> string" where
  "show_int n = (if n < 0 then CHR ''-'' # show_nat (nat (- n)) else show_nat (nat n))"

fun digits_val :: "nat \<Rightarrow> string \<Rightarrow> nat option" where
  "digits_val acc [] = Some acc"
| "digits_val acc (c # cs) = (if is_digit c then digits_val (10 * acc + digit_val c) cs else None)"

text \<open>
  \<^verbatim>\<open>strconv.Atoi\<close>: the value and whether the error is non-nil. A syntax error yields 0, a
  range error the nearest bound.
\<close>

definition atoi :: "string \<Rightarrow> int \<times> bool" where
  "atoi s =
     (let (neg, ds) = (case s of
          [] \<Rightarrow> (False, [])
        | c # cs \<Rightarrow> if c = CHR ''-'' then (True, cs)
                    else if c = CHR ''+'' then (False, cs) else (False, s))
      in if ds = [] then (0, True)
         else case digits_val 0 ds of
           None \<Rightarrow> (0, True)
         | Some n \<Rightarrow>
             let v = (if neg then - int n else int n) in
             if v < int64_min then (int64_min, True)
             else if int64_max < v then (int64_max, True)
             else (v, False))"

lemma digit_char_digit: "d < 10 \<Longrightarrow> is_digit (digit_char d) \<and> digit_val (digit_char d) = d"
  by (simp add: digit_char_def is_digit_def digit_val_def)

lemma digits_val_append:
  "digits_val acc (xs @ ys) = (case digits_val acc xs of None \<Rightarrow> None | Some a \<Rightarrow> digits_val a ys)"
  by (induction acc xs rule: digits_val.induct) auto

lemma show_nat_nonempty [simp]: "show_nat n \<noteq> []"
  by (subst show_nat.simps) simp

lemma digits_val_show_nat: "digits_val 0 (show_nat n) = Some n"
proof (induction n rule: show_nat.induct)
  case (1 n)
  show ?case
  proof (cases "n < 10")
    case True
    then show ?thesis by (subst show_nat.simps) (simp add: digit_char_digit)
  next
    case False
    with 1 show ?thesis
      by (subst show_nat.simps) (simp add: digits_val_append digit_char_digit)
  qed
qed

lemma show_nat_digits: "c \<in> set (show_nat n) \<Longrightarrow> is_digit c"
proof (induction n rule: show_nat.induct)
  case (1 n)
  then show ?case
    by (subst (asm) show_nat.simps) (auto simp: digit_char_digit split: if_splits)
qed

lemma show_nat_no_sign: "hd (show_nat n) \<noteq> CHR ''-'' \<and> hd (show_nat n) \<noteq> CHR ''+''"
proof -
  have "is_digit (hd (show_nat n))" by (rule show_nat_digits [OF hd_in_set]) simp
  then show ?thesis by (auto simp: is_digit_def)
qed

text \<open>Printing then parsing is the identity on the range of \<^verbatim>\<open>int\<close>.\<close>

lemma atoi_show_int:
  assumes "in_int64 n"
  shows "atoi (show_int n) = (n, False)"
proof (cases "n < 0")
  case True
  then show ?thesis
    using assms
    by (simp add: atoi_def show_int_def digits_val_show_nat in_int64_def Let_def)
next
  case False
  obtain c cs where ccs: "show_nat (nat n) = c # cs"
    by (cases "show_nat (nat n)") simp_all
  then have sign: "c \<noteq> CHR ''-''" "c \<noteq> CHR ''+''"
    using show_nat_no_sign [of "nat n"] by simp_all
  have "digits_val 0 (c # cs) = Some (nat n)"
    using digits_val_show_nat [of "nat n"] ccs by simp
  with False assms sign ccs show ?thesis
    by (simp add: atoi_def show_int_def in_int64_def Let_def del: digits_val.simps)
qed

lemma show_int_inject:
  assumes "in_int64 a" and "in_int64 b" and "show_int a = show_int b"
  shows "a = b"
  using assms by (metis atoi_show_int fst_conv)

lemma show_int_nonempty [simp]: "show_int n \<noteq> []"
  by (simp add: show_int_def)

end
