(* ===== verification/Json.thy ===== *)
theory Json
  imports Numbers
begin

text \<open>
  The part of \<^verbatim>\<open>encoding/json\<close> the program uses, on JSON values: decoding into an existing Go
  value (\<^verbatim>\<open>json.Unmarshal\<close> keeps what the text does not mention), struct members matched by
  name exactly or else ignoring ASCII case, \<^verbatim>\<open>null\<close> as a no-op on scalars and structs and as
  the nil value of pointers, slices, maps and interfaces, \<^verbatim>\<open>omitempty\<close> on encoding.
  A type error makes the whole decoding fail; every caller in this code base drops the
  partly filled value then. The interface of a codec is a locale, interpreted for every
  struct of the protocol.
\<close>

section \<open>Decoders\<close>

type_synonym 's dec = "json \<Rightarrow> 's \<Rightarrow> 's res"

definition errUnmarshalType :: go_error where
  "errUnmarshalType = ErrNew ''json: cannot unmarshal value''"

fun dec_string :: "string dec" where
  "dec_string (JStr t) s = Inr t"
| "dec_string JNull s = Inr s"
| "dec_string _ s = Inl errUnmarshalType"

fun dec_bool :: "bool dec" where
  "dec_bool (JBool b) s = Inr b"
| "dec_bool JNull s = Inr s"
| "dec_bool _ s = Inl errUnmarshalType"

text \<open>An \<^verbatim>\<open>int\<close> accepts a numeral without fraction that fits 64 bits.\<close>

fun dec_int :: "int dec" where
  "dec_int (JNum m k) s = (if k = 0 \<and> in_int64 m then Inr m else Inl errUnmarshalType)"
| "dec_int JNull s = Inr s"
| "dec_int _ s = Inl errUnmarshalType"

text \<open>\<^verbatim>\<open>json.RawMessage\<close>: nil is \<open>None\<close>; every value is kept as it is, \<^verbatim>\<open>null\<close> included.\<close>

type_synonym raw = "json option"

fun dec_raw :: "raw dec" where
  "dec_raw j s = Inr (Some j)"

text \<open>A field of type \<^verbatim>\<open>any\<close>.\<close>

fun dec_any :: "json dec" where
  "dec_any j s = Inr j"

text \<open>Pointers: \<^verbatim>\<open>null\<close> is nil, otherwise decode into the pointee (a fresh zero value if nil).\<close>

definition dec_ptr :: "'s \<Rightarrow> 's dec \<Rightarrow> 's option dec" where
  "dec_ptr z d j s =
     (if j = JNull then Inr None
      else res_bind (d j (case s of None \<Rightarrow> z | Some x \<Rightarrow> x)) (\<lambda>x. Inr (Some x)))"

text \<open>Slices: nil is \<open>None\<close>.\<close>

fun dec_elems :: "'s \<Rightarrow> 's dec \<Rightarrow> json list \<Rightarrow> 's list res" where
  "dec_elems z d [] = Inr []"
| "dec_elems z d (j # js) =
     res_bind (d j z) (\<lambda>x. res_bind (dec_elems z d js) (\<lambda>xs. Inr (x # xs)))"

fun dec_slice :: "'s \<Rightarrow> 's dec \<Rightarrow> 's list option dec" where
  "dec_slice z d (JArr js) s = res_bind (dec_elems z d js) (\<lambda>xs. Inr (Some xs))"
| "dec_slice z d JNull s = Inr None"
| "dec_slice z d _ s = Inl errUnmarshalType"

text \<open>A slice whose nil and empty values are not told apart (all its uses are \<^verbatim>\<open>omitempty\<close>).\<close>

fun dec_list :: "'s \<Rightarrow> 's dec \<Rightarrow> 's list dec" where
  "dec_list z d (JArr js) s = dec_elems z d js"
| "dec_list z d JNull s = Inr []"
| "dec_list z d _ s = Inl errUnmarshalType"

text \<open>Maps with string keys: nil is \<open>None\<close>; a repeated member overwrites.\<close>

fun dec_entries :: "'s \<Rightarrow> 's dec \<Rightarrow> (string \<times> json) list \<Rightarrow> (string, 's) smap \<Rightarrow> (string, 's) smap res" where
  "dec_entries z d [] m = Inr m"
| "dec_entries z d ((k, j) # kjs) m =
     res_bind (d j z) (\<lambda>x. dec_entries z d kjs (smap_store k x m))"

fun dec_map :: "'s \<Rightarrow> 's dec \<Rightarrow> (string, 's) smap option dec" where
  "dec_map z d (JObj kjs) s =
     res_bind (dec_entries z d kjs (case s of None \<Rightarrow> [] | Some m \<Rightarrow> m)) (\<lambda>m. Inr (Some m))"
| "dec_map z d JNull s = Inr None"
| "dec_map z d _ s = Inl errUnmarshalType"

subsection \<open>Structs\<close>

definition ascii_lower :: "char \<Rightarrow> char" where
  "ascii_lower c =
     (if 65 \<le> (of_char c :: nat) \<and> (of_char c :: nat) \<le> 90 then char_of (of_char c + 32 :: nat) else c)"

definition find_field :: "(string \<times> 'd) list \<Rightarrow> string \<Rightarrow> 'd option" where
  "find_field fs k =
     (case map_of fs k of
        Some d \<Rightarrow> Some d
      | None \<Rightarrow> map_of (map (\<lambda>(n, d). (map ascii_lower n, d)) fs) (map ascii_lower k))"

fun dec_members :: "(string \<times> 's dec) list \<Rightarrow> (string \<times> json) list \<Rightarrow> 's \<Rightarrow> 's res" where
  "dec_members fs [] s = Inr s"
| "dec_members fs ((k, j) # kjs) s =
     (case find_field fs k of
        None \<Rightarrow> dec_members fs kjs s
      | Some d \<Rightarrow> res_bind (d j s) (dec_members fs kjs))"

fun dec_struct :: "(string \<times> 's dec) list \<Rightarrow> 's dec" where
  "dec_struct fs (JObj kjs) s = dec_members fs kjs s"
| "dec_struct fs JNull s = Inr s"
| "dec_struct fs _ s = Inl errUnmarshalType"

text \<open>One struct field: decode into the field's current value.\<close>

definition fld :: "('s \<Rightarrow> 'a) \<Rightarrow> (('a \<Rightarrow> 'a) \<Rightarrow> 's \<Rightarrow> 's) \<Rightarrow> 'a dec \<Rightarrow> 's dec" where
  "fld get upd d j s = res_bind (d j (get s)) (\<lambda>x. Inr (upd (\<lambda>_. x) s))"

text \<open>\<^verbatim>\<open>json.Unmarshal\<close> of a raw message: the empty input is a syntax error.\<close>

definition errUnexpectedEnd :: go_error where
  "errUnexpectedEnd = ErrNew ''unexpected end of JSON input''"

definition unmarshal :: "'s dec \<Rightarrow> 's \<Rightarrow> raw \<Rightarrow> 's res" where
  "unmarshal d z r = (case r of None \<Rightarrow> Inl errUnexpectedEnd | Some j \<Rightarrow> d j z)"

section \<open>Encoders\<close>

definition omit_str :: "string \<Rightarrow> string \<Rightarrow> (string \<times> json) list" where
  "omit_str k s = (if s = [] then [] else [(k, JStr s)])"

definition omit_bool :: "string \<Rightarrow> bool \<Rightarrow> (string \<times> json) list" where
  "omit_bool k b = (if b then [(k, JBool True)] else [])"

definition omit_raw :: "string \<Rightarrow> raw \<Rightarrow> (string \<times> json) list" where
  "omit_raw k r = (case r of None \<Rightarrow> [] | Some j \<Rightarrow> [(k, j)])"

definition omit_ptr :: "string \<Rightarrow> ('a \<Rightarrow> json) \<Rightarrow> 'a option \<Rightarrow> (string \<times> json) list" where
  "omit_ptr k enc p = (case p of None \<Rightarrow> [] | Some x \<Rightarrow> [(k, enc x)])"

definition omit_list :: "string \<Rightarrow> ('a \<Rightarrow> json) \<Rightarrow> 'a list \<Rightarrow> (string \<times> json) list" where
  "omit_list k enc xs = (if xs = [] then [] else [(k, JArr (map enc xs))])"

definition enc_slice :: "('a \<Rightarrow> json) \<Rightarrow> 'a list option \<Rightarrow> json" where
  "enc_slice enc s = (case s of None \<Rightarrow> JNull | Some xs \<Rightarrow> JArr (map enc xs))"

definition enc_map :: "('a \<Rightarrow> json) \<Rightarrow> (string, 'a) smap option \<Rightarrow> json" where
  "enc_map enc m = (case m of None \<Rightarrow> JNull | Some kvs \<Rightarrow> JObj (map (\<lambda>(k, v). (k, enc v)) kvs))"

definition enc_int :: "int \<Rightarrow> json" where
  "enc_int n = JNum n 0"

lemmas omit_defs = omit_str_def omit_bool_def omit_raw_def omit_ptr_def omit_list_def

section \<open>The codec interface\<close>

text \<open>
  A codec for values that satisfy \<open>ok\<close>: an encoding is never \<^verbatim>\<open>null\<close>, and decoding it into
  the zero value gives the value back. The containers inherit the round trip.
\<close>

locale json_codec =
  fixes enc :: "'a \<Rightarrow> json"
    and dec :: "'a dec"
    and zero :: 'a
    and ok :: "'a \<Rightarrow> bool"
  assumes round_trip: "ok x \<Longrightarrow> dec (enc x) zero = Inr x"
    and enc_not_null: "enc x \<noteq> JNull"
begin

lemma ptr_round_trip: "ok x \<Longrightarrow> dec_ptr zero dec (enc x) None = Inr (Some x)"
  by (simp add: dec_ptr_def enc_not_null round_trip)

lemma elems_round_trip: "list_all ok xs \<Longrightarrow> dec_elems zero dec (map enc xs) = Inr xs"
  by (induction xs) (simp_all add: round_trip)

lemma list_round_trip: "list_all ok xs \<Longrightarrow> dec_list zero dec (JArr (map enc xs)) s = Inr xs"
  by (simp add: elems_round_trip)

lemma slice_round_trip:
  "(case s of None \<Rightarrow> True | Some xs \<Rightarrow> list_all ok xs) \<Longrightarrow>
   dec_slice zero dec (enc_slice enc s) t = Inr s"
  by (cases s) (simp_all add: enc_slice_def elems_round_trip)

lemma entries_round_trip:
  "distinct (map fst kvs) \<Longrightarrow> fst ` set kvs \<inter> fst ` set m = {} \<Longrightarrow> list_all (ok \<circ> snd) kvs \<Longrightarrow>
   dec_entries zero dec (map (\<lambda>(k, v). (k, enc v)) kvs) m = Inr (m @ kvs)"
proof (induction kvs arbitrary: m)
  case Nil
  then show ?case by simp
next
  case (Cons kv kvs)
  obtain k v where kv: "kv = (k, v)" by (cases kv)
  have fresh: "k \<notin> fst ` set m" using Cons.prems(2) kv by simp
  then have "smap_store k v m = m @ [(k, v)]"
    by (rule smap_store_fresh)
  moreover have "dec_entries zero dec (map (\<lambda>(k, v). (k, enc v)) kvs) (m @ [(k, v)])
      = Inr ((m @ [(k, v)]) @ kvs)"
    using Cons.prems kv by (intro Cons.IH) auto
  ultimately show ?case
    using Cons.prems(3) kv by (simp add: round_trip)
qed

lemma map_round_trip:
  "(case m of None \<Rightarrow> True | Some kvs \<Rightarrow> distinct (map fst kvs) \<and> list_all (ok \<circ> snd) kvs) \<Longrightarrow>
   dec_map zero dec (enc_map enc m) None = Inr m"
  using entries_round_trip [of _ "[]"] by (cases m) (simp_all add: enc_map_def)

lemma unmarshal_round_trip: "ok x \<Longrightarrow> unmarshal dec zero (Some (enc x)) = Inr x"
  by (simp add: unmarshal_def round_trip)

end

interpretation str: json_codec JStr dec_string "[]" "\<lambda>_. True"
  by unfold_locales simp_all

interpretation int64: json_codec enc_int dec_int 0 in_int64
  by unfold_locales (simp_all add: enc_int_def)

text \<open>
  The struct decoder evaluates on an encoded struct: member names are literals, so
  \<open>find_field\<close> computes. \<open>struct_eval\<close> is the set the round-trip proofs use.
\<close>

lemma dec_members_append:
  "dec_members fs (xs @ ys) s = res_bind (dec_members fs xs s) (dec_members fs ys)"
proof (induction xs arbitrary: s)
  case Nil
  then show ?case by simp
next
  case (Cons kj xs)
  obtain k j where "kj = (k, j)" by (cases kj)
  with Cons show ?case
    by (cases "find_field fs k") (simp_all add: res_bind_def split: sum.split)
qed

lemmas struct_eval = find_field_def fld_def dec_members_append

end
