(* ===== verification/Protocol.thy ===== *)
theory Protocol
  imports Json
begin

text \<open>
  The protocol data of \<^verbatim>\<open>src/pkg/mcp/mcp.go\<close>: the JSON-RPC message and error structs,
  \<^verbatim>\<open>MustString\<close>, the request and notification parameters, the capability structs and the
  method names, each with the JSON form its struct tags give it. Fields carry a prefix for
  their struct. A nil pointer, slice or map is \<open>None\<close>; a Go map is its list of entries.
\<close>

section \<open>Constants\<close>

definition JSONRPCVersion :: string where "JSONRPCVersion = ''2.0''"
definition MethodPromptsList :: string where "MethodPromptsList = ''prompts/list''"
definition MethodPromptsGet :: string where "MethodPromptsGet = ''prompts/get''"
definition MethodResourcesList :: string where "MethodResourcesList = ''resources/list''"
definition MethodResourcesRead :: string where "MethodResourcesRead = ''resources/read''"
definition MethodResourcesTemplatesList :: string where
  "MethodResourcesTemplatesList = ''resources/templates/list''"
definition MethodResourcesSubscribe :: string where
  "MethodResourcesSubscribe = ''resources/subscribe''"
definition MethodResourcesUnsubscribe :: string where
  "MethodResourcesUnsubscribe = ''resources/unsubscribe''"
definition MethodToolsList :: string where "MethodToolsList = ''tools/list''"
definition MethodToolsCall :: string where "MethodToolsCall = ''tools/call''"
definition MethodRootsList :: string where "MethodRootsList = ''roots/list''"
definition MethodSamplingCreateMessage :: string where
  "MethodSamplingCreateMessage = ''sampling/createMessage''"
definition MethodCompletionComplete :: string where
  "MethodCompletionComplete = ''completion/complete''"
definition MethodLoggingSetLevel :: string where "MethodLoggingSetLevel = ''logging/setLevel''"
definition CompletionRefPrompt :: string where "CompletionRefPrompt = ''ref/prompt''"
definition CompletionRefResource :: string where "CompletionRefResource = ''ref/resource''"
definition protocolVersion :: string where "protocolVersion = ''2024-11-05''"
definition methodPing :: string where "methodPing = ''ping''"
definition methodInitialize :: string where "methodInitialize = ''initialize''"
definition methodNotificationsInitialized :: string where
  "methodNotificationsInitialized = ''notifications/initialized''"
definition methodNotificationsCancelled :: string where
  "methodNotificationsCancelled = ''notifications/cancelled''"
definition methodNotificationsPromptsListChanged :: string where
  "methodNotificationsPromptsListChanged = ''notifications/prompts/list_changed''"
definition methodNotificationsResourcesListChanged :: string where
  "methodNotificationsResourcesListChanged = ''notifications/resources/list_changed''"
definition methodNotificationsResourcesUpdated :: string where
  "methodNotificationsResourcesUpdated = ''notifications/resources/updated''"
definition methodNotificationsToolsListChanged :: string where
  "methodNotificationsToolsListChanged = ''notifications/tools/list_changed''"
definition methodNotificationsProgress :: string where
  "methodNotificationsProgress = ''notifications/progress''"
definition methodNotificationsMessage :: string where
  "methodNotificationsMessage = ''notifications/message''"
definition methodNotificationsRootsListChanged :: string where
  "methodNotificationsRootsListChanged = ''notifications/roots/list_changed''"
definition userCancelledReason :: string where
  "userCancelledReason = ''User requested cancellation''"
definition errMsgUnsupportedProtocolVersion :: string where
  "errMsgUnsupportedProtocolVersion = ''Unsupported protocol version''"
definition errMsgInsufficientClientCapabilities :: string where
  "errMsgInsufficientClientCapabilities = ''Insufficient client capabilities''"
definition errMsgInternalError :: string where "errMsgInternalError = ''Internal error''"
definition jsonRPCInvalidParamsCode :: int where "jsonRPCInvalidParamsCode = - 32602"
definition jsonRPCInternalErrorCode :: int where "jsonRPCInternalErrorCode = - 32603"

lemmas method_defs =
  MethodPromptsList_def MethodPromptsGet_def MethodResourcesList_def MethodResourcesRead_def
  MethodResourcesTemplatesList_def MethodResourcesSubscribe_def MethodResourcesUnsubscribe_def
  MethodToolsList_def MethodToolsCall_def MethodRootsList_def MethodSamplingCreateMessage_def
  MethodCompletionComplete_def MethodLoggingSetLevel_def methodPing_def methodInitialize_def
  methodNotificationsInitialized_def methodNotificationsCancelled_def
  methodNotificationsPromptsListChanged_def methodNotificationsResourcesListChanged_def
  methodNotificationsResourcesUpdated_def methodNotificationsToolsListChanged_def
  methodNotificationsProgress_def methodNotificationsMessage_def
  methodNotificationsRootsListChanged_def

section \<open>MustString\<close>

type_synonym MustString = string

text \<open>
  \<^verbatim>\<open>MustString.UnmarshalJSON\<close>: a string as it is; a number through \<^verbatim>\<open>float64\<close> and \<^verbatim>\<open>int\<close>;
  everything else, \<^verbatim>\<open>null\<close> included, is an error. (The \<^verbatim>\<open>case int\<close> of the source is never
  reached: \<^verbatim>\<open>json.Unmarshal\<close> into an \<^verbatim>\<open>any\<close> yields \<^verbatim>\<open>float64\<close> for every number.)
\<close>

definition errInvalidType :: go_error where
  "errInvalidType = ErrNew ''invalid type''"

fun MustString_UnmarshalJSON :: "MustString dec" where
  "MustString_UnmarshalJSON (JStr t) s = Inr t"
| "MustString_UnmarshalJSON (JNum m k) s =
     (case f64_of_decimal m k of
        None \<Rightarrow> Inl errUnmarshalType
      | Some v \<Rightarrow> Inr (show_int (int_of_f64 v)))"
| "MustString_UnmarshalJSON _ s = Inl errInvalidType"

fun MustString_MarshalJSON :: "MustString \<Rightarrow> json" where
  "MustString_MarshalJSON m = JStr m"

section \<open>JSON-RPC messages\<close>

record JSONRPCError =
  err_code :: int
  err_message :: string
  err_data :: "(string, gany) smap"

record JSONRPCMessage =
  msg_jsonrpc :: string
  msg_id :: MustString
  msg_method :: string
  msg_params :: raw
  msg_result :: raw
  msg_error :: "JSONRPCError option"

record SessionMsg =
  sm_sessionID :: string
  sm_msg :: JSONRPCMessage

definition JSONRPCError_zero :: JSONRPCError where
  "JSONRPCError_zero = \<lparr>err_code = 0, err_message = [], err_data = []\<rparr>"

definition JSONRPCMessage_zero :: JSONRPCMessage where
  "JSONRPCMessage_zero =
     \<lparr>msg_jsonrpc = [], msg_id = [], msg_method = [], msg_params = None, msg_result = None,
      msg_error = None\<rparr>"

text \<open>\<^verbatim>\<open>JSONRPCError.Error\<close> makes the struct an error; the error carries all its fields.\<close>

definition rpc_error :: "JSONRPCError \<Rightarrow> go_error" where
  "rpc_error e = ErrRPC (err_code e) (err_message e) (err_data e)"

definition enc_JSONRPCError :: "JSONRPCError \<Rightarrow> json" where
  "enc_JSONRPCError e =
     JObj ([(''code'', enc_int (err_code e)), (''message'', JStr (err_message e))] @
       (if err_data e = [] then []
        else [(''data'', JObj (map (\<lambda>(k, v). (k, marshal_any v)) (err_data e)))]))"

fun dec_data :: "(string, gany) smap dec" where
  "dec_data (JObj kjs) s = dec_entries (AnyJson JNull) (\<lambda>j _. Inr (AnyJson j)) kjs s"
| "dec_data JNull s = Inr []"
| "dec_data _ s = Inl errUnmarshalType"

definition dec_JSONRPCError :: "JSONRPCError dec" where
  "dec_JSONRPCError = dec_struct
     [(''code'', fld err_code err_code_update dec_int),
      (''message'', fld err_message err_message_update dec_string),
      (''data'', fld err_data err_data_update dec_data)]"

definition enc_JSONRPCMessage :: "JSONRPCMessage \<Rightarrow> json" where
  "enc_JSONRPCMessage m =
     JObj ([(''jsonrpc'', JStr (msg_jsonrpc m))] @
       (if msg_id m = [] then [] else [(''id'', MustString_MarshalJSON (msg_id m))]) @
       omit_str ''method'' (msg_method m) @
       omit_raw ''params'' (msg_params m) @
       omit_raw ''result'' (msg_result m) @
       omit_ptr ''error'' enc_JSONRPCError (msg_error m))"

definition dec_JSONRPCMessage :: "JSONRPCMessage dec" where
  "dec_JSONRPCMessage = dec_struct
     [(''jsonrpc'', fld msg_jsonrpc msg_jsonrpc_update dec_string),
      (''id'', fld msg_id msg_id_update MustString_UnmarshalJSON),
      (''method'', fld msg_method msg_method_update dec_string),
      (''params'', fld msg_params msg_params_update dec_raw),
      (''result'', fld msg_result msg_result_update dec_raw),
      (''error'', fld msg_error msg_error_update (dec_ptr JSONRPCError_zero dec_JSONRPCError))]"

text \<open>What a peer receives: the dynamic values of the error data in their JSON form.\<close>

definition wire_error :: "JSONRPCError \<Rightarrow> JSONRPCError" where
  "wire_error e = e\<lparr>err_data := map (\<lambda>(k, v). (k, AnyJson (marshal_any v))) (err_data e)\<rparr>"

definition wire_msg :: "JSONRPCMessage \<Rightarrow> JSONRPCMessage" where
  "wire_msg m = m\<lparr>msg_error := map_option wire_error (msg_error m)\<rparr>"

definition error_ok :: "JSONRPCError \<Rightarrow> bool" where
  "error_ok e \<longleftrightarrow> in_int64 (err_code e) \<and> distinct (map fst (err_data e))"

definition msg_ok :: "JSONRPCMessage \<Rightarrow> bool" where
  "msg_ok m \<longleftrightarrow> (case msg_error m of None \<Rightarrow> True | Some e \<Rightarrow> error_ok e)"

lemma dec_entries_any:
  "distinct (map fst kvs) \<Longrightarrow> fst ` set kvs \<inter> fst ` set s = {} \<Longrightarrow>
   dec_entries (AnyJson JNull) (\<lambda>j _. Inr (AnyJson j)) (map (\<lambda>(k, v). (k, marshal_any v)) kvs) s
   = Inr (s @ map (\<lambda>(k, v). (k, AnyJson (marshal_any v))) kvs)"
proof (induction kvs arbitrary: s)
  case Nil
  then show ?case by simp
next
  case (Cons kv kvs)
  obtain k v where kv: "kv = (k, v)" by (cases kv)
  have "smap_store k (AnyJson (marshal_any v)) s = s @ [(k, AnyJson (marshal_any v))]"
    using Cons.prems(2) kv by (intro smap_store_fresh) auto
  moreover have "dec_entries (AnyJson JNull) (\<lambda>j _. Inr (AnyJson j))
        (map (\<lambda>(k, v). (k, marshal_any v)) kvs) (s @ [(k, AnyJson (marshal_any v))])
      = Inr ((s @ [(k, AnyJson (marshal_any v))]) @ map (\<lambda>(k, v). (k, AnyJson (marshal_any v))) kvs)"
    using Cons.prems kv by (intro Cons.IH) auto
  ultimately show ?case using kv by simp
qed

lemma dec_enc_JSONRPCError:
  "error_ok e \<Longrightarrow> dec_JSONRPCError (enc_JSONRPCError e) JSONRPCError_zero = Inr (wire_error e)"
  by (simp add: dec_JSONRPCError_def enc_JSONRPCError_def struct_eval JSONRPCError_zero_def
      enc_int_def error_ok_def wire_error_def dec_entries_any)

lemma enc_JSONRPCError_not_null [simp]: "enc_JSONRPCError e \<noteq> JNull"
  by (simp add: enc_JSONRPCError_def)

lemma dec_enc_JSONRPCMessage:
  assumes "msg_ok m"
  shows "dec_JSONRPCMessage (enc_JSONRPCMessage m) JSONRPCMessage_zero = Inr (wire_msg m)"
proof -
  note eval = dec_JSONRPCMessage_def enc_JSONRPCMessage_def struct_eval JSONRPCMessage_zero_def
    omit_defs wire_msg_def
  show ?thesis
  proof (cases "msg_error m")
    case None
    then show ?thesis by (cases m) (auto simp: eval split: option.split)
  next
    case (Some e)
    with assms have "dec_JSONRPCError (enc_JSONRPCError e) JSONRPCError_zero = Inr (wire_error e)"
      by (simp add: msg_ok_def dec_enc_JSONRPCError)
    then have "dec_ptr JSONRPCError_zero dec_JSONRPCError (enc_JSONRPCError e) None
        = Inr (Some (wire_error e))"
      by (simp add: dec_ptr_def)
    with Some show ?thesis by (cases m) (auto simp: eval split: option.split)
  qed
qed

section \<open>Request parameters\<close>

record ParamsMeta =
  meta_progressToken :: MustString

record ListPromptsParams =
  lpp_cursor :: string
  lpp_meta :: ParamsMeta

record GetPromptParams =
  gpp_name :: string
  gpp_arguments :: "(string, string) smap option"
  gpp_meta :: ParamsMeta

record ListResourcesParams =
  lrp_cursor :: string
  lrp_meta :: ParamsMeta

record ReadResourceParams =
  rrp_uri :: string
  rrp_meta :: ParamsMeta

record ListResourceTemplatesParams =
  lrtp_meta :: ParamsMeta

record SubscribeResourceParams =
  srp_uri :: string

record UnsubscribeResourceParams =
  urp_uri :: string

record ListToolsParams =
  ltp_cursor :: string
  ltp_meta :: ParamsMeta

record CallToolParams =
  ctp_name :: string
  ctp_arguments :: "(string, json) smap option"
  ctp_meta :: ParamsMeta

record CompletionRef =
  cref_type :: string
  cref_name :: string
  cref_uri :: string

record CompletionArgument =
  carg_name :: string
  carg_value :: string

record CompletesCompletionParams =
  ccp_ref :: CompletionRef
  ccp_argument :: CompletionArgument

record LogData =
  ld_message :: string
  ld_details :: "(string, json) smap"

record LogParams =
  lp_level :: int
  lp_logger :: string
  lp_data :: LogData

record notificationsCancelledParams =
  ncp_requestID :: string
  ncp_reason :: string

record notificationsResourcesUpdatedParams =
  nrup_uri :: string

definition ParamsMeta_zero :: ParamsMeta where
  "ParamsMeta_zero = \<lparr>meta_progressToken = []\<rparr>"
definition ListPromptsParams_zero :: ListPromptsParams where
  "ListPromptsParams_zero = \<lparr>lpp_cursor = [], lpp_meta = ParamsMeta_zero\<rparr>"
definition GetPromptParams_zero :: GetPromptParams where
  "GetPromptParams_zero = \<lparr>gpp_name = [], gpp_arguments = None, gpp_meta = ParamsMeta_zero\<rparr>"
definition ListResourcesParams_zero :: ListResourcesParams where
  "ListResourcesParams_zero = \<lparr>lrp_cursor = [], lrp_meta = ParamsMeta_zero\<rparr>"
definition ReadResourceParams_zero :: ReadResourceParams where
  "ReadResourceParams_zero = \<lparr>rrp_uri = [], rrp_meta = ParamsMeta_zero\<rparr>"
definition ListResourceTemplatesParams_zero :: ListResourceTemplatesParams where
  "ListResourceTemplatesParams_zero = \<lparr>lrtp_meta = ParamsMeta_zero\<rparr>"
definition SubscribeResourceParams_zero :: SubscribeResourceParams where
  "SubscribeResourceParams_zero = \<lparr>srp_uri = []\<rparr>"
definition UnsubscribeResourceParams_zero :: UnsubscribeResourceParams where
  "UnsubscribeResourceParams_zero = \<lparr>urp_uri = []\<rparr>"
definition ListToolsParams_zero :: ListToolsParams where
  "ListToolsParams_zero = \<lparr>ltp_cursor = [], ltp_meta = ParamsMeta_zero\<rparr>"
definition CallToolParams_zero :: CallToolParams where
  "CallToolParams_zero = \<lparr>ctp_name = [], ctp_arguments = None, ctp_meta = ParamsMeta_zero\<rparr>"
definition CompletionRef_zero :: CompletionRef where
  "CompletionRef_zero = \<lparr>cref_type = [], cref_name = [], cref_uri = []\<rparr>"
definition CompletionArgument_zero :: CompletionArgument where
  "CompletionArgument_zero = \<lparr>carg_name = [], carg_value = []\<rparr>"
definition CompletesCompletionParams_zero :: CompletesCompletionParams where
  "CompletesCompletionParams_zero =
     \<lparr>ccp_ref = CompletionRef_zero, ccp_argument = CompletionArgument_zero\<rparr>"
definition LogData_zero :: LogData where
  "LogData_zero = \<lparr>ld_message = [], ld_details = []\<rparr>"
definition LogParams_zero :: LogParams where
  "LogParams_zero = \<lparr>lp_level = 0, lp_logger = [], lp_data = LogData_zero\<rparr>"
definition notificationsCancelledParams_zero :: notificationsCancelledParams where
  "notificationsCancelledParams_zero = \<lparr>ncp_requestID = [], ncp_reason = []\<rparr>"

lemmas zero_defs [codec_simps] =
  ParamsMeta_zero_def ListPromptsParams_zero_def GetPromptParams_zero_def
  ListResourcesParams_zero_def ReadResourceParams_zero_def ListResourceTemplatesParams_zero_def
  SubscribeResourceParams_zero_def UnsubscribeResourceParams_zero_def ListToolsParams_zero_def
  CallToolParams_zero_def CompletionRef_zero_def CompletionArgument_zero_def
  CompletesCompletionParams_zero_def LogData_zero_def LogParams_zero_def
  notificationsCancelledParams_zero_def

subsection \<open>Encoders\<close>

text \<open>\<^verbatim>\<open>omitempty\<close> has no effect on a struct field, so \<^verbatim>\<open>_meta\<close> is always written.\<close>

definition enc_ParamsMeta :: "ParamsMeta \<Rightarrow> json" where
  "enc_ParamsMeta m = JObj [(''progressToken'', MustString_MarshalJSON (meta_progressToken m))]"
definition enc_ListPromptsParams :: "ListPromptsParams \<Rightarrow> json" where
  "enc_ListPromptsParams p =
     JObj [(''cursor'', JStr (lpp_cursor p)), (''_meta'', enc_ParamsMeta (lpp_meta p))]"
definition enc_GetPromptParams :: "GetPromptParams \<Rightarrow> json" where
  "enc_GetPromptParams p =
     JObj [(''name'', JStr (gpp_name p)), (''arguments'', enc_map JStr (gpp_arguments p)),
           (''_meta'', enc_ParamsMeta (gpp_meta p))]"
definition enc_ListResourcesParams :: "ListResourcesParams \<Rightarrow> json" where
  "enc_ListResourcesParams p =
     JObj [(''cursor'', JStr (lrp_cursor p)), (''_meta'', enc_ParamsMeta (lrp_meta p))]"
definition enc_ReadResourceParams :: "ReadResourceParams \<Rightarrow> json" where
  "enc_ReadResourceParams p =
     JObj [(''uri'', JStr (rrp_uri p)), (''_meta'', enc_ParamsMeta (rrp_meta p))]"
definition enc_ListResourceTemplatesParams :: "ListResourceTemplatesParams \<Rightarrow> json" where
  "enc_ListResourceTemplatesParams p = JObj [(''_meta'', enc_ParamsMeta (lrtp_meta p))]"
definition enc_SubscribeResourceParams :: "SubscribeResourceParams \<Rightarrow> json" where
  "enc_SubscribeResourceParams p = JObj [(''uri'', JStr (srp_uri p))]"
definition enc_UnsubscribeResourceParams :: "UnsubscribeResourceParams \<Rightarrow> json" where
  "enc_UnsubscribeResourceParams p = JObj [(''uri'', JStr (urp_uri p))]"
definition enc_ListToolsParams :: "ListToolsParams \<Rightarrow> json" where
  "enc_ListToolsParams p =
     JObj [(''cursor'', JStr (ltp_cursor p)), (''_meta'', enc_ParamsMeta (ltp_meta p))]"
definition enc_CallToolParams :: "CallToolParams \<Rightarrow> json" where
  "enc_CallToolParams p =
     JObj [(''name'', JStr (ctp_name p)), (''arguments'', enc_map (\<lambda>j. j) (ctp_arguments p)),
           (''_meta'', enc_ParamsMeta (ctp_meta p))]"
definition enc_CompletionRef :: "CompletionRef \<Rightarrow> json" where
  "enc_CompletionRef r =
     JObj ([(''type'', JStr (cref_type r))] @ omit_str ''name'' (cref_name r) @
       omit_str ''uri'' (cref_uri r))"
definition enc_CompletionArgument :: "CompletionArgument \<Rightarrow> json" where
  "enc_CompletionArgument a =
     JObj [(''name'', JStr (carg_name a)), (''value'', JStr (carg_value a))]"
definition enc_CompletesCompletionParams :: "CompletesCompletionParams \<Rightarrow> json" where
  "enc_CompletesCompletionParams p =
     JObj [(''ref'', enc_CompletionRef (ccp_ref p)),
           (''argument'', enc_CompletionArgument (ccp_argument p))]"
definition enc_LogData :: "LogData \<Rightarrow> json" where
  "enc_LogData d =
     JObj ([(''message'', JStr (ld_message d))] @
       (if ld_details d = [] then [] else [(''details'', JObj (ld_details d))]))"
definition enc_LogParams :: "LogParams \<Rightarrow> json" where
  "enc_LogParams p =
     JObj [(''level'', enc_int (lp_level p)), (''logger'', JStr (lp_logger p)),
           (''data'', enc_LogData (lp_data p))]"
definition enc_notificationsCancelledParams :: "notificationsCancelledParams \<Rightarrow> json" where
  "enc_notificationsCancelledParams p =
     JObj [(''requestId'', JStr (ncp_requestID p)), (''reason'', JStr (ncp_reason p))]"
definition enc_notificationsResourcesUpdatedParams ::
    "notificationsResourcesUpdatedParams \<Rightarrow> json" where
  "enc_notificationsResourcesUpdatedParams p = JObj [(''uri'', JStr (nrup_uri p))]"

lemmas enc_defs [codec_simps] =
  enc_ParamsMeta_def enc_ListPromptsParams_def enc_GetPromptParams_def
  enc_ListResourcesParams_def enc_ReadResourceParams_def enc_ListResourceTemplatesParams_def
  enc_SubscribeResourceParams_def enc_UnsubscribeResourceParams_def enc_ListToolsParams_def
  enc_CallToolParams_def enc_CompletionRef_def enc_CompletionArgument_def
  enc_CompletesCompletionParams_def enc_LogData_def enc_LogParams_def
  enc_notificationsCancelledParams_def enc_notificationsResourcesUpdatedParams_def
  enc_int_def omit_defs

subsection \<open>Decoders\<close>

definition dec_ParamsMeta :: "ParamsMeta dec" where
  "dec_ParamsMeta = dec_struct
     [(''progressToken'', fld meta_progressToken meta_progressToken_update MustString_UnmarshalJSON)]"
definition dec_ListPromptsParams :: "ListPromptsParams dec" where
  "dec_ListPromptsParams = dec_struct
     [(''cursor'', fld lpp_cursor lpp_cursor_update dec_string),
      (''_meta'', fld lpp_meta lpp_meta_update dec_ParamsMeta)]"
definition dec_GetPromptParams :: "GetPromptParams dec" where
  "dec_GetPromptParams = dec_struct
     [(''name'', fld gpp_name gpp_name_update dec_string),
      (''arguments'', fld gpp_arguments gpp_arguments_update (dec_map [] dec_string)),
      (''_meta'', fld gpp_meta gpp_meta_update dec_ParamsMeta)]"
definition dec_ListResourcesParams :: "ListResourcesParams dec" where
  "dec_ListResourcesParams = dec_struct
     [(''cursor'', fld lrp_cursor lrp_cursor_update dec_string),
      (''_meta'', fld lrp_meta lrp_meta_update dec_ParamsMeta)]"
definition dec_ReadResourceParams :: "ReadResourceParams dec" where
  "dec_ReadResourceParams = dec_struct
     [(''uri'', fld rrp_uri rrp_uri_update dec_string),
      (''_meta'', fld rrp_meta rrp_meta_update dec_ParamsMeta)]"
definition dec_ListResourceTemplatesParams :: "ListResourceTemplatesParams dec" where
  "dec_ListResourceTemplatesParams = dec_struct
     [(''_meta'', fld lrtp_meta lrtp_meta_update dec_ParamsMeta)]"
definition dec_SubscribeResourceParams :: "SubscribeResourceParams dec" where
  "dec_SubscribeResourceParams = dec_struct [(''uri'', fld srp_uri srp_uri_update dec_string)]"
definition dec_UnsubscribeResourceParams :: "UnsubscribeResourceParams dec" where
  "dec_UnsubscribeResourceParams = dec_struct [(''uri'', fld urp_uri urp_uri_update dec_string)]"
definition dec_ListToolsParams :: "ListToolsParams dec" where
  "dec_ListToolsParams = dec_struct
     [(''cursor'', fld ltp_cursor ltp_cursor_update dec_string),
      (''_meta'', fld ltp_meta ltp_meta_update dec_ParamsMeta)]"
definition dec_CallToolParams :: "CallToolParams dec" where
  "dec_CallToolParams = dec_struct
     [(''name'', fld ctp_name ctp_name_update dec_string),
      (''arguments'', fld ctp_arguments ctp_arguments_update (dec_map JNull dec_any)),
      (''_meta'', fld ctp_meta ctp_meta_update dec_ParamsMeta)]"
definition dec_CompletionRef :: "CompletionRef dec" where
  "dec_CompletionRef = dec_struct
     [(''type'', fld cref_type cref_type_update dec_string),
      (''name'', fld cref_name cref_name_update dec_string),
      (''uri'', fld cref_uri cref_uri_update dec_string)]"
definition dec_CompletionArgument :: "CompletionArgument dec" where
  "dec_CompletionArgument = dec_struct
     [(''name'', fld carg_name carg_name_update dec_string),
      (''value'', fld carg_value carg_value_update dec_string)]"
definition dec_CompletesCompletionParams :: "CompletesCompletionParams dec" where
  "dec_CompletesCompletionParams = dec_struct
     [(''ref'', fld ccp_ref ccp_ref_update dec_CompletionRef),
      (''argument'', fld ccp_argument ccp_argument_update dec_CompletionArgument)]"
fun dec_details :: "(string, json) smap dec" where
  "dec_details (JObj kjs) s = dec_entries JNull dec_any kjs s"
| "dec_details JNull s = Inr []"
| "dec_details _ s = Inl errUnmarshalType"
definition dec_LogData :: "LogData dec" where
  "dec_LogData = dec_struct
     [(''message'', fld ld_message ld_message_update dec_string),
      (''details'', fld ld_details ld_details_update dec_details)]"
definition dec_LogParams :: "LogParams dec" where
  "dec_LogParams = dec_struct
     [(''level'', fld lp_level lp_level_update dec_int),
      (''logger'', fld lp_logger lp_logger_update dec_string),
      (''data'', fld lp_data lp_data_update dec_LogData)]"
definition dec_notificationsCancelledParams :: "notificationsCancelledParams dec" where
  "dec_notificationsCancelledParams = dec_struct
     [(''requestId'', fld ncp_requestID ncp_requestID_update dec_string),
      (''reason'', fld ncp_reason ncp_reason_update dec_string)]"

lemmas dec_defs [codec_simps] =
  dec_ParamsMeta_def dec_ListPromptsParams_def dec_GetPromptParams_def
  dec_ListResourcesParams_def dec_ReadResourceParams_def dec_ListResourceTemplatesParams_def
  dec_SubscribeResourceParams_def dec_UnsubscribeResourceParams_def dec_ListToolsParams_def
  dec_CallToolParams_def dec_CompletionRef_def dec_CompletionArgument_def
  dec_CompletesCompletionParams_def dec_LogData_def dec_LogParams_def
  dec_notificationsCancelledParams_def
  find_field_def fld_def

subsection \<open>Round trips\<close>

interpretation meta: json_codec enc_ParamsMeta dec_ParamsMeta ParamsMeta_zero "\<lambda>_. True"
  by unfold_locales (simp_all add: codec_simps)

interpretation lpp: json_codec enc_ListPromptsParams dec_ListPromptsParams ListPromptsParams_zero
  "\<lambda>_. True"
  by unfold_locales (simp_all add: codec_simps)

interpretation lrp: json_codec enc_ListResourcesParams dec_ListResourcesParams
  ListResourcesParams_zero "\<lambda>_. True"
  by unfold_locales (simp_all add: codec_simps)

interpretation rrp: json_codec enc_ReadResourceParams dec_ReadResourceParams
  ReadResourceParams_zero "\<lambda>_. True"
  by unfold_locales (simp_all add: codec_simps)

interpretation lrtp: json_codec enc_ListResourceTemplatesParams dec_ListResourceTemplatesParams
  ListResourceTemplatesParams_zero "\<lambda>_. True"
  by unfold_locales (simp_all add: codec_simps)

interpretation srp: json_codec enc_SubscribeResourceParams dec_SubscribeResourceParams
  SubscribeResourceParams_zero "\<lambda>_. True"
  by unfold_locales (simp_all add: codec_simps)

interpretation urp: json_codec enc_UnsubscribeResourceParams dec_UnsubscribeResourceParams
  UnsubscribeResourceParams_zero "\<lambda>_. True"
  by unfold_locales (simp_all add: codec_simps)

interpretation ltp: json_codec enc_ListToolsParams dec_ListToolsParams ListToolsParams_zero
  "\<lambda>_. True"
  by unfold_locales (simp_all add: codec_simps)

interpretation ccp: json_codec enc_CompletesCompletionParams dec_CompletesCompletionParams
  CompletesCompletionParams_zero "\<lambda>_. True"
proof unfold_locales
  fix x :: CompletesCompletionParams
  obtain r a where x: "x = \<lparr>ccp_ref = r, ccp_argument = a\<rparr>" by (cases x)
  obtain t n u where r: "r = \<lparr>cref_type = t, cref_name = n, cref_uri = u\<rparr>" by (cases r)
  show "dec_CompletesCompletionParams (enc_CompletesCompletionParams x)
      CompletesCompletionParams_zero = Inr x"
    unfolding x r by (simp add: codec_simps)
  show "enc_CompletesCompletionParams x \<noteq> JNull" by (simp add: codec_simps)
qed

interpretation ncp: json_codec enc_notificationsCancelledParams dec_notificationsCancelledParams
  notificationsCancelledParams_zero "\<lambda>_. True"
  by unfold_locales (simp_all add: codec_simps)

text \<open>Maps round-trip when their entry list has distinct keys, as every Go map's has.\<close>

definition map_ok :: "(string, 'a) smap option \<Rightarrow> bool" where
  "map_ok m \<longleftrightarrow> (case m of None \<Rightarrow> True | Some kvs \<Rightarrow> distinct (map fst kvs))"

lemma dec_any_fun: "dec_any = (\<lambda>j s. Inr j)"
  by (intro ext) simp

lemma dec_enc_any_entries:
  "distinct (map fst kvs) \<Longrightarrow> fst ` set kvs \<inter> fst ` set m = {} \<Longrightarrow>
   dec_entries JNull (\<lambda>j s. Inr j) kvs m = Inr (m @ kvs)"
proof (induction kvs arbitrary: m)
  case Nil
  then show ?case by simp
next
  case (Cons kv kvs)
  obtain k v where kv: "kv = (k, v)" by (cases kv)
  have "smap_store k v m = m @ [(k, v)]"
    using Cons.prems(2) kv by (intro smap_store_fresh) auto
  moreover have "dec_entries JNull (\<lambda>j s. Inr j) kvs (m @ [(k, v)]) = Inr ((m @ [(k, v)]) @ kvs)"
    using Cons.prems kv by (intro Cons.IH) auto
  ultimately show ?case using kv by simp
qed

lemma dec_enc_any_map: "map_ok m \<Longrightarrow> dec_map JNull (\<lambda>j s. Inr j) (enc_map (\<lambda>j. j) m) None = Inr m"
  by (cases m) (simp_all add: enc_map_def map_ok_def dec_enc_any_entries)

interpretation gpp: json_codec enc_GetPromptParams dec_GetPromptParams GetPromptParams_zero
  "\<lambda>p. map_ok (gpp_arguments p)"
proof unfold_locales
  fix x :: GetPromptParams
  assume "map_ok (gpp_arguments x)"
  then have "dec_map [] dec_string (enc_map JStr (gpp_arguments x)) None = Inr (gpp_arguments x)"
    by (intro str.map_round_trip) (auto simp: map_ok_def list_all_iff split: option.splits)
  then show "dec_GetPromptParams (enc_GetPromptParams x) GetPromptParams_zero = Inr x"
    by (simp add: codec_simps)
next
  fix x :: GetPromptParams
  show "enc_GetPromptParams x \<noteq> JNull" by (simp add: codec_simps)
qed

interpretation ctp: json_codec enc_CallToolParams dec_CallToolParams CallToolParams_zero
  "\<lambda>p. map_ok (ctp_arguments p)"
  by unfold_locales (simp_all add: codec_simps dec_any_fun dec_enc_any_map)

interpretation lp: json_codec enc_LogParams dec_LogParams LogParams_zero
  "\<lambda>p. in_int64 (lp_level p) \<and> distinct (map fst (ld_details (lp_data p)))"
proof unfold_locales
  fix x :: LogParams
  assume ok: "in_int64 (lp_level x) \<and> distinct (map fst (ld_details (lp_data x)))"
  obtain l g d where x: "x = \<lparr>lp_level = l, lp_logger = g, lp_data = d\<rparr>" by (cases x)
  obtain m ds where d: "d = \<lparr>ld_message = m, ld_details = ds\<rparr>" by (cases d)
  show "dec_LogParams (enc_LogParams x) LogParams_zero = Inr x"
    using ok unfolding x d by (simp add: codec_simps dec_any_fun dec_enc_any_entries)
next
  fix x :: LogParams
  show "enc_LogParams x \<noteq> JNull" by (simp add: codec_simps)
qed

end
