(* ===== verification/Capabilities.thy ===== *)
theory Capabilities
  imports Protocol
begin

text \<open>
  Capabilities and the handshake payloads of \<^verbatim>\<open>src/pkg/mcp/mcp.go\<close>, with their JSON forms, and
  the specification of capability negotiation both peers implement: what is required is
  offered, component by component.
\<close>

section \<open>Data\<close>

record Info =
  info_name :: string
  info_version :: string

record PromptsCapability =
  pc_listChanged :: bool

record ResourcesCapability =
  rc_subscribe :: bool
  rc_listChanged :: bool

record ToolsCapability =
  tc_listChanged :: bool

record RootsCapability =
  roc_listChanged :: bool

text \<open>\<^verbatim>\<open>LoggingCapability\<close> and \<^verbatim>\<open>SamplingCapability\<close> are empty structs: \<open>unit\<close>.\<close>

record ServerCapabilities =
  sc_prompts :: "PromptsCapability option"
  sc_resources :: "ResourcesCapability option"
  sc_tools :: "ToolsCapability option"
  sc_logging :: "unit option"

record ClientCapabilities =
  cc_roots :: "RootsCapability option"
  cc_sampling :: "unit option"

record initializeParams =
  ip_protocolVersion :: string
  ip_capabilities :: ClientCapabilities
  ip_clientInfo :: Info

record initializeResult =
  ir_protocolVersion :: string
  ir_capabilities :: ServerCapabilities
  ir_serverInfo :: Info

definition Info_zero :: Info where
  "Info_zero = \<lparr>info_name = [], info_version = []\<rparr>"
definition ServerCapabilities_zero :: ServerCapabilities where
  "ServerCapabilities_zero =
     \<lparr>sc_prompts = None, sc_resources = None, sc_tools = None, sc_logging = None\<rparr>"
definition ClientCapabilities_zero :: ClientCapabilities where
  "ClientCapabilities_zero = \<lparr>cc_roots = None, cc_sampling = None\<rparr>"
definition initializeParams_zero :: initializeParams where
  "initializeParams_zero =
     \<lparr>ip_protocolVersion = [], ip_capabilities = ClientCapabilities_zero, ip_clientInfo = Info_zero\<rparr>"
definition initializeResult_zero :: initializeResult where
  "initializeResult_zero =
     \<lparr>ir_protocolVersion = [], ir_capabilities = ServerCapabilities_zero, ir_serverInfo = Info_zero\<rparr>"

section \<open>JSON forms\<close>

definition enc_Info :: "Info \<Rightarrow> json" where
  "enc_Info i = JObj [(''name'', JStr (info_name i)), (''version'', JStr (info_version i))]"
definition enc_PromptsCapability :: "PromptsCapability \<Rightarrow> json" where
  "enc_PromptsCapability c = JObj (omit_bool ''listChanged'' (pc_listChanged c))"
definition enc_ResourcesCapability :: "ResourcesCapability \<Rightarrow> json" where
  "enc_ResourcesCapability c =
     JObj (omit_bool ''subscribe'' (rc_subscribe c) @ omit_bool ''listChanged'' (rc_listChanged c))"
definition enc_ToolsCapability :: "ToolsCapability \<Rightarrow> json" where
  "enc_ToolsCapability c = JObj (omit_bool ''listChanged'' (tc_listChanged c))"
definition enc_RootsCapability :: "RootsCapability \<Rightarrow> json" where
  "enc_RootsCapability c = JObj (omit_bool ''listChanged'' (roc_listChanged c))"
definition enc_unit_struct :: "unit \<Rightarrow> json" where
  "enc_unit_struct u = JObj []"
definition enc_ServerCapabilities :: "ServerCapabilities \<Rightarrow> json" where
  "enc_ServerCapabilities c =
     JObj (omit_ptr ''prompts'' enc_PromptsCapability (sc_prompts c) @
           omit_ptr ''resources'' enc_ResourcesCapability (sc_resources c) @
           omit_ptr ''tools'' enc_ToolsCapability (sc_tools c) @
           omit_ptr ''logging'' enc_unit_struct (sc_logging c))"
definition enc_ClientCapabilities :: "ClientCapabilities \<Rightarrow> json" where
  "enc_ClientCapabilities c =
     JObj (omit_ptr ''roots'' enc_RootsCapability (cc_roots c) @
           omit_ptr ''sampling'' enc_unit_struct (cc_sampling c))"
definition enc_initializeParams :: "initializeParams \<Rightarrow> json" where
  "enc_initializeParams p =
     JObj [(''protocolVersion'', JStr (ip_protocolVersion p)),
           (''capabilities'', enc_ClientCapabilities (ip_capabilities p)),
           (''clientInfo'', enc_Info (ip_clientInfo p))]"
definition enc_initializeResult :: "initializeResult \<Rightarrow> json" where
  "enc_initializeResult r =
     JObj [(''protocolVersion'', JStr (ir_protocolVersion r)),
           (''capabilities'', enc_ServerCapabilities (ir_capabilities r)),
           (''serverInfo'', enc_Info (ir_serverInfo r))]"

definition dec_Info :: "Info dec" where
  "dec_Info = dec_struct
     [(''name'', fld info_name info_name_update dec_string),
      (''version'', fld info_version info_version_update dec_string)]"
definition dec_PromptsCapability :: "PromptsCapability dec" where
  "dec_PromptsCapability = dec_struct
     [(''listChanged'', fld pc_listChanged pc_listChanged_update dec_bool)]"
definition dec_ResourcesCapability :: "ResourcesCapability dec" where
  "dec_ResourcesCapability = dec_struct
     [(''subscribe'', fld rc_subscribe rc_subscribe_update dec_bool),
      (''listChanged'', fld rc_listChanged rc_listChanged_update dec_bool)]"
definition dec_ToolsCapability :: "ToolsCapability dec" where
  "dec_ToolsCapability = dec_struct
     [(''listChanged'', fld tc_listChanged tc_listChanged_update dec_bool)]"
definition dec_RootsCapability :: "RootsCapability dec" where
  "dec_RootsCapability = dec_struct
     [(''listChanged'', fld roc_listChanged roc_listChanged_update dec_bool)]"
definition dec_unit_struct :: "unit dec" where
  "dec_unit_struct = dec_struct []"
definition dec_ServerCapabilities :: "ServerCapabilities dec" where
  "dec_ServerCapabilities = dec_struct
     [(''prompts'', fld sc_prompts sc_prompts_update
         (dec_ptr \<lparr>pc_listChanged = False\<rparr> dec_PromptsCapability)),
      (''resources'', fld sc_resources sc_resources_update
         (dec_ptr \<lparr>rc_subscribe = False, rc_listChanged = False\<rparr> dec_ResourcesCapability)),
      (''tools'', fld sc_tools sc_tools_update
         (dec_ptr \<lparr>tc_listChanged = False\<rparr> dec_ToolsCapability)),
      (''logging'', fld sc_logging sc_logging_update (dec_ptr () dec_unit_struct))]"
definition dec_ClientCapabilities :: "ClientCapabilities dec" where
  "dec_ClientCapabilities = dec_struct
     [(''roots'', fld cc_roots cc_roots_update
         (dec_ptr \<lparr>roc_listChanged = False\<rparr> dec_RootsCapability)),
      (''sampling'', fld cc_sampling cc_sampling_update (dec_ptr () dec_unit_struct))]"
definition dec_initializeParams :: "initializeParams dec" where
  "dec_initializeParams = dec_struct
     [(''protocolVersion'', fld ip_protocolVersion ip_protocolVersion_update dec_string),
      (''capabilities'', fld ip_capabilities ip_capabilities_update dec_ClientCapabilities),
      (''clientInfo'', fld ip_clientInfo ip_clientInfo_update dec_Info)]"
definition dec_initializeResult :: "initializeResult dec" where
  "dec_initializeResult = dec_struct
     [(''protocolVersion'', fld ir_protocolVersion ir_protocolVersion_update dec_string),
      (''capabilities'', fld ir_capabilities ir_capabilities_update dec_ServerCapabilities),
      (''serverInfo'', fld ir_serverInfo ir_serverInfo_update dec_Info)]"

lemmas cap_codec_defs =
  enc_Info_def enc_PromptsCapability_def enc_ResourcesCapability_def enc_ToolsCapability_def
  enc_RootsCapability_def enc_unit_struct_def enc_ServerCapabilities_def
  enc_ClientCapabilities_def enc_initializeParams_def enc_initializeResult_def
  dec_Info_def dec_PromptsCapability_def dec_ResourcesCapability_def dec_ToolsCapability_def
  dec_RootsCapability_def dec_unit_struct_def dec_ServerCapabilities_def
  dec_ClientCapabilities_def dec_initializeParams_def dec_initializeResult_def
  Info_zero_def ServerCapabilities_zero_def ClientCapabilities_zero_def
  initializeParams_zero_def initializeResult_zero_def

interpretation pcc: json_codec enc_PromptsCapability dec_PromptsCapability
  "\<lparr>pc_listChanged = False\<rparr>" "\<lambda>_. True"
  by unfold_locales (simp_all add: cap_codec_defs codec_simps)

interpretation rcc: json_codec enc_ResourcesCapability dec_ResourcesCapability
  "\<lparr>rc_subscribe = False, rc_listChanged = False\<rparr>" "\<lambda>_. True"
  by unfold_locales (simp_all add: cap_codec_defs codec_simps)

interpretation tcc: json_codec enc_ToolsCapability dec_ToolsCapability
  "\<lparr>tc_listChanged = False\<rparr>" "\<lambda>_. True"
  by unfold_locales (simp_all add: cap_codec_defs codec_simps)

interpretation roc: json_codec enc_RootsCapability dec_RootsCapability
  "\<lparr>roc_listChanged = False\<rparr>" "\<lambda>_. True"
  by unfold_locales (simp_all add: cap_codec_defs codec_simps)

interpretation usc: json_codec enc_unit_struct dec_unit_struct "()" "\<lambda>_. True"
  by unfold_locales (simp_all add: cap_codec_defs codec_simps)

interpretation infoc: json_codec enc_Info dec_Info Info_zero "\<lambda>_. True"
  by unfold_locales (simp_all add: cap_codec_defs codec_simps)

interpretation scc: json_codec enc_ServerCapabilities dec_ServerCapabilities
  ServerCapabilities_zero "\<lambda>_. True"
proof unfold_locales
  fix x :: ServerCapabilities
  obtain p r t l where x:
      "x = \<lparr>sc_prompts = p, sc_resources = r, sc_tools = t, sc_logging = l\<rparr>" by (cases x)
  show "dec_ServerCapabilities (enc_ServerCapabilities x) ServerCapabilities_zero = Inr x"
    unfolding x dec_ServerCapabilities_def enc_ServerCapabilities_def ServerCapabilities_zero_def
    by (cases p; cases r; cases t; cases l)
      (simp_all add: struct_eval omit_ptr_def pcc.ptr_round_trip rcc.ptr_round_trip
        tcc.ptr_round_trip usc.ptr_round_trip)
  show "enc_ServerCapabilities x \<noteq> JNull" by (simp add: enc_ServerCapabilities_def)
qed

interpretation clc: json_codec enc_ClientCapabilities dec_ClientCapabilities
  ClientCapabilities_zero "\<lambda>_. True"
proof unfold_locales
  fix x :: ClientCapabilities
  obtain r s where x: "x = \<lparr>cc_roots = r, cc_sampling = s\<rparr>" by (cases x)
  show "dec_ClientCapabilities (enc_ClientCapabilities x) ClientCapabilities_zero = Inr x"
    unfolding x dec_ClientCapabilities_def enc_ClientCapabilities_def ClientCapabilities_zero_def
    by (cases r; cases s)
      (simp_all add: struct_eval omit_ptr_def roc.ptr_round_trip usc.ptr_round_trip)
  show "enc_ClientCapabilities x \<noteq> JNull" by (simp add: enc_ClientCapabilities_def)
qed

interpretation ipc: json_codec enc_initializeParams dec_initializeParams
  initializeParams_zero "\<lambda>_. True"
  by unfold_locales (simp_all add: enc_initializeParams_def dec_initializeParams_def
      initializeParams_zero_def struct_eval clc.round_trip infoc.round_trip)

interpretation irc: json_codec enc_initializeResult dec_initializeResult
  initializeResult_zero "\<lambda>_. True"
  by unfold_locales (simp_all add: enc_initializeResult_def dec_initializeResult_def
      initializeResult_zero_def struct_eval scc.round_trip infoc.round_trip)

section \<open>Negotiation\<close>

text \<open>
  The specification: a requirement is met when every required component is offered, and
  every flag required of it is set.
\<close>

definition opt_meets :: "('r \<Rightarrow> 'o \<Rightarrow> bool) \<Rightarrow> 'r option \<Rightarrow> 'o option \<Rightarrow> bool" where
  "opt_meets f r x \<longleftrightarrow> (\<forall>a. r = Some a \<longrightarrow> (\<exists>b. x = Some b \<and> f a b))"

definition client_caps_meet :: "ClientCapabilities \<Rightarrow> ClientCapabilities \<Rightarrow> bool" where
  "client_caps_meet req got \<longleftrightarrow>
     opt_meets (\<lambda>a b. roc_listChanged a \<longrightarrow> roc_listChanged b) (cc_roots req) (cc_roots got) \<and>
     opt_meets (\<lambda>_ _. True) (cc_sampling req) (cc_sampling got)"

definition server_caps_meet :: "ServerCapabilities \<Rightarrow> ServerCapabilities \<Rightarrow> bool" where
  "server_caps_meet req got \<longleftrightarrow>
     opt_meets (\<lambda>a b. pc_listChanged a \<longrightarrow> pc_listChanged b) (sc_prompts req) (sc_prompts got) \<and>
     opt_meets (\<lambda>a b. (rc_listChanged a \<longrightarrow> rc_listChanged b) \<and> (rc_subscribe a \<longrightarrow> rc_subscribe b))
       (sc_resources req) (sc_resources got) \<and>
     opt_meets (\<lambda>a b. tc_listChanged a \<longrightarrow> tc_listChanged b) (sc_tools req) (sc_tools got) \<and>
     opt_meets (\<lambda>_ _. True) (sc_logging req) (sc_logging got)"

lemma opt_meets_simps [simp]:
  "opt_meets f None x"
  "\<not> opt_meets f (Some a) None"
  "opt_meets f (Some a) (Some b) \<longleftrightarrow> f a b"
  by (auto simp: opt_meets_def)

lemma server_caps_meet_refl: "server_caps_meet c c"
  by (auto simp: server_caps_meet_def opt_meets_def)

lemma client_caps_meet_refl: "client_caps_meet c c"
  by (auto simp: client_caps_meet_def opt_meets_def)

end
