(* ===== verification/ServerConfig.thy ===== *)
theory ServerConfig
  imports Capabilities
begin

text \<open>
  Construction of a server, \<^verbatim>\<open>src/pkg/mcp/server.go\<close>: the options, \<^verbatim>\<open>newServer\<close> with the
  defaults and the capabilities it derives, and the listeners \<^verbatim>\<open>start\<close> launches.
  A user-supplied interface value is a reference; \<open>None\<close> is nil. Durations are nanoseconds.
\<close>

type_synonym iface = "nat option"

text \<open>The two transports of the repository; they differ in which channels \<^verbatim>\<open>Close\<close> closes.\<close>

datatype transport_kind = TransportStdIO | TransportSSE

record server =
  sv_capabilities :: ServerCapabilities
  sv_info :: Info
  sv_requiredClientCapabilities :: ClientCapabilities
  sv_transport :: transport_kind
  sv_promptServer :: iface
  sv_promptListUpdater :: iface
  sv_resourceServer :: iface
  sv_resourceListUpdater :: iface
  sv_resourceSubscribedUpdater :: iface
  sv_toolServer :: iface
  sv_toolListUpdater :: iface
  sv_rootsListWatcher :: iface
  sv_logHandler :: iface
  sv_progressReporter :: iface
  sv_writeTimeout :: int
  sv_readTimeout :: int
  sv_pingInterval :: int

datatype ServerOption =
    WithPromptServer iface
  | WithPromptListUpdater iface
  | WithResourceServer iface
  | WithResourceListUpdater iface
  | WithResourceSubscribedUpdater iface
  | WithToolServer iface
  | WithToolListUpdater iface
  | WithRootsListWatcher iface
  | WithLogHandler iface
  | WithProgressReporter iface
  | WithServerWriteTimeout int
  | WithServerReadTimeout int
  | WithServerPingInterval int

fun apply_server_option :: "ServerOption \<Rightarrow> server \<Rightarrow> server" where
  "apply_server_option (WithPromptServer srv) s = s\<lparr>sv_promptServer := srv\<rparr>"
| "apply_server_option (WithPromptListUpdater u) s = s\<lparr>sv_promptListUpdater := u\<rparr>"
| "apply_server_option (WithResourceServer srv) s = s\<lparr>sv_resourceServer := srv\<rparr>"
| "apply_server_option (WithResourceListUpdater u) s = s\<lparr>sv_resourceListUpdater := u\<rparr>"
| "apply_server_option (WithResourceSubscribedUpdater u) s = s\<lparr>sv_resourceSubscribedUpdater := u\<rparr>"
| "apply_server_option (WithToolServer srv) s = s\<lparr>sv_toolServer := srv\<rparr>"
| "apply_server_option (WithToolListUpdater u) s = s\<lparr>sv_toolListUpdater := u\<rparr>"
| "apply_server_option (WithRootsListWatcher w) s = s\<lparr>sv_rootsListWatcher := w\<rparr>"
| "apply_server_option (WithLogHandler h) s = s\<lparr>sv_logHandler := h\<rparr>"
| "apply_server_option (WithProgressReporter r) s = s\<lparr>sv_progressReporter := r\<rparr>"
| "apply_server_option (WithServerWriteTimeout t) s = s\<lparr>sv_writeTimeout := t\<rparr>"
| "apply_server_option (WithServerReadTimeout t) s = s\<lparr>sv_readTimeout := t\<rparr>"
| "apply_server_option (WithServerPingInterval t) s = s\<lparr>sv_pingInterval := t\<rparr>"

definition second :: int where "second = 1000000000"
definition defaultServerWriteTimeout :: int where "defaultServerWriteTimeout = 30 * second"
definition defaultServerReadTimeout :: int where "defaultServerReadTimeout = 30 * second"

text \<open>The user's \<^verbatim>\<open>Server\<close> interface: its three answers.\<close>

record Server =
  us_Info :: Info
  us_RequireRootsListClient :: bool
  us_RequireSamplingClient :: bool

definition bare_server :: "Server \<Rightarrow> transport_kind \<Rightarrow> server" where
  "bare_server srv tr =
     \<lparr>sv_capabilities = ServerCapabilities_zero, sv_info = us_Info srv,
      sv_requiredClientCapabilities = ClientCapabilities_zero, sv_transport = tr,
      sv_promptServer = None, sv_promptListUpdater = None, sv_resourceServer = None,
      sv_resourceListUpdater = None, sv_resourceSubscribedUpdater = None, sv_toolServer = None,
      sv_toolListUpdater = None, sv_rootsListWatcher = None, sv_logHandler = None,
      sv_progressReporter = None, sv_writeTimeout = 0, sv_readTimeout = 0, sv_pingInterval = 0\<rparr>"

definition server_capabilities :: "server \<Rightarrow> ServerCapabilities" where
  "server_capabilities s =
     \<lparr>sc_prompts =
        (if sv_promptServer s \<noteq> None then Some \<lparr>pc_listChanged = (sv_promptListUpdater s \<noteq> None)\<rparr>
         else None),
      sc_resources =
        (if sv_resourceServer s \<noteq> None
         then Some \<lparr>rc_subscribe = (sv_resourceSubscribedUpdater s \<noteq> None),
                    rc_listChanged = (sv_resourceListUpdater s \<noteq> None)\<rparr>
         else None),
      sc_tools =
        (if sv_toolServer s \<noteq> None then Some \<lparr>tc_listChanged = (sv_toolListUpdater s \<noteq> None)\<rparr>
         else None),
      sc_logging = (if sv_logHandler s \<noteq> None then Some () else None)\<rparr>"

definition required_client_capabilities :: "Server \<Rightarrow> server \<Rightarrow> ClientCapabilities" where
  "required_client_capabilities srv s =
     \<lparr>cc_roots =
        (if us_RequireRootsListClient srv
         then Some \<lparr>roc_listChanged = (sv_rootsListWatcher s \<noteq> None)\<rparr> else None),
      cc_sampling = (if us_RequireSamplingClient srv then Some () else None)\<rparr>"

definition newServer :: "Server \<Rightarrow> transport_kind \<Rightarrow> ServerOption list \<Rightarrow> server" where
  "newServer srv tr options =
     (let s0 = fold apply_server_option options (bare_server srv tr);
          s1 = (if sv_writeTimeout s0 = 0 then s0\<lparr>sv_writeTimeout := defaultServerWriteTimeout\<rparr>
                else s0);
          s2 = (if sv_readTimeout s1 = 0 then s1\<lparr>sv_readTimeout := defaultServerReadTimeout\<rparr>
                else s1)
      in s2\<lparr>sv_capabilities := server_capabilities s2,
            sv_requiredClientCapabilities := required_client_capabilities srv s2\<rparr>)"

datatype listener = LPromptsList | LResourcesList | LResourcesSubscribe | LToolsList | LLog | LProgress

definition start_listeners :: "server \<Rightarrow> listener list" where
  "start_listeners s =
     (if sv_promptListUpdater s \<noteq> None then [LPromptsList] else []) @
     (if sv_resourceListUpdater s \<noteq> None then [LResourcesList] else []) @
     (if sv_resourceSubscribedUpdater s \<noteq> None then [LResourcesSubscribe] else []) @
     (if sv_toolListUpdater s \<noteq> None then [LToolsList] else []) @
     (if sv_logHandler s \<noteq> None then [LLog] else []) @
     (if sv_progressReporter s \<noteq> None then [LProgress] else [])"

section \<open>Properties\<close>

text \<open>
  Options only write their own field, so the field's value is the last such option's (or
  nil): stated once for a reading of the options list.
\<close>

fun last_opt :: "('o \<Rightarrow> 'a option) \<Rightarrow> 'o list \<Rightarrow> 'a \<Rightarrow> 'a" where
  "last_opt f [] d = d"
| "last_opt f (x # xs) d = last_opt f xs (case f x of None \<Rightarrow> d | Some v \<Rightarrow> v)"

fun opt_promptServer :: "ServerOption \<Rightarrow> iface option" where
  "opt_promptServer (WithPromptServer s) = Some s" | "opt_promptServer _ = None"
fun opt_promptListUpdater :: "ServerOption \<Rightarrow> iface option" where
  "opt_promptListUpdater (WithPromptListUpdater s) = Some s" | "opt_promptListUpdater _ = None"
fun opt_resourceServer :: "ServerOption \<Rightarrow> iface option" where
  "opt_resourceServer (WithResourceServer s) = Some s" | "opt_resourceServer _ = None"
fun opt_resourceListUpdater :: "ServerOption \<Rightarrow> iface option" where
  "opt_resourceListUpdater (WithResourceListUpdater s) = Some s" | "opt_resourceListUpdater _ = None"
fun opt_resourceSubscribedUpdater :: "ServerOption \<Rightarrow> iface option" where
  "opt_resourceSubscribedUpdater (WithResourceSubscribedUpdater s) = Some s"
| "opt_resourceSubscribedUpdater _ = None"
fun opt_toolServer :: "ServerOption \<Rightarrow> iface option" where
  "opt_toolServer (WithToolServer s) = Some s" | "opt_toolServer _ = None"
fun opt_toolListUpdater :: "ServerOption \<Rightarrow> iface option" where
  "opt_toolListUpdater (WithToolListUpdater s) = Some s" | "opt_toolListUpdater _ = None"
fun opt_logHandler :: "ServerOption \<Rightarrow> iface option" where
  "opt_logHandler (WithLogHandler s) = Some s" | "opt_logHandler _ = None"
fun opt_writeTimeout :: "ServerOption \<Rightarrow> int option" where
  "opt_writeTimeout (WithServerWriteTimeout t) = Some t" | "opt_writeTimeout _ = None"
fun opt_readTimeout :: "ServerOption \<Rightarrow> int option" where
  "opt_readTimeout (WithServerReadTimeout t) = Some t" | "opt_readTimeout _ = None"

text \<open>
  A fold of options reads back, for any field whose update an option either performs or
  leaves alone.
\<close>

lemma fold_options_field:
  assumes "\<And>x s. get (apply_server_option x s) = (case f x of None \<Rightarrow> get s | Some v \<Rightarrow> v)"
  shows "get (fold apply_server_option xs s) = last_opt f xs (get s)"
  by (induction xs arbitrary: s) (simp_all add: assms)

lemma option_fields:
  "sv_promptServer (fold apply_server_option xs s) = last_opt opt_promptServer xs (sv_promptServer s)"
  "sv_promptListUpdater (fold apply_server_option xs s) =
     last_opt opt_promptListUpdater xs (sv_promptListUpdater s)"
  "sv_resourceServer (fold apply_server_option xs s) =
     last_opt opt_resourceServer xs (sv_resourceServer s)"
  "sv_resourceListUpdater (fold apply_server_option xs s) =
     last_opt opt_resourceListUpdater xs (sv_resourceListUpdater s)"
  "sv_resourceSubscribedUpdater (fold apply_server_option xs s) =
     last_opt opt_resourceSubscribedUpdater xs (sv_resourceSubscribedUpdater s)"
  "sv_toolServer (fold apply_server_option xs s) = last_opt opt_toolServer xs (sv_toolServer s)"
  "sv_toolListUpdater (fold apply_server_option xs s) =
     last_opt opt_toolListUpdater xs (sv_toolListUpdater s)"
  "sv_logHandler (fold apply_server_option xs s) = last_opt opt_logHandler xs (sv_logHandler s)"
  "sv_writeTimeout (fold apply_server_option xs s) = last_opt opt_writeTimeout xs (sv_writeTimeout s)"
  "sv_readTimeout (fold apply_server_option xs s) = last_opt opt_readTimeout xs (sv_readTimeout s)"
  by (rule fold_options_field, case_tac x, simp_all)+

end
