(* ===== verification/Context.thy ===== *)
theory Context
  imports Prelude
begin

text \<open>
  Go contexts as far as the server and the client use them: \<^verbatim>\<open>context.WithCancel\<close> (and the
  cancellation half of \<^verbatim>\<open>context.WithTimeout\<close>, whose timer is a call of \<open>cancel\<close> with
  \<^const>\<open>ErrDeadlineExceeded\<close>), \<^verbatim>\<open>cancel\<close>, \<^verbatim>\<open>Done\<close> and \<^verbatim>\<open>Err\<close>. A store holds the contexts in
  the order they were derived, so a parent stands before its children; \<^verbatim>\<open>Background\<close> is the
  parent \<open>None\<close>. The locale states what the clients of contexts rely on.
\<close>

section \<open>The interface\<close>

locale go_context =
  fixes derive :: "nat option \<Rightarrow> 's \<Rightarrow> 's \<times> nat"
    and cancel :: "nat \<Rightarrow> go_error \<Rightarrow> 's \<Rightarrow> 's"
    and err :: "'s \<Rightarrow> nat \<Rightarrow> go_error option"
    and below :: "'s \<Rightarrow> nat \<Rightarrow> nat \<Rightarrow> bool"
    and known :: "'s \<Rightarrow> nat \<Rightarrow> bool"
    and wf :: "'s \<Rightarrow> bool"
  assumes derive_fresh: "\<not> known s (snd (derive p s))"
    and derive_known: "known (fst (derive p s)) c \<longleftrightarrow> known s c \<or> c = snd (derive p s)"
    and derive_err_old: "known s c \<Longrightarrow> err (fst (derive p s)) c = err s c"
    and derive_err_new:
      "err (fst (derive p s)) (snd (derive p s)) = (case p of None \<Rightarrow> None | Some q \<Rightarrow> err s q)"
    and derive_below: "known s q \<Longrightarrow> below (fst (derive (Some q) s)) q (snd (derive (Some q) s))"
    and derive_wf: "wf s \<Longrightarrow> (\<forall>q. p = Some q \<longrightarrow> known s q) \<Longrightarrow> wf (fst (derive p s))"
    and below_refl: "below s c c"
    and cancel_known: "known (cancel c e s) c' \<longleftrightarrow> known s c'"
    and cancel_below: "below (cancel c e s) a b \<longleftrightarrow> below s a b"
    and cancel_err: "wf s \<Longrightarrow> known s c' \<Longrightarrow>
      err (cancel c e s) c' =
        (case err s c' of Some x \<Rightarrow> Some x | None \<Rightarrow> if below s c c' then Some e else None)"
    and cancel_wf: "wf s \<Longrightarrow> wf (cancel c e s)"
begin

lemma cancel_self: "wf s \<Longrightarrow> known s c \<Longrightarrow> err (cancel c e s) c \<noteq> None"
  by (simp add: cancel_err below_refl split: option.split)

lemma cancel_below_done: "wf s \<Longrightarrow> known s c' \<Longrightarrow> below s c c' \<Longrightarrow> err (cancel c e s) c' \<noteq> None"
  by (simp add: cancel_err split: option.split)

lemma cancel_other:
  "wf s \<Longrightarrow> known s c' \<Longrightarrow> \<not> below s c c' \<Longrightarrow> err (cancel c e s) c' = err s c'"
  by (simp add: cancel_err split: option.split)

text \<open>Cancellation is permanent and the first cause wins.\<close>

lemma cancel_stable: "wf s \<Longrightarrow> known s c' \<Longrightarrow> err s c' = Some x \<Longrightarrow> err (cancel c e s) c' = Some x"
  by (simp add: cancel_err)

text \<open>Cancelling a list of contexts one after the other.\<close>

lemma cancel_all_known: "known (fold (\<lambda>d. cancel d e) cs s) c \<longleftrightarrow> known s c"
  by (induction cs arbitrary: s) (simp_all add: cancel_known)

lemma cancel_all_wf: "wf s \<Longrightarrow> wf (fold (\<lambda>d. cancel d e) cs s)"
  by (induction cs arbitrary: s) (simp_all add: cancel_wf)

lemma cancel_all_stable:
  "wf s \<Longrightarrow> known s c \<Longrightarrow> err s c \<noteq> None \<Longrightarrow> err (fold (\<lambda>d. cancel d e) cs s) c \<noteq> None"
proof (induction cs arbitrary: s)
  case Nil
  then show ?case by simp
next
  case (Cons d cs)
  then have "err (cancel d e s) c \<noteq> None" using cancel_stable by auto
  with Cons show ?case by (simp add: cancel_wf cancel_known)
qed

lemma cancel_all_done:
  "wf s \<Longrightarrow> known s c' \<Longrightarrow> c \<in> set cs \<Longrightarrow> below s c c' \<Longrightarrow> err (fold (\<lambda>d. cancel d e) cs s) c' \<noteq> None"
proof (induction cs arbitrary: s)
  case Nil
  then show ?case by simp
next
  case (Cons d cs)
  show ?case
  proof (cases "c = d")
    case True
    with Cons.prems have "err (cancel d e s) c' \<noteq> None" using cancel_below_done by auto
    with Cons.prems show ?thesis by (simp add: cancel_all_stable cancel_wf cancel_known)
  next
    case False
    with Cons show ?thesis by (simp add: cancel_wf cancel_known cancel_below)
  qed
qed

end

section \<open>The model\<close>

record ctx_node =
  cn_parent :: "nat option"
  cn_err :: "go_error option"

type_synonym ctxs = "ctx_node list"

definition ctx_known :: "ctxs \<Rightarrow> nat \<Rightarrow> bool" where
  "ctx_known s c \<longleftrightarrow> c < length s"

definition ctx_err :: "ctxs \<Rightarrow> nat \<Rightarrow> go_error option" where
  "ctx_err s c = (if c < length s then cn_err (s ! c) else None)"

definition ctx_derive :: "nat option \<Rightarrow> ctxs \<Rightarrow> ctxs \<times> nat" where
  "ctx_derive p s =
     (s @ [\<lparr>cn_parent = p, cn_err = (case p of None \<Rightarrow> None | Some q \<Rightarrow> ctx_err s q)\<rparr>], length s)"

text \<open>\<open>ctx_below s c j\<close>: \<open>j\<close> is \<open>c\<close> or was derived, in any number of steps, from \<open>c\<close>.\<close>

fun ctx_below :: "ctxs \<Rightarrow> nat \<Rightarrow> nat \<Rightarrow> bool" where
  "ctx_below s c j =
     (j = c \<or>
      (j < length s \<and>
       (case cn_parent (s ! j) of None \<Rightarrow> False | Some k \<Rightarrow> if k < j then ctx_below s c k else False)))"

declare ctx_below.simps [simp del]

definition ctx_cancel :: "nat \<Rightarrow> go_error \<Rightarrow> ctxs \<Rightarrow> ctxs" where
  "ctx_cancel c e s =
     map (\<lambda>j. (s ! j)\<lparr>cn_err :=
        (case cn_err (s ! j) of Some x \<Rightarrow> Some x
         | None \<Rightarrow> if ctx_below s c j then Some e else None)\<rparr>) [0..<length s]"

definition ctx_wf :: "ctxs \<Rightarrow> bool" where
  "ctx_wf s \<longleftrightarrow>
     (\<forall>j < length s. \<forall>k. cn_parent (s ! j) = Some k \<longrightarrow>
        k < j \<and> (cn_err (s ! k) \<noteq> None \<longrightarrow> cn_err (s ! j) \<noteq> None))"

lemma length_ctx_cancel [simp]: "length (ctx_cancel c e s) = length s"
  by (simp add: ctx_cancel_def)

lemma nth_ctx_cancel:
  "j < length s \<Longrightarrow> ctx_cancel c e s ! j = (s ! j)\<lparr>cn_err :=
     (case cn_err (s ! j) of Some x \<Rightarrow> Some x | None \<Rightarrow> if ctx_below s c j then Some e else None)\<rparr>"
  by (simp add: ctx_cancel_def)

lemma ctx_below_parents:
  assumes "length s = length t" and "\<And>j. j < length s \<Longrightarrow> cn_parent (s ! j) = cn_parent (t ! j)"
  shows "ctx_below s c j \<longleftrightarrow> ctx_below t c j"
proof (induction j rule: less_induct)
  case (less j)
  then show ?case
    using assms by (subst (1 2) ctx_below.simps) (auto split: option.splits)
qed

lemma ctx_below_cancel [simp]: "ctx_below (ctx_cancel c e s) a b \<longleftrightarrow> ctx_below s a b"
  by (rule ctx_below_parents) (simp_all add: nth_ctx_cancel)

lemma ctx_wf_derive:
  assumes "ctx_wf s" and "\<forall>q. p = Some q \<longrightarrow> ctx_known s q"
  shows "ctx_wf (fst (ctx_derive p s))"
  using assms
  by (auto simp: ctx_wf_def ctx_derive_def ctx_known_def ctx_err_def nth_append less_Suc_eq)

lemma ctx_wf_cancel:
  assumes wf: "ctx_wf s"
  shows "ctx_wf (ctx_cancel c e s)"
  unfolding ctx_wf_def
proof (intro allI impI)
  fix j k
  assume j: "j < length (ctx_cancel c e s)" and p: "cn_parent (ctx_cancel c e s ! j) = Some k"
  then have pj: "cn_parent (s ! j) = Some k" by (simp add: nth_ctx_cancel)
  with wf j have kj: "k < j" and up: "cn_err (s ! k) \<noteq> None \<Longrightarrow> cn_err (s ! j) \<noteq> None"
    by (auto simp: ctx_wf_def)
  have "ctx_below s c k \<Longrightarrow> ctx_below s c j"
    using pj kj j by (subst ctx_below.simps) simp
  with up kj j show "k < j \<and> (cn_err (ctx_cancel c e s ! k) \<noteq> None \<longrightarrow>
      cn_err (ctx_cancel c e s ! j) \<noteq> None)"
    by (auto simp: nth_ctx_cancel split: option.splits)
qed

interpretation gctx: go_context ctx_derive ctx_cancel ctx_err ctx_below ctx_known ctx_wf
proof unfold_locales
  fix s :: ctxs and p :: "nat option" and c c' q a b :: nat and e :: go_error
  show "\<not> ctx_known s (snd (ctx_derive p s))" by (simp add: ctx_known_def ctx_derive_def)
  show "ctx_known (fst (ctx_derive p s)) c \<longleftrightarrow> ctx_known s c \<or> c = snd (ctx_derive p s)"
    by (auto simp: ctx_known_def ctx_derive_def)
  show "ctx_known s c \<Longrightarrow> ctx_err (fst (ctx_derive p s)) c = ctx_err s c"
    by (simp add: ctx_known_def ctx_derive_def ctx_err_def nth_append)
  show "ctx_err (fst (ctx_derive p s)) (snd (ctx_derive p s)) =
      (case p of None \<Rightarrow> None | Some q \<Rightarrow> ctx_err s q)"
    by (simp add: ctx_derive_def ctx_err_def nth_append)
  show "ctx_known s q \<Longrightarrow> ctx_below (fst (ctx_derive (Some q) s)) q (snd (ctx_derive (Some q) s))"
    by (subst ctx_below.simps)
      (simp add: ctx_known_def ctx_derive_def nth_append ctx_below.simps [of _ q q])
  show "ctx_wf s \<Longrightarrow> \<forall>q. p = Some q \<longrightarrow> ctx_known s q \<Longrightarrow> ctx_wf (fst (ctx_derive p s))"
    by (rule ctx_wf_derive)
  show "ctx_below s c c" by (subst ctx_below.simps) simp
  show "ctx_known (ctx_cancel c e s) c' \<longleftrightarrow> ctx_known s c'" by (simp add: ctx_known_def)
  show "ctx_below (ctx_cancel c e s) a b \<longleftrightarrow> ctx_below s a b" by simp
  show "ctx_wf s \<Longrightarrow> ctx_known s c' \<Longrightarrow> ctx_err (ctx_cancel c e s) c' =
      (case ctx_err s c' of Some x \<Rightarrow> Some x | None \<Rightarrow> if ctx_below s c c' then Some e else None)"
    by (simp add: ctx_err_def ctx_known_def nth_ctx_cancel)
  show "ctx_wf s \<Longrightarrow> ctx_wf (ctx_cancel c e s)" by (rule ctx_wf_cancel)
qed

lemma ctx_below_append:
  "j < length s \<Longrightarrow> ctx_below (s @ t) c j \<longleftrightarrow> ctx_below s c j"
proof (induction j rule: less_induct)
  case (less j)
  then show ?case
    by (subst (1 2) ctx_below.simps) (auto simp: nth_append split: option.splits)
qed

end
