(* ===== verification/Server.thy ===== *)
theory Server
  imports ServerConfig Context
begin

text \<open>
  The running server of \<^verbatim>\<open>src/pkg/mcp/server.go\<close>: its sessions, the messages it hands to the
  transport, the goroutines it spawns, and every handler as a state transformer.

  Sessions live in a heap (goroutines keep a \<^verbatim>\<open>*session\<close> after the session has left the
  server's map); a goroutine is an entry of a pool, at the point where it waits. What the
  environment decides is an argument: the outcome \<open>out\<close> of a \<^verbatim>\<open>transport.Send\<close> (\<open>None\<close> for a
  nil error), the request id a \<^verbatim>\<open>uuid.New\<close> yields, and what user code returns. A panic ends
  the process: once \<open>sr_panic\<close> is set nothing else happens. An error offered on the errors
  channel may be dropped (the send is non-blocking); \<open>sr_errs\<close> lists the errors offered.
\<close>

section \<open>State\<close>

record request =
  rq_ctx :: nat

record session =
  ss_id :: string
  ss_ctx :: nat
  ss_writeTimeout :: int
  ss_readTimeout :: int
  ss_pingInterval :: int
  ss_clientRequests :: "(gokey, request) smap"
  ss_serverRequests :: "(gokey, nat) smap"
  ss_subscribedResources :: "(gokey, unit) smap"
  ss_initialized :: bool
  ss_listening :: bool

text \<open>The calls of user code that a request handler makes, with the decoded parameters.\<close>

datatype call =
    CListPrompts ListPromptsParams
  | CGetPrompt GetPromptParams
  | CCompletesPrompt CompletesCompletionParams
  | CListResources ListResourcesParams
  | CReadResource ReadResourceParams
  | CListResourceTemplates ListResourceTemplatesParams
  | CCompletesResourceTemplate CompletesCompletionParams
  | CListTools ListToolsParams
  | CCallTool CallToolParams

text \<open>One-way calls into user code.\<close>

datatype user_effect =
    USubscribeResource SubscribeResourceParams
  | UUnsubscribeResource UnsubscribeResourceParams
  | USetLogLevel int
  | UOnRootsListChanged

text \<open>
  A request handler: the id it answers, the user component it calls, the call, and the
  format of the error it reports when the call fails.
\<close>

record handler =
  h_id :: MustString
  h_server :: iface
  h_call :: call
  h_fail :: string

text \<open>
  Goroutines. A handler is first spawned, then inside user code (with its context), then
  possibly waiting in \<^verbatim>\<open>sendRequest\<close> on behalf of user code (request id, response channel,
  send context). \<open>GDeliver\<close> is a \<^verbatim>\<open>handleResult\<close> blocked on the response channel, \<open>GStopping\<close>
  a \<^verbatim>\<open>listen\<close> blocked on the stop channel, \<open>GPings\<close> the ping loop waiting for its ticker and
  \<open>GPingAwait\<close> the same loop waiting for a reply.
\<close>

datatype task =
    GPing MustString
  | GInitialize MustString initializeParams
  | GHandler handler
  | GInCall handler nat
  | GAwait handler nat string nat nat
  | GSubscribe MustString SubscribeResourceParams
  | GUnsubscribe MustString UnsubscribeResourceParams
  | GSetLevel MustString LogParams
  | GInitialized
  | GCancelled notificationsCancelledParams
  | GResult JSONRPCMessage
  | GDeliver nat JSONRPCMessage
  | GStopping
  | GPings
  | GPingAwait string nat nat
  | GDone

datatype go_panic = NilDereference | SendOnClosedChannel | NilContextParent

text \<open>What a broadcaster sends to a session's \<^verbatim>\<open>listen\<close> loop.\<close>

datatype notice =
    NPrompts
  | NResources
  | NSubscribed string
  | NTools
  | NLog "json res"
  | NProgress "json res"

record srv =
  sr_heap :: "session list"
  sr_sessions :: "(gokey, nat) smap"
  sr_progresses :: "(gokey, string) smap"
  sr_ctxs :: ctxs
  sr_tasks :: "(nat \<times> task) list"
  sr_bcasts :: "(listener \<times> notice \<times> nat list) list"
  sr_nchan :: nat
  sr_sent :: "(SessionMsg \<times> go_error option) list"
  sr_errs :: "go_error list"
  sr_effects :: "user_effect list"
  sr_replies :: "(nat \<times> string \<times> JSONRPCMessage) list"
  sr_received :: "(string \<times> JSONRPCMessage) list"
  sr_errsClosed :: bool
  sr_closed :: bool
  sr_loop :: bool
  sr_panic :: "go_panic option"

definition srv_init :: srv where
  "srv_init =
     \<lparr>sr_heap = [], sr_sessions = [], sr_progresses = [], sr_ctxs = [], sr_tasks = [],
      sr_bcasts = [], sr_nchan = 0, sr_sent = [], sr_errs = [], sr_effects = [], sr_replies = [],
      sr_received = [], sr_errsClosed = False, sr_closed = False, sr_loop = True, sr_panic = None\<rparr>"

section \<open>Primitive operations\<close>

abbreviation sess_at :: "srv \<Rightarrow> nat \<Rightarrow> session" where
  "sess_at st p \<equiv> sr_heap st ! p"

definition upd_sess :: "nat \<Rightarrow> (session \<Rightarrow> session) \<Rightarrow> srv \<Rightarrow> srv" where
  "upd_sess p f st = st\<lparr>sr_heap := (sr_heap st)[p := f (sr_heap st ! p)]\<rparr>"

definition spawn :: "nat \<Rightarrow> task \<Rightarrow> srv \<Rightarrow> srv" where
  "spawn p t st = st\<lparr>sr_tasks := sr_tasks st @ [(p, t)]\<rparr>"

definition set_task :: "nat \<Rightarrow> task \<Rightarrow> srv \<Rightarrow> srv" where
  "set_task g t st = st\<lparr>sr_tasks := (sr_tasks st)[g := (fst (sr_tasks st ! g), t)]\<rparr>"

definition panic :: "go_panic \<Rightarrow> srv \<Rightarrow> srv" where
  "panic x st = (if sr_panic st = None then st\<lparr>sr_panic := Some x\<rparr> else st)"

text \<open>\<^verbatim>\<open>session.logError\<close>: a non-blocking send; on a closed channel it panics.\<close>

definition logError :: "go_error \<Rightarrow> srv \<Rightarrow> srv" where
  "logError e st =
     (if sr_panic st \<noteq> None then st
      else if sr_errsClosed st then panic SendOnClosedChannel st
      else st\<lparr>sr_errs := sr_errs st @ [e]\<rparr>)"

text \<open>The call of \<^verbatim>\<open>transport.Send\<close> for the session at \<open>p\<close>.\<close>

definition transport_send :: "nat \<Rightarrow> JSONRPCMessage \<Rightarrow> go_error option \<Rightarrow> srv \<Rightarrow> srv" where
  "transport_send p msg out st =
     (if sr_panic st \<noteq> None then st
      else st\<lparr>sr_sent := sr_sent st @
                [(\<lparr>sm_sessionID = ss_id (sess_at st p), sm_msg = msg\<rparr>, out)]\<rparr>)"

definition log_failure :: "string \<Rightarrow> go_error option \<Rightarrow> srv \<Rightarrow> srv" where
  "log_failure fmt out st =
     (case out of None \<Rightarrow> st | Some e \<Rightarrow> logError (ErrWrap fmt [e]) st)"

definition sendNotification :: "nat \<Rightarrow> string \<Rightarrow> json res \<Rightarrow> go_error option \<Rightarrow> srv \<Rightarrow> srv" where
  "sendNotification p meth params out st =
     (case params of
        Inl e \<Rightarrow> logError (ErrWrap ''failed to marshal params: %w'' [e]) st
      | Inr paramsBs \<Rightarrow>
          log_failure ''failed to send notification: %w'' out
            (transport_send p
               (JSONRPCMessage_zero\<lparr>msg_jsonrpc := JSONRPCVersion, msg_method := meth,
                  msg_params := Some paramsBs\<rparr>) out st))"

definition sendResult :: "nat \<Rightarrow> MustString \<Rightarrow> json res \<Rightarrow> go_error option \<Rightarrow> srv \<Rightarrow> srv" where
  "sendResult p i result out st =
     (case result of
        Inl e \<Rightarrow> logError (ErrWrap ''failed to marshal result: %w'' [e]) st
      | Inr resBs \<Rightarrow>
          log_failure ''failed to send result: %w'' out
            (transport_send p
               (JSONRPCMessage_zero\<lparr>msg_jsonrpc := JSONRPCVersion, msg_id := i,
                  msg_result := Some resBs\<rparr>) out st))"

definition sendError :: "nat \<Rightarrow> MustString \<Rightarrow> JSONRPCError \<Rightarrow> go_error option \<Rightarrow> srv \<Rightarrow> srv" where
  "sendError p i err out st =
     log_failure ''failed to send error: %w'' out
       (transport_send p
          (JSONRPCMessage_zero\<lparr>msg_jsonrpc := JSONRPCVersion, msg_id := i,
             msg_error := Some err\<rparr>) out st)"

text \<open>
  \<^verbatim>\<open>registerRequest\<close> and the first half of \<^verbatim>\<open>sendRequest\<close>, up to the \<^verbatim>\<open>select\<close>: the request id,
  the new channel and the context of the send.
\<close>

definition registerRequest :: "nat \<Rightarrow> string \<Rightarrow> srv \<Rightarrow> srv \<times> nat" where
  "registerRequest p reqID st =
     (let ch = sr_nchan st in
      ((upd_sess p (\<lambda>s. s\<lparr>ss_serverRequests := smap_store (KString reqID) ch (ss_serverRequests s)\<rparr>) st)
         \<lparr>sr_nchan := Suc ch\<rparr>, ch))"

definition new_ctx :: "nat option \<Rightarrow> srv \<Rightarrow> srv \<times> nat" where
  "new_ctx parent st =
     (let (cs, c) = ctx_derive parent (sr_ctxs st) in (st\<lparr>sr_ctxs := cs\<rparr>, c))"

definition cancel_ctx :: "nat \<Rightarrow> go_error \<Rightarrow> srv \<Rightarrow> srv" where
  "cancel_ctx c e st = st\<lparr>sr_ctxs := ctx_cancel c e (sr_ctxs st)\<rparr>"

definition sendRequest :: "nat \<Rightarrow> JSONRPCMessage \<Rightarrow> string \<Rightarrow> go_error option \<Rightarrow> srv \<Rightarrow> srv \<times> nat \<times> nat" where
  "sendRequest p msg reqID out st =
     (let (st1, ch) = registerRequest p reqID st;
          (st2, sctx) = new_ctx (Some (ss_ctx (sess_at st1 p))) st1;
          st3 = transport_send p (msg\<lparr>msg_id := reqID\<rparr>) out st2
      in case out of
           None \<Rightarrow> (st3, ch, sctx)
         | Some e \<Rightarrow> (cancel_ctx sctx ErrCanceled
                        (logError (ErrWrap ''failed to send request: %w'' [e]) st3), ch, sctx))"

section \<open>Handlers\<close>

text \<open>\<^verbatim>\<open>map[string]any{"error": err}\<close>.\<close>

definition error_data :: "go_error \<Rightarrow> (string, gany) smap" where
  "error_data e = [(''error'', AnyErr e)]"

definition missing_capability :: "string \<Rightarrow> string \<Rightarrow> go_error" where
  "missing_capability peer c =
     ErrNew (''insufficient '' @ peer @ '' capabilities: missing required capability '' @
             [CHR 0x27] @ c @ [CHR 0x27])"

definition roots_listChanged :: "RootsCapability option \<Rightarrow> bool" where
  "roots_listChanged r = (case r of None \<Rightarrow> False | Some c \<Rightarrow> roc_listChanged c)"

definition handlePing :: "nat \<Rightarrow> MustString \<Rightarrow> go_error option \<Rightarrow> srv \<Rightarrow> srv" where
  "handlePing p msgID out st = sendResult p msgID (Inr JNull) out st"

definition handleInitialize ::
    "nat \<Rightarrow> MustString \<Rightarrow> initializeParams \<Rightarrow> ServerCapabilities \<Rightarrow> ClientCapabilities \<Rightarrow> Info \<Rightarrow>
     go_error option \<Rightarrow> srv \<Rightarrow> srv" where
  "handleInitialize p msgID params serverCap requiredClientCap serverInfo out st =
     (let reject = (\<lambda>m nErr. sendError p msgID
             \<lparr>err_code = jsonRPCInvalidParamsCode, err_message = m, err_data = error_data nErr\<rparr> out
             (logError nErr st))
      in
      if ip_protocolVersion params \<noteq> protocolVersion then
        reject errMsgUnsupportedProtocolVersion
          (ErrNew (''protocol version mismatch: '' @ ip_protocolVersion params @ '' != '' @ protocolVersion))
      else if cc_roots requiredClientCap \<noteq> None \<and> cc_roots (ip_capabilities params) = None then
        reject errMsgInsufficientClientCapabilities (missing_capability ''client'' ''roots'')
      else if roots_listChanged (cc_roots requiredClientCap) \<and>
              \<not> roots_listChanged (cc_roots (ip_capabilities params)) then
        reject errMsgInsufficientClientCapabilities (missing_capability ''client'' ''roots.listChanged'')
      else if cc_sampling requiredClientCap \<noteq> None \<and> cc_sampling (ip_capabilities params) = None then
        reject errMsgInsufficientClientCapabilities (missing_capability ''client'' ''sampling'')
      else sendResult p msgID
        (Inr (enc_initializeResult
          \<lparr>ir_protocolVersion = protocolVersion, ir_capabilities = serverCap,
           ir_serverInfo = serverInfo\<rparr>)) out st)"

subsection \<open>Handlers that call user code\<close>

definition handlePromptsList :: "MustString \<Rightarrow> ListPromptsParams \<Rightarrow> iface \<Rightarrow> handler" where
  "handlePromptsList msgID params srv =
     \<lparr>h_id = msgID, h_server = srv, h_call = CListPrompts params,
      h_fail = ''failed to list prompts: %w''\<rparr>"

definition handlePromptsGet :: "MustString \<Rightarrow> GetPromptParams \<Rightarrow> iface \<Rightarrow> handler" where
  "handlePromptsGet msgID params srv =
     \<lparr>h_id = msgID, h_server = srv, h_call = CGetPrompt params,
      h_fail = ''failed to get prompt: %w''\<rparr>"

definition handleCompletePrompt :: "MustString \<Rightarrow> CompletesCompletionParams \<Rightarrow> iface \<Rightarrow> handler" where
  "handleCompletePrompt msgID params srv =
     \<lparr>h_id = msgID, h_server = srv, h_call = CCompletesPrompt params,
      h_fail = ''failed to complete prompt: %w''\<rparr>"

definition handleResourcesList :: "MustString \<Rightarrow> ListResourcesParams \<Rightarrow> iface \<Rightarrow> handler" where
  "handleResourcesList msgID params srv =
     \<lparr>h_id = msgID, h_server = srv, h_call = CListResources params,
      h_fail = ''failed to list resources: %w''\<rparr>"

definition handleResourcesRead :: "MustString \<Rightarrow> ReadResourceParams \<Rightarrow> iface \<Rightarrow> handler" where
  "handleResourcesRead msgID params srv =
     \<lparr>h_id = msgID, h_server = srv, h_call = CReadResource params,
      h_fail = ''failed to read resource: %w''\<rparr>"

definition handleResourcesListTemplates ::
    "MustString \<Rightarrow> ListResourceTemplatesParams \<Rightarrow> iface \<Rightarrow> handler" where
  "handleResourcesListTemplates msgID params srv =
     \<lparr>h_id = msgID, h_server = srv, h_call = CListResourceTemplates params,
      h_fail = ''failed to list resource templates: %w''\<rparr>"

definition handleCompleteResource ::
    "MustString \<Rightarrow> CompletesCompletionParams \<Rightarrow> iface \<Rightarrow> handler" where
  "handleCompleteResource msgID params srv =
     \<lparr>h_id = msgID, h_server = srv, h_call = CCompletesResourceTemplate params,
      h_fail = ''failed to complete resource template: %w''\<rparr>"

definition handleToolsList :: "MustString \<Rightarrow> ListToolsParams \<Rightarrow> iface \<Rightarrow> handler" where
  "handleToolsList msgID params srv =
     \<lparr>h_id = msgID, h_server = srv, h_call = CListTools params,
      h_fail = ''failed to list tools: %w''\<rparr>"

definition handleToolsCall :: "MustString \<Rightarrow> CallToolParams \<Rightarrow> iface \<Rightarrow> handler" where
  "handleToolsCall msgID params srv =
     \<lparr>h_id = msgID, h_server = srv, h_call = CCallTool params,
      h_fail = ''failed to call tool: %w''\<rparr>"

text \<open>
  The common body of these nine handlers, up to the call of user code: nothing happens on a
  session that is not initialized; otherwise a cancellable context is derived and stored
  under the message id (a \<^verbatim>\<open>MustString\<close> key), and user code is entered. A nil component is
  dereferenced there.
\<close>

definition track_request :: "nat \<Rightarrow> MustString \<Rightarrow> srv \<Rightarrow> srv \<times> nat" where
  "track_request p msgID st =
     (let (st1, c) = new_ctx (Some (ss_ctx (sess_at st p))) st
      in (upd_sess p (\<lambda>s. s\<lparr>ss_clientRequests :=
             smap_store (KMustString msgID) \<lparr>rq_ctx = c\<rparr> (ss_clientRequests s)\<rparr>) st1, c))"

definition handler_begin :: "nat \<Rightarrow> nat \<Rightarrow> handler \<Rightarrow> srv \<Rightarrow> srv" where
  "handler_begin g p h st =
     (if \<not> ss_initialized (sess_at st p) then set_task g GDone st
      else
        let (st1, c) = track_request p (h_id h) st
        in if h_server h = None then panic NilDereference st1
           else set_task g (GInCall h c) st1)"

text \<open>The common end: the error or the result is sent, and the deferred \<^verbatim>\<open>cancel\<close> runs.\<close>

definition handler_return ::
    "nat \<Rightarrow> nat \<Rightarrow> handler \<Rightarrow> nat \<Rightarrow> go_error + json res \<Rightarrow> go_error option \<Rightarrow> srv \<Rightarrow> srv" where
  "handler_return g p h c outcome out st =
     set_task g GDone
       (cancel_ctx c ErrCanceled
         (case outcome of
            Inl err \<Rightarrow> sendError p (h_id h)
              \<lparr>err_code = jsonRPCInternalErrorCode, err_message = errMsgInternalError,
               err_data = error_data (ErrWrap (h_fail h) [err])\<rparr> out st
          | Inr result \<Rightarrow> sendResult p (h_id h) result out st))"

definition user_effect :: "user_effect \<Rightarrow> srv \<Rightarrow> srv" where
  "user_effect u st = (if sr_panic st \<noteq> None then st else st\<lparr>sr_effects := sr_effects st @ [u]\<rparr>)"

definition handleResourcesSubscribe ::
    "nat \<Rightarrow> MustString \<Rightarrow> SubscribeResourceParams \<Rightarrow> go_error option \<Rightarrow> srv \<Rightarrow> srv" where
  "handleResourcesSubscribe p msgID params out st =
     (if \<not> ss_initialized (sess_at st p) then st
      else
        let (st1, c) = track_request p msgID st;
            st2 = user_effect (USubscribeResource params) st1;
            st3 = upd_sess p (\<lambda>s. s\<lparr>ss_subscribedResources :=
                     smap_store (KString (srp_uri params)) () (ss_subscribedResources s)\<rparr>) st2
        in cancel_ctx c ErrCanceled (sendResult p msgID (Inr JNull) out st3))"

definition handleResourcesUnsubscribe ::
    "nat \<Rightarrow> MustString \<Rightarrow> UnsubscribeResourceParams \<Rightarrow> go_error option \<Rightarrow> srv \<Rightarrow> srv" where
  "handleResourcesUnsubscribe p msgID params out st =
     (if \<not> ss_initialized (sess_at st p) then st
      else
        let (st1, c) = track_request p msgID st;
            st2 = user_effect (UUnsubscribeResource params) st1;
            st3 = upd_sess p (\<lambda>s. s\<lparr>ss_subscribedResources :=
                     smap_delete (KString (urp_uri params)) (ss_subscribedResources s)\<rparr>) st2
        in cancel_ctx c ErrCanceled (sendResult p msgID (Inr JNull) out st3))"

subsection \<open>Notifications, results, logging\<close>

definition handleNotificationsInitialized :: "nat \<Rightarrow> srv \<Rightarrow> srv" where
  "handleNotificationsInitialized p st = upd_sess p (\<lambda>s. s\<lparr>ss_initialized := True\<rparr>) st"

text \<open>
  The lookup uses the \<^verbatim>\<open>string\<close> request id. A hit is a \<^verbatim>\<open>*request\<close>, so the assertion to
  \<^verbatim>\<open>request\<close> yields the zero struct, whose nil \<^verbatim>\<open>cancel\<close> is called.
\<close>

definition handleNotificationsCancelled :: "nat \<Rightarrow> notificationsCancelledParams \<Rightarrow> srv \<Rightarrow> srv" where
  "handleNotificationsCancelled p params st =
     (case smap_load (ss_clientRequests (sess_at st p)) (KString (ncp_requestID params)) of
        None \<Rightarrow> st
      | Some r \<Rightarrow> panic NilDereference
          (logError (ErrNew (''cancelled request '' @ ncp_requestID params @ '': '' @ ncp_reason params)) st))"

definition handleResult :: "nat \<Rightarrow> nat \<Rightarrow> JSONRPCMessage \<Rightarrow> srv \<Rightarrow> srv" where
  "handleResult g p msg st =
     (case smap_load (ss_serverRequests (sess_at st p)) (KString (msg_id msg)) of
        None \<Rightarrow> set_task g GDone st
      | Some ch \<Rightarrow> set_task g (GDeliver ch msg) st)"

definition handleLoggingSetLevel :: "nat \<Rightarrow> MustString \<Rightarrow> LogParams \<Rightarrow> go_error option \<Rightarrow> srv \<Rightarrow> srv" where
  "handleLoggingSetLevel p msgID params out st =
     (if \<not> ss_initialized (sess_at st p) then st
      else sendResult p msgID (Inr JNull) out (user_effect (USetLogLevel (lp_level params)) st))"

section \<open>Sessions and dispatch\<close>

text \<open>\<^verbatim>\<open>startSession\<close>: a child context, a new session in the map, the \<^verbatim>\<open>listen\<close> and ping loops.\<close>

definition startSession :: "server \<Rightarrow> nat \<Rightarrow> string \<Rightarrow> srv \<Rightarrow> srv" where
  "startSession s ctx sessID st =
     (let (st1, c) = new_ctx (Some ctx) st;
          p = length (sr_heap st1);
          sess = \<lparr>ss_id = sessID, ss_ctx = c, ss_writeTimeout = sv_writeTimeout s,
                  ss_readTimeout = sv_readTimeout s, ss_pingInterval = sv_pingInterval s,
                  ss_clientRequests = [], ss_serverRequests = [], ss_subscribedResources = [],
                  ss_initialized = False, ss_listening = True\<rparr>;
          st2 = st1\<lparr>sr_heap := sr_heap st1 @ [sess],
                    sr_sessions := smap_store (KString sessID) p (sr_sessions st1)\<rparr>
      in if 0 < sv_pingInterval s then spawn p GPings st2 else st2)"

definition errInvalidJSON :: go_error where "errInvalidJSON = ErrNew ''invalid json''"
definition errSessionNotFound :: go_error where "errSessionNotFound = ErrNew ''session not found''"

type_synonym dispatch = "srv \<Rightarrow> go_error option \<times> srv"

definition and_then :: "dispatch \<Rightarrow> dispatch \<Rightarrow> dispatch" where
  "and_then f g st = (case f st of (Some e, st') \<Rightarrow> (Some e, st') | (None, st') \<Rightarrow> g st')"

text \<open>Decode the parameters or fail with \<open>errInvalidJSON\<close>.\<close>

definition with_params :: "'a dec \<Rightarrow> 'a \<Rightarrow> JSONRPCMessage \<Rightarrow> ('a \<Rightarrow> srv \<Rightarrow> srv) \<Rightarrow> dispatch" where
  "with_params d z msg k st =
     (case unmarshal d z (msg_params msg) of
        Inl _ \<Rightarrow> (Some errInvalidJSON, st)
      | Inr params \<Rightarrow> (None, k params st))"

text \<open>A non-empty progress token is bound to the session.\<close>

definition bind_progress :: "nat \<Rightarrow> ParamsMeta \<Rightarrow> srv \<Rightarrow> srv" where
  "bind_progress p m st =
     (if meta_progressToken m = [] then st
      else st\<lparr>sr_progresses := smap_store (KMustString (meta_progressToken m)) (ss_id (sess_at st p))
                (sr_progresses st)\<rparr>)"

definition handleBasicMessages :: "server \<Rightarrow> nat \<Rightarrow> JSONRPCMessage \<Rightarrow> dispatch" where
  "handleBasicMessages s p msg st =
     (if msg_method msg = methodPing then (None, spawn p (GPing (msg_id msg)) st)
      else if msg_method msg = methodInitialize then
        with_params dec_initializeParams initializeParams_zero msg
          (\<lambda>params. spawn p (GInitialize (msg_id msg) params)) st
      else (None, st))"

definition handlePromptMessages :: "server \<Rightarrow> nat \<Rightarrow> JSONRPCMessage \<Rightarrow> dispatch" where
  "handlePromptMessages s p msg st =
     (if sv_promptServer s = None then (None, st)
      else if msg_method msg = MethodPromptsList then
        with_params dec_ListPromptsParams ListPromptsParams_zero msg
          (\<lambda>params st. spawn p (GHandler (handlePromptsList (msg_id msg) params (sv_promptServer s)))
             (bind_progress p (lpp_meta params) st)) st
      else if msg_method msg = MethodPromptsGet then
        with_params dec_GetPromptParams GetPromptParams_zero msg
          (\<lambda>params st. spawn p (GHandler (handlePromptsGet (msg_id msg) params (sv_promptServer s)))
             (bind_progress p (gpp_meta params) st)) st
      else (None, st))"

definition handleResourceMessages :: "server \<Rightarrow> nat \<Rightarrow> JSONRPCMessage \<Rightarrow> dispatch" where
  "handleResourceMessages s p msg st =
     (if sv_resourceServer s = None then (None, st)
      else if msg_method msg = MethodResourcesList then
        with_params dec_ListResourcesParams ListResourcesParams_zero msg
          (\<lambda>params st. spawn p (GHandler (handleResourcesList (msg_id msg) params (sv_resourceServer s)))
             (bind_progress p (lrp_meta params) st)) st
      else if msg_method msg = MethodResourcesRead then
        with_params dec_ReadResourceParams ReadResourceParams_zero msg
          (\<lambda>params st. spawn p (GHandler (handleResourcesRead (msg_id msg) params (sv_resourceServer s)))
             (bind_progress p (rrp_meta params) st)) st
      else if msg_method msg = MethodResourcesTemplatesList then
        with_params dec_ListResourceTemplatesParams ListResourceTemplatesParams_zero msg
          (\<lambda>params st. spawn p
               (GHandler (handleResourcesListTemplates (msg_id msg) params (sv_resourceServer s)))
             (bind_progress p (lrtp_meta params) st)) st
      else if msg_method msg = MethodResourcesSubscribe then
        with_params dec_SubscribeResourceParams SubscribeResourceParams_zero msg
          (\<lambda>params. spawn p (GSubscribe (msg_id msg) params)) st
      else if msg_method msg = MethodResourcesUnsubscribe then
        with_params dec_UnsubscribeResourceParams UnsubscribeResourceParams_zero msg
          (\<lambda>params. spawn p (GUnsubscribe (msg_id msg) params)) st
      else (None, st))"

definition handleToolMessages :: "server \<Rightarrow> nat \<Rightarrow> JSONRPCMessage \<Rightarrow> dispatch" where
  "handleToolMessages s p msg st =
     (if sv_toolServer s = None then (None, st)
      else if msg_method msg = MethodToolsList then
        with_params dec_ListToolsParams ListToolsParams_zero msg
          (\<lambda>params st. spawn p (GHandler (handleToolsList (msg_id msg) params (sv_toolServer s)))
             (bind_progress p (ltp_meta params) st)) st
      else if msg_method msg = MethodToolsCall then
        with_params dec_CallToolParams CallToolParams_zero msg
          (\<lambda>params st. spawn p (GHandler (handleToolsCall (msg_id msg) params (sv_toolServer s)))
             (bind_progress p (ctp_meta params) st)) st
      else (None, st))"

definition handleCompletionMessages :: "server \<Rightarrow> nat \<Rightarrow> JSONRPCMessage \<Rightarrow> dispatch" where
  "handleCompletionMessages s p msg st =
     (if msg_method msg \<noteq> MethodCompletionComplete then (None, st)
      else with_params dec_CompletesCompletionParams CompletesCompletionParams_zero msg
        (\<lambda>params st.
           if cref_type (ccp_ref params) = CompletionRefPrompt then
             spawn p (GHandler (handleCompletePrompt (msg_id msg) params (sv_promptServer s))) st
           else if cref_type (ccp_ref params) = CompletionRefResource then
             spawn p (GHandler (handleCompleteResource (msg_id msg) params (sv_resourceServer s))) st
           else st) st)"

definition handleNotificationMessages :: "server \<Rightarrow> nat \<Rightarrow> JSONRPCMessage \<Rightarrow> dispatch" where
  "handleNotificationMessages s p msg st =
     (if msg_method msg = methodNotificationsInitialized then (None, spawn p GInitialized st)
      else if msg_method msg = methodNotificationsCancelled then
        with_params dec_notificationsCancelledParams notificationsCancelledParams_zero msg
          (\<lambda>params. spawn p (GCancelled params)) st
      else if msg_method msg = methodNotificationsRootsListChanged then
        (None, if sv_rootsListWatcher s \<noteq> None then user_effect UOnRootsListChanged st else st)
      else (None, st))"

definition handleResultMessages :: "nat \<Rightarrow> JSONRPCMessage \<Rightarrow> srv \<Rightarrow> srv" where
  "handleResultMessages p msg st =
     (if msg_method msg \<noteq> [] then st else spawn p (GResult msg) st)"

definition handleLoggingMessages :: "server \<Rightarrow> nat \<Rightarrow> JSONRPCMessage \<Rightarrow> dispatch" where
  "handleLoggingMessages s p msg st =
     (if sv_logHandler s = None then (None, st)
      else if msg_method msg \<noteq> MethodLoggingSetLevel then (None, st)
      else with_params dec_LogParams LogParams_zero msg
        (\<lambda>params. spawn p (GSetLevel (msg_id msg) params)) st)"

definition handleMsg :: "server \<Rightarrow> string \<Rightarrow> JSONRPCMessage \<Rightarrow> dispatch" where
  "handleMsg s sessionID msg st =
     (if msg_jsonrpc msg \<noteq> JSONRPCVersion then (Some errInvalidJSON, st)
      else case smap_load (sr_sessions st) (KString sessionID) of
        None \<Rightarrow> (Some errSessionNotFound, st)
      | Some p \<Rightarrow>
          and_then (handleBasicMessages s p msg)
         (and_then (handlePromptMessages s p msg)
         (and_then (handleResourceMessages s p msg)
         (and_then (handleToolMessages s p msg)
         (and_then (handleCompletionMessages s p msg)
         (and_then (handleNotificationMessages s p msg)
         (and_then (\<lambda>st. (None, handleResultMessages p msg st))
           (handleLoggingMessages s p msg))))))) st)"

end
