(* ===== verification/ServerDispatch.thy ===== *)
theory ServerDispatch
  imports Server
begin

text \<open>
  Dispatch against a reference definition. \<^const>\<open>handleMsg\<close> runs eight handler groups one
  after the other, each looking at the method again; \<open>route\<close> is a single table from methods
  to actions. They are equal, so the groups do not interfere: a message has at most one
  effect, decided by its method and the configured components alone.
\<close>

datatype action =
    ANothing
  | ASpawn task MustString
  | AEffect user_effect

definition decoded :: "'a dec \<Rightarrow> 'a \<Rightarrow> JSONRPCMessage \<Rightarrow> ('a \<Rightarrow> action) \<Rightarrow> action res" where
  "decoded d z msg f = res_bind (unmarshal d z (msg_params msg)) (\<lambda>params. Inr (f params))"

text \<open>Method, whether the server has the component, and the action.\<close>

definition route_table :: "server \<Rightarrow> JSONRPCMessage \<Rightarrow> (string \<times> bool \<times> action res) list" where
  "route_table s msg =
     (let i = msg_id msg; ps = sv_promptServer s; rs = sv_resourceServer s; ts = sv_toolServer s in
      [(methodPing, True, Inr (ASpawn (GPing i) [])),
       (methodInitialize, True, decoded dec_initializeParams initializeParams_zero msg
          (\<lambda>q. ASpawn (GInitialize i q) [])),
       (MethodPromptsList, ps \<noteq> None, decoded dec_ListPromptsParams ListPromptsParams_zero msg
          (\<lambda>q. ASpawn (GHandler (handlePromptsList i q ps)) (meta_progressToken (lpp_meta q)))),
       (MethodPromptsGet, ps \<noteq> None, decoded dec_GetPromptParams GetPromptParams_zero msg
          (\<lambda>q. ASpawn (GHandler (handlePromptsGet i q ps)) (meta_progressToken (gpp_meta q)))),
       (MethodResourcesList, rs \<noteq> None, decoded dec_ListResourcesParams ListResourcesParams_zero msg
          (\<lambda>q. ASpawn (GHandler (handleResourcesList i q rs)) (meta_progressToken (lrp_meta q)))),
       (MethodResourcesRead, rs \<noteq> None, decoded dec_ReadResourceParams ReadResourceParams_zero msg
          (\<lambda>q. ASpawn (GHandler (handleResourcesRead i q rs)) (meta_progressToken (rrp_meta q)))),
       (MethodResourcesTemplatesList, rs \<noteq> None,
          decoded dec_ListResourceTemplatesParams ListResourceTemplatesParams_zero msg
          (\<lambda>q. ASpawn (GHandler (handleResourcesListTemplates i q rs)) (meta_progressToken (lrtp_meta q)))),
       (MethodResourcesSubscribe, rs \<noteq> None,
          decoded dec_SubscribeResourceParams SubscribeResourceParams_zero msg
          (\<lambda>q. ASpawn (GSubscribe i q) [])),
       (MethodResourcesUnsubscribe, rs \<noteq> None,
          decoded dec_UnsubscribeResourceParams UnsubscribeResourceParams_zero msg
          (\<lambda>q. ASpawn (GUnsubscribe i q) [])),
       (MethodToolsList, ts \<noteq> None, decoded dec_ListToolsParams ListToolsParams_zero msg
          (\<lambda>q. ASpawn (GHandler (handleToolsList i q ts)) (meta_progressToken (ltp_meta q)))),
       (MethodToolsCall, ts \<noteq> None, decoded dec_CallToolParams CallToolParams_zero msg
          (\<lambda>q. ASpawn (GHandler (handleToolsCall i q ts)) (meta_progressToken (ctp_meta q)))),
       (MethodCompletionComplete, True,
          decoded dec_CompletesCompletionParams CompletesCompletionParams_zero msg
          (\<lambda>q. if cref_type (ccp_ref q) = CompletionRefPrompt
               then ASpawn (GHandler (handleCompletePrompt i q ps)) []
               else if cref_type (ccp_ref q) = CompletionRefResource
               then ASpawn (GHandler (handleCompleteResource i q rs)) [] else ANothing)),
       (methodNotificationsInitialized, True, Inr (ASpawn GInitialized [])),
       (methodNotificationsCancelled, True,
          decoded dec_notificationsCancelledParams notificationsCancelledParams_zero msg
          (\<lambda>q. ASpawn (GCancelled q) [])),
       (methodNotificationsRootsListChanged, sv_rootsListWatcher s \<noteq> None,
          Inr (AEffect UOnRootsListChanged)),
       ([], True, Inr (ASpawn (GResult msg) [])),
       (MethodLoggingSetLevel, sv_logHandler s \<noteq> None, decoded dec_LogParams LogParams_zero msg
          (\<lambda>q. ASpawn (GSetLevel i q) []))])"

definition route :: "server \<Rightarrow> JSONRPCMessage \<Rightarrow> action res" where
  "route s msg =
     (case map_of (route_table s msg) (msg_method msg) of
        Some (True, r) \<Rightarrow> r
      | _ \<Rightarrow> Inr ANothing)"

definition perform :: "nat \<Rightarrow> action res \<Rightarrow> dispatch" where
  "perform p r st =
     (case r of
        Inl _ \<Rightarrow> (Some errInvalidJSON, st)
      | Inr ANothing \<Rightarrow> (None, st)
      | Inr (ASpawn t tok) \<Rightarrow> (None, spawn p t (bind_progress p \<lparr>meta_progressToken = tok\<rparr> st))
      | Inr (AEffect u) \<Rightarrow> (None, user_effect u st))"

lemmas group_defs =
  handleBasicMessages_def handlePromptMessages_def handleResourceMessages_def
  handleToolMessages_def handleCompletionMessages_def handleNotificationMessages_def
  handleResultMessages_def handleLoggingMessages_def and_then_def with_params_def

lemma bind_progress_empty [simp]: "bind_progress p \<lparr>meta_progressToken = []\<rparr> st = st"
  by (simp add: bind_progress_def)

lemma bind_progress_meta [simp]:
  "bind_progress p \<lparr>meta_progressToken = meta_progressToken m\<rparr> = bind_progress p m"
  by (simp add: bind_progress_def fun_eq_iff)

text \<open>The methods the dispatcher knows, and what is left.\<close>

definition known_methods :: "string list" where
  "known_methods =
     [methodPing, methodInitialize, MethodPromptsList, MethodPromptsGet, MethodResourcesList,
      MethodResourcesRead, MethodResourcesTemplatesList, MethodResourcesSubscribe,
      MethodResourcesUnsubscribe, MethodToolsList, MethodToolsCall, MethodCompletionComplete,
      methodNotificationsInitialized, methodNotificationsCancelled,
      methodNotificationsRootsListChanged, [], MethodLoggingSetLevel]"

lemma group_chain_route:
  fixes s p msg st
  shows
   "and_then (handleBasicMessages s p msg)
   (and_then (handlePromptMessages s p msg)
   (and_then (handleResourceMessages s p msg)
   (and_then (handleToolMessages s p msg)
   (and_then (handleCompletionMessages s p msg)
   (and_then (handleNotificationMessages s p msg)
   (and_then (\<lambda>st. (None, handleResultMessages p msg st))
     (handleLoggingMessages s p msg))))))) st = perform p (route s msg) st" (is "?chain = _")
proof (cases "msg_method msg \<in> set known_methods")
  case False
  then show ?thesis
    by (simp add: group_defs route_def route_table_def perform_def known_methods_def Let_def)
next
  case True
  note eval = group_defs route_def route_table_def perform_def method_defs decoded_def Let_def
  have step: "?chain = perform p (route s msg) st" if "msg_method msg = m" and "m \<in> set known_methods" for m
    using that unfolding known_methods_def list.set insert_iff
    by (elim disjE emptyE; simp add: eval split: sum.split)
  from True show ?thesis by (rule step [OF refl])
qed

lemma handleMsg_route:
  "handleMsg s sessionID msg st =
     (if msg_jsonrpc msg \<noteq> JSONRPCVersion then (Some errInvalidJSON, st)
      else case smap_load (sr_sessions st) (KString sessionID) of
        None \<Rightarrow> (Some errSessionNotFound, st)
      | Some p \<Rightarrow> perform p (route s msg) st)"
  by (simp add: handleMsg_def group_chain_route split: option.split)

end
