(* ===== verification/ServerRun.thy ===== *)
theory ServerRun
  imports ServerDispatch
begin

text \<open>
  The server as a state machine. An event is one thing that can happen next: the transport
  announces a session, ends one or delivers a message, the scheduler runs a goroutine to its
  next waiting point, user code returns or calls back, two goroutines meet on a channel, a
  timer fires, the server is stopped. \<open>exec_event\<close> is \<open>None\<close> when the event is not possible.
  Every interleaving of the program's goroutines at this granularity is a sequence of
  events; \<open>reach\<close> is the set of states such sequences lead to.
\<close>

datatype event =
    EContext
  | ETransportCancel nat
  | ESession nat string
  | EMessage string JSONRPCMessage
  | ERun nat "go_error option"
  | EReturn nat "go_error + json res" "go_error option"
  | ERequest nat JSONRPCMessage string "go_error option"
  | EDeadline nat
  | EReply nat nat
  | EGiveUp nat bool
  | EPingTick nat string "go_error option"
  | EListenDone nat
  | EStopSession nat
  | EUpdate listener notice
  | EProgress MustString "json res"
  | EBroadcast listener "go_error option"
  | EStop
  | ELoopExit
  | EZeroSession

section \<open>Steps\<close>

definition task_at :: "srv \<Rightarrow> nat \<Rightarrow> (nat \<times> task) option" where
  "task_at st g = (if g < length (sr_tasks st) then Some (sr_tasks st ! g) else None)"

definition sess_done :: "srv \<Rightarrow> nat \<Rightarrow> bool" where
  "sess_done st p \<longleftrightarrow> ctx_err (sr_ctxs st) (ss_ctx (sess_at st p)) \<noteq> None"

text \<open>A goroutine that is ready runs to its end or to its next waiting point.\<close>

definition run_task :: "server \<Rightarrow> nat \<Rightarrow> go_error option \<Rightarrow> srv \<Rightarrow> srv option" where
  "run_task s g out st =
     (case task_at st g of
        None \<Rightarrow> None
      | Some (p, t) \<Rightarrow>
         (case t of
            GPing i \<Rightarrow> Some (set_task g GDone (handlePing p i out st))
          | GInitialize i q \<Rightarrow>
              Some (set_task g GDone
                (handleInitialize p i q (sv_capabilities s) (sv_requiredClientCapabilities s)
                   (sv_info s) out st))
          | GHandler h \<Rightarrow> Some (handler_begin g p h st)
          | GSubscribe i q \<Rightarrow> Some (set_task g GDone (handleResourcesSubscribe p i q out st))
          | GUnsubscribe i q \<Rightarrow> Some (set_task g GDone (handleResourcesUnsubscribe p i q out st))
          | GSetLevel i q \<Rightarrow> Some (set_task g GDone (handleLoggingSetLevel p i q out st))
          | GInitialized \<Rightarrow> Some (set_task g GDone (handleNotificationsInitialized p st))
          | GCancelled q \<Rightarrow> Some (set_task g GDone (handleNotificationsCancelled p q st))
          | GResult m \<Rightarrow> Some (handleResult g p m st)
          | GPings \<Rightarrow> if sess_done st p then Some (set_task g GDone st) else None
          | _ \<Rightarrow> None))"

text \<open>User code calls its \<^verbatim>\<open>RequestClientFunc\<close>: on a send error it gets the error back at once.\<close>

definition user_request ::
    "nat \<Rightarrow> JSONRPCMessage \<Rightarrow> string \<Rightarrow> go_error option \<Rightarrow> srv \<Rightarrow> srv option" where
  "user_request g msg reqID out st =
     (case task_at st g of
        Some (p, GInCall h c) \<Rightarrow>
          (let (st1, ch, sctx) = sendRequest p msg reqID out st
           in Some (if out = None then set_task g (GAwait h c reqID ch sctx) st1 else st1))
      | _ \<Rightarrow> None)"

text \<open>\<^verbatim>\<open>session.ping\<close>.\<close>

definition ping_msg :: JSONRPCMessage where
  "ping_msg = JSONRPCMessage_zero\<lparr>msg_jsonrpc := JSONRPCVersion, msg_method := methodPing\<rparr>"

definition ping :: "nat \<Rightarrow> string \<Rightarrow> go_error option \<Rightarrow> srv \<Rightarrow> srv option" where
  "ping g reqID out st =
     (case task_at st g of
        Some (p, GPings) \<Rightarrow>
          (let (st1, ch, sctx) = sendRequest p ping_msg reqID out st
           in Some (case out of
                None \<Rightarrow> set_task g (GPingAwait reqID ch sctx) st1
              | Some e \<Rightarrow> logError (ErrWrap ''failed to send ping: %w'' [e]) st1))
      | _ \<Rightarrow> None)"

text \<open>The end of the wait in \<^verbatim>\<open>sendRequest\<close>: its deferred cancel, then the caller goes on.\<close>

definition reply :: "nat \<Rightarrow> nat \<Rightarrow> srv \<Rightarrow> srv option" where
  "reply g d st =
     (case (task_at st g, task_at st d) of
        (Some (p, GAwait h c reqID ch sctx), Some (q, GDeliver ch' msg)) \<Rightarrow>
          if ch = ch' then
            Some (set_task g (GInCall h c) (set_task d GDone (cancel_ctx sctx ErrCanceled
              (st\<lparr>sr_replies := sr_replies st @ [(p, reqID, msg)]\<rparr>))))
          else None
      | (Some (p, GPingAwait reqID ch sctx), Some (q, GDeliver ch' msg)) \<Rightarrow>
          if ch = ch' then
            let st1 = set_task g GPings (set_task d GDone (cancel_ctx sctx ErrCanceled
                        (st\<lparr>sr_replies := sr_replies st @ [(p, reqID, msg)]\<rparr>)))
            in Some (case msg_error msg of
                 None \<Rightarrow> st1
               | Some e \<Rightarrow> logError (ErrWrap ''error response: %w'' [rpc_error e]) st1)
          else None
      | _ \<Rightarrow> None)"

definition errRequestTimeout :: go_error where
  "errRequestTimeout = ErrNew ''request timeout''"

text \<open>\<open>tick\<close>: the read ticker fired; otherwise the send context is done.\<close>

definition give_up :: "nat \<Rightarrow> bool \<Rightarrow> srv \<Rightarrow> srv option" where
  "give_up g tick st =
     (case task_at st g of
        Some (p, GAwait h c reqID ch sctx) \<Rightarrow>
          if tick then Some (set_task g (GInCall h c) (cancel_ctx sctx ErrCanceled
                         (logError errRequestTimeout st)))
          else if ctx_err (sr_ctxs st) sctx \<noteq> None then Some (set_task g (GInCall h c) st)
          else None
      | Some (p, GPingAwait reqID ch sctx) \<Rightarrow>
          if tick then Some (set_task g GPings (logError (ErrWrap ''failed to send ping: %w'' [errRequestTimeout])
                         (cancel_ctx sctx ErrCanceled (logError errRequestTimeout st))))
          else (case ctx_err (sr_ctxs st) sctx of
                  Some e \<Rightarrow> Some (set_task g GPings (logError (ErrWrap ''failed to send ping: %w'' [e]) st))
                | None \<Rightarrow> None)
      | _ \<Rightarrow> None)"

definition deadline :: "nat \<Rightarrow> srv \<Rightarrow> srv option" where
  "deadline g st =
     (case task_at st g of
        Some (p, GAwait h c reqID ch sctx) \<Rightarrow> Some (cancel_ctx sctx ErrDeadlineExceeded st)
      | Some (p, GPingAwait reqID ch sctx) \<Rightarrow> Some (cancel_ctx sctx ErrDeadlineExceeded st)
      | _ \<Rightarrow> None)"

text \<open>\<^verbatim>\<open>session.listen\<close>: one case of its \<^verbatim>\<open>select\<close> per notice.\<close>

definition listen :: "nat \<Rightarrow> notice \<Rightarrow> go_error option \<Rightarrow> srv \<Rightarrow> srv" where
  "listen p n out st =
     (case n of
        NPrompts \<Rightarrow> sendNotification p methodNotificationsPromptsListChanged (Inr JNull) out st
      | NResources \<Rightarrow> sendNotification p methodNotificationsResourcesListChanged (Inr JNull) out st
      | NSubscribed uri \<Rightarrow>
          if smap_load (ss_subscribedResources (sess_at st p)) (KString uri) = None then st
          else sendNotification p methodNotificationsResourcesUpdated
                 (Inr (enc_notificationsResourcesUpdatedParams \<lparr>nrup_uri = uri\<rparr>)) out st
      | NTools \<Rightarrow> sendNotification p methodNotificationsToolsListChanged (Inr JNull) out st
      | NLog params \<Rightarrow> sendNotification p methodNotificationsMessage params out st
      | NProgress params \<Rightarrow> sendNotification p methodNotificationsProgress params out st)"

definition listen_done :: "nat \<Rightarrow> srv \<Rightarrow> srv option" where
  "listen_done p st =
     (if p < length (sr_heap st) \<and> ss_listening (sess_at st p) \<and> sess_done st p
      then Some (spawn p GStopping (upd_sess p (\<lambda>s. s\<lparr>ss_listening := False\<rparr>) st))
      else None)"

text \<open>The broadcasters: receive an update, then offer it to the sessions one after the other.\<close>

fun listener_notice :: "listener \<Rightarrow> notice \<Rightarrow> bool" where
  "listener_notice LPromptsList NPrompts = True"
| "listener_notice LResourcesList NResources = True"
| "listener_notice LResourcesSubscribe (NSubscribed uri) = True"
| "listener_notice LToolsList NTools = True"
| "listener_notice LLog (NLog params) = True"
| "listener_notice _ _ = False"

definition update :: "server \<Rightarrow> listener \<Rightarrow> notice \<Rightarrow> srv \<Rightarrow> srv option" where
  "update s l n st =
     (if l \<in> set (start_listeners s) \<and> listener_notice l n \<and> smap_load (sr_bcasts st) l = None
      then Some (st\<lparr>sr_bcasts := smap_store l (n, map snd (smap_range (sr_sessions st))) (sr_bcasts st)\<rparr>)
      else None)"

definition listenProgress :: "server \<Rightarrow> MustString \<Rightarrow> json res \<Rightarrow> srv \<Rightarrow> srv option" where
  "listenProgress s tok params st =
     (if LProgress \<in> set (start_listeners s) \<and> smap_load (sr_bcasts st) LProgress = None
      then Some (case smap_load (sr_progresses st) (KMustString tok) of
             None \<Rightarrow> st
           | Some sessID \<Rightarrow>
               (case smap_load (sr_sessions st) (KString sessID) of
                  None \<Rightarrow> st
                | Some p \<Rightarrow> st\<lparr>sr_bcasts := smap_store LProgress (NProgress params, [p]) (sr_bcasts st)\<rparr>))
      else None)"

definition broadcast :: "listener \<Rightarrow> go_error option \<Rightarrow> srv \<Rightarrow> srv option" where
  "broadcast l out st =
     (case smap_load (sr_bcasts st) l of
        None \<Rightarrow> None
      | Some (n, []) \<Rightarrow> Some (st\<lparr>sr_bcasts := smap_delete l (sr_bcasts st)\<rparr>)
      | Some (n, p # ps) \<Rightarrow>
          if ss_listening (sess_at st p)
          then Some (listen p n out (st\<lparr>sr_bcasts := smap_store l (n, ps) (sr_bcasts st)\<rparr>))
          else None)"

text \<open>\<^verbatim>\<open>server.stop\<close>.\<close>

definition stop :: "srv \<Rightarrow> srv" where
  "stop st =
     st\<lparr>sr_ctxs := fold (\<lambda>c. ctx_cancel c ErrCanceled)
          (map (\<lambda>(k, p). ss_ctx (sess_at st p)) (smap_range (sr_sessions st))) (sr_ctxs st),
        sr_errsClosed := True, sr_closed := True\<rparr>"

text \<open>
  \<open>EZeroSession\<close> is a receive from the session channel after \<^verbatim>\<open>SSEServer.Close\<close> has closed it: the
  zero \<^verbatim>\<open>SessionCtx\<close> has a nil context, and \<^verbatim>\<open>context.WithCancel(nil)\<close> panics. (A receive from the
  closed message channel ends the loop: it blocks on the nil error channel. \<open>ELoopExit\<close>
  covers it.)

  What the environment is held to: a request id from \<^verbatim>\<open>uuid.New\<close> is not already in use by the
  session, a request made by user code names a method, and the transport derives a session's
  context from one of its own.
\<close>

definition uuid_fresh :: "srv \<Rightarrow> nat \<Rightarrow> string \<Rightarrow> bool" where
  "uuid_fresh st g reqID =
     (case task_at st g of
        None \<Rightarrow> False
      | Some (p, t) \<Rightarrow> smap_load (ss_serverRequests (sess_at st p)) (KString reqID) = None)"

definition guarded :: "bool \<Rightarrow> srv option \<Rightarrow> srv option" where
  "guarded b r = (if b then r else None)"

fun exec_event :: "server \<Rightarrow> event \<Rightarrow> srv \<Rightarrow> srv option" where
  "exec_event s EContext st = Some (fst (new_ctx None st))"
| "exec_event s (ETransportCancel c) st =
     guarded (c < length (sr_ctxs st)) (Some (cancel_ctx c ErrCanceled st))"
| "exec_event s (ESession c i) st =
     guarded (sr_loop st \<and> c < length (sr_ctxs st)) (Some (startSession s c i st))"
| "exec_event s (EMessage i msg) st =
     guarded (sr_loop st)
       (Some (snd (handleMsg s i msg (st\<lparr>sr_received := sr_received st @ [(i, msg)]\<rparr>))))"
| "exec_event s (ERun g out) st = run_task s g out st"
| "exec_event s (EReturn g res out) st =
     (case task_at st g of
        Some (p, GInCall h c) \<Rightarrow> Some (handler_return g p h c res out st)
      | _ \<Rightarrow> None)"
| "exec_event s (ERequest g msg reqID out) st =
     guarded (uuid_fresh st g reqID \<and> msg_method msg \<noteq> []) (user_request g msg reqID out st)"
| "exec_event s (EDeadline g) st = deadline g st"
| "exec_event s (EReply g d) st = reply g d st"
| "exec_event s (EGiveUp g tick) st = give_up g tick st"
| "exec_event s (EPingTick g reqID out) st =
     guarded (uuid_fresh st g reqID) (ping g reqID out st)"
| "exec_event s (EListenDone p) st = listen_done p st"
| "exec_event s (EStopSession g) st =
     (case task_at st g of
        Some (p, GStopping) \<Rightarrow>
          guarded (sr_loop st)
            (Some (set_task g GDone
               (st\<lparr>sr_sessions := smap_delete (KString (ss_id (sess_at st p))) (sr_sessions st)\<rparr>)))
      | _ \<Rightarrow> None)"
| "exec_event s (EUpdate l n) st = update s l n st"
| "exec_event s (EProgress tok params) st = listenProgress s tok params st"
| "exec_event s (EBroadcast l out) st = broadcast l out st"
| "exec_event s EStop st = guarded (\<not> sr_closed st) (Some (stop st))"
| "exec_event s ELoopExit st = guarded (sr_closed st) (Some (st\<lparr>sr_loop := False\<rparr>))"
| "exec_event s EZeroSession st =
     guarded (sr_closed st \<and> sr_loop st \<and> sv_transport s = TransportSSE)
       (Some (panic NilContextParent st))"

definition step :: "server \<Rightarrow> event \<Rightarrow> srv \<Rightarrow> srv option" where
  "step s e st = (if sr_panic st = None then exec_event s e st else None)"

inductive reach :: "server \<Rightarrow> srv \<Rightarrow> bool" for s where
  reach_init: "reach s srv_init"
| reach_step: "reach s st \<Longrightarrow> step s e st = Some st' \<Longrightarrow> reach s st'"

fun run :: "server \<Rightarrow> event list \<Rightarrow> srv \<Rightarrow> srv option" where
  "run s [] st = Some st"
| "run s (e # es) st = (case step s e st of None \<Rightarrow> None | Some st' \<Rightarrow> run s es st')"

lemma run_reach: "reach s st \<Longrightarrow> run s es st = Some st' \<Longrightarrow> reach s st'"
proof (induction es arbitrary: st)
  case Nil
  then show ?case by simp
next
  case (Cons e es)
  then obtain st1 where st1: "step s e st = Some st1" and rest: "run s es st1 = Some st'"
    by (auto split: option.splits)
  from Cons.prems(1) st1 have "reach s st1" by (rule reach_step)
  then show ?case using rest by (rule Cons.IH)
qed

lemma run_append: "run s (xs @ ys) st = Option.bind (run s xs st) (run s ys)"
  by (induction xs arbitrary: st) (simp_all split: option.split)

end
