(* ===== verification/ServerInv.thy ===== *)
theory ServerInv
  imports ServerRun
begin

text \<open>
  What every reachable state of the server satisfies. First the frames: which fields an
  operation leaves alone. Then the structural invariant \<open>srv_inv\<close> (pointers, contexts,
  request tables, channels) with one preservation lemma per operation, and its consequence
  for every reachable state.
\<close>

section \<open>Frames\<close>

text \<open>The operations that talk to the outside leave the server's own state alone.\<close>

lemma panic_frame [simp]:
  "sr_heap (panic x st) = sr_heap st"
  "sr_sessions (panic x st) = sr_sessions st"
  "sr_progresses (panic x st) = sr_progresses st"
  "sr_ctxs (panic x st) = sr_ctxs st"
  "sr_tasks (panic x st) = sr_tasks st"
  "sr_bcasts (panic x st) = sr_bcasts st"
  "sr_nchan (panic x st) = sr_nchan st"
  "sr_received (panic x st) = sr_received st"
  "sr_replies (panic x st) = sr_replies st"
  "sr_errsClosed (panic x st) = sr_errsClosed st"
  "sr_closed (panic x st) = sr_closed st"
  "sr_loop (panic x st) = sr_loop st"
  by (simp_all add: panic_def)

lemma logError_frame [simp]:
  "sr_heap (logError e st) = sr_heap st"
  "sr_sessions (logError e st) = sr_sessions st"
  "sr_progresses (logError e st) = sr_progresses st"
  "sr_ctxs (logError e st) = sr_ctxs st"
  "sr_tasks (logError e st) = sr_tasks st"
  "sr_bcasts (logError e st) = sr_bcasts st"
  "sr_nchan (logError e st) = sr_nchan st"
  "sr_received (logError e st) = sr_received st"
  "sr_replies (logError e st) = sr_replies st"
  "sr_errsClosed (logError e st) = sr_errsClosed st"
  "sr_closed (logError e st) = sr_closed st"
  "sr_loop (logError e st) = sr_loop st"
  by (simp_all add: logError_def)

lemma transport_send_frame [simp]:
  "sr_heap (transport_send p msg out st) = sr_heap st"
  "sr_sessions (transport_send p msg out st) = sr_sessions st"
  "sr_progresses (transport_send p msg out st) = sr_progresses st"
  "sr_ctxs (transport_send p msg out st) = sr_ctxs st"
  "sr_tasks (transport_send p msg out st) = sr_tasks st"
  "sr_bcasts (transport_send p msg out st) = sr_bcasts st"
  "sr_nchan (transport_send p msg out st) = sr_nchan st"
  "sr_received (transport_send p msg out st) = sr_received st"
  "sr_replies (transport_send p msg out st) = sr_replies st"
  "sr_errsClosed (transport_send p msg out st) = sr_errsClosed st"
  "sr_closed (transport_send p msg out st) = sr_closed st"
  "sr_loop (transport_send p msg out st) = sr_loop st"
  by (simp_all add: transport_send_def)

lemma log_failure_frame [simp]:
  "sr_heap (log_failure fmt out st) = sr_heap st"
  "sr_sessions (log_failure fmt out st) = sr_sessions st"
  "sr_progresses (log_failure fmt out st) = sr_progresses st"
  "sr_ctxs (log_failure fmt out st) = sr_ctxs st"
  "sr_tasks (log_failure fmt out st) = sr_tasks st"
  "sr_bcasts (log_failure fmt out st) = sr_bcasts st"
  "sr_nchan (log_failure fmt out st) = sr_nchan st"
  "sr_received (log_failure fmt out st) = sr_received st"
  "sr_replies (log_failure fmt out st) = sr_replies st"
  "sr_errsClosed (log_failure fmt out st) = sr_errsClosed st"
  "sr_closed (log_failure fmt out st) = sr_closed st"
  "sr_loop (log_failure fmt out st) = sr_loop st"
  by (simp_all add: log_failure_def split: option.split)

lemma sendNotification_frame [simp]:
  "sr_heap (sendNotification p meth params out st) = sr_heap st"
  "sr_sessions (sendNotification p meth params out st) = sr_sessions st"
  "sr_progresses (sendNotification p meth params out st) = sr_progresses st"
  "sr_ctxs (sendNotification p meth params out st) = sr_ctxs st"
  "sr_tasks (sendNotification p meth params out st) = sr_tasks st"
  "sr_bcasts (sendNotification p meth params out st) = sr_bcasts st"
  "sr_nchan (sendNotification p meth params out st) = sr_nchan st"
  "sr_received (sendNotification p meth params out st) = sr_received st"
  "sr_replies (sendNotification p meth params out st) = sr_replies st"
  "sr_errsClosed (sendNotification p meth params out st) = sr_errsClosed st"
  "sr_closed (sendNotification p meth params out st) = sr_closed st"
  "sr_loop (sendNotification p meth params out st) = sr_loop st"
  by (simp_all add: sendNotification_def split: sum.split)

lemma sendResult_frame [simp]:
  "sr_heap (sendResult p i result out st) = sr_heap st"
  "sr_sessions (sendResult p i result out st) = sr_sessions st"
  "sr_progresses (sendResult p i result out st) = sr_progresses st"
  "sr_ctxs (sendResult p i result out st) = sr_ctxs st"
  "sr_tasks (sendResult p i result out st) = sr_tasks st"
  "sr_bcasts (sendResult p i result out st) = sr_bcasts st"
  "sr_nchan (sendResult p i result out st) = sr_nchan st"
  "sr_received (sendResult p i result out st) = sr_received st"
  "sr_replies (sendResult p i result out st) = sr_replies st"
  "sr_errsClosed (sendResult p i result out st) = sr_errsClosed st"
  "sr_closed (sendResult p i result out st) = sr_closed st"
  "sr_loop (sendResult p i result out st) = sr_loop st"
  by (simp_all add: sendResult_def split: sum.split)

lemma sendError_frame [simp]:
  "sr_heap (sendError p i err out st) = sr_heap st"
  "sr_sessions (sendError p i err out st) = sr_sessions st"
  "sr_progresses (sendError p i err out st) = sr_progresses st"
  "sr_ctxs (sendError p i err out st) = sr_ctxs st"
  "sr_tasks (sendError p i err out st) = sr_tasks st"
  "sr_bcasts (sendError p i err out st) = sr_bcasts st"
  "sr_nchan (sendError p i err out st) = sr_nchan st"
  "sr_received (sendError p i err out st) = sr_received st"
  "sr_replies (sendError p i err out st) = sr_replies st"
  "sr_errsClosed (sendError p i err out st) = sr_errsClosed st"
  "sr_closed (sendError p i err out st) = sr_closed st"
  "sr_loop (sendError p i err out st) = sr_loop st"
  by (simp_all add: sendError_def)

lemma user_effect_frame [simp]:
  "sr_heap (user_effect u st) = sr_heap st"
  "sr_sessions (user_effect u st) = sr_sessions st"
  "sr_progresses (user_effect u st) = sr_progresses st"
  "sr_ctxs (user_effect u st) = sr_ctxs st"
  "sr_tasks (user_effect u st) = sr_tasks st"
  "sr_bcasts (user_effect u st) = sr_bcasts st"
  "sr_nchan (user_effect u st) = sr_nchan st"
  "sr_received (user_effect u st) = sr_received st"
  "sr_replies (user_effect u st) = sr_replies st"
  "sr_errsClosed (user_effect u st) = sr_errsClosed st"
  "sr_closed (user_effect u st) = sr_closed st"
  "sr_loop (user_effect u st) = sr_loop st"
  by (simp_all add: user_effect_def)

lemma handlePing_frame [simp]:
  "sr_heap (handlePing p i out st) = sr_heap st"
  "sr_sessions (handlePing p i out st) = sr_sessions st"
  "sr_progresses (handlePing p i out st) = sr_progresses st"
  "sr_ctxs (handlePing p i out st) = sr_ctxs st"
  "sr_tasks (handlePing p i out st) = sr_tasks st"
  "sr_bcasts (handlePing p i out st) = sr_bcasts st"
  "sr_nchan (handlePing p i out st) = sr_nchan st"
  "sr_received (handlePing p i out st) = sr_received st"
  "sr_replies (handlePing p i out st) = sr_replies st"
  "sr_errsClosed (handlePing p i out st) = sr_errsClosed st"
  "sr_closed (handlePing p i out st) = sr_closed st"
  "sr_loop (handlePing p i out st) = sr_loop st"
  by (simp_all add: handlePing_def)

lemma handleInitialize_frame [simp]:
  "sr_heap (handleInitialize p i q sc rc info out st) = sr_heap st"
  "sr_sessions (handleInitialize p i q sc rc info out st) = sr_sessions st"
  "sr_progresses (handleInitialize p i q sc rc info out st) = sr_progresses st"
  "sr_ctxs (handleInitialize p i q sc rc info out st) = sr_ctxs st"
  "sr_tasks (handleInitialize p i q sc rc info out st) = sr_tasks st"
  "sr_bcasts (handleInitialize p i q sc rc info out st) = sr_bcasts st"
  "sr_nchan (handleInitialize p i q sc rc info out st) = sr_nchan st"
  "sr_received (handleInitialize p i q sc rc info out st) = sr_received st"
  "sr_replies (handleInitialize p i q sc rc info out st) = sr_replies st"
  "sr_errsClosed (handleInitialize p i q sc rc info out st) = sr_errsClosed st"
  "sr_closed (handleInitialize p i q sc rc info out st) = sr_closed st"
  "sr_loop (handleInitialize p i q sc rc info out st) = sr_loop st"
  by (simp_all add: handleInitialize_def Let_def)

lemma listen_frame [simp]:
  "sr_heap (listen p n out st) = sr_heap st"
  "sr_sessions (listen p n out st) = sr_sessions st"
  "sr_progresses (listen p n out st) = sr_progresses st"
  "sr_ctxs (listen p n out st) = sr_ctxs st"
  "sr_tasks (listen p n out st) = sr_tasks st"
  "sr_bcasts (listen p n out st) = sr_bcasts st"
  "sr_nchan (listen p n out st) = sr_nchan st"
  "sr_received (listen p n out st) = sr_received st"
  "sr_replies (listen p n out st) = sr_replies st"
  "sr_errsClosed (listen p n out st) = sr_errsClosed st"
  "sr_closed (listen p n out st) = sr_closed st"
  "sr_loop (listen p n out st) = sr_loop st"
  by (simp_all add: listen_def split: notice.split)

lemma handleLoggingSetLevel_frame [simp]:
  "sr_heap (handleLoggingSetLevel p i q out st) = sr_heap st"
  "sr_sessions (handleLoggingSetLevel p i q out st) = sr_sessions st"
  "sr_progresses (handleLoggingSetLevel p i q out st) = sr_progresses st"
  "sr_ctxs (handleLoggingSetLevel p i q out st) = sr_ctxs st"
  "sr_tasks (handleLoggingSetLevel p i q out st) = sr_tasks st"
  "sr_bcasts (handleLoggingSetLevel p i q out st) = sr_bcasts st"
  "sr_nchan (handleLoggingSetLevel p i q out st) = sr_nchan st"
  "sr_received (handleLoggingSetLevel p i q out st) = sr_received st"
  "sr_replies (handleLoggingSetLevel p i q out st) = sr_replies st"
  "sr_errsClosed (handleLoggingSetLevel p i q out st) = sr_errsClosed st"
  "sr_closed (handleLoggingSetLevel p i q out st) = sr_closed st"
  "sr_loop (handleLoggingSetLevel p i q out st) = sr_loop st"
  by (simp_all add: handleLoggingSetLevel_def)

text \<open>The operations on the server's own state.\<close>

lemma upd_sess_frame [simp]:
  "sr_sessions (upd_sess p f st) = sr_sessions st"
  "sr_progresses (upd_sess p f st) = sr_progresses st"
  "sr_ctxs (upd_sess p f st) = sr_ctxs st"
  "sr_tasks (upd_sess p f st) = sr_tasks st"
  "sr_bcasts (upd_sess p f st) = sr_bcasts st"
  "sr_nchan (upd_sess p f st) = sr_nchan st"
  "sr_received (upd_sess p f st) = sr_received st"
  "sr_replies (upd_sess p f st) = sr_replies st"
  "sr_errsClosed (upd_sess p f st) = sr_errsClosed st"
  "sr_closed (upd_sess p f st) = sr_closed st"
  "sr_loop (upd_sess p f st) = sr_loop st"
  "sr_sent (upd_sess p f st) = sr_sent st"
  "sr_panic (upd_sess p f st) = sr_panic st"
  by (simp_all add: upd_sess_def)

lemma spawn_frame [simp]:
  "sr_heap (spawn p t st) = sr_heap st"
  "sr_sessions (spawn p t st) = sr_sessions st"
  "sr_progresses (spawn p t st) = sr_progresses st"
  "sr_ctxs (spawn p t st) = sr_ctxs st"
  "sr_bcasts (spawn p t st) = sr_bcasts st"
  "sr_nchan (spawn p t st) = sr_nchan st"
  "sr_received (spawn p t st) = sr_received st"
  "sr_replies (spawn p t st) = sr_replies st"
  "sr_errsClosed (spawn p t st) = sr_errsClosed st"
  "sr_closed (spawn p t st) = sr_closed st"
  "sr_loop (spawn p t st) = sr_loop st"
  "sr_sent (spawn p t st) = sr_sent st"
  "sr_panic (spawn p t st) = sr_panic st"
  by (simp_all add: spawn_def)

lemma set_task_frame [simp]:
  "sr_heap (set_task g t st) = sr_heap st"
  "sr_sessions (set_task g t st) = sr_sessions st"
  "sr_progresses (set_task g t st) = sr_progresses st"
  "sr_ctxs (set_task g t st) = sr_ctxs st"
  "sr_bcasts (set_task g t st) = sr_bcasts st"
  "sr_nchan (set_task g t st) = sr_nchan st"
  "sr_received (set_task g t st) = sr_received st"
  "sr_replies (set_task g t st) = sr_replies st"
  "sr_errsClosed (set_task g t st) = sr_errsClosed st"
  "sr_closed (set_task g t st) = sr_closed st"
  "sr_loop (set_task g t st) = sr_loop st"
  "sr_sent (set_task g t st) = sr_sent st"
  "sr_panic (set_task g t st) = sr_panic st"
  by (simp_all add: set_task_def)

lemma cancel_ctx_frame [simp]:
  "sr_heap (cancel_ctx c e st) = sr_heap st"
  "sr_sessions (cancel_ctx c e st) = sr_sessions st"
  "sr_progresses (cancel_ctx c e st) = sr_progresses st"
  "sr_tasks (cancel_ctx c e st) = sr_tasks st"
  "sr_bcasts (cancel_ctx c e st) = sr_bcasts st"
  "sr_nchan (cancel_ctx c e st) = sr_nchan st"
  "sr_received (cancel_ctx c e st) = sr_received st"
  "sr_replies (cancel_ctx c e st) = sr_replies st"
  "sr_errsClosed (cancel_ctx c e st) = sr_errsClosed st"
  "sr_closed (cancel_ctx c e st) = sr_closed st"
  "sr_loop (cancel_ctx c e st) = sr_loop st"
  "sr_sent (cancel_ctx c e st) = sr_sent st"
  "sr_panic (cancel_ctx c e st) = sr_panic st"
  by (simp_all add: cancel_ctx_def)

lemma new_ctx_frame [simp]:
  "sr_heap (fst (new_ctx pc st)) = sr_heap st"
  "sr_sessions (fst (new_ctx pc st)) = sr_sessions st"
  "sr_progresses (fst (new_ctx pc st)) = sr_progresses st"
  "sr_tasks (fst (new_ctx pc st)) = sr_tasks st"
  "sr_bcasts (fst (new_ctx pc st)) = sr_bcasts st"
  "sr_nchan (fst (new_ctx pc st)) = sr_nchan st"
  "sr_received (fst (new_ctx pc st)) = sr_received st"
  "sr_replies (fst (new_ctx pc st)) = sr_replies st"
  "sr_errsClosed (fst (new_ctx pc st)) = sr_errsClosed st"
  "sr_closed (fst (new_ctx pc st)) = sr_closed st"
  "sr_loop (fst (new_ctx pc st)) = sr_loop st"
  "sr_sent (fst (new_ctx pc st)) = sr_sent st"
  "sr_panic (fst (new_ctx pc st)) = sr_panic st"
  by (simp_all add: new_ctx_def ctx_derive_def)

lemma bind_progress_frame [simp]:
  "sr_heap (bind_progress p m st) = sr_heap st"
  "sr_sessions (bind_progress p m st) = sr_sessions st"
  "sr_ctxs (bind_progress p m st) = sr_ctxs st"
  "sr_tasks (bind_progress p m st) = sr_tasks st"
  "sr_bcasts (bind_progress p m st) = sr_bcasts st"
  "sr_nchan (bind_progress p m st) = sr_nchan st"
  "sr_received (bind_progress p m st) = sr_received st"
  "sr_replies (bind_progress p m st) = sr_replies st"
  "sr_errsClosed (bind_progress p m st) = sr_errsClosed st"
  "sr_closed (bind_progress p m st) = sr_closed st"
  "sr_loop (bind_progress p m st) = sr_loop st"
  "sr_sent (bind_progress p m st) = sr_sent st"
  "sr_panic (bind_progress p m st) = sr_panic st"
  by (simp_all add: bind_progress_def)

lemma op_effects [simp]:
  "sr_heap (upd_sess p f st) = (sr_heap st)[p := f (sr_heap st ! p)]"
  "sr_tasks (spawn p t st) = sr_tasks st @ [(p, t)]"
  "sr_tasks (set_task g t st) = (sr_tasks st)[g := (fst (sr_tasks st ! g), t)]"
  "sr_ctxs (cancel_ctx c e st) = ctx_cancel c e (sr_ctxs st)"
  "sr_ctxs (fst (new_ctx pc st)) = fst (ctx_derive pc (sr_ctxs st))"
  "snd (new_ctx pc st) = length (sr_ctxs st)"
  by (simp_all add: upd_sess_def spawn_def set_task_def cancel_ctx_def new_ctx_def ctx_derive_def)

section \<open>The structural invariant\<close>

text \<open>
  A goroutine holds a pointer to an existing session. One that is inside user code runs on an
  initialized session, with a context below the session's; one that waits for a reply waits
  on the channel registered under its request id; one that delivers a reply delivers it to
  the channel registered under the id of the message it received.
\<close>

definition received_as :: "srv \<Rightarrow> nat \<Rightarrow> string \<Rightarrow> bool" where
  "received_as st p meth \<longleftrightarrow>
     (\<exists>m. (ss_id (sess_at st p), m) \<in> set (sr_received st) \<and> msg_method m = meth)"

definition in_call_ok :: "srv \<Rightarrow> nat \<Rightarrow> nat \<Rightarrow> bool" where
  "in_call_ok st p c \<longleftrightarrow>
     ss_initialized (sess_at st p) \<and> c < length (sr_ctxs st) \<and>
     ctx_below (sr_ctxs st) (ss_ctx (sess_at st p)) c"

definition awaits_ok :: "srv \<Rightarrow> nat \<Rightarrow> string \<Rightarrow> nat \<Rightarrow> bool" where
  "awaits_ok st p reqID ch \<longleftrightarrow>
     smap_load (ss_serverRequests (sess_at st p)) (KString reqID) = Some ch"

definition is_response :: "srv \<Rightarrow> nat \<Rightarrow> JSONRPCMessage \<Rightarrow> bool" where
  "is_response st p m \<longleftrightarrow> (ss_id (sess_at st p), m) \<in> set (sr_received st) \<and> msg_method m = []"

definition handler_ok :: "server \<Rightarrow> handler \<Rightarrow> bool" where
  "handler_ok s h \<longleftrightarrow> (h_server h = None \<longrightarrow> sv_promptServer s = None \<or> sv_resourceServer s = None)"

fun task_ok :: "server \<Rightarrow> srv \<Rightarrow> nat \<times> task \<Rightarrow> bool" where
  "task_ok s st (p, t) =
     (p < length (sr_heap st) \<and>
      (case t of
         GHandler h \<Rightarrow> handler_ok s h
       | GInCall h c \<Rightarrow> in_call_ok st p c
       | GAwait h c reqID ch sctx \<Rightarrow> in_call_ok st p c \<and> awaits_ok st p reqID ch
       | GPingAwait reqID ch sctx \<Rightarrow> awaits_ok st p reqID ch
       | GResult m \<Rightarrow> is_response st p m
       | GDeliver ch m \<Rightarrow> is_response st p m \<and> awaits_ok st p (msg_id m) ch
       | GInitialized \<Rightarrow> received_as st p methodNotificationsInitialized
       | _ \<Rightarrow> True))"

definition sess_ok :: "srv \<Rightarrow> nat \<Rightarrow> bool" where
  "sess_ok st p \<longleftrightarrow>
     ss_ctx (sess_at st p) < length (sr_ctxs st) \<and>
     (\<forall>i. smap_load (ss_clientRequests (sess_at st p)) (KString i) = None) \<and>
     (\<forall>k ch. smap_load (ss_serverRequests (sess_at st p)) k = Some ch \<longrightarrow> ch < sr_nchan st) \<and>
     (ss_initialized (sess_at st p) \<longrightarrow> received_as st p methodNotificationsInitialized)"

definition channels_ok :: "srv \<Rightarrow> bool" where
  "channels_ok st \<longleftrightarrow>
     (\<forall>p q k l ch. p < length (sr_heap st) \<longrightarrow> q < length (sr_heap st) \<longrightarrow>
        smap_load (ss_serverRequests (sess_at st p)) k = Some ch \<longrightarrow>
        smap_load (ss_serverRequests (sess_at st q)) l = Some ch \<longrightarrow> p = q \<and> k = l)"

definition session_entry_ok :: "srv \<Rightarrow> gokey \<times> nat \<Rightarrow> bool" where
  "session_entry_ok st e \<longleftrightarrow>
     snd e < length (sr_heap st) \<and> fst e = KString (ss_id (sess_at st (snd e)))"

fun reply_ok :: "srv \<Rightarrow> nat \<times> string \<times> JSONRPCMessage \<Rightarrow> bool" where
  "reply_ok st (p, reqID, m) = (p < length (sr_heap st) \<and> msg_id m = reqID \<and> is_response st p m)"

fun bcast_ok :: "srv \<Rightarrow> listener \<times> notice \<times> nat list \<Rightarrow> bool" where
  "bcast_ok st (l, n, ps) = (\<forall>p \<in> set ps. p < length (sr_heap st))"

definition srv_inv :: "server \<Rightarrow> srv \<Rightarrow> bool" where
  "srv_inv s st \<longleftrightarrow>
     ctx_wf (sr_ctxs st) \<and> smap_wf (sr_sessions st) \<and> channels_ok st \<and>
     (\<forall>p < length (sr_heap st). sess_ok st p) \<and>
     (\<forall>x \<in> set (sr_tasks st). task_ok s st x) \<and>
     (\<forall>e \<in> set (sr_sessions st). session_entry_ok st e) \<and>
     (\<forall>r \<in> set (sr_replies st). reply_ok st r) \<and>
     (\<forall>b \<in> set (sr_bcasts st). bcast_ok st b)"

lemmas inv_parts = received_as_def in_call_ok_def awaits_ok_def is_response_def

subsection \<open>Growth\<close>

text \<open>
  What only grows: the heap, the contexts and their order, the registered channels, the
  messages received; a session's id and context never change and it stays initialized. What
  the invariant says of a goroutine is stable under growth.
\<close>

definition grows :: "srv \<Rightarrow> srv \<Rightarrow> bool" where
  "grows st st' \<longleftrightarrow>
     length (sr_heap st) \<le> length (sr_heap st') \<and>
     length (sr_ctxs st) \<le> length (sr_ctxs st') \<and>
     (\<forall>c c'. c' < length (sr_ctxs st) \<longrightarrow> ctx_below (sr_ctxs st) c c' \<longrightarrow> ctx_below (sr_ctxs st') c c') \<and>
     set (sr_received st) \<subseteq> set (sr_received st') \<and>
     (\<forall>p < length (sr_heap st).
        ss_id (sess_at st' p) = ss_id (sess_at st p) \<and>
        ss_ctx (sess_at st' p) = ss_ctx (sess_at st p) \<and>
        (ss_initialized (sess_at st p) \<longrightarrow> ss_initialized (sess_at st' p)) \<and>
        (\<forall>k ch. smap_load (ss_serverRequests (sess_at st p)) k = Some ch \<longrightarrow>
                smap_load (ss_serverRequests (sess_at st' p)) k = Some ch))"

lemma growsI:
  assumes "length (sr_heap st) \<le> length (sr_heap st')"
    and "length (sr_ctxs st) \<le> length (sr_ctxs st')"
    and "\<And>c c'. c' < length (sr_ctxs st) \<Longrightarrow> ctx_below (sr_ctxs st) c c' \<Longrightarrow> ctx_below (sr_ctxs st') c c'"
    and "set (sr_received st) \<subseteq> set (sr_received st')"
    and "\<And>p. p < length (sr_heap st) \<Longrightarrow> ss_id (sess_at st' p) = ss_id (sess_at st p) \<and>
           ss_ctx (sess_at st' p) = ss_ctx (sess_at st p) \<and>
           (ss_initialized (sess_at st p) \<longrightarrow> ss_initialized (sess_at st' p)) \<and>
           (\<forall>k ch. smap_load (ss_serverRequests (sess_at st p)) k = Some ch \<longrightarrow>
                smap_load (ss_serverRequests (sess_at st' p)) k = Some ch)"
  shows "grows st st'"
  using assms by (simp add: grows_def)

lemma received_as_grows: "grows st st' \<Longrightarrow> p < length (sr_heap st) \<Longrightarrow> received_as st p m \<Longrightarrow> received_as st' p m"
  by (auto simp: grows_def received_as_def)

lemma task_ok_grows:
  assumes "grows st st'" "task_ok s st x"
  shows "task_ok s st' x"
proof -
  obtain p t where x: "x = (p, t)" by (cases x)
  with assms(2) have p: "p < length (sr_heap st)" by simp
  note g = assms(1) [unfolded grows_def]
  from g p have p': "p < length (sr_heap st')" by auto
  have call: "in_call_ok st p c \<Longrightarrow> in_call_ok st' p c" for c
    using g p unfolding in_call_ok_def by auto
  have await: "awaits_ok st p r ch \<Longrightarrow> awaits_ok st' p r ch" for r ch
    using g p unfolding awaits_ok_def by auto
  have resp: "is_response st p m \<Longrightarrow> is_response st' p m" for m
    using g p unfolding is_response_def by auto
  show ?thesis
    using assms(2) x p' call await resp received_as_grows [OF assms(1) p]
    by (cases t) simp_all
qed

lemma session_entry_ok_grows: "grows st st' \<Longrightarrow> session_entry_ok st e \<Longrightarrow> session_entry_ok st' e"
  by (auto simp: grows_def session_entry_ok_def)

lemma reply_ok_grows: "grows st st' \<Longrightarrow> reply_ok st r \<Longrightarrow> reply_ok st' r"
  by (cases r) (auto simp: grows_def is_response_def)

lemma bcast_ok_grows: "grows st st' \<Longrightarrow> bcast_ok st b \<Longrightarrow> bcast_ok st' b"
  by (cases b) (auto simp: grows_def)

text \<open>The rule by which an operation preserves the invariant: it grows, and what is new is right.\<close>

lemma srv_inv_growsI:
  assumes inv: "srv_inv s st" and g: "grows st st'"
    and "ctx_wf (sr_ctxs st')" "smap_wf (sr_sessions st')" "channels_ok st'"
    and "\<And>p. p < length (sr_heap st') \<Longrightarrow> sess_ok st' p"
    and tasks: "\<And>x. x \<in> set (sr_tasks st') \<Longrightarrow> x \<in> set (sr_tasks st) \<or> task_ok s st' x"
    and sess: "\<And>e. e \<in> set (sr_sessions st') \<Longrightarrow> e \<in> set (sr_sessions st) \<or> session_entry_ok st' e"
    and rep: "\<And>r. r \<in> set (sr_replies st') \<Longrightarrow> r \<in> set (sr_replies st) \<or> reply_ok st' r"
    and bc: "\<And>b. b \<in> set (sr_bcasts st') \<Longrightarrow> b \<in> set (sr_bcasts st) \<or> bcast_ok st' b"
  shows "srv_inv s st'"
proof -
  have "task_ok s st' x" if "x \<in> set (sr_tasks st')" for x
    using tasks [OF that] inv by (auto simp: srv_inv_def intro: task_ok_grows [OF g])
  moreover have "session_entry_ok st' e" if "e \<in> set (sr_sessions st')" for e
    using sess [OF that] inv by (auto simp: srv_inv_def intro: session_entry_ok_grows [OF g])
  moreover have "reply_ok st' r" if "r \<in> set (sr_replies st')" for r
    using rep [OF that] inv by (auto simp: srv_inv_def intro: reply_ok_grows [OF g])
  moreover have "bcast_ok st' b" if "b \<in> set (sr_bcasts st')" for b
    using bc [OF that] inv by (auto simp: srv_inv_def intro: bcast_ok_grows [OF g])
  ultimately show ?thesis using assms(3-6) by (simp add: srv_inv_def)
qed

subsection \<open>Operations\<close>

text \<open>Operations that touch none of the fields the invariant reads.\<close>

definition same_core :: "srv \<Rightarrow> srv \<Rightarrow> bool" where
  "same_core st st' \<longleftrightarrow>
     sr_heap st' = sr_heap st \<and> sr_sessions st' = sr_sessions st \<and> sr_ctxs st' = sr_ctxs st \<and>
     sr_tasks st' = sr_tasks st \<and> sr_bcasts st' = sr_bcasts st \<and> sr_nchan st' = sr_nchan st \<and>
     sr_received st' = sr_received st \<and> sr_replies st' = sr_replies st"

lemma same_core_task_ok: "same_core st st' \<Longrightarrow> task_ok s st' x = task_ok s st x"
  by (cases x) (simp add: same_core_def inv_parts cong: task.case_cong)

lemma same_core_inv:
  assumes "same_core st st'"
  shows "srv_inv s st' = srv_inv s st"
proof -
  have "reply_ok st' r = reply_ok st r" "bcast_ok st' b = bcast_ok st b" for r b
    using assms by (cases r; simp add: same_core_def is_response_def)
      (use assms in \<open>cases b; simp add: same_core_def\<close>)
  then show ?thesis
    using assms same_core_task_ok [OF assms]
    by (simp add: srv_inv_def same_core_def sess_ok_def channels_ok_def session_entry_ok_def received_as_def)
qed

lemma same_core_ops:
  "same_core st (panic x st)"
  "same_core st (logError e st)"
  "same_core st (transport_send p msg out st)"
  "same_core st (sendNotification p meth params out st)"
  "same_core st (sendResult p i result out st)"
  "same_core st (sendError p i err out st)"
  "same_core st (user_effect u st)"
  "same_core st (handlePing p i out st)"
  "same_core st (handleInitialize p i ip scap ccap info out st)"
  "same_core st (listen p n out st)"
  "same_core st (handleLoggingSetLevel p i lp out st)"
  "same_core st (bind_progress p m st)"
  by (simp_all add: same_core_def)

lemmas same_core_ops_inv [simp] = same_core_ops [THEN same_core_inv]
lemmas same_core_ops_task_ok [simp] = same_core_ops [THEN same_core_task_ok]

lemma task_ok_set_task [simp]: "task_ok s (set_task g t st) x = task_ok s st x"
  by (cases x) (simp add: inv_parts cong: task.case_cong)

lemma task_ok_spawn [simp]: "task_ok s (spawn p t st) x = task_ok s st x"
  by (cases x) (simp add: inv_parts cong: task.case_cong)

lemma grows_refl [simp]: "grows st st"
  by (simp add: grows_def)

lemma srv_invD:
  assumes "srv_inv s st"
  shows "ctx_wf (sr_ctxs st)" "smap_wf (sr_sessions st)" "channels_ok st"
    and "p < length (sr_heap st) \<Longrightarrow> sess_ok st p"
    and "x \<in> set (sr_tasks st) \<Longrightarrow> task_ok s st x"
    and "e \<in> set (sr_sessions st) \<Longrightarrow> session_entry_ok st e"
    and "r \<in> set (sr_replies st) \<Longrightarrow> reply_ok st r"
    and "b \<in> set (sr_bcasts st) \<Longrightarrow> bcast_ok st b"
  using assms by (simp_all add: srv_inv_def)

lemma sess_ok_tasks [simp]:
  "sess_ok (spawn p t st) q = sess_ok st q"
  "sess_ok (set_task g t st) q = sess_ok st q"
  by (simp_all add: sess_ok_def received_as_def)

lemma srv_inv_spawn [inv_intros]:
  assumes "srv_inv s st" "task_ok s st (p, t)"
  shows "srv_inv s (spawn p t st)"
  by (rule srv_inv_growsI [OF assms(1)])
    (use assms srv_invD [OF assms(1)] in \<open>auto simp del: task_ok.simps simp: grows_def channels_ok_def\<close>)

lemma srv_inv_set_task [inv_intros]:
  assumes "srv_inv s st" "task_ok s st (fst (sr_tasks st ! g), t)"
  shows "srv_inv s (set_task g t st)"
  by (rule srv_inv_growsI [OF assms(1)])
    (use assms srv_invD [OF assms(1)] in
      \<open>auto simp del: task_ok.simps simp: grows_def channels_ok_def
         dest!: set_update_subset_insert [THEN subsetD]\<close>)

text \<open>Contexts: cancelling and deriving keep the contexts there are and their order.\<close>

definition ctxs_grow :: "ctxs \<Rightarrow> ctxs \<Rightarrow> bool" where
  "ctxs_grow cs cs' \<longleftrightarrow>
     ctx_wf cs' \<and> length cs \<le> length cs' \<and>
     (\<forall>c c'. c' < length cs \<longrightarrow> ctx_below cs c c' \<longrightarrow> ctx_below cs' c c')"

lemma ctxs_grow_cancel: "ctx_wf cs \<Longrightarrow> ctxs_grow cs (ctx_cancel c e cs)"
  by (simp add: ctxs_grow_def gctx.cancel_wf)

lemma ctxs_grow_trans: "ctxs_grow a b \<Longrightarrow> ctxs_grow b c \<Longrightarrow> ctxs_grow a c"
  unfolding ctxs_grow_def by (meson le_trans less_le_trans)

lemma ctxs_grow_cancel_all: "ctx_wf cs \<Longrightarrow> ctxs_grow cs (fold (\<lambda>c. ctx_cancel c e) ds cs)"
proof (induction ds arbitrary: cs)
  case Nil
  then show ?case by (simp add: ctxs_grow_def)
next
  case (Cons d ds)
  then have "ctxs_grow (ctx_cancel d e cs) (fold (\<lambda>c. ctx_cancel c e) ds (ctx_cancel d e cs))"
    by (simp add: gctx.cancel_wf)
  with ctxs_grow_cancel [OF Cons.prems, of d e] show ?case
    by (auto intro: ctxs_grow_trans)
qed

lemma ctxs_grow_derive:
  assumes "ctx_wf cs" "\<forall>q. pc = Some q \<longrightarrow> q < length cs"
  shows "ctxs_grow cs (fst (ctx_derive pc cs))"
  using gctx.derive_wf [OF assms(1), of pc] assms(2)
  by (simp add: ctxs_grow_def ctx_known_def ctx_below_append ctx_derive_def)

lemma srv_inv_ctxs:
  assumes inv: "srv_inv s st" and cs: "ctxs_grow (sr_ctxs st) cs"
  shows "srv_inv s (st\<lparr>sr_ctxs := cs\<rparr>)"
proof (rule srv_inv_growsI [OF inv])
  show "sess_ok (st\<lparr>sr_ctxs := cs\<rparr>) p" if "p < length (sr_heap (st\<lparr>sr_ctxs := cs\<rparr>))" for p
    using srv_invD(4) [OF inv, of p] that cs by (auto simp: sess_ok_def ctxs_grow_def received_as_def)
  show "channels_ok (st\<lparr>sr_ctxs := cs\<rparr>)"
    using srv_invD(3) [OF inv] by (simp add: channels_ok_def)
qed (use cs srv_invD(2) [OF inv] in \<open>simp_all add: grows_def ctxs_grow_def\<close>)

lemma srv_inv_cancel_ctx [inv_intros]: "srv_inv s st \<Longrightarrow> srv_inv s (cancel_ctx c e st)"
  unfolding cancel_ctx_def by (rule srv_inv_ctxs) (simp_all add: ctxs_grow_cancel srv_invD)

lemma new_ctx_eq: "fst (new_ctx pc st) = st\<lparr>sr_ctxs := fst (ctx_derive pc (sr_ctxs st))\<rparr>"
  by (simp add: new_ctx_def ctx_derive_def)

lemma srv_inv_new_ctx [inv_intros]:
  "srv_inv s st \<Longrightarrow> \<forall>q. pc = Some q \<longrightarrow> q < length (sr_ctxs st) \<Longrightarrow> srv_inv s (fst (new_ctx pc st))"
  unfolding new_ctx_eq by (rule srv_inv_ctxs) (simp_all add: ctxs_grow_derive srv_invD)

text \<open>Updates of one session.\<close>

lemma srv_inv_upd_sess:
  assumes inv: "srv_inv s st" and p: "p < length (sr_heap st)"
    and same: "ss_id (f (sess_at st p)) = ss_id (sess_at st p)"
      "ss_ctx (f (sess_at st p)) = ss_ctx (sess_at st p)"
      "ss_serverRequests (f (sess_at st p)) = ss_serverRequests (sess_at st p)"
    and cr: "\<And>i. smap_load (ss_clientRequests (f (sess_at st p))) (KString i) = None"
    and init: "ss_initialized (sess_at st p) \<Longrightarrow> ss_initialized (f (sess_at st p))"
      "ss_initialized (f (sess_at st p)) \<Longrightarrow> received_as st p methodNotificationsInitialized"
  shows "srv_inv s (upd_sess p f st)"
proof -
  let ?st = "upd_sess p f st"
  have at: "sr_heap ?st ! q = (if q = p then f (sess_at st p) else sess_at st q)" for q
    using p by simp
  note [simp del] = op_effects(1)
  have fields [simp]: "ss_id (sess_at ?st q) = ss_id (sess_at st q)"
    "ss_ctx (sess_at ?st q) = ss_ctx (sess_at st q)"
    "ss_serverRequests (sess_at ?st q) = ss_serverRequests (sess_at st q)" for q
    using same by (simp_all add: at)
  have rec: "received_as ?st q = received_as st q" for q
    by (simp add: fun_eq_iff received_as_def)
  have len: "length (sr_heap ?st) = length (sr_heap st)" by (simp add: op_effects(1))
  have "channels_ok ?st"
    using srv_invD(3) [OF inv] by (simp add: channels_ok_def len)
  moreover have "sess_ok ?st q" if "q < length (sr_heap st)" for q
    using srv_invD(4) [OF inv that] same cr init by (cases "q = p") (simp_all add: sess_ok_def rec at)
  moreover have "grows st ?st"
    by (rule growsI) (use same init in \<open>simp_all add: len at\<close>)
  ultimately show ?thesis
    by (intro srv_inv_growsI [OF inv]) (simp_all add: srv_invD [OF inv] len)
qed

text \<open>\<^const>\<open>registerRequest\<close> with a fresh id uses a new channel.\<close>

lemma registerRequest_state:
  "fst (registerRequest p reqID st) =
     (upd_sess p (\<lambda>s. s\<lparr>ss_serverRequests := smap_store (KString reqID) (sr_nchan st) (ss_serverRequests s)\<rparr>) st)
       \<lparr>sr_nchan := Suc (sr_nchan st)\<rparr>"
  "snd (registerRequest p reqID st) = sr_nchan st"
  by (simp_all add: registerRequest_def Let_def)

lemma srv_inv_registerRequest [inv_intros]:
  assumes inv: "srv_inv s st" and p: "p < length (sr_heap st)"
    and fresh: "smap_load (ss_serverRequests (sess_at st p)) (KString reqID) = None"
  shows "srv_inv s (fst (registerRequest p reqID st))"
proof -
  let ?st = "fst (registerRequest p reqID st)"
  have load: "smap_load (ss_serverRequests (sess_at ?st q)) k =
      (if q = p \<and> k = KString reqID then Some (sr_nchan st)
       else smap_load (ss_serverRequests (sess_at st q)) k)" for q k
    using p by (simp add: registerRequest_state nth_list_update_if)
  have fields: "ss_id (sess_at ?st q) = ss_id (sess_at st q)"
    "ss_ctx (sess_at ?st q) = ss_ctx (sess_at st q)"
    "ss_clientRequests (sess_at ?st q) = ss_clientRequests (sess_at st q)"
    "ss_initialized (sess_at ?st q) = ss_initialized (sess_at st q)" for q
    using p by (simp_all add: registerRequest_state nth_list_update_if)
  have rest: "sr_ctxs ?st = sr_ctxs st" "sr_tasks ?st = sr_tasks st" "sr_sessions ?st = sr_sessions st"
    "sr_replies ?st = sr_replies st" "sr_bcasts ?st = sr_bcasts st" "sr_received ?st = sr_received st"
    "sr_nchan ?st = Suc (sr_nchan st)" "length (sr_heap ?st) = length (sr_heap st)"
    by (simp_all add: registerRequest_state)
  have low: "ch < sr_nchan st" if "q < length (sr_heap st)"
    "smap_load (ss_serverRequests (sess_at st q)) k = Some ch" for q k ch
    using srv_invD(4) [OF inv that(1)] that(2) by (auto simp: sess_ok_def)
  have chan: "channels_ok ?st"
    unfolding channels_ok_def rest
  proof (intro allI impI)
    fix q q' k l ch
    assume q: "q < length (sr_heap st)" "q' < length (sr_heap st)"
      and "smap_load (ss_serverRequests (sess_at ?st q)) k = Some ch"
        "smap_load (ss_serverRequests (sess_at ?st q')) l = Some ch"
    with q low [of q k ch] low [of q' l ch] srv_invD(3) [OF inv] show "q = q' \<and> k = l"
      unfolding load channels_ok_def by (auto split: if_splits)
  qed
  have sess: "sess_ok ?st q" if "q < length (sr_heap st)" for q
    using srv_invD(4) [OF inv that] unfolding sess_ok_def rest load fields received_as_def
    by (auto simp: less_Suc_eq)
  have "grows st ?st"
    unfolding grows_def rest load fields using fresh by auto
  then show ?thesis
    by (rule srv_inv_growsI [OF inv]) (simp_all add: rest chan sess srv_invD [OF inv])
qed

lemma srv_inv_received [inv_intros]:
  assumes inv: "srv_inv s st"
  shows "srv_inv s (st\<lparr>sr_received := sr_received st @ xs\<rparr>)"
proof (rule srv_inv_growsI [OF inv])
  show "sess_ok (st\<lparr>sr_received := sr_received st @ xs\<rparr>) p"
    if "p < length (sr_heap (st\<lparr>sr_received := sr_received st @ xs\<rparr>))" for p
    using srv_invD(4) [OF inv, of p] that by (auto simp: sess_ok_def received_as_def)
  show "channels_ok (st\<lparr>sr_received := sr_received st @ xs\<rparr>)"
    using srv_invD(3) [OF inv] by (simp add: channels_ok_def)
qed (use srv_invD [OF inv] in \<open>auto simp: grows_def\<close>)

lemma srv_inv_tables:
  assumes inv: "srv_inv s st"
    and "sr_heap st' = sr_heap st" "sr_ctxs st' = sr_ctxs st" "sr_nchan st' = sr_nchan st"
      "sr_received st' = sr_received st" "sr_tasks st' = sr_tasks st"
    and "smap_wf (sr_sessions st')"
    and "\<And>e. e \<in> set (sr_sessions st') \<Longrightarrow> e \<in> set (sr_sessions st) \<or> session_entry_ok st e"
    and "\<And>r. r \<in> set (sr_replies st') \<Longrightarrow> r \<in> set (sr_replies st) \<or> reply_ok st r"
    and "\<And>b. b \<in> set (sr_bcasts st') \<Longrightarrow> b \<in> set (sr_bcasts st) \<or> bcast_ok st b"
  shows "srv_inv s st'"
proof -
  have g: "grows st st'" using assms(2-5) by (simp add: grows_def)
  show ?thesis
  proof (rule srv_inv_growsI [OF inv g])
    show "sess_ok st' p" if "p < length (sr_heap st')" for p
      using srv_invD(4) [OF inv, of p] that assms(2-5) by (simp add: sess_ok_def received_as_def)
    show "channels_ok st'" using srv_invD(3) [OF inv] assms(2) by (simp add: channels_ok_def)
    show "e \<in> set (sr_sessions st) \<or> session_entry_ok st' e" if "e \<in> set (sr_sessions st')" for e
      using assms(8) [OF that] session_entry_ok_grows [OF g] by blast
    show "r \<in> set (sr_replies st) \<or> reply_ok st' r" if "r \<in> set (sr_replies st')" for r
      using assms(9) [OF that] reply_ok_grows [OF g] by blast
    show "b \<in> set (sr_bcasts st) \<or> bcast_ok st' b" if "b \<in> set (sr_bcasts st')" for b
      using assms(10) [OF that] bcast_ok_grows [OF g] by blast
  qed (use assms(3,6,7) srv_invD(1) [OF inv] in simp_all)
qed

lemma srv_inv_flags [simp]:
  "srv_inv s (st\<lparr>sr_loop := b\<rparr>) = srv_inv s st"
  "srv_inv s (st\<lparr>sr_errsClosed := b\<rparr>) = srv_inv s st"
  "srv_inv s (st\<lparr>sr_closed := b\<rparr>) = srv_inv s st"
  by (rule same_core_inv, simp add: same_core_def)+

subsection \<open>Handlers\<close>

lemma task_at_Some: "task_at st g = Some (p, t) \<longleftrightarrow> g < length (sr_tasks st) \<and> sr_tasks st ! g = (p, t)"
  by (simp add: task_at_def)

lemma task_at_ok:
  assumes "srv_inv s st" "task_at st g = Some (p, t)"
  shows "task_ok s st (p, t)" "fst (sr_tasks st ! g) = p" "p < length (sr_heap st)"
proof -
  from assms(2) have at: "g < length (sr_tasks st)" "sr_tasks st ! g = (p, t)"
    by (simp_all add: task_at_Some)
  then have "(p, t) \<in> set (sr_tasks st)" by (metis nth_mem)
  with assms(1) show "task_ok s st (p, t)" by (rule srv_invD(5))
  then show "p < length (sr_heap st)" by simp
  from at show "fst (sr_tasks st ! g) = p" by simp
qed

lemma task_at_okD:
  "srv_inv s st \<Longrightarrow> task_at st g = Some (p, t) \<Longrightarrow>
     task_ok s st (p, t) \<and> fst (sr_tasks st ! g) = p \<and> p < length (sr_heap st)"
  using task_at_ok by blast

lemma track_request_state:
  "snd (track_request p i st) = length (sr_ctxs st)"
  "fst (track_request p i st) =
     upd_sess p (\<lambda>s. s\<lparr>ss_clientRequests :=
         smap_store (KMustString i) \<lparr>rq_ctx = length (sr_ctxs st)\<rparr> (ss_clientRequests s)\<rparr>)
       (fst (new_ctx (Some (ss_ctx (sess_at st p))) st))"
  by (simp_all add: track_request_def split_def)

lemma srv_inv_track_request [inv_intros]:
  assumes inv: "srv_inv s st" and p: "p < length (sr_heap st)"
  shows "srv_inv s (fst (track_request p i st))"
proof -
  note ok = srv_invD(4) [OF inv p, unfolded sess_ok_def]
  have "srv_inv s (fst (new_ctx (Some (ss_ctx (sess_at st p))) st))"
    using inv ok by (intro inv_intros) simp_all
  then show ?thesis
    unfolding track_request_state
    by (rule srv_inv_upd_sess) (use p ok in \<open>simp_all add: received_as_def\<close>)
qed

lemma track_request_fields [simp]:
  "sr_tasks (fst (track_request p i st)) = sr_tasks st"
  "sr_received (fst (track_request p i st)) = sr_received st"
  "sr_sent (fst (track_request p i st)) = sr_sent st"
  "sr_sessions (fst (track_request p i st)) = sr_sessions st"
  "sr_panic (fst (track_request p i st)) = sr_panic st"
  "sr_closed (fst (track_request p i st)) = sr_closed st"
  "sr_errsClosed (fst (track_request p i st)) = sr_errsClosed st"
  "length (sr_heap (fst (track_request p i st))) = length (sr_heap st)"
  "sr_ctxs (fst (track_request p i st)) = fst (ctx_derive (Some (ss_ctx (sess_at st p))) (sr_ctxs st))"
  by (simp_all add: track_request_state)

lemma track_request_session:
  "ss_id (sess_at (fst (track_request p i st)) q) = ss_id (sess_at st q)"
  "ss_initialized (sess_at (fst (track_request p i st)) q) = ss_initialized (sess_at st q)"
  "ss_ctx (sess_at (fst (track_request p i st)) q) = ss_ctx (sess_at st q)"
  unfolding track_request_state by (simp_all add: nth_update_proj)

lemma track_request_in_call:
  assumes "srv_inv s st" "p < length (sr_heap st)" "ss_initialized (sess_at st p)"
  shows "in_call_ok (fst (track_request p i st)) p (length (sr_ctxs st))"
proof -
  have "ctx_known (sr_ctxs st) (ss_ctx (sess_at st p))"
    using srv_invD(4) [OF assms(1,2)] by (simp add: sess_ok_def ctx_known_def)
  from gctx.derive_below [OF this] show ?thesis
    using assms(3) by (simp add: in_call_ok_def track_request_session ctx_derive_def)
qed

lemma srv_inv_handler_begin:
  assumes inv: "srv_inv s st" and g: "task_at st g = Some (p, GHandler h)"
  shows "srv_inv s (handler_begin g p h st)"
proof -
  note at = task_at_ok [OF inv g]
  let ?st1 = "fst (track_request p (h_id h) st)"
  have inv1: "srv_inv s ?st1" using inv at(3) by (rule inv_intros)
  have "srv_inv s (set_task g (GInCall h (length (sr_ctxs st))) ?st1)" if "ss_initialized (sess_at st p)"
    using inv1 by (rule inv_intros) (use at that track_request_in_call [OF inv at(3)] in simp)
  moreover have "srv_inv s (set_task g GDone st)"
    using inv by (rule inv_intros) (use at in simp)
  ultimately show ?thesis
    using inv1 by (simp add: handler_begin_def Let_def split_def track_request_state(1))
qed

lemma srv_inv_handler_return:
  assumes inv: "srv_inv s st" and g: "task_at st g = Some (p, GInCall h c)"
  shows "srv_inv s (handler_return g p h c outcome out st)"
  unfolding handler_return_def
  by (intro inv_intros) (use inv task_at_ok [OF inv g] in \<open>simp_all split: sum.split\<close>)

lemma subscribe_session [simp]:
  "srv_inv s st \<Longrightarrow> p < length (sr_heap st) \<Longrightarrow>
     srv_inv s (upd_sess p (\<lambda>s. s\<lparr>ss_subscribedResources := f s\<rparr>) st)"
  by (rule srv_inv_upd_sess) (auto dest: srv_invD(4) simp: sess_ok_def)

lemma srv_inv_handleResourcesSubscribe [inv_intros]:
  assumes inv: "srv_inv s st" and p: "p < length (sr_heap st)"
  shows "srv_inv s (handleResourcesSubscribe p i q out st)"
  using inv srv_inv_track_request [OF inv p, of i] p
  by (simp add: handleResourcesSubscribe_def split_def track_request_state(1) inv_intros)

lemma srv_inv_handleResourcesUnsubscribe [inv_intros]:
  assumes inv: "srv_inv s st" and p: "p < length (sr_heap st)"
  shows "srv_inv s (handleResourcesUnsubscribe p i q out st)"
  using inv srv_inv_track_request [OF inv p, of i] p
  by (simp add: handleResourcesUnsubscribe_def split_def track_request_state(1) inv_intros)

lemma srv_inv_handleNotificationsInitialized [inv_intros]:
  assumes inv: "srv_inv s st" and p: "p < length (sr_heap st)"
    and "received_as st p methodNotificationsInitialized"
  shows "srv_inv s (handleNotificationsInitialized p st)"
  unfolding handleNotificationsInitialized_def
  using inv p by (rule srv_inv_upd_sess) (use assms srv_invD(4) [OF inv p] in \<open>simp_all add: sess_ok_def\<close>)

lemma handleNotificationsCancelled_id:
  assumes "srv_inv s st" "p < length (sr_heap st)"
  shows "handleNotificationsCancelled p q st = st"
  using srv_invD(4) [OF assms] by (simp add: handleNotificationsCancelled_def sess_ok_def)

lemma srv_inv_handleResult:
  assumes inv: "srv_inv s st" and g: "task_at st g = Some (p, GResult m)"
  shows "srv_inv s (handleResult g p m st)"
  unfolding handleResult_def
  using inv task_at_ok [OF inv g]
  by (auto split: option.split intro!: srv_inv_set_task simp: awaits_ok_def)

subsection \<open>Steps\<close>

lemma sendRequest_state:
  "fst (snd (sendRequest p m reqID out st)) = sr_nchan st"
  "snd (snd (sendRequest p m reqID out st)) = length (sr_ctxs st)"
  "sr_tasks (fst (sendRequest p m reqID out st)) = sr_tasks st"
  by (simp_all add: sendRequest_def split_def Let_def registerRequest_state split: option.split)

lemma sendRequest_grows:
  assumes inv: "srv_inv s st" and p: "p < length (sr_heap st)"
    and fresh: "smap_load (ss_serverRequests (sess_at st p)) (KString reqID) = None"
  shows "srv_inv s (fst (sendRequest p m reqID out st))"
    and "grows st (fst (sendRequest p m reqID out st))"
    and "awaits_ok (fst (sendRequest p m reqID out st)) p reqID (sr_nchan st)"
proof -
  let ?st1 = "fst (registerRequest p reqID st)"
  let ?st2 = "fst (new_ctx (Some (ss_ctx (sess_at ?st1 p))) ?st1)"
  have len: "length (sr_heap ?st1) = length (sr_heap st)" "sr_ctxs ?st1 = sr_ctxs st"
    by (simp_all add: registerRequest_state)
  have inv1: "srv_inv s ?st1" using inv p fresh by (rule srv_inv_registerRequest)
  have "ss_ctx (sess_at ?st1 p) < length (sr_ctxs ?st1)"
    using srv_invD(4) [OF inv1, of p] p len by (simp add: sess_ok_def)
  then have inv2: "srv_inv s ?st2" using inv1 by (intro srv_inv_new_ctx) simp_all
  then show "srv_inv s (fst (sendRequest p m reqID out st))"
    by (simp add: sendRequest_def split_def Let_def inv_intros split: option.split)
  show "grows st (fst (sendRequest p m reqID out st))"
    using fresh p by (auto simp: grows_def sendRequest_def split_def Let_def registerRequest_state
      ctx_derive_def ctx_below_append nth_list_update split: option.split)
  show "awaits_ok (fst (sendRequest p m reqID out st)) p reqID (sr_nchan st)"
    using p by (simp add: awaits_ok_def sendRequest_def split_def Let_def registerRequest_state
      split: option.split)
qed

lemma in_call_ok_grows:
  "grows st st' \<Longrightarrow> p < length (sr_heap st) \<Longrightarrow> in_call_ok st p c \<Longrightarrow> in_call_ok st' p c"
  by (auto simp: grows_def in_call_ok_def)

lemma uuid_freshD:
  "uuid_fresh st g reqID \<Longrightarrow> task_at st g = Some (p, t) \<Longrightarrow>
     smap_load (ss_serverRequests (sess_at st p)) (KString reqID) = None"
  by (simp add: uuid_fresh_def)

lemma srv_inv_user_request:
  assumes inv: "srv_inv s st" and u: "uuid_fresh st g reqID"
    and r: "user_request g m reqID out st = Some st'"
  shows "srv_inv s st'"
proof -
  from r obtain p h c where g: "task_at st g = Some (p, GInCall h c)"
    and st': "st' = (if out = None then set_task g (GAwait h c reqID (sr_nchan st) (length (sr_ctxs st)))
        (fst (sendRequest p m reqID out st)) else fst (sendRequest p m reqID out st))"
    by (auto simp: user_request_def split_def Let_def sendRequest_state split: option.splits task.splits)
  note at = task_at_ok [OF inv g] and sr = sendRequest_grows [OF inv _ uuid_freshD [OF u g], of m out]
  have "length (sr_heap st) \<le> length (sr_heap (fst (sendRequest p m reqID out st)))"
    using sr(2) [OF at(3)] by (simp add: grows_def)
  with at sr show ?thesis
    unfolding st' using in_call_ok_grows [OF sr(2)]
    by (auto intro!: srv_inv_set_task simp: sendRequest_state)
qed

lemma srv_inv_ping:
  assumes inv: "srv_inv s st" and u: "uuid_fresh st g reqID"
    and r: "ping g reqID out st = Some st'"
  shows "srv_inv s st'"
proof -
  let ?st1 = "\<lambda>p. fst (sendRequest p ping_msg reqID out st)"
  from r obtain p where g: "task_at st g = Some (p, GPings)"
    and st': "st' = (case out of
        None \<Rightarrow> set_task g (GPingAwait reqID (sr_nchan st) (length (sr_ctxs st))) (?st1 p)
      | Some e \<Rightarrow> logError (ErrWrap ''failed to send ping: %w'' [e]) (?st1 p))"
    by (auto simp: ping_def split_def Let_def sendRequest_state split: option.splits task.splits)
  note at = task_at_ok [OF inv g] and sr = sendRequest_grows [OF inv _ uuid_freshD [OF u g], of ping_msg out]
  have "length (sr_heap st) \<le> length (sr_heap (?st1 p))"
    using sr(2) [OF at(3)] by (simp add: grows_def)
  with at sr show ?thesis
    unfolding st' by (auto intro!: srv_inv_set_task simp: sendRequest_state split: option.split)
qed

lemma srv_inv_deadline: "srv_inv s st \<Longrightarrow> deadline g st = Some st' \<Longrightarrow> srv_inv s st'"
  by (auto simp: deadline_def split: option.splits task.splits intro!: inv_intros)

lemma srv_inv_give_up:
  assumes inv: "srv_inv s st" and r: "give_up g tick st = Some st'"
  shows "srv_inv s st'"
  using r inv
  by (auto simp: give_up_def in_call_ok_def split: option.splits task.splits if_splits prod.splits
      dest!: task_at_okD [OF inv] intro!: srv_inv_set_task srv_inv_cancel_ctx)

lemma reply_cases:
  assumes "reply g d st = Some st'"
  obtains (call) p h c reqID ch sctx q m where
      "task_at st g = Some (p, GAwait h c reqID ch sctx)" "task_at st d = Some (q, GDeliver ch m)"
      "st' = set_task g (GInCall h c) (set_task d GDone (cancel_ctx sctx ErrCanceled
               (st\<lparr>sr_replies := sr_replies st @ [(p, reqID, m)]\<rparr>)))"
    | (ping) p reqID ch sctx q m st1 where
      "task_at st g = Some (p, GPingAwait reqID ch sctx)" "task_at st d = Some (q, GDeliver ch m)"
      "st1 = set_task g GPings (set_task d GDone (cancel_ctx sctx ErrCanceled
               (st\<lparr>sr_replies := sr_replies st @ [(p, reqID, m)]\<rparr>)))"
      "st' = (case msg_error m of None \<Rightarrow> st1
              | Some e \<Rightarrow> logError (ErrWrap ''error response: %w'' [rpc_error e]) st1)"
  using assms unfolding reply_def
  by (auto simp: Let_def split: option.splits prod.splits task.splits if_splits)

text \<open>A reply reaches the goroutine whose request it answers.\<close>

lemma reply_matches:
  assumes inv: "srv_inv s st" and d: "task_at st d = Some (q, GDeliver ch m)"
    and p: "p < length (sr_heap st)" and a: "awaits_ok st p reqID ch"
  shows "p = q" "msg_id m = reqID" "is_response st p m"
proof -
  note at = task_at_ok [OF inv d]
  from at have d': "awaits_ok st q (msg_id m) ch" "is_response st q m" by simp_all
  from srv_invD(3) [OF inv] p at(3) a d'(1) have "p = q \<and> KString reqID = KString (msg_id m)"
    unfolding channels_ok_def awaits_ok_def by blast
  then show "p = q" "msg_id m = reqID" "is_response st p m" using d'(2) by simp_all
qed

lemma srv_inv_replies:
  "srv_inv s st \<Longrightarrow> reply_ok st r \<Longrightarrow> srv_inv s (st\<lparr>sr_replies := sr_replies st @ [r]\<rparr>)"
  by (rule srv_inv_tables) (auto simp del: reply_ok.simps dest: srv_invD(2))

lemma srv_inv_reply:
  assumes inv: "srv_inv s st" and r: "reply g d st = Some st'"
  shows "srv_inv s st'"
  using r
proof (cases rule: reply_cases)
  case (call p h c reqID ch sctx q m)
  note g = task_at_ok [OF inv call(1)] and dl = task_at_ok [OF inv call(2)]
  from g have "awaits_ok st p reqID ch" by simp
  with g(3) have ok: "reply_ok st (p, reqID, m)"
    using reply_matches [OF inv call(2)] by simp
  show ?thesis
    unfolding call(3)
    by (intro srv_inv_set_task srv_inv_cancel_ctx srv_inv_replies inv ok)
      (use g dl call in \<open>auto simp: task_at_Some in_call_ok_def nth_list_update\<close>)
next
  case (ping p reqID ch sctx q m st1)
  note g = task_at_ok [OF inv ping(1)] and dl = task_at_ok [OF inv ping(2)]
  from g have "awaits_ok st p reqID ch" by simp
  with g(3) have ok: "reply_ok st (p, reqID, m)"
    using reply_matches [OF inv ping(2)] by simp
  have "srv_inv s st1"
    unfolding ping(3)
    by (intro srv_inv_set_task srv_inv_cancel_ctx srv_inv_replies inv ok)
      (use g dl ping in \<open>auto simp: task_at_Some nth_list_update\<close>)
  then show ?thesis unfolding ping(4) by (simp split: option.split)
qed

lemma srv_inv_listen_done: "srv_inv s st \<Longrightarrow> listen_done p st = Some st' \<Longrightarrow> srv_inv s st'"
  by (auto simp: listen_done_def split: if_splits intro!: srv_inv_spawn srv_inv_upd_sess
      dest: srv_invD(4) simp: sess_ok_def)

lemma srv_inv_bcasts:
  assumes "srv_inv s st" "\<And>b. b \<in> set bs \<Longrightarrow> b \<in> set (sr_bcasts st) \<or> bcast_ok st b"
  shows "srv_inv s (st\<lparr>sr_bcasts := bs\<rparr>)"
  using assms(1) by (rule srv_inv_tables) (use assms srv_invD(2) [OF assms(1)] in auto)

lemma sessions_in_heap: "srv_inv s st \<Longrightarrow> (k, p) \<in> set (sr_sessions st) \<Longrightarrow> p < length (sr_heap st)"
  by (drule (1) srv_invD(6)) (simp add: session_entry_ok_def)

lemma srv_inv_update:
  assumes inv: "srv_inv s st" and u: "update s l n st = Some st'"
  shows "srv_inv s st'"
proof -
  have "bcast_ok st (l, n, map snd (smap_range (sr_sessions st)))"
    using sessions_in_heap [OF inv] by (auto simp: smap_range_def)
  with u inv show ?thesis
    by (auto simp del: bcast_ok.simps simp: update_def split: if_splits
        intro!: srv_inv_bcasts dest!: smap_store_set)
qed

lemma srv_inv_listenProgress:
  assumes inv: "srv_inv s st" and r: "listenProgress s tok params st = Some st'"
  shows "srv_inv s st'"
proof -
  have "p < length (sr_heap st)" if "smap_load (sr_sessions st) k = Some p" for k p
    using inv smap_load_Some_set [OF that] by (rule sessions_in_heap)
  with r inv show ?thesis
    by (auto simp: listenProgress_def split: if_splits option.splits
        intro!: srv_inv_bcasts dest!: smap_store_set)
qed

lemma srv_inv_broadcast:
  assumes inv: "srv_inv s st" and r: "broadcast l out st = Some st'"
  shows "srv_inv s st'"
proof -
  have "bcast_ok st (l, n, ps)" if "smap_load (sr_bcasts st) l = Some (n, ps)" for n ps
    by (rule srv_invD(8) [OF inv smap_load_Some_set [OF that]])
  then show ?thesis
    using r inv by (fastforce simp: broadcast_def split: option.splits list.splits if_splits
        intro!: srv_inv_bcasts dest!: smap_store_set dest: smap_delete_set)
qed

lemma srv_inv_stop: "srv_inv s st \<Longrightarrow> srv_inv s (stop st)"
  by (simp add: stop_def srv_inv_ctxs ctxs_grow_cancel_all srv_invD(1))

lemma startSession_state:
  "startSession s c i st =
     (let p = length (sr_heap st);
          sess = \<lparr>ss_id = i, ss_ctx = length (sr_ctxs st), ss_writeTimeout = sv_writeTimeout s,
                  ss_readTimeout = sv_readTimeout s, ss_pingInterval = sv_pingInterval s,
                  ss_clientRequests = [], ss_serverRequests = [], ss_subscribedResources = [],
                  ss_initialized = False, ss_listening = True\<rparr>;
          st2 = (fst (new_ctx (Some c) st))\<lparr>sr_heap := sr_heap st @ [sess],
                    sr_sessions := smap_store (KString i) p (sr_sessions st)\<rparr>
      in if 0 < sv_pingInterval s then spawn p GPings st2 else st2)"
  by (simp add: startSession_def split_def Let_def)

lemma srv_inv_new_session:
  assumes inv: "srv_inv s st" and ss: "ss_ctx ss < length (sr_ctxs st)" "ss_clientRequests ss = []"
    "ss_serverRequests ss = []" "\<not> ss_initialized ss" "ss_id ss = i"
  shows "srv_inv s (st\<lparr>sr_heap := sr_heap st @ [ss],
                       sr_sessions := smap_store (KString i) (length (sr_heap st)) (sr_sessions st)\<rparr>)"
    (is "srv_inv s ?st")
proof (rule srv_inv_growsI [OF inv])
  show g: "grows st ?st" by (rule growsI) (auto simp: nth_append)
  show "channels_ok ?st"
    using srv_invD(3) [OF inv] ss unfolding channels_ok_def
    by (auto simp: nth_append less_Suc_eq)
  show "sess_ok ?st p" if "p < length (sr_heap ?st)" for p
    using srv_invD(4) [OF inv, of p] that ss
    by (auto simp: sess_ok_def received_as_def nth_append less_Suc_eq)
  show "e \<in> set (sr_sessions st) \<or> session_entry_ok ?st e" if "e \<in> set (sr_sessions ?st)" for e
    using that ss(5) by (auto dest!: smap_store_set simp: session_entry_ok_def)
qed (simp_all add: srv_invD [OF inv])

lemma srv_inv_startSession:
  assumes inv: "srv_inv s st" and c: "c < length (sr_ctxs st)"
  shows "srv_inv s (startSession s c i st)"
proof -
  have inv1: "srv_inv s (fst (new_ctx (Some c) st))" using inv c by (intro srv_inv_new_ctx) simp_all
  show ?thesis
    using srv_inv_new_session [OF inv1, of _ i]
    by (simp add: startSession_state Let_def ctx_derive_def srv_inv_spawn)
qed

text \<open>What the dispatcher spawns satisfies the invariant of its goroutine.\<close>

lemma route_task_ok:
  assumes "route s msg = Inr (ASpawn t tok)" "p < length (sr_heap st)"
    and "(ss_id (sess_at st p), msg) \<in> set (sr_received st)"
  shows "task_ok s st (p, t)"
  using assms
  by (auto simp: route_def route_table_def Let_def decoded_def res_bind_eq_Inr handler_ok_def
      is_response_def received_as_def handlePromptsList_def handlePromptsGet_def
      handleResourcesList_def handleResourcesRead_def handleResourcesListTemplates_def
      handleToolsList_def handleToolsCall_def handleCompletePrompt_def handleCompleteResource_def
      split: if_splits option.splits bool.splits)

lemma srv_inv_handleMsg:
  assumes inv: "srv_inv s st" and rec: "(i, msg) \<in> set (sr_received st)"
  shows "srv_inv s (snd (handleMsg s i msg st))"
proof -
  have "srv_inv s (snd (perform p (route s msg) st))" if p: "smap_load (sr_sessions st) (KString i) = Some p" for p
  proof -
    have e: "session_entry_ok st (KString i, p)"
      using smap_load_Some_set [OF p] by (rule srv_invD(6) [OF inv])
    show ?thesis
      using inv e rec
      by (auto simp: perform_def session_entry_ok_def simp del: task_ok.simps
          intro!: srv_inv_spawn route_task_ok split: sum.split action.split)
  qed
  with inv show ?thesis by (simp add: handleMsg_route split: option.split)
qed

lemma srv_inv_run_task:
  assumes inv: "srv_inv s st" and r: "run_task s g out st = Some st'"
  shows "srv_inv s st'"
proof -
  from r obtain p t where g: "task_at st g = Some (p, t)"
    by (auto simp: run_task_def split: option.splits)
  note ok = task_at_ok [OF inv g]
  have done': "srv_inv s (set_task g GDone st1)" if "srv_inv s st1" "sr_tasks st1 = sr_tasks st"
    "length (sr_heap st1) = length (sr_heap st)" for st1
    using that ok by (intro srv_inv_set_task) simp_all
  note frames = handleResourcesSubscribe_def handleResourcesUnsubscribe_def
    handleNotificationsInitialized_def split_def Let_def
  show ?thesis
    using r g inv ok srv_inv_handler_begin [OF inv, of g p] srv_inv_handleResult [OF inv, of g p]
    by (cases t)
      (auto simp: run_task_def handleNotificationsCancelled_id split: if_splits
        intro!: done' inv_intros simp del: task_ok.simps,
       auto simp: frames)
qed

text \<open>The rule for invariants of the whole machine.\<close>

locale server_invariant =
  fixes inv :: "server \<Rightarrow> srv \<Rightarrow> bool"
  assumes init: "inv s srv_init"
    and preserved: "inv s st \<Longrightarrow> reach s st \<Longrightarrow> step s e st = Some st' \<Longrightarrow> inv s st'"
begin

lemma always: "reach s st \<Longrightarrow> inv s st"
  by (induction rule: reach.induct) (auto intro: init preserved)

lemma always_run: "run s es srv_init = Some st \<Longrightarrow> inv s st"
  by (rule always) (rule run_reach [OF reach_init])

end

lemma srv_inv_init: "srv_inv s srv_init"
  by (simp add: srv_inv_def srv_init_def ctx_wf_def channels_ok_def)

lemma srv_inv_exec:
  assumes inv: "srv_inv s st" and r: "exec_event s e st = Some st'"
  shows "srv_inv s st'"
proof (cases e)
  case EContext
  with assms show ?thesis by (auto intro!: srv_inv_new_ctx)
next
  case (EMessage i msg)
  with assms show ?thesis
    by (auto simp: guarded_def split: if_splits intro!: srv_inv_handleMsg srv_inv_received)
next
  case (EReturn g res out)
  with assms show ?thesis
    by (auto split: option.splits task.splits intro!: srv_inv_handler_return)
next
  case (EStopSession g)
  have "srv_inv s (set_task g GDone (st\<lparr>sr_sessions := smap_delete k (sr_sessions st)\<rparr>))"
    if "task_at st g = Some (p, GStopping)" for p k
    using task_at_okD [OF inv that] inv srv_invD(2) [OF inv]
    by (intro srv_inv_set_task srv_inv_tables [OF inv]) (auto dest: smap_delete_set)
  with EStopSession r show ?thesis
    by (auto simp: guarded_def split: option.splits task.splits if_splits)
next
  case (ERun g out)
  with r have "run_task s g out st = Some st'" by simp
  with inv show ?thesis by (rule srv_inv_run_task)
next
  case (EDeadline g)
  with r have "deadline g st = Some st'" by simp
  with inv show ?thesis by (rule srv_inv_deadline)
next
  case (EReply g d)
  with r have "reply g d st = Some st'" by simp
  with inv show ?thesis by (rule srv_inv_reply)
next
  case (EGiveUp g tick)
  with r have "give_up g tick st = Some st'" by simp
  with inv show ?thesis by (rule srv_inv_give_up)
next
  case (EListenDone p)
  with r have "listen_done p st = Some st'" by simp
  with inv show ?thesis by (rule srv_inv_listen_done)
next
  case (EUpdate l n)
  with r have "update s l n st = Some st'" by simp
  with inv show ?thesis by (rule srv_inv_update)
next
  case (EProgress tok params)
  with r have "listenProgress s tok params st = Some st'" by simp
  with inv show ?thesis by (rule srv_inv_listenProgress)
next
  case (EBroadcast l out)
  with r have "broadcast l out st = Some st'" by simp
  with inv show ?thesis by (rule srv_inv_broadcast)
next
  case (ERequest g msg reqID out)
  with r have "uuid_fresh st g reqID" "user_request g msg reqID out st = Some st'"
    by (simp_all add: guarded_def split: if_splits)
  with inv show ?thesis by (rule srv_inv_user_request)
next
  case (EPingTick g reqID out)
  with r have "uuid_fresh st g reqID" "ping g reqID out st = Some st'"
    by (simp_all add: guarded_def split: if_splits)
  with inv show ?thesis by (rule srv_inv_ping)
qed (use assms in \<open>auto simp: guarded_def srv_inv_stop srv_inv_cancel_ctx srv_inv_startSession
      split: if_splits\<close>)

lemma step_exec: "step s e st = Some st' \<Longrightarrow> exec_event s e st = Some st' \<and> sr_panic st = None"
  by (simp add: step_def split: if_splits)

interpretation si: server_invariant srv_inv
  by unfold_locales (auto intro: srv_inv_init srv_inv_exec dest: step_exec)

end
