(* ===== verification/ServerSafety.thy ===== *)
theory ServerSafety
  imports ServerInv
begin

text \<open>
  The safety properties of the running server, over every interleaving: user code only runs
  on initialized sessions, every response answers a request and no request is answered twice,
  a reply reaches the request it answers, stopping cancels everything, and the process does
  not panic while it is not stopped and has both completion components.
\<close>

section \<open>Responses are solicited\<close>

text \<open>The request id a goroutine is going to answer.\<close>

fun answers :: "task \<Rightarrow> MustString option" where
  "answers (GPing i) = Some i"
| "answers (GInitialize i q) = Some i"
| "answers (GHandler h) = Some (h_id h)"
| "answers (GInCall h c) = Some (h_id h)"
| "answers (GAwait h c r ch sctx) = Some (h_id h)"
| "answers (GSubscribe i q) = Some i"
| "answers (GUnsubscribe i q) = Some i"
| "answers (GSetLevel i q) = Some i"
| "answers _ = None"

definition pending_for :: "srv \<Rightarrow> string \<Rightarrow> MustString \<Rightarrow> nat \<times> task \<Rightarrow> bool" where
  "pending_for st sid i x \<longleftrightarrow> ss_id (sess_at st (fst x)) = sid \<and> answers (snd x) = Some i"

definition response_to :: "string \<Rightarrow> MustString \<Rightarrow> SessionMsg \<times> go_error option \<Rightarrow> bool" where
  "response_to sid i x \<longleftrightarrow>
     sm_sessionID (fst x) = sid \<and> msg_method (sm_msg (fst x)) = [] \<and> msg_id (sm_msg (fst x)) = i"

definition request_of :: "string \<Rightarrow> MustString \<Rightarrow> string \<times> JSONRPCMessage \<Rightarrow> bool" where
  "request_of sid i x \<longleftrightarrow> fst x = sid \<and> msg_method (snd x) \<noteq> [] \<and> msg_id (snd x) = i"

definition pending :: "srv \<Rightarrow> string \<Rightarrow> MustString \<Rightarrow> nat" where
  "pending st sid i = length (filter (pending_for st sid i) (sr_tasks st))"

definition responses :: "srv \<Rightarrow> string \<Rightarrow> MustString \<Rightarrow> nat" where
  "responses st sid i = length (filter (response_to sid i) (sr_sent st))"

definition requests :: "srv \<Rightarrow> string \<Rightarrow> MustString \<Rightarrow> nat" where
  "requests st sid i = length (filter (request_of sid i) (sr_received st))"

text \<open>What has been answered or will be.\<close>

definition load_of :: "srv \<Rightarrow> string \<Rightarrow> MustString \<Rightarrow> nat" where
  "load_of st sid i = responses st sid i + pending st sid i"

definition solicited :: "srv \<Rightarrow> bool" where
  "solicited st \<longleftrightarrow> (\<forall>sid i. load_of st sid i \<le> requests st sid i)"

subsection \<open>Counting lemmas\<close>

lemma length_filter_update:
  "g < length xs \<Longrightarrow>
     length (filter P (xs[g := x])) + of_bool (P (xs ! g)) = length (filter P xs) + of_bool (P x)"
proof (induction xs arbitrary: g)
  case Nil
  then show ?case by simp
next
  case (Cons a xs)
  then show ?case by (cases g) auto
qed

lemma pending_cong:
  assumes "sr_tasks st' = sr_tasks st"
    and "\<And>p t. (p, t) \<in> set (sr_tasks st) \<Longrightarrow> ss_id (sess_at st' p) = ss_id (sess_at st p)"
  shows "pending st' sid i = pending st sid i"
  unfolding pending_def assms(1)
  by (rule arg_cong [of _ _ length], rule filter_cong) (use assms(2) in \<open>auto simp: pending_for_def\<close>)

lemma pending_set_task:
  assumes "g < length (sr_tasks st)"
  shows "pending (set_task g t st) sid i + of_bool (pending_for st sid i (sr_tasks st ! g)) =
     pending st sid i + of_bool (pending_for st sid i (fst (sr_tasks st ! g), t))"
proof -
  have "pending_for (set_task g t st) sid i = pending_for st sid i"
    by (simp add: fun_eq_iff pending_for_def)
  with length_filter_update [OF assms, of "pending_for st sid i"] show ?thesis
    by (simp add: pending_def)
qed

lemma pending_spawn:
  "pending (spawn p t st) sid i = pending st sid i + of_bool (pending_for st sid i (p, t))"
proof -
  have "pending_for (spawn p t st) sid i = pending_for st sid i"
    by (simp add: fun_eq_iff pending_for_def)
  then show ?thesis by (simp add: pending_def)
qed

lemma sent_frames [simp]:
  "sr_sent (panic x st) = sr_sent st"
  "sr_sent (logError e st) = sr_sent st"
  "sr_sent (log_failure f out st) = sr_sent st"
  "sr_sent (user_effect u st) = sr_sent st"
  by (simp_all add: panic_def logError_def log_failure_def user_effect_def split: option.split)

text \<open>One, if.\<close>

definition once :: "bool \<Rightarrow> nat" where "once b = of_bool b"

lemma responses_send:
  "responses (sendResult p j r out st) sid i \<le>
     responses st sid i + once (ss_id (sess_at st p) = sid \<and> j = i)"
  "responses (sendError p j err out st) sid i \<le>
     responses st sid i + once (ss_id (sess_at st p) = sid \<and> j = i)"
  by (simp_all add: responses_def sendResult_def sendError_def transport_send_def response_to_def
      once_def split: sum.split)

lemma responses_sendNotification:
  "meth \<noteq> [] \<Longrightarrow> responses (sendNotification p meth params out st) sid i = responses st sid i"
  by (simp add: responses_def sendNotification_def transport_send_def response_to_def
      split: sum.split)

lemma responses_transport_send:
  "msg_method m \<noteq> [] \<Longrightarrow> responses (transport_send p m out st) sid i = responses st sid i"
  by (simp add: responses_def transport_send_def response_to_def)

lemma responses_cong: "sr_sent st' = sr_sent st \<Longrightarrow> responses st' sid i = responses st sid i"
  by (simp add: responses_def)

lemma responses_frames [simp]:
  "responses (set_task g t st) sid i = responses st sid i"
  "responses (spawn p t st) sid i = responses st sid i"
  "responses (cancel_ctx c e st) sid i = responses st sid i"
  "responses (upd_sess p f st) sid i = responses st sid i"
  "responses (logError e st) sid i = responses st sid i"
  "responses (panic x st) sid i = responses st sid i"
  "responses (user_effect u st) sid i = responses st sid i"
  "responses (bind_progress p m st) sid i = responses st sid i"
  "responses (fst (new_ctx pc st)) sid i = responses st sid i"
  "responses (fst (track_request p j st)) sid i = responses st sid i"
  by (rule responses_cong, simp)+

text \<open>A step that owes no more than before.\<close>

definition settles :: "srv \<Rightarrow> srv \<Rightarrow> bool" where
  "settles st st' \<longleftrightarrow>
     sr_received st' = sr_received st \<and> (\<forall>sid i. load_of st' sid i \<le> load_of st sid i)"

lemma settles_solicited: "settles st st' \<Longrightarrow> solicited st \<Longrightarrow> solicited st'"
  unfolding settles_def solicited_def requests_def by (metis le_trans)

lemma settles_refl [simp]: "settles st st"
  by (simp add: settles_def)

lemma settles_trans [trans]: "settles a b \<Longrightarrow> settles b c \<Longrightarrow> settles a c"
  unfolding settles_def by (metis le_trans)

text \<open>Same goroutines, same session ids, no response.\<close>

lemma settles_silent:
  assumes "sr_tasks st' = sr_tasks st" "sr_received st' = sr_received st"
    and "\<And>sid i. responses st' sid i = responses st sid i"
    and "\<And>p t. (p, t) \<in> set (sr_tasks st) \<Longrightarrow> ss_id (sess_at st' p) = ss_id (sess_at st p)"
  shows "settles st st'"
  using pending_cong [OF assms(1,4)] assms(2,3) by (simp add: settles_def load_of_def)

text \<open>A goroutine that answers \<open>j\<close> sends at most one response to \<open>j\<close> and ends.\<close>

lemma settles_finish:
  assumes g: "task_at st g = Some (p, t)"
    and st1: "sr_tasks st1 = sr_tasks st" "sr_received st1 = sr_received st"
      "\<And>q. ss_id (sess_at st1 q) = ss_id (sess_at st q)"
    and resp: "\<And>sid i. responses st1 sid i \<le>
        responses st sid i + once (ss_id (sess_at st p) = sid \<and> answers t = Some i)"
  shows "settles st (set_task g GDone st1)"
proof -
  from g have at: "g < length (sr_tasks st)" "sr_tasks st ! g = (p, t)" by (simp_all add: task_at_Some)
  have "load_of (set_task g GDone st1) sid i \<le> load_of st sid i" for sid i
    using pending_set_task [of g st1 GDone sid i] pending_cong [OF st1(1,3), of sid i] resp [of sid i]
    by (simp add: load_of_def st1 at pending_for_def once_def split: if_splits)
  then show ?thesis by (simp add: settles_def st1)
qed

text \<open>A goroutine moves on without a response and still answers the same request, or none.\<close>

lemma settles_move:
  assumes g: "task_at st g = Some (p, t)" and "settles st st1"
    and st1: "sr_tasks st1 = sr_tasks st" "\<And>q. ss_id (sess_at st1 q) = ss_id (sess_at st q)"
    and t': "answers t' = answers t \<or> answers t' = None"
  shows "settles st (set_task g t' st1)"
proof -
  from g have at: "g < length (sr_tasks st)" "sr_tasks st ! g = (p, t)" by (simp_all add: task_at_Some)
  have "load_of (set_task g t' st1) sid i \<le> load_of st1 sid i" for sid i
    using pending_set_task [of g st1 t' sid i] t'
    by (auto simp: load_of_def st1 at pending_for_def)
  then have "settles st1 (set_task g t' st1)" by (simp add: settles_def)
  with assms(2) show ?thesis by (rule settles_trans)
qed

lemma solicited_init: "solicited srv_init"
  by (simp add: solicited_def load_of_def pending_def responses_def requests_def srv_init_def)

text \<open>The dispatcher promises an answer only to the id of the request it is given.\<close>

lemma route_answers:
  assumes "route s msg = Inr (ASpawn t tok)" "answers t = Some j"
  shows "j = msg_id msg" "msg_method msg \<noteq> []"
proof -
  have "j = msg_id msg \<and> msg_method msg \<noteq> []"
    using assms
    by (auto simp: route_def route_table_def Let_def decoded_def res_bind_eq_Inr method_defs
        handlePromptsList_def handlePromptsGet_def handleResourcesList_def handleResourcesRead_def
        handleResourcesListTemplates_def handleToolsList_def handleToolsCall_def
        handleCompletePrompt_def handleCompleteResource_def
        split: if_splits option.splits bool.splits)
  then show "j = msg_id msg" "msg_method msg \<noteq> []" by simp_all
qed

lemma requests_received:
  "requests (st\<lparr>sr_received := sr_received st @ [(i, m)]\<rparr>) sid k =
     requests st sid k + once (i = sid \<and> msg_method m \<noteq> [] \<and> msg_id m = k)"
  by (simp add: requests_def request_of_def once_def)

lemma load_received [simp]: "load_of (st\<lparr>sr_received := r\<rparr>) sid k = load_of st sid k"
  by (simp add: load_of_def responses_def pending_def pending_for_def [abs_def])

lemma load_ops [simp]:
  "load_of (bind_progress p m st) sid k = load_of st sid k"
  "load_of (user_effect u st) sid k = load_of st sid k"
  by (simp_all add: load_of_def pending_def pending_for_def [abs_def])

lemma load_handleMsg:
  assumes inv: "srv_inv s st"
  shows "load_of (snd (handleMsg s i msg st)) sid k \<le>
     load_of st sid k + once (i = sid \<and> msg_method msg \<noteq> [] \<and> msg_id msg = k)"
proof -
  have "load_of (snd (perform p (route s msg) st)) sid k \<le>
      load_of st sid k + once (i = sid \<and> msg_method msg \<noteq> [] \<and> msg_id msg = k)"
    if p: "smap_load (sr_sessions st) (KString i) = Some p" for p
  proof -
    have id: "ss_id (sess_at st p) = i"
      using srv_invD(6) [OF inv smap_load_Some_set [OF p]] by (simp add: session_entry_ok_def)
    have spawned: "load_of (spawn p t st1) sid k = load_of st1 sid k +
        of_bool (ss_id (sess_at st1 p) = sid \<and> answers t = Some k)" for t st1
      by (simp add: load_of_def pending_spawn pending_for_def)
    show ?thesis
      using id by (auto simp: perform_def spawned once_def split: sum.split action.split dest: route_answers)
  qed
  then show ?thesis by (simp add: handleMsg_route split: option.split)
qed

subsection \<open>Steps\<close>

lemma upd_sess_ids [simp]:
  "(\<And>x. ss_id (f x) = ss_id x) \<Longrightarrow> ss_id ((sr_heap st)[p := f (sr_heap st ! p)] ! q) = ss_id (sess_at st q)"
  by (rule nth_update_proj) simp

lemma pending_same: "sr_tasks st' = sr_tasks st \<Longrightarrow> sr_heap st' = sr_heap st \<Longrightarrow> pending st' sid i = pending st sid i"
  by (rule pending_cong) simp_all

lemma settles_log [simp]:
  "settles st (logError e st1) = settles st st1"
  "settles st (panic x st1) = settles st st1"
  "settles st (cancel_ctx c e st1) = settles st st1"
  by (simp_all add: settles_def load_of_def pending_same [of "logError e st1" st1]
      pending_same [of "panic x st1" st1] pending_same [of "cancel_ctx c e st1" st1])

lemma settles_track_request: "settles st (fst (track_request p i st))"
  by (rule settles_silent) (simp_all add: track_request_session)

lemma responses_handlers:
  "responses (handlePing p j out st) sid i \<le> responses st sid i + once (ss_id (sess_at st p) = sid \<and> j = i)"
  "responses (handleInitialize p j ip sc cc info out st) sid i \<le>
     responses st sid i + once (ss_id (sess_at st p) = sid \<and> j = i)"
  "responses (handleLoggingSetLevel p j lp out st) sid i \<le>
     responses st sid i + once (ss_id (sess_at st p) = sid \<and> j = i)"
proof -
  note le = responses_send [THEN order_trans]
  show "responses (handlePing p j out st) sid i \<le> responses st sid i + once (ss_id (sess_at st p) = sid \<and> j = i)"
    unfolding handlePing_def by (rule responses_send)
  show "responses (handleInitialize p j ip sc cc info out st) sid i \<le>
     responses st sid i + once (ss_id (sess_at st p) = sid \<and> j = i)"
    unfolding handleInitialize_def Let_def
    using responses_send(2) [of p j _ out "logError _ st" sid i] responses_send(1) [of p j _ out st sid i]
    by simp
  show "responses (handleLoggingSetLevel p j lp out st) sid i \<le>
     responses st sid i + once (ss_id (sess_at st p) = sid \<and> j = i)"
    unfolding handleLoggingSetLevel_def
    using responses_send(1) [of p j _ out "user_effect _ st" sid i] by simp
qed

text \<open>The two subscription handlers keep the goroutines and ids and send one response.\<close>

lemma subscription_handler:
  assumes "st' \<in> {handleResourcesSubscribe p j sp out st, handleResourcesUnsubscribe p j up out st}"
  shows "sr_tasks st' = sr_tasks st" "sr_received st' = sr_received st"
    "ss_id (sess_at st' q) = ss_id (sess_at st q)"
    "responses st' sid i \<le> responses st sid i + once (ss_id (sess_at st p) = sid \<and> j = i)"
proof -
  let ?st1 = "\<lambda>u f. upd_sess p f (user_effect u (fst (track_request p j st)))"
  note defs = handleResourcesSubscribe_def handleResourcesUnsubscribe_def split_def Let_def
  show "sr_tasks st' = sr_tasks st" "sr_received st' = sr_received st"
    using assms by (auto simp: defs)
  show "ss_id (sess_at st' q) = ss_id (sess_at st q)"
    using assms by (auto simp: defs track_request_session nth_update_proj)
  have "responses (sendResult p j r out (?st1 u f)) sid i \<le>
      responses st sid i + once (ss_id (sess_at st p) = sid \<and> j = i)"
    if "\<And>x. ss_id (f x) = ss_id x" for u f r
    using responses_send(1) [of p j r out "?st1 u f" sid i] that
    by (simp add: track_request_session)
  then show "responses st' sid i \<le> responses st sid i + once (ss_id (sess_at st p) = sid \<and> j = i)"
    using assms by (auto simp: defs)
qed

lemma settles_run_task:
  assumes inv: "srv_inv s st" and r: "run_task s g out st = Some st'"
  shows "settles st st'"
proof -
  from r obtain p t where g: "task_at st g = Some (p, t)"
    by (auto simp: run_task_def split: option.splits)
  note finish = settles_finish [OF g] and move = settles_move [OF g]
  show ?thesis
  proof (cases t)
    case (GPing i)
    with r g have "st' = set_task g GDone (handlePing p i out st)" by (simp add: run_task_def)
    then show ?thesis using GPing by (auto intro!: finish responses_handlers)
  next
    case (GInitialize i q)
    with r g show ?thesis by (auto simp: run_task_def intro!: finish responses_handlers)
  next
    case (GHandler h)
    with r g show ?thesis
      by (auto simp: run_task_def handler_begin_def split_def Let_def track_request_session
          settles_track_request intro!: move)
  next
    case (GSubscribe i q)
    with r g show ?thesis
      by (auto simp: run_task_def intro!: finish subscription_handler)
  next
    case (GUnsubscribe i q)
    with r g show ?thesis by (auto simp: run_task_def intro!: finish subscription_handler)
  next
    case (GSetLevel i q)
    with r g show ?thesis by (auto simp: run_task_def intro!: finish responses_handlers)
  next
    case GInitialized
    with r g show ?thesis
      by (auto simp: run_task_def handleNotificationsInitialized_def intro!: finish)
  next
    case (GCancelled q)
    with r g show ?thesis
      by (auto simp: run_task_def handleNotificationsCancelled_def split: option.splits intro!: finish)
  next
    case (GResult m)
    with r g show ?thesis
      by (auto simp: run_task_def handleResult_def split: option.splits intro!: move)
  qed (use r g in \<open>auto simp: run_task_def split: if_splits intro!: move\<close>)
qed

lemma settles_handler_return:
  assumes g: "task_at st g = Some (p, GInCall h c)"
  shows "settles st (handler_return g p h c res out st)"
  unfolding handler_return_def
  by (rule settles_finish [OF g]) (auto split: sum.split intro: responses_send)

lemma sendRequest_silent:
  assumes "msg_method m \<noteq> []"
  shows "settles st (fst (sendRequest p m reqID out st))"
    and "ss_id (sess_at (fst (sendRequest p m reqID out st)) q) = ss_id (sess_at st q)"
proof -
  show ids: "ss_id (sess_at (fst (sendRequest p m reqID out st)) q) = ss_id (sess_at st q)" for q
    by (simp add: sendRequest_def split_def Let_def registerRequest_state split: option.split)
  have resp: "responses (fst (sendRequest p m reqID out st)) sid i = responses st sid i" for sid i
    using assms by (simp add: sendRequest_def split_def Let_def registerRequest_state
      responses_transport_send split: option.split) (simp add: responses_def)
  show "settles st (fst (sendRequest p m reqID out st))"
    by (rule settles_silent [OF _ _ resp ids])
      (simp_all add: sendRequest_def split_def Let_def registerRequest_state split: option.split)
qed

lemma settles_user_request:
  assumes "user_request g m reqID out st = Some st'" "msg_method m \<noteq> []"
  shows "settles st st'"
  using assms sendRequest_silent [OF assms(2)]
  by (auto simp: user_request_def split_def Let_def sendRequest_state split: option.splits task.splits if_splits
      intro!: settles_move)

lemma settles_ping:
  assumes "ping g reqID out st = Some st'"
  shows "settles st st'"
proof -
  have "msg_method ping_msg \<noteq> []" by (simp add: ping_msg_def method_defs)
  note silent = sendRequest_silent [OF this]
  show ?thesis
    using assms silent
    by (auto simp: ping_def split_def Let_def sendRequest_state split: option.splits task.splits
        intro!: settles_move)
qed

lemma settles_deadline: "deadline g st = Some st' \<Longrightarrow> settles st st'"
  by (auto simp: deadline_def split: option.splits task.splits)

lemma settles_give_up: "give_up g tick st = Some st' \<Longrightarrow> settles st st'"
  by (auto simp: give_up_def split: option.splits task.splits if_splits intro!: settles_move)

lemma settles_replies: "settles st (st\<lparr>sr_replies := r\<rparr>)"
  by (rule settles_silent) (simp_all add: responses_def)

lemma settles_reply:
  assumes "reply g d st = Some st'"
  shows "settles st st'"
  using assms
proof (cases rule: reply_cases)
  case (call p h c reqID ch sctx q m)
  let ?st1 = "cancel_ctx sctx ErrCanceled (st\<lparr>sr_replies := sr_replies st @ [(p, reqID, m)]\<rparr>)"
  have "settles st (set_task d GDone ?st1)"
    by (rule settles_move [OF call(2)]) (simp_all add: settles_replies)
  also have "settles \<dots> st'"
    unfolding call(3) using call(1,2)
    by (intro settles_move [of _ g p "GAwait h c reqID ch sctx"])
      (auto simp: task_at_Some nth_list_update)
  finally show ?thesis .
next
  case (ping p reqID ch sctx q m st1)
  let ?st1 = "cancel_ctx sctx ErrCanceled (st\<lparr>sr_replies := sr_replies st @ [(p, reqID, m)]\<rparr>)"
  have "settles st (set_task d GDone ?st1)"
    by (rule settles_move [OF ping(2)]) (simp_all add: settles_replies)
  also have "settles \<dots> st1"
    unfolding ping(3) using ping(1,2)
    by (intro settles_move [of _ g p "GPingAwait reqID ch sctx"])
      (auto simp: task_at_Some nth_list_update)
  finally show ?thesis unfolding ping(4) by (simp split: option.split)
qed

lemma settles_spawn: "settles st st1 \<Longrightarrow> answers t = None \<Longrightarrow> settles st (spawn p t st1)"
  by (simp add: settles_def load_of_def pending_spawn pending_for_def)

lemma settles_listen_done: "listen_done p st = Some st' \<Longrightarrow> settles st st'"
  by (auto simp: listen_done_def split: if_splits intro!: settles_spawn settles_silent)

lemma responses_listen: "responses (listen p n out st) sid i = responses st sid i"
  by (simp add: listen_def responses_sendNotification method_defs split: notice.split)

lemma settles_broadcast: "broadcast l out st = Some st' \<Longrightarrow> settles st st'"
  by (auto simp: broadcast_def responses_listen split: option.splits list.splits if_splits intro!: settles_silent)
    (simp_all add: responses_def)

lemma settles_startSession:
  assumes "srv_inv s st"
  shows "settles st (startSession s c i st)"
proof -
  have "p < length (sr_heap st)" if "(p, t) \<in> set (sr_tasks st)" for p t
    using srv_invD(5) [OF assms that] by simp
  then show ?thesis
    by (auto simp: startSession_state Let_def nth_append responses_def
        intro!: settles_spawn settles_silent)
qed

lemma settles_end_session:
  "task_at st g = Some (p, t) \<Longrightarrow> settles st (set_task g GDone (st\<lparr>sr_sessions := x\<rparr>))"
  by (rule settles_move, assumption, rule settles_silent) (simp_all add: responses_def)

lemma solicited_exec:
  assumes inv: "srv_inv s st" and sol: "solicited st" and r: "exec_event s e st = Some st'"
  shows "solicited st'"
proof (cases "\<exists>i msg. e = EMessage i msg")
  case True
  then obtain i msg where e: "e = EMessage i msg" by blast
  let ?st = "st\<lparr>sr_received := sr_received st @ [(i, msg)]\<rparr>"
  from r e have st': "st' = snd (handleMsg s i msg ?st)" by (simp add: guarded_def split: if_splits)
  have "load_of st' sid k \<le> requests ?st sid k" for sid k
    using load_handleMsg [OF srv_inv_received [OF inv], of i msg "[(i, msg)]" sid k] sol
    unfolding st' requests_received solicited_def by (simp add: le_trans)
  moreover have "sr_received st' = sr_received ?st"
    by (simp add: st' handleMsg_route perform_def split: option.split sum.split action.split)
  ultimately show ?thesis by (simp add: solicited_def requests_def)
next
  case False
  have "settles st st'"
    using False r
    by (cases e)
      (auto simp: guarded_def split: if_splits option.splits task.splits
        dest: settles_run_task [OF inv] settles_deadline settles_reply settles_give_up settles_listen_done
          settles_broadcast settles_user_request settles_ping
        intro!: settles_handler_return settles_startSession [OF inv] settles_end_session,
       auto simp: stop_def update_def listenProgress_def responses_def
        split: if_splits option.splits intro!: settles_silent settles_move)
  then show ?thesis using sol by (rule settles_solicited)
qed

interpretation sol: server_invariant "\<lambda>s. solicited"
  by unfold_locales (auto intro: solicited_init solicited_exec si.always dest: step_exec)

section \<open>Panics\<close>

text \<open>
  The errors channel is closed exactly when the server is stopped. A panic needs a stopped
  server or a missing completion component.
\<close>

definition calm :: "server \<Rightarrow> srv \<Rightarrow> bool" where
  "calm s st \<longleftrightarrow>
     sr_errsClosed st = sr_closed st \<and>
     (sr_panic st \<noteq> None \<longrightarrow> sr_closed st \<or> sv_promptServer s = None \<or> sv_resourceServer s = None)"

text \<open>Operations that only panic through the closed errors channel.\<close>

definition tame :: "srv \<Rightarrow> srv \<Rightarrow> bool" where
  "tame st st' \<longleftrightarrow>
     sr_errsClosed st' = sr_errsClosed st \<and> sr_closed st' = sr_closed st \<and>
     (sr_panic st = None \<longrightarrow> sr_panic st' \<noteq> None \<longrightarrow> sr_errsClosed st)"

lemma tame_logError [simp]: "tame st (logError e st1) = tame st st1"
  by (auto simp: tame_def logError_def panic_def)

lemma tame_quiet:
  "sr_errsClosed st2 = sr_errsClosed st1 \<Longrightarrow> sr_closed st2 = sr_closed st1 \<Longrightarrow>
   sr_panic st2 = sr_panic st1 \<Longrightarrow> tame st st2 = tame st st1"
  by (simp add: tame_def)

lemma panic_frames [simp]:
  "sr_panic (transport_send p m out st) = sr_panic st"
  "sr_panic (user_effect u st) = sr_panic st"
  by (simp_all add: transport_send_def user_effect_def)

lemma tame_ops [simp]:
  "tame st (transport_send p m out st1) = tame st st1"
  "tame st (user_effect u st1) = tame st st1"
  "tame st (set_task g t st1) = tame st st1"
  "tame st (spawn p t st1) = tame st st1"
  "tame st (cancel_ctx c e st1) = tame st st1"
  "tame st (upd_sess p f st1) = tame st st1"
  "tame st (bind_progress p pm st1) = tame st st1"
  "tame st (fst (new_ctx pc st1)) = tame st st1"
  "tame st (fst (track_request p i st1)) = tame st st1"
  "tame st (fst (registerRequest p r st1)) = tame st st1"
  by (rule tame_quiet; simp add: registerRequest_state)+

lemma tame_fields [simp]:
  "tame st (st1\<lparr>sr_heap := h\<rparr>) = tame st st1"
  "tame st (st1\<lparr>sr_sessions := m\<rparr>) = tame st st1"
  "tame st (st1\<lparr>sr_bcasts := b\<rparr>) = tame st st1"
  "tame st (st1\<lparr>sr_replies := r\<rparr>) = tame st st1"
  "tame st (st1\<lparr>sr_received := i\<rparr>) = tame st st1"
  by (rule tame_quiet; simp)+

lemma tame_refl [simp]: "tame st st"
  by (simp add: tame_def)

lemma tame_log_failure [simp]: "tame st (log_failure f out st1) = tame st st1"
  by (simp add: log_failure_def split: option.split)

lemma tame_sends [simp]:
  "tame st (sendNotification p meth params out st1) = tame st st1"
  "tame st (sendResult p i r out st1) = tame st st1"
  "tame st (sendError p i err out st1) = tame st st1"
  "tame st (fst (sendRequest p m reqID out st1)) = tame st st1"
  by (simp_all add: sendNotification_def sendResult_def sendError_def sendRequest_def split_def Let_def
      split: sum.split option.split)

lemma tame_handlers [simp]:
  "tame st (handlePing p i out st1) = tame st st1"
  "tame st (handleInitialize p i ip sc cc info out st1) = tame st st1"
  "tame st (handleLoggingSetLevel p i lp out st1) = tame st st1"
  "tame st (handleResourcesSubscribe p i sp out st1) = tame st st1"
  "tame st (handleResourcesUnsubscribe p i up out st1) = tame st st1"
  "tame st (handleNotificationsInitialized p st1) = tame st st1"
  "tame st (handleResult g p m st1) = tame st st1"
  "tame st (handler_return g p h c res out st1) = tame st st1"
  "tame st (listen p n out st1) = tame st st1"
  "tame st (startSession s c k st1) = tame st st1"
  by (simp_all add: handlePing_def handleInitialize_def handleLoggingSetLevel_def
      handleResourcesSubscribe_def handleResourcesUnsubscribe_def handleNotificationsInitialized_def
      handleResult_def handler_return_def listen_def startSession_state split_def Let_def
      split: option.split sum.split notice.split)

lemma tame_handleMsg [simp]: "tame st (snd (handleMsg s i m st1)) = tame st st1"
  by (simp add: handleMsg_route perform_def split: option.split sum.split action.split)

lemma tame_calm: "tame st st' \<Longrightarrow> sr_panic st = None \<Longrightarrow> calm s st \<Longrightarrow> calm s st'"
  by (auto simp: tame_def calm_def)

lemma handler_begin_eq:
  "handler_begin g p h st =
     (if \<not> ss_initialized (sess_at st p) then set_task g GDone st
      else if h_server h = None then panic NilDereference (fst (track_request p (h_id h) st))
      else set_task g (GInCall h (length (sr_ctxs st))) (fst (track_request p (h_id h) st)))"
  by (simp add: handler_begin_def split_def Let_def track_request_state(1))

lemma calm_run_task:
  assumes inv: "srv_inv s st" and c: "calm s st" "sr_panic st = None" and r: "run_task s g out st = Some st'"
  shows "calm s st'"
proof -
  from r obtain p t where g: "task_at st g = Some (p, t)"
    by (auto simp: run_task_def split: option.splits)
  note ok = task_at_ok [OF inv g]
  show ?thesis
  proof (cases "\<exists>h. t = GHandler h")
    case True
    then obtain h where h: "t = GHandler h" by blast
    then have "st' = handler_begin g p h st" "handler_ok s h"
      using r g ok(1) by (simp_all add: run_task_def)
    then show ?thesis
      using c by (auto simp: handler_begin_eq handler_ok_def calm_def panic_def split: if_splits)
  next
    case False
    then have "tame st st'"
      using r g ok handleNotificationsCancelled_id [OF inv ok(3)]
      by (cases t) (auto simp: run_task_def simp del: task_ok.simps split: if_splits)
    then show ?thesis using c(2,1) by (rule tame_calm)
  qed
qed

lemma calm_exec:
  assumes inv: "srv_inv s st" and c: "calm s st" "sr_panic st = None" and r: "exec_event s e st = Some st'"
  shows "calm s st'"
proof -
  have "tame st st'" if "e \<noteq> EStop" "e \<noteq> ELoopExit" "e \<noteq> EZeroSession" "\<forall>g out. e \<noteq> ERun g out"
    using that r
    by (cases e)
      (auto simp: guarded_def user_request_def ping_def deadline_def reply_def give_up_def
        listen_done_def update_def listenProgress_def broadcast_def split_def Let_def
        split: if_splits option.splits task.splits list.splits)
  moreover have ?thesis if "e = EStop \<or> e = ELoopExit \<or> e = EZeroSession"
    using that r c by (auto simp: guarded_def stop_def calm_def panic_def split: if_splits)
  moreover have ?thesis if "e = ERun g out" for g out
    using calm_run_task [OF inv c] that r by simp
  ultimately show ?thesis using tame_calm [OF _ c(2,1)] by blast
qed

lemma calm_init: "calm s srv_init"
  by (simp add: calm_def srv_init_def)

interpretation cl: server_invariant calm
  by unfold_locales (auto intro: calm_init calm_exec si.always dest: step_exec)

section \<open>The answer to initialize\<close>

lemma handleInitialize_message:
  assumes "sr_panic st = None" "\<not> sr_errsClosed st"
  shows "\<exists>m. sr_sent (handleInitialize p i q cap req info out st) =
           sr_sent st @ [(\<lparr>sm_sessionID = ss_id (sess_at st p), sm_msg = m\<rparr>, out)] \<and>
         msg_id m = i \<and> msg_method m = [] \<and>
         (if ip_protocolVersion q = protocolVersion \<and> client_caps_meet req (ip_capabilities q)
          then msg_error m = None \<and> msg_result m = Some (enc_initializeResult
                 \<lparr>ir_protocolVersion = protocolVersion, ir_capabilities = cap, ir_serverInfo = info\<rparr>)
          else msg_result m = None \<and> (\<exists>e x. msg_error m = Some e \<and> err_code e = jsonRPCInvalidParamsCode \<and> err_data e = error_data x))"
proof -
  have meet: "client_caps_meet req got \<longleftrightarrow>
      \<not> (cc_roots req \<noteq> None \<and> cc_roots got = None) \<and>
      \<not> (roots_listChanged (cc_roots req) \<and> \<not> roots_listChanged (cc_roots got)) \<and>
      \<not> (cc_sampling req \<noteq> None \<and> cc_sampling got = None)" for got
    by (cases "cc_roots req"; cases "cc_roots got"; cases "cc_sampling req"; cases "cc_sampling got")
      (auto simp: client_caps_meet_def roots_listChanged_def)
  have quiet: "sr_panic (logError e st) = None" for e
    using assms by (simp add: logError_def)
  show ?thesis
    unfolding handleInitialize_def Let_def meet
    by (auto simp: sendError_def sendResult_def transport_send_def quiet assms JSONRPCMessage_zero_def)
qed

end
