(* ===== verification/ServerExample.thy ===== *)
theory ServerExample
  imports ServerRun
begin

text \<open>
  A concrete server and concrete sequences of events, at which the properties of
  \<^verbatim>\<open>ServerProps\<close> are instantiated: a client initializes, calls a tool, answers the request the
  tool sends back, gets its result; subscribes to a resource; the server is stopped.
\<close>

definition demo_server :: server where
  "demo_server = newServer
     \<lparr>us_Info = \<lparr>info_name = ''demo'', info_version = ''1''\<rparr>,
      us_RequireRootsListClient = True, us_RequireSamplingClient = False\<rparr>
     TransportStdIO
     [WithPromptServer (Some 1), WithResourceServer (Some 2), WithToolServer (Some 3),
      WithResourceSubscribedUpdater (Some 2), WithProgressReporter (Some 3), WithLogHandler (Some 4)]"

definition demo_msg :: "string \<Rightarrow> string \<Rightarrow> json \<Rightarrow> JSONRPCMessage" where
  "demo_msg i meth params = JSONRPCMessage_zero\<lparr>msg_jsonrpc := JSONRPCVersion, msg_id := i,
     msg_method := meth, msg_params := Some params\<rparr>"

text \<open>A session \<open>a\<close> is initialized and a tool call with id 7 is inside user code.\<close>

definition demo_open :: "event list" where
  "demo_open =
     [EContext, ESession 0 ''a'',
      EMessage ''a'' (demo_msg [] methodNotificationsInitialized JNull), ERun 0 None,
      EMessage ''a'' (demo_msg ''7'' MethodToolsCall
        (JObj [(''name'', JStr ''echo''), (''_meta'', JObj [(''progressToken'', JStr ''t'')])])),
      ERun 1 None]"

text \<open>The tool asks the client for its roots and is answered; the call returns.\<close>

definition demo_answer :: "event list" where
  "demo_answer =
     [ERequest 1 (demo_msg [] MethodRootsList JNull) ''u1'' None,
      EMessage ''a'' (demo_msg ''u1'' [] JNull), ERun 2 None, EReply 1 2,
      EReturn 1 (Inr (Inr JNull)) None]"

definition demo_subscribe :: "event list" where
  "demo_subscribe =
     [EMessage ''a'' (demo_msg ''8'' MethodResourcesSubscribe (JObj [(''uri'', JStr ''r'')])),
      ERun 2 None]"

definition demo_state :: "event list \<Rightarrow> srv" where
  "demo_state es = the (run demo_server es srv_init)"

lemma demo_reach: "run demo_server es srv_init \<noteq> None \<Longrightarrow> reach demo_server (demo_state es)"
  unfolding demo_state_def by (auto intro: run_reach [OF reach_init])

lemma demo_open_runs: "run demo_server demo_open srv_init \<noteq> None"
  by code_simp

lemma demo_answer_runs: "run demo_server (demo_open @ demo_answer) srv_init \<noteq> None"
  by code_simp

lemma demo_subscribe_runs: "run demo_server (demo_open @ demo_subscribe) srv_init \<noteq> None"
  by code_simp

end
