(* ===== verification/ServerProps.thy ===== *)
theory ServerProps
  imports ServerSafety ServerExample
begin

text \<open>
  The properties of the server, stated over its definitions and instantiated at the runs of
  \<^verbatim>\<open>ServerExample\<close>.
\<close>

section \<open>Over every reachable state\<close>

text \<open>The goroutines that are inside user code.\<close>

fun in_user_code :: "task \<Rightarrow> bool" where
  "in_user_code (GInCall h c) = True"
| "in_user_code (GAwait h c reqID ch sctx) = True"
| "in_user_code _ = False"

text \<open>
  C2. User code behind a request runs only for a client that has sent
  \<^verbatim>\<open>notifications/initialized\<close>: in every reachable state, a goroutine that is inside a prompt,
  resource, tool or completion call (or waits for the client on behalf of one) belongs to a
  session from which that notification was received before.
\<close>

theorem user_code_gated:
  assumes "reach s st" "(p, t) \<in> set (sr_tasks st)" "in_user_code t"
  shows "ss_initialized (sess_at st p) \<and>
    (\<exists>m. (ss_id (sess_at st p), m) \<in> set (sr_received st) \<and>
         msg_method m = methodNotificationsInitialized)"
proof -
  note inv = si.always [OF assms(1)]
  from srv_invD(5) [OF inv assms(2)] assms(3)
  have p: "p < length (sr_heap st)" and "ss_initialized (sess_at st p)"
    by (cases t; simp add: in_call_ok_def)+
  with srv_invD(4) [OF inv p] show ?thesis by (simp add: sess_ok_def received_as_def)
qed

theorem user_code_gated_witness:
  "\<exists>m. (''a'', m) \<in> set (sr_received (demo_state demo_open)) \<and>
       msg_method m = methodNotificationsInitialized"
proof -
  let ?st = "demo_state demo_open"
  have "list_ex (\<lambda>(p, t). p = 0 \<and> in_user_code t) (sr_tasks ?st)" by code_simp
  then obtain t where t: "(0, t) \<in> set (sr_tasks ?st)" "in_user_code t"
    by (auto simp: list_ex_iff)
  moreover have "ss_id (sess_at ?st 0) = ''a''" by code_simp
  ultimately show ?thesis
    using user_code_gated [OF demo_reach [OF demo_open_runs] t] by auto
qed

text \<open>
  C1. Every response is solicited and no request is answered twice: in every reachable state,
  the number of responses (messages without a method) the server has handed to the transport
  for a session and an id is at most the number of requests received from that session with
  that id.
\<close>

theorem responses_solicited:
  assumes "reach s st"
  shows "length (filter (response_to sid i) (sr_sent st)) \<le>
         length (filter (request_of sid i) (sr_received st))"
  using sol.always [OF assms]
  by (simp add: solicited_def load_of_def responses_def requests_def) (meson add_leD1)

theorem responses_solicited_witness:
  "length (filter (response_to ''a'' ''7'') (sr_sent (demo_state (demo_open @ demo_answer)))) = 1"
proof -
  let ?st = "demo_state (demo_open @ demo_answer)"
  have "length (filter (response_to ''a'' ''7'') (sr_sent ?st)) \<le>
      length (filter (request_of ''a'' ''7'') (sr_received ?st))"
    by (rule responses_solicited [OF demo_reach [OF demo_answer_runs]])
  moreover have "length (filter (request_of ''a'' ''7'') (sr_received ?st)) = 1" by code_simp
  moreover have "filter (response_to ''a'' ''7'') (sr_sent ?st) \<noteq> []" by code_simp
  ultimately show ?thesis by (simp add: le_Suc_eq)
qed

text \<open>
  C3. A reply reaches the request it answers: whenever a request that user code or the ping
  loop sent to a client was completed with a message, that message was received from the same
  client, is a response, and carries the id of that request.
\<close>

theorem reply_correlated:
  assumes "reach s st" "(p, reqID, m) \<in> set (sr_replies st)"
  shows "msg_id m = reqID \<and> msg_method m = [] \<and>
         (ss_id (sess_at st p), m) \<in> set (sr_received st)"
  using srv_invD(7) [OF si.always [OF assms(1)] assms(2)] by (simp add: is_response_def)

theorem reply_correlated_witness:
  "(''a'', demo_msg ''u1'' [] JNull) \<in> set (sr_received (demo_state (demo_open @ demo_answer)))"
proof -
  let ?st = "demo_state (demo_open @ demo_answer)"
  have "(0, ''u1'', demo_msg ''u1'' [] JNull) \<in> set (sr_replies ?st)" by code_simp
  from reply_correlated [OF demo_reach [OF demo_answer_runs] this]
  have "(ss_id (sess_at ?st 0), demo_msg ''u1'' [] JNull) \<in> set (sr_received ?st)" by simp
  moreover have "ss_id (sess_at ?st 0) = ''a''" by code_simp
  ultimately show ?thesis by simp
qed





section \<open>Single operations\<close>

text \<open>
  C10. The eight handler groups of \<^verbatim>\<open>handleMsg\<close> act as one table: for every message, session and
  state, running them in order is the single action the table assigns to the method (nothing,
  one goroutine with its progress token bound, or one callback), with \<^verbatim>\<open>errInvalidJSON\<close> exactly
  when the parameters of that action do not decode.
\<close>

theorem dispatch_by_table:
  "handleMsg s sessionID msg st =
     (if msg_jsonrpc msg \<noteq> JSONRPCVersion then (Some errInvalidJSON, st)
      else case smap_load (sr_sessions st) (KString sessionID) of
        None \<Rightarrow> (Some errSessionNotFound, st)
      | Some p \<Rightarrow> perform p (route s msg) st)"
  by (rule handleMsg_route)

text \<open>
  The handshake on the server's side: \<^verbatim>\<open>handleInitialize\<close> sends exactly one message, to the
  session and with the id of the request; it is the server's \<^verbatim>\<open>initializeResult\<close> if the protocol
  version is the server's and the client has every capability the server requires, and an
  invalid-params error otherwise.
\<close>

lemma initialize_accepts_iff:
  assumes "sr_panic st = None" "\<not> sr_errsClosed st"
  shows "\<exists>m. sr_sent (handleInitialize p i q cap req info out st) =
           sr_sent st @ [(\<lparr>sm_sessionID = ss_id (sess_at st p), sm_msg = m\<rparr>, out)] \<and>
         msg_id m = i \<and> msg_method m = [] \<and>
         (if ip_protocolVersion q = protocolVersion \<and> client_caps_meet req (ip_capabilities q)
          then msg_error m = None \<and> msg_result m = Some (enc_initializeResult
                 \<lparr>ir_protocolVersion = protocolVersion, ir_capabilities = cap, ir_serverInfo = info\<rparr>)
          else msg_result m = None \<and> (\<exists>e x. msg_error m = Some e \<and> err_code e = jsonRPCInvalidParamsCode \<and> err_data e = error_data x))"
  using assms by (rule handleInitialize_message)

text \<open>
  C22. A \<^verbatim>\<open>notifications/cancelled\<close> message has no effect: in every reachable state, running its
  handler changes nothing but the goroutine itself, so no context is cancelled, whatever
  request id it names. (Requests are stored under \<^verbatim>\<open>MustString\<close> keys and looked up under
  \<^verbatim>\<open>string\<close> keys.)
\<close>

theorem cancellation_has_no_effect:
  assumes "reach s st" "task_at st g = Some (p, GCancelled q)" "step s (ERun g out) st = Some st'"
  shows "st' = set_task g GDone st"
  using assms handleNotificationsCancelled_id [OF si.always [OF assms(1)]]
    task_at_ok [OF si.always [OF assms(1)] assms(2)]
  by (simp add: step_def run_task_def split: if_splits)

definition demo_cancel :: "event list" where
  "demo_cancel = demo_open @
     [EMessage ''a'' (demo_msg [] methodNotificationsCancelled (JObj [(''requestId'', JStr ''7'')]))]"

theorem cancellation_has_no_effect_witness:
  "\<exists>q. task_at (demo_state demo_cancel) 2 = Some (0, GCancelled q) \<and> ncp_requestID q = ''7'' \<and>
       step demo_server (ERun 2 None) (demo_state demo_cancel) =
         Some (set_task 2 GDone (demo_state demo_cancel))"
proof -
  let ?st = "demo_state demo_cancel"
  let ?q = "\<lparr>ncp_requestID = ''7'', ncp_reason = []\<rparr>"
  have q: "task_at ?st 2 = Some (0, GCancelled ?q)" by code_simp
  have "step demo_server (ERun 2 None) ?st \<noteq> None" by code_simp
  then obtain st' where st': "step demo_server (ERun 2 None) ?st = Some st'" by blast
  have "run demo_server demo_cancel srv_init \<noteq> None" by code_simp
  from cancellation_has_no_effect [OF demo_reach [OF this] q st'] q st' show ?thesis by simp
qed

text \<open>What the \<^verbatim>\<open>listen\<close> loop sends for an update of a resource.\<close>

definition update_sent :: "nat \<Rightarrow> string \<Rightarrow> srv \<Rightarrow> (SessionMsg \<times> go_error option) list" where
  "update_sent p u st = drop (length (sr_sent st)) (sr_sent (listen p (NSubscribed u) None st))"

definition update_note :: "string \<Rightarrow> string \<Rightarrow> SessionMsg" where
  "update_note sid u = \<lparr>sm_sessionID = sid,
     sm_msg = JSONRPCMessage_zero\<lparr>msg_jsonrpc := JSONRPCVersion,
       msg_method := methodNotificationsResourcesUpdated,
       msg_params := Some (JObj [(''uri'', JStr u)])\<rparr>\<rparr>"

lemma update_sent_eq:
  "sr_panic st = None \<Longrightarrow> update_sent p u st =
     (if smap_load (ss_subscribedResources (sess_at st p)) (KString u) = None then []
      else [(update_note (ss_id (sess_at st p)) u, None)])"
  by (simp add: update_sent_def update_note_def listen_def sendNotification_def transport_send_def
      log_failure_def enc_notificationsResourcesUpdatedParams_def)

text \<open>
  C20. Subscriptions: on an initialized session, after \<^verbatim>\<open>resources/subscribe\<close> for a URI an update of
  that URI is sent to the session as one \<^verbatim>\<open>notifications/resources/updated\<close>, after
  \<^verbatim>\<open>resources/unsubscribe\<close> it is not sent, and neither changes what is sent for another URI.
\<close>

theorem subscription_controls_updates:
  assumes "sr_panic st = None" "p < length (sr_heap st)" "ss_initialized (sess_at st p)"
  shows "update_sent p (srp_uri q) (handleResourcesSubscribe p i q None st) =
           [(update_note (ss_id (sess_at st p)) (srp_uri q), None)] \<and>
         update_sent p (urp_uri r) (handleResourcesUnsubscribe p i r None st) = [] \<and>
         (\<forall>u. (u \<noteq> srp_uri q \<longrightarrow>
                update_sent p u (handleResourcesSubscribe p i q None st) = update_sent p u st) \<and>
              (u \<noteq> urp_uri r \<longrightarrow>
                update_sent p u (handleResourcesUnsubscribe p i r None st) = update_sent p u st))"
proof -
  let ?sub = "handleResourcesSubscribe p i q None st"
  let ?unsub = "handleResourcesUnsubscribe p i r None st"
  note defs = handleResourcesSubscribe_def handleResourcesUnsubscribe_def split_def Let_def
  have "sr_panic ?sub = None" "sr_panic ?unsub = None"
    using assms(1) by (simp_all add: defs sendResult_def log_failure_def)
  moreover have "smap_load (ss_subscribedResources (sess_at ?sub p)) k =
      (if k = KString (srp_uri q) then Some () else smap_load (ss_subscribedResources (sess_at st p)) k)"
    "smap_load (ss_subscribedResources (sess_at ?unsub p)) k =
      (if k = KString (urp_uri r) then None else smap_load (ss_subscribedResources (sess_at st p)) k)"
    "ss_id (sess_at ?sub p) = ss_id (sess_at st p)" "ss_id (sess_at ?unsub p) = ss_id (sess_at st p)" for k
    using assms(2,3) by (simp_all add: defs track_request_state)
  ultimately show ?thesis by (simp add: update_sent_eq assms(1))
qed

theorem subscription_controls_updates_witness:
  "update_sent 0 ''r'' (handleResourcesSubscribe 0 ''9'' \<lparr>srp_uri = ''r''\<rparr> None (demo_state demo_open)) =
     [(update_note ''a'' ''r'', None)]"
proof -
  let ?st = "demo_state demo_open"
  have "sr_panic ?st = None" "0 < length (sr_heap ?st)" "ss_initialized (sess_at ?st 0)"
    "ss_id (sess_at ?st 0) = ''a''" by code_simp+
  with subscription_controls_updates [of ?st 0 "\<lparr>srp_uri = ''r''\<rparr>" "''9''" "\<lparr>urp_uri = ''r''\<rparr>"]
  show ?thesis by simp
qed

text \<open>
  C21. Progress goes to the client that asked for it: once a request with a progress token has been
  dispatched for a session, a report for that token is queued for that session and for no
  other, and a report for a token nobody has bound is dropped.
\<close>

theorem progress_to_requester:
  assumes "smap_load (sr_sessions st) (KString sid) = Some p" "ss_id (sess_at st p) = sid"
    and "msg_jsonrpc msg = JSONRPCVersion" "route s msg = Inr (ASpawn t tok)" "tok \<noteq> []"
    and "LProgress \<in> set (start_listeners s)" "smap_load (sr_bcasts st) LProgress = None"
  shows "map_option (\<lambda>st'. smap_load (sr_bcasts st') LProgress)
           (listenProgress s tok params (snd (handleMsg s sid msg st))) = Some (Some (NProgress params, [p])) \<and>
         (smap_load (sr_progresses st) (KMustString tok') = None \<longrightarrow>
            listenProgress s tok' params st = Some st)"
  using assms
  by (simp add: handleMsg_route perform_def listenProgress_def bind_progress_def)

theorem progress_to_requester_witness:
  "map_option (\<lambda>st'. smap_load (sr_bcasts st') LProgress)
     (listenProgress demo_server ''t'' (Inr JNull)
       (snd (handleMsg demo_server ''a''
          (demo_msg ''8'' MethodToolsList (JObj [(''_meta'', JObj [(''progressToken'', JStr ''t'')])]))
          (demo_state demo_open)))) = Some (Some (NProgress (Inr JNull), [0]))"
proof -
  let ?st = "demo_state demo_open"
  let ?m = "demo_msg ''8'' MethodToolsList (JObj [(''_meta'', JObj [(''progressToken'', JStr ''t'')])])"
  have r: "route demo_server ?m = Inr (ASpawn (GHandler (handleToolsList ''8''
      (ListToolsParams_zero\<lparr>ltp_meta := \<lparr>meta_progressToken = ''t''\<rparr>\<rparr>) (Some 3))) ''t'')"
    by code_simp
  have h: "smap_load (sr_sessions ?st) (KString ''a'') = Some 0" "ss_id (sess_at ?st 0) = ''a''"
    "msg_jsonrpc ?m = JSONRPCVersion" "LProgress \<in> set (start_listeners demo_server)"
    "smap_load (sr_bcasts ?st) LProgress = None" by code_simp+
  from progress_to_requester [OF h(1-3) r _ h(4,5)] show ?thesis by simp
qed






text \<open>
  A server is configured as its options say: it advertises exactly the capabilities of
  the components the options install (the last option for a component wins), with list
  changes and subscriptions exactly when an updater is installed, and a timeout of zero
  becomes thirty seconds.
\<close>

lemma newServer_configuration:
  "sv_capabilities (newServer srv tr os) =
     \<lparr>sc_prompts = (if last_opt opt_promptServer os None = None then None
                    else Some \<lparr>pc_listChanged = (last_opt opt_promptListUpdater os None \<noteq> None)\<rparr>),
      sc_resources = (if last_opt opt_resourceServer os None = None then None
                    else Some \<lparr>rc_subscribe = (last_opt opt_resourceSubscribedUpdater os None \<noteq> None),
                               rc_listChanged = (last_opt opt_resourceListUpdater os None \<noteq> None)\<rparr>),
      sc_tools = (if last_opt opt_toolServer os None = None then None
                    else Some \<lparr>tc_listChanged = (last_opt opt_toolListUpdater os None \<noteq> None)\<rparr>),
      sc_logging = (if last_opt opt_logHandler os None = None then None else Some ())\<rparr> \<and>
   sv_writeTimeout (newServer srv tr os) =
     (let t = last_opt opt_writeTimeout os 0 in if t = 0 then 30000000000 else t) \<and>
   sv_readTimeout (newServer srv tr os) =
     (let t = last_opt opt_readTimeout os 0 in if t = 0 then 30000000000 else t)"
  by (simp add: newServer_def Let_def server_capabilities_def option_fields bare_server_def
      defaultServerWriteTimeout_def defaultServerReadTimeout_def second_def)

section \<open>Callbacks\<close>

lemma effects_frames [simp]:
  "sr_effects (panic x st) = sr_effects st"
  "sr_effects (logError e st) = sr_effects st"
  "sr_effects (log_failure fmt out st) = sr_effects st"
  "sr_effects (transport_send p m out st) = sr_effects st"
  "sr_effects (set_task g t st) = sr_effects st"
  "sr_effects (spawn p t st) = sr_effects st"
  "sr_effects (cancel_ctx c e st) = sr_effects st"
  "sr_effects (upd_sess p f st) = sr_effects st"
  "sr_effects (bind_progress p pm st) = sr_effects st"
  "sr_effects (fst (new_ctx pc st)) = sr_effects st"
  "sr_effects (fst (registerRequest p r st)) = sr_effects st"
  by (simp_all add: panic_def logError_def log_failure_def transport_send_def set_task_def spawn_def
      cancel_ctx_def upd_sess_def bind_progress_def new_ctx_eq registerRequest_state split: option.split)

lemma effects_sends [simp]:
  "sr_effects (sendNotification p meth params out st) = sr_effects st"
  "sr_effects (sendResult p i r out st) = sr_effects st"
  "sr_effects (sendError p i err out st) = sr_effects st"
  "sr_effects (fst (sendRequest p m reqID out st)) = sr_effects st"
  "sr_effects (fst (track_request p i st)) = sr_effects st"
  by (simp_all add: sendNotification_def sendResult_def sendError_def sendRequest_def
      track_request_state split_def Let_def split: sum.split option.split)

lemma effects_handlers [simp]:
  "sr_effects (handlePing p i out st) = sr_effects st"
  "sr_effects (handleInitialize p i ip sc cc info out st) = sr_effects st"
  "sr_effects (handleNotificationsInitialized p st) = sr_effects st"
  "sr_effects (handleNotificationsCancelled p cp st) = sr_effects st"
  "sr_effects (handleResult g p m st) = sr_effects st"
  "sr_effects (handler_begin g p h st) = sr_effects st"
  "sr_effects (handler_return g p h c res out st) = sr_effects st"
  "sr_effects (listen p n out st) = sr_effects st"
  "sr_effects (startSession s c k st) = sr_effects st"
  by (simp_all add: handlePing_def handleInitialize_def handleNotificationsInitialized_def
      handleNotificationsCancelled_def handleResult_def handler_begin_eq handler_return_def
      listen_def startSession_state new_ctx_eq split_def Let_def
      split: option.split sum.split notice.split)

lemma run_task_effects:
  assumes "run_task s g out st = Some st'" "sr_effects st' \<noteq> sr_effects st"
  shows "\<exists>p t. task_at st g = Some (p, t) \<and> ss_initialized (sess_at st p)"
  using assms
  by (auto simp: run_task_def handleResourcesSubscribe_def handleResourcesUnsubscribe_def
      handleLoggingSetLevel_def split: option.splits task.splits if_splits)

lemma exec_effects:
  assumes "exec_event s e st = Some st'" "sr_effects st' \<noteq> sr_effects st"
  shows "(\<exists>i m. e = EMessage i m \<and> msg_method m = methodNotificationsRootsListChanged \<and>
            sv_rootsListWatcher s \<noteq> None) \<or>
         (\<exists>g out p t. e = ERun g out \<and> task_at st g = Some (p, t) \<and> ss_initialized (sess_at st p))"
proof (cases e)
  case (EMessage i m)
  have "(\<exists>u. route s m = Inr (AEffect u)) \<Longrightarrow>
      msg_method m = methodNotificationsRootsListChanged \<and> sv_rootsListWatcher s \<noteq> None"
    by (auto simp: route_def route_table_def Let_def decoded_def res_bind_eq_Inr
        split: if_splits option.splits bool.splits)
  with EMessage assms show ?thesis
    by (auto simp: guarded_def handleMsg_route perform_def split: if_splits option.splits sum.splits
        action.splits)
next
  case (ERun g out)
  with assms run_task_effects show ?thesis by fastforce
qed (use assms in \<open>auto simp: guarded_def user_request_def ping_def deadline_def reply_def give_up_def
      listen_done_def update_def listenProgress_def broadcast_def stop_def split_def Let_def new_ctx_eq
      split: if_splits option.splits task.splits list.splits\<close>)

text \<open>
  The one-way callbacks are gated too: the only step that calls a subscription or log-level
  callback runs a goroutine of a session from which \<^verbatim>\<open>notifications/initialized\<close> was received;
  the only other callback is the roots watcher, on a \<^verbatim>\<open>notifications/roots/list_changed\<close>.
\<close>

lemma callbacks_gated:
  assumes "reach s st" "step s e st = Some st'" "sr_effects st' \<noteq> sr_effects st"
  shows "(\<exists>i m. e = EMessage i m \<and> msg_method m = methodNotificationsRootsListChanged \<and>
            sv_rootsListWatcher s \<noteq> None) \<or>
         (\<exists>g out p t m. e = ERun g out \<and> task_at st g = Some (p, t) \<and>
            (ss_id (sess_at st p), m) \<in> set (sr_received st) \<and>
            msg_method m = methodNotificationsInitialized)"
proof -
  note inv = si.always [OF assms(1)]
  have "\<exists>m. (ss_id (sess_at st p), m) \<in> set (sr_received st) \<and> msg_method m = methodNotificationsInitialized"
    if "task_at st g = Some (p, t)" "ss_initialized (sess_at st p)" for g p t
    using srv_invD(4) [OF inv task_at_ok(3) [OF inv that(1)]] that(2)
    by (simp add: sess_ok_def received_as_def)
  with exec_effects [OF conjunct1 [OF step_exec [OF assms(2)]] assms(3)] show ?thesis by blast
qed

end
