(* ===== verification/ServerTypes.thy ===== *)
theory ServerTypes
  imports ServerSafety ServerExample
begin

text \<open>
  The shape of what the server sends: in every reachable state each message handed to the transport
  names a method or is a well-formed response.
\<close>

definition response_shape :: "JSONRPCMessage \<Rightarrow> bool" where
  "response_shape m \<longleftrightarrow>
     msg_jsonrpc m = JSONRPCVersion \<and> msg_params m = None \<and>
     (case msg_error m of
        None \<Rightarrow> msg_result m \<noteq> None
      | Some e \<Rightarrow> msg_result m = None \<and> err_code e \<in> {jsonRPCInvalidParamsCode, jsonRPCInternalErrorCode} \<and>
          (\<exists>x. err_data e = error_data x))"

definition typed :: "srv \<Rightarrow> bool" where
  "typed st \<longleftrightarrow> (\<forall>(sm, out) \<in> set (sr_sent st). msg_method (sm_msg sm) \<noteq> [] \<or> response_shape (sm_msg sm))"

lemma typed_init: "typed srv_init"
  by (simp add: typed_def srv_init_def)

lemma typed_quiet: "sr_sent st' = sr_sent st \<Longrightarrow> typed st' = typed st"
  by (simp add: typed_def)

lemma typed_ops [simp]:
  "typed (panic x st) = typed st" "typed (logError e st) = typed st" "typed (log_failure fmt out st) = typed st"
  "typed (user_effect u st) = typed st" "typed (set_task g t st) = typed st" "typed (spawn p t st) = typed st"
  "typed (cancel_ctx c e st) = typed st" "typed (upd_sess p f st) = typed st"
  "typed (bind_progress p pm st) = typed st" "typed (fst (new_ctx pc st)) = typed st"
  "typed (fst (track_request p i st)) = typed st" "typed (fst (registerRequest p r st)) = typed st"
  by (rule typed_quiet; simp add: registerRequest_state)+

lemma typed_fields [simp]:
  "typed (st\<lparr>sr_heap := h\<rparr>) = typed st" "typed (st\<lparr>sr_sessions := m\<rparr>) = typed st"
  "typed (st\<lparr>sr_bcasts := b\<rparr>) = typed st" "typed (st\<lparr>sr_replies := r\<rparr>) = typed st"
  "typed (st\<lparr>sr_received := i\<rparr>) = typed st" "typed (st\<lparr>sr_loop := l\<rparr>) = typed st"
  "typed (stop st) = typed st"
  by (rule typed_quiet; simp add: stop_def)+

lemma typed_transport_send:
  "typed st \<Longrightarrow> msg_method m \<noteq> [] \<or> response_shape m \<Longrightarrow> typed (transport_send p m out st)"
  by (auto simp: typed_def transport_send_def)

lemma typed_sends:
  "typed st \<Longrightarrow> meth \<noteq> [] \<Longrightarrow> typed (sendNotification p meth params out st)"
  "typed st \<Longrightarrow> typed (sendResult p i r out st)"
  "typed st \<Longrightarrow> err_code err \<in> {jsonRPCInvalidParamsCode, jsonRPCInternalErrorCode} \<Longrightarrow>
     err_data err = error_data x \<Longrightarrow> typed (sendError p i err out st)"
  "typed st \<Longrightarrow> msg_method m \<noteq> [] \<Longrightarrow> typed (fst (sendRequest p m reqID out st))"
  by (auto simp: sendNotification_def sendResult_def sendError_def sendRequest_def split_def Let_def
      response_shape_def JSONRPCMessage_zero_def intro!: typed_transport_send split: sum.split option.split)

lemma typed_handlers:
  assumes "typed st"
  shows "typed (handlePing p i out st)" "typed (handleInitialize p i ip sc cc info out st)"
    "typed (handleLoggingSetLevel p i lp out st)" "typed (handleResourcesSubscribe p i sp out st)"
    "typed (handleResourcesUnsubscribe p i up out st)" "typed (handleNotificationsInitialized p st)"
    "typed (handleNotificationsCancelled p q st)" "typed (handleResult g p m st)"
    "typed (handler_begin g p h st)" "typed (handler_return g p h c res out st)"
    "typed (listen p n out st)" "typed (startSession s c k st)"
  using assms
  by (auto simp: handlePing_def handleInitialize_def handleLoggingSetLevel_def handleResourcesSubscribe_def
      handleResourcesUnsubscribe_def handleNotificationsInitialized_def handleNotificationsCancelled_def
      handleResult_def handler_begin_def handler_return_def listen_def startSession_state split_def Let_def method_defs
      intro!: typed_sends split: option.split sum.split notice.split)

lemma typed_run_task: "typed st \<Longrightarrow> run_task s g out st = Some st' \<Longrightarrow> typed st'"
  by (auto simp: run_task_def split: option.splits task.splits if_splits intro!: typed_handlers)

lemma typed_handleMsg: "typed st \<Longrightarrow> typed (snd (handleMsg s i m st))"
  by (simp add: handleMsg_route perform_def split: option.split sum.split action.split)

lemma typed_exec: "typed st \<Longrightarrow> exec_event s e st = Some st' \<Longrightarrow> typed st'"
  by (cases e)
    (auto simp: guarded_def user_request_def ping_def deadline_def reply_def give_up_def listen_done_def
      update_def listenProgress_def broadcast_def ping_msg_def method_defs split_def Let_def
      split: if_splits option.splits task.splits list.splits
      intro: typed_run_task typed_handleMsg intro!: typed_handlers typed_sends)

interpretation ty: server_invariant "\<lambda>s. typed"
  by unfold_locales (auto intro: typed_init typed_exec dest: step_exec)

text \<open>
  C11. Well-typed responses: in every reachable state, each message the server has sent that names no
  method is a response of protocol version 2.0 without parameters, with exactly one of a result
  and an error, and an error has the code for invalid parameters or for an internal error and the
  one data member \<^verbatim>\<open>error\<close>.
\<close>

theorem responses_well_typed:
  assumes "reach s st" "(sm, out) \<in> set (sr_sent st)" "msg_method (sm_msg sm) = []"
  shows "msg_jsonrpc (sm_msg sm) = ''2.0'' \<and> msg_params (sm_msg sm) = None \<and>
    (msg_result (sm_msg sm) = None \<longleftrightarrow> msg_error (sm_msg sm) \<noteq> None) \<and>
    (\<forall>e. msg_error (sm_msg sm) = Some e \<longrightarrow> err_code e \<in> {- 32602, - 32603} \<and> map fst (err_data e) = [''error''])"
proof -
  have "response_shape (sm_msg sm)" using ty.always [OF assms(1)] assms(2,3) by (auto simp: typed_def)
  then show ?thesis
    by (auto simp: response_shape_def error_data_def JSONRPCVersion_def jsonRPCInvalidParamsCode_def
        jsonRPCInternalErrorCode_def split: option.splits)
qed

theorem responses_well_typed_witness:
  "msg_jsonrpc (sm_msg (fst (last (sr_sent (demo_state (demo_open @ demo_answer)))))) = ''2.0''"
proof -
  let ?st = "demo_state (demo_open @ demo_answer)"
  have "last (sr_sent ?st) \<in> set (sr_sent ?st)" "msg_method (sm_msg (fst (last (sr_sent ?st)))) = []"
    by code_simp+
  with responses_well_typed [OF demo_reach [OF demo_answer_runs], of "fst (last (sr_sent ?st))" "snd (last (sr_sent ?st))"]
  show ?thesis by simp
qed

end
