(* ===== verification/ProtocolProps.thy ===== *)
theory ProtocolProps
  imports Capabilities
begin

text \<open>
  The properties of the message codecs: what one peer marshals, the other unmarshals to the
  same message, and what request ids become on the way.
\<close>



text \<open>
  C24. Request ids: a string id is kept, an integer id below \<open>2 ^ 53\<close> in magnitude becomes its
  decimal text, so that distinct ids of that kind stay distinct and the id the peer gets back
  names the same request.
\<close>

theorem id_unmarshal_faithful:
  assumes "\<bar>n\<bar> < 2 ^ 53" "\<bar>n'\<bar> < 2 ^ 53"
  shows "MustString_UnmarshalJSON (JNum n 0) x = Inr (show_int n) \<and>
         MustString_UnmarshalJSON (MustString_MarshalJSON i) x = Inr i \<and>
         (MustString_UnmarshalJSON (JNum n 0) x = MustString_UnmarshalJSON (JNum n' 0) x \<longrightarrow> n = n')"
proof -
  have dec: "MustString_UnmarshalJSON (JNum k 0) x = Inr (show_int k)" if "\<bar>k\<bar> < 2 ^ 53" for k
    using f64_decimal_exact [OF that] by auto
  have "in_int64 n" "in_int64 n'" using assms by (auto simp: in_int64_def int64_min_def int64_max_def)
  then have "show_int n = show_int n' \<Longrightarrow> n = n'" by (simp add: show_int_inject)
  with dec [OF assms(1)] dec [OF assms(2)] show ?thesis by (simp del: MustString_UnmarshalJSON.simps(2))
qed

theorem id_unmarshal_faithful_witness:
  "MustString_UnmarshalJSON (JNum 42 0) [] = Inr (show_int 42)"
  using id_unmarshal_faithful [of 42 7] by simp

text \<open>
  Beyond that range ids collide: the integer ids \<open>2 ^ 53\<close> and \<open>2 ^ 53 + 1\<close> become the same
  string, because the id is read through a \<^verbatim>\<open>float64\<close>.
\<close>

lemma large_ids_collide:
  "MustString_UnmarshalJSON (JNum 9007199254740993 0) x =
   MustString_UnmarshalJSON (JNum 9007199254740992 0) x"
proof -
  have "nbits 9007199254740993 = 54" "nbits 9007199254740992 = 54" by (simp_all add: nbits.simps)
  then have "f64_of_decimal 9007199254740993 0 = f64_of_decimal 9007199254740992 0"
    by (simp add: f64_of_decimal_def f64_of_ratio_def scale_ratio_def round_half_even_def)
  then show ?thesis by simp
qed

text \<open>
  The handshake parameters survive the wire: the \<^verbatim>\<open>initialize\<close> parameters of every client and
  the result of every server are read back as they were sent, nil capabilities included.
\<close>

lemma initialize_round_trip:
  "unmarshal dec_initializeParams initializeParams_zero (Some (enc_initializeParams q)) = Inr q \<and>
   unmarshal dec_initializeResult initializeResult_zero (Some (enc_initializeResult r)) = Inr r"
  by (simp add: ipc.unmarshal_round_trip irc.unmarshal_round_trip)

text \<open>
  Tool calls, prompt requests and completions survive the wire: the parameters a client
  marshals are the parameters the server unmarshals, for argument maps with distinct keys.
\<close>

lemma request_params_round_trip:
  assumes "map_ok (ctp_arguments t)" "map_ok (gpp_arguments g)"
  shows "unmarshal dec_CallToolParams CallToolParams_zero (Some (enc_CallToolParams t)) = Inr t \<and>
         unmarshal dec_GetPromptParams GetPromptParams_zero (Some (enc_GetPromptParams g)) = Inr g \<and>
         unmarshal dec_CompletesCompletionParams CompletesCompletionParams_zero
           (Some (enc_CompletesCompletionParams c)) = Inr c"
  using assms by (simp add: ctp.unmarshal_round_trip gpp.unmarshal_round_trip ccp.unmarshal_round_trip)

end
