(* ===== verification/Results.thy ===== *)
theory Results
  imports Capabilities
begin

text \<open>
  The result structs of \<^verbatim>\<open>src/pkg/mcp/mcp.go\<close> and the parameters a server sends to a client, with
  their JSON codecs: what a server marshals as a result, a client unmarshals. A slice that is
  not \<^verbatim>\<open>omitempty\<close> keeps nil (\<^verbatim>\<open>null\<close>) and empty apart. The input schema of a tool belongs to a
  third-party package: its type and codec are parameters.
\<close>

section \<open>Structs\<close>

record PromptArgument =
  pa_name :: string
  pa_description :: string
  pa_required :: bool

record Prompt =
  pr_name :: string
  pr_description :: string
  pr_arguments :: "PromptArgument list"

record ListPromptResult =
  lpr_prompts :: "Prompt list option"
  lpr_nextCursor :: string

record Resource =
  re_uri :: string
  re_name :: string
  re_description :: string
  re_mimeType :: string
  re_text :: string
  re_blob :: string

record Content =
  co_type :: string
  co_text :: string
  co_data :: string
  co_mimeType :: string
  co_resource :: "Resource option"

record PromptMessage =
  pm_role :: string
  pm_content :: Content

record GetPromptResult =
  gpr_description :: string
  gpr_messages :: "PromptMessage list"

record ListResourcesResult =
  lrr_resources :: "Resource list option"
  lrr_nextCursor :: string

record ReadResourceResult =
  rrr_contents :: "Resource list option"

record ResourceTemplate =
  rt_uriTemplate :: string
  rt_name :: string
  rt_description :: string
  rt_mimeType :: string

record ListResourceTemplatesResult =
  lrtr_templates :: "ResourceTemplate list option"

record CallToolResult =
  ctr_content :: "Content list option"
  ctr_isError :: bool

record Completion =
  cn_values :: "string list option"
  cn_hasMore :: bool

record CompletionResult =
  cr_completion :: Completion

record Root =
  ro_uri :: string
  ro_name :: string

record RootList =
  rl_roots :: "Root list option"

record SamplingContent =
  sco_type :: string
  sco_text :: string
  sco_data :: string
  sco_mimeType :: string

record SamplingMessage =
  sam_role :: string
  sam_content :: SamplingContent

record SamplingHint =
  sh_name :: string

record SamplingModelPreferences =
  smp_hints :: "SamplingHint list option"
  smp_costPriority :: int
  smp_speedPriority :: int
  smp_intelligencePriority :: int

record SamplingParams =
  sp_messages :: "SamplingMessage list option"
  sp_modelPreferences :: SamplingModelPreferences
  sp_systemPrompts :: string
  sp_maxTokens :: int

record SamplingResult =
  sres_role :: string
  sres_content :: SamplingContent
  sres_model :: string
  sres_stopReason :: string

definition PromptArgument_zero :: PromptArgument where
  "PromptArgument_zero = \<lparr>pa_name = [], pa_description = [], pa_required = False\<rparr>"

definition Prompt_zero :: Prompt where
  "Prompt_zero = \<lparr>pr_name = [], pr_description = [], pr_arguments = []\<rparr>"

definition ListPromptResult_zero :: ListPromptResult where
  "ListPromptResult_zero = \<lparr>lpr_prompts = None, lpr_nextCursor = []\<rparr>"

definition Resource_zero :: Resource where
  "Resource_zero = \<lparr>re_uri = [], re_name = [], re_description = [], re_mimeType = [],
      re_text = [], re_blob = []\<rparr>"

definition Content_zero :: Content where
  "Content_zero = \<lparr>co_type = [], co_text = [], co_data = [], co_mimeType = [],
      co_resource = None\<rparr>"

definition PromptMessage_zero :: PromptMessage where
  "PromptMessage_zero = \<lparr>pm_role = [], pm_content = Content_zero\<rparr>"

definition GetPromptResult_zero :: GetPromptResult where
  "GetPromptResult_zero = \<lparr>gpr_description = [], gpr_messages = []\<rparr>"

definition ListResourcesResult_zero :: ListResourcesResult where
  "ListResourcesResult_zero = \<lparr>lrr_resources = None, lrr_nextCursor = []\<rparr>"

definition ReadResourceResult_zero :: ReadResourceResult where
  "ReadResourceResult_zero = \<lparr>rrr_contents = None\<rparr>"

definition ResourceTemplate_zero :: ResourceTemplate where
  "ResourceTemplate_zero = \<lparr>rt_uriTemplate = [], rt_name = [], rt_description = [],
      rt_mimeType = []\<rparr>"

definition ListResourceTemplatesResult_zero :: ListResourceTemplatesResult where
  "ListResourceTemplatesResult_zero = \<lparr>lrtr_templates = None\<rparr>"

definition CallToolResult_zero :: CallToolResult where
  "CallToolResult_zero = \<lparr>ctr_content = None, ctr_isError = False\<rparr>"

definition Completion_zero :: Completion where
  "Completion_zero = \<lparr>cn_values = None, cn_hasMore = False\<rparr>"

definition CompletionResult_zero :: CompletionResult where
  "CompletionResult_zero = \<lparr>cr_completion = Completion_zero\<rparr>"

definition Root_zero :: Root where
  "Root_zero = \<lparr>ro_uri = [], ro_name = []\<rparr>"

definition RootList_zero :: RootList where
  "RootList_zero = \<lparr>rl_roots = None\<rparr>"

definition SamplingContent_zero :: SamplingContent where
  "SamplingContent_zero = \<lparr>sco_type = [], sco_text = [], sco_data = [],
      sco_mimeType = []\<rparr>"

definition SamplingMessage_zero :: SamplingMessage where
  "SamplingMessage_zero = \<lparr>sam_role = [], sam_content = SamplingContent_zero\<rparr>"

definition SamplingHint_zero :: SamplingHint where
  "SamplingHint_zero = \<lparr>sh_name = []\<rparr>"

definition SamplingModelPreferences_zero :: SamplingModelPreferences where
  "SamplingModelPreferences_zero = \<lparr>smp_hints = None, smp_costPriority = 0,
      smp_speedPriority = 0, smp_intelligencePriority = 0\<rparr>"

definition SamplingParams_zero :: SamplingParams where
  "SamplingParams_zero = \<lparr>sp_messages = None,
      sp_modelPreferences = SamplingModelPreferences_zero, sp_systemPrompts = [],
      sp_maxTokens = 0\<rparr>"

definition SamplingResult_zero :: SamplingResult where
  "SamplingResult_zero = \<lparr>sres_role = [], sres_content = SamplingContent_zero,
      sres_model = [], sres_stopReason = []\<rparr>"

definition enc_PromptArgument :: "PromptArgument \<Rightarrow> json" where
  "enc_PromptArgument x =
     JObj ([(''name'', JStr (pa_name x))] @ omit_str ''description'' (pa_description x) @
       omit_bool ''required'' (pa_required x))"

definition enc_Prompt :: "Prompt \<Rightarrow> json" where
  "enc_Prompt x =
     JObj ([(''name'', JStr (pr_name x))] @ omit_str ''description'' (pr_description x) @
       omit_list ''arguments'' enc_PromptArgument (pr_arguments x))"

definition enc_ListPromptResult :: "ListPromptResult \<Rightarrow> json" where
  "enc_ListPromptResult x =
     JObj ([(''prompts'', enc_slice enc_Prompt (lpr_prompts x))] @
       omit_str ''nextCursor'' (lpr_nextCursor x))"

definition enc_Resource :: "Resource \<Rightarrow> json" where
  "enc_Resource x =
     JObj ([(''uri'', JStr (re_uri x))] @ omit_str ''name'' (re_name x) @
       omit_str ''description'' (re_description x) @ omit_str ''mimeType'' (re_mimeType x) @
       omit_str ''text'' (re_text x) @ omit_str ''blob'' (re_blob x))"

definition enc_Content :: "Content \<Rightarrow> json" where
  "enc_Content x =
     JObj ([(''type'', JStr (co_type x))] @ omit_str ''text'' (co_text x) @
       omit_str ''data'' (co_data x) @ omit_str ''mimeType'' (co_mimeType x) @
       omit_ptr ''resource'' enc_Resource (co_resource x))"

definition enc_PromptMessage :: "PromptMessage \<Rightarrow> json" where
  "enc_PromptMessage x =
     JObj [(''role'', JStr (pm_role x)), (''content'', enc_Content (pm_content x))]"

definition enc_GetPromptResult :: "GetPromptResult \<Rightarrow> json" where
  "enc_GetPromptResult x =
     JObj (omit_str ''description'' (gpr_description x) @
       omit_list ''messages'' enc_PromptMessage (gpr_messages x))"

definition enc_ListResourcesResult :: "ListResourcesResult \<Rightarrow> json" where
  "enc_ListResourcesResult x =
     JObj ([(''resources'', enc_slice enc_Resource (lrr_resources x))] @
       omit_str ''nextCursor'' (lrr_nextCursor x))"

definition enc_ReadResourceResult :: "ReadResourceResult \<Rightarrow> json" where
  "enc_ReadResourceResult x =
     JObj [(''contents'', enc_slice enc_Resource (rrr_contents x))]"

definition enc_ResourceTemplate :: "ResourceTemplate \<Rightarrow> json" where
  "enc_ResourceTemplate x =
     JObj ([(''uriTemplate'', JStr (rt_uriTemplate x)), (''name'', JStr (rt_name x))] @
       omit_str ''description'' (rt_description x) @ omit_str ''mimeType'' (rt_mimeType x))"

definition enc_ListResourceTemplatesResult :: "ListResourceTemplatesResult \<Rightarrow> json" where
  "enc_ListResourceTemplatesResult x =
     JObj [(''resourceTemplates'', enc_slice enc_ResourceTemplate (lrtr_templates x))]"

definition enc_CallToolResult :: "CallToolResult \<Rightarrow> json" where
  "enc_CallToolResult x =
     JObj [(''content'', enc_slice enc_Content (ctr_content x)),
           (''isError'', JBool (ctr_isError x))]"

definition enc_Completion :: "Completion \<Rightarrow> json" where
  "enc_Completion x =
     JObj [(''values'', enc_slice JStr (cn_values x)), (''hasMore'', JBool (cn_hasMore x))]"

definition enc_CompletionResult :: "CompletionResult \<Rightarrow> json" where
  "enc_CompletionResult x =
     JObj [(''completion'', enc_Completion (cr_completion x))]"

definition enc_Root :: "Root \<Rightarrow> json" where
  "enc_Root x =
     JObj [(''uri'', JStr (ro_uri x)), (''name'', JStr (ro_name x))]"

definition enc_RootList :: "RootList \<Rightarrow> json" where
  "enc_RootList x =
     JObj [(''roots'', enc_slice enc_Root (rl_roots x))]"

definition enc_SamplingContent :: "SamplingContent \<Rightarrow> json" where
  "enc_SamplingContent x =
     JObj [(''type'', JStr (sco_type x)), (''text'', JStr (sco_text x)),
           (''data'', JStr (sco_data x)), (''mimeType'', JStr (sco_mimeType x))]"

definition enc_SamplingMessage :: "SamplingMessage \<Rightarrow> json" where
  "enc_SamplingMessage x =
     JObj [(''role'', JStr (sam_role x)), (''content'', enc_SamplingContent (sam_content x))]"

definition enc_SamplingHint :: "SamplingHint \<Rightarrow> json" where
  "enc_SamplingHint x =
     JObj [(''name'', JStr (sh_name x))]"

definition enc_SamplingModelPreferences :: "SamplingModelPreferences \<Rightarrow> json" where
  "enc_SamplingModelPreferences x =
     JObj [(''hints'', enc_slice enc_SamplingHint (smp_hints x)),
           (''costPriority'', enc_int (smp_costPriority x)),
           (''speedPriority'', enc_int (smp_speedPriority x)),
           (''intelligencePriority'', enc_int (smp_intelligencePriority x))]"

definition enc_SamplingParams :: "SamplingParams \<Rightarrow> json" where
  "enc_SamplingParams x =
     JObj [(''messages'', enc_slice enc_SamplingMessage (sp_messages x)),
           (''modelPreferences'', enc_SamplingModelPreferences (sp_modelPreferences x)),
           (''systemPrompts'', JStr (sp_systemPrompts x)),
           (''maxTokens'', enc_int (sp_maxTokens x))]"

definition enc_SamplingResult :: "SamplingResult \<Rightarrow> json" where
  "enc_SamplingResult x =
     JObj [(''role'', JStr (sres_role x)), (''content'', enc_SamplingContent (sres_content x)),
           (''model'', JStr (sres_model x)), (''stopReason'', JStr (sres_stopReason x))]"

definition dec_PromptArgument :: "PromptArgument dec" where
  "dec_PromptArgument = dec_struct
     [(''name'', fld pa_name pa_name_update dec_string),
      (''description'', fld pa_description pa_description_update dec_string),
      (''required'', fld pa_required pa_required_update dec_bool)]"

definition dec_Prompt :: "Prompt dec" where
  "dec_Prompt = dec_struct
     [(''name'', fld pr_name pr_name_update dec_string),
      (''description'', fld pr_description pr_description_update dec_string),
      (''arguments'', fld pr_arguments pr_arguments_update (dec_list PromptArgument_zero dec_PromptArgument))]"

definition dec_ListPromptResult :: "ListPromptResult dec" where
  "dec_ListPromptResult = dec_struct
     [(''prompts'', fld lpr_prompts lpr_prompts_update (dec_slice Prompt_zero dec_Prompt)),
      (''nextCursor'', fld lpr_nextCursor lpr_nextCursor_update dec_string)]"

definition dec_Resource :: "Resource dec" where
  "dec_Resource = dec_struct
     [(''uri'', fld re_uri re_uri_update dec_string),
      (''name'', fld re_name re_name_update dec_string),
      (''description'', fld re_description re_description_update dec_string),
      (''mimeType'', fld re_mimeType re_mimeType_update dec_string),
      (''text'', fld re_text re_text_update dec_string),
      (''blob'', fld re_blob re_blob_update dec_string)]"

definition dec_Content :: "Content dec" where
  "dec_Content = dec_struct
     [(''type'', fld co_type co_type_update dec_string),
      (''text'', fld co_text co_text_update dec_string),
      (''data'', fld co_data co_data_update dec_string),
      (''mimeType'', fld co_mimeType co_mimeType_update dec_string),
      (''resource'', fld co_resource co_resource_update (dec_ptr Resource_zero dec_Resource))]"

definition dec_PromptMessage :: "PromptMessage dec" where
  "dec_PromptMessage = dec_struct
     [(''role'', fld pm_role pm_role_update dec_string),
      (''content'', fld pm_content pm_content_update dec_Content)]"

definition dec_GetPromptResult :: "GetPromptResult dec" where
  "dec_GetPromptResult = dec_struct
     [(''description'', fld gpr_description gpr_description_update dec_string),
      (''messages'', fld gpr_messages gpr_messages_update (dec_list PromptMessage_zero dec_PromptMessage))]"

definition dec_ListResourcesResult :: "ListResourcesResult dec" where
  "dec_ListResourcesResult = dec_struct
     [(''resources'', fld lrr_resources lrr_resources_update (dec_slice Resource_zero dec_Resource)),
      (''nextCursor'', fld lrr_nextCursor lrr_nextCursor_update dec_string)]"

definition dec_ReadResourceResult :: "ReadResourceResult dec" where
  "dec_ReadResourceResult = dec_struct
     [(''contents'', fld rrr_contents rrr_contents_update (dec_slice Resource_zero dec_Resource))]"

definition dec_ResourceTemplate :: "ResourceTemplate dec" where
  "dec_ResourceTemplate = dec_struct
     [(''uriTemplate'', fld rt_uriTemplate rt_uriTemplate_update dec_string),
      (''name'', fld rt_name rt_name_update dec_string),
      (''description'', fld rt_description rt_description_update dec_string),
      (''mimeType'', fld rt_mimeType rt_mimeType_update dec_string)]"

definition dec_ListResourceTemplatesResult :: "ListResourceTemplatesResult dec" where
  "dec_ListResourceTemplatesResult = dec_struct
     [(''resourceTemplates'', fld lrtr_templates lrtr_templates_update (dec_slice ResourceTemplate_zero dec_ResourceTemplate))]"

definition dec_CallToolResult :: "CallToolResult dec" where
  "dec_CallToolResult = dec_struct
     [(''content'', fld ctr_content ctr_content_update (dec_slice Content_zero dec_Content)),
      (''isError'', fld ctr_isError ctr_isError_update dec_bool)]"

definition dec_Completion :: "Completion dec" where
  "dec_Completion = dec_struct
     [(''values'', fld cn_values cn_values_update (dec_slice [] dec_string)),
      (''hasMore'', fld cn_hasMore cn_hasMore_update dec_bool)]"

definition dec_CompletionResult :: "CompletionResult dec" where
  "dec_CompletionResult = dec_struct
     [(''completion'', fld cr_completion cr_completion_update dec_Completion)]"

definition dec_Root :: "Root dec" where
  "dec_Root = dec_struct
     [(''uri'', fld ro_uri ro_uri_update dec_string),
      (''name'', fld ro_name ro_name_update dec_string)]"

definition dec_RootList :: "RootList dec" where
  "dec_RootList = dec_struct
     [(''roots'', fld rl_roots rl_roots_update (dec_slice Root_zero dec_Root))]"

definition dec_SamplingContent :: "SamplingContent dec" where
  "dec_SamplingContent = dec_struct
     [(''type'', fld sco_type sco_type_update dec_string),
      (''text'', fld sco_text sco_text_update dec_string),
      (''data'', fld sco_data sco_data_update dec_string),
      (''mimeType'', fld sco_mimeType sco_mimeType_update dec_string)]"

definition dec_SamplingMessage :: "SamplingMessage dec" where
  "dec_SamplingMessage = dec_struct
     [(''role'', fld sam_role sam_role_update dec_string),
      (''content'', fld sam_content sam_content_update dec_SamplingContent)]"

definition dec_SamplingHint :: "SamplingHint dec" where
  "dec_SamplingHint = dec_struct
     [(''name'', fld sh_name sh_name_update dec_string)]"

definition dec_SamplingModelPreferences :: "SamplingModelPreferences dec" where
  "dec_SamplingModelPreferences = dec_struct
     [(''hints'', fld smp_hints smp_hints_update (dec_slice SamplingHint_zero dec_SamplingHint)),
      (''costPriority'', fld smp_costPriority smp_costPriority_update dec_int),
      (''speedPriority'', fld smp_speedPriority smp_speedPriority_update dec_int),
      (''intelligencePriority'', fld smp_intelligencePriority smp_intelligencePriority_update dec_int)]"

definition dec_SamplingParams :: "SamplingParams dec" where
  "dec_SamplingParams = dec_struct
     [(''messages'', fld sp_messages sp_messages_update (dec_slice SamplingMessage_zero dec_SamplingMessage)),
      (''modelPreferences'', fld sp_modelPreferences sp_modelPreferences_update dec_SamplingModelPreferences),
      (''systemPrompts'', fld sp_systemPrompts sp_systemPrompts_update dec_string),
      (''maxTokens'', fld sp_maxTokens sp_maxTokens_update dec_int)]"

definition dec_SamplingResult :: "SamplingResult dec" where
  "dec_SamplingResult = dec_struct
     [(''role'', fld sres_role sres_role_update dec_string),
      (''content'', fld sres_content sres_content_update dec_SamplingContent),
      (''model'', fld sres_model sres_model_update dec_string),
      (''stopReason'', fld sres_stopReason sres_stopReason_update dec_string)]"

section \<open>Tools\<close>

record 'sch Tool =
  to_name :: string
  to_description :: string
  to_inputSchema :: "'sch option"

record 'sch ListToolsResult =
  ltr_tools :: "'sch Tool list option"
  ltr_nextCursor :: string

definition Tool_zero :: "'sch Tool" where
  "Tool_zero = \<lparr>to_name = [], to_description = [], to_inputSchema = None\<rparr>"

definition ListToolsResult_zero :: "'sch ListToolsResult" where
  "ListToolsResult_zero = \<lparr>ltr_tools = None, ltr_nextCursor = []\<rparr>"

definition enc_Tool :: "('sch \<Rightarrow> json) \<Rightarrow> 'sch Tool \<Rightarrow> json" where
  "enc_Tool encS x =
     JObj ([(''name'', JStr (to_name x))] @ omit_str ''description'' (to_description x) @
       omit_ptr ''inputSchema'' encS (to_inputSchema x))"

definition dec_Tool :: "'sch \<Rightarrow> 'sch dec \<Rightarrow> 'sch Tool dec" where
  "dec_Tool zeroS decS = dec_struct
     [(''name'', fld to_name to_name_update dec_string),
      (''description'', fld to_description to_description_update dec_string),
      (''inputSchema'', fld to_inputSchema to_inputSchema_update (dec_ptr zeroS decS))]"

definition enc_ListToolsResult :: "('sch \<Rightarrow> json) \<Rightarrow> 'sch ListToolsResult \<Rightarrow> json" where
  "enc_ListToolsResult encS x =
     JObj ([(''tools'', enc_slice (enc_Tool encS) (ltr_tools x))] @
       omit_str ''nextCursor'' (ltr_nextCursor x))"

definition dec_ListToolsResult :: "'sch \<Rightarrow> 'sch dec \<Rightarrow> 'sch ListToolsResult dec" where
  "dec_ListToolsResult zeroS decS = dec_struct
     [(''tools'', fld ltr_tools ltr_tools_update (dec_slice Tool_zero (dec_Tool zeroS decS))),
      (''nextCursor'', fld ltr_nextCursor ltr_nextCursor_update dec_string)]"

section \<open>Progress\<close>

text \<open>A \<^verbatim>\<open>float64\<close> field reads any JSON number within range.\<close>

fun dec_float64 :: "f64 dec" where
  "dec_float64 (JNum m k) s = (case f64_of_decimal m k of None \<Rightarrow> Inl errUnmarshalType | Some v \<Rightarrow> Inr v)"
| "dec_float64 JNull s = Inr s"
| "dec_float64 _ s = Inl errUnmarshalType"

record ProgressParams =
  pp_progressToken :: MustString
  pp_progress :: f64
  pp_total :: f64

definition ProgressParams_zero :: ProgressParams where
  "ProgressParams_zero = \<lparr>pp_progressToken = [], pp_progress = F64 0 0, pp_total = F64 0 0\<rparr>"

definition dec_ProgressParams :: "ProgressParams dec" where
  "dec_ProgressParams = dec_struct
     [(''progressToken'', fld pp_progressToken pp_progressToken_update MustString_UnmarshalJSON),
      (''value'', fld pp_progress pp_progress_update dec_float64),
      (''total'', fld pp_total pp_total_update dec_float64)]"

section \<open>Round trips\<close>

lemmas result_defs =
  PromptArgument_zero_def Prompt_zero_def ListPromptResult_zero_def Resource_zero_def
  Content_zero_def PromptMessage_zero_def GetPromptResult_zero_def
  ListResourcesResult_zero_def ReadResourceResult_zero_def ResourceTemplate_zero_def
  ListResourceTemplatesResult_zero_def CallToolResult_zero_def Completion_zero_def
  CompletionResult_zero_def Root_zero_def RootList_zero_def SamplingContent_zero_def
  SamplingMessage_zero_def SamplingHint_zero_def SamplingModelPreferences_zero_def
  SamplingParams_zero_def SamplingResult_zero_def enc_PromptArgument_def enc_Prompt_def
  enc_ListPromptResult_def enc_Resource_def enc_Content_def enc_PromptMessage_def
  enc_GetPromptResult_def enc_ListResourcesResult_def enc_ReadResourceResult_def
  enc_ResourceTemplate_def enc_ListResourceTemplatesResult_def enc_CallToolResult_def
  enc_Completion_def enc_CompletionResult_def enc_Root_def enc_RootList_def
  enc_SamplingContent_def enc_SamplingMessage_def enc_SamplingHint_def
  enc_SamplingModelPreferences_def enc_SamplingParams_def enc_SamplingResult_def
  dec_PromptArgument_def dec_Prompt_def dec_ListPromptResult_def dec_Resource_def
  dec_Content_def dec_PromptMessage_def dec_GetPromptResult_def
  dec_ListResourcesResult_def dec_ReadResourceResult_def dec_ResourceTemplate_def
  dec_ListResourceTemplatesResult_def dec_CallToolResult_def dec_Completion_def
  dec_CompletionResult_def dec_Root_def dec_RootList_def dec_SamplingContent_def
  dec_SamplingMessage_def dec_SamplingHint_def dec_SamplingModelPreferences_def
  dec_SamplingParams_def dec_SamplingResult_def

lemmas result_eval = result_defs struct_eval omit_defs

definition smp_ok :: "SamplingModelPreferences \<Rightarrow> bool" where
  "smp_ok x \<longleftrightarrow> in_int64 (smp_costPriority x) \<and> in_int64 (smp_speedPriority x) \<and>
     in_int64 (smp_intelligencePriority x)"

definition sp_ok :: "SamplingParams \<Rightarrow> bool" where
  "sp_ok x \<longleftrightarrow> in_int64 (sp_maxTokens x) \<and> smp_ok (sp_modelPreferences x)"

interpretation c_pa: json_codec enc_PromptArgument dec_PromptArgument PromptArgument_zero "\<lambda>_. True"
  by unfold_locales
    (case_tac x, auto simp: PromptArgument_zero_def enc_PromptArgument_def dec_PromptArgument_def struct_eval omit_defs
      list_all_iff split: option.split)

interpretation c_pr: json_codec enc_Prompt dec_Prompt Prompt_zero "\<lambda>_. True"
  by unfold_locales
    (case_tac x, auto simp: Prompt_zero_def enc_Prompt_def dec_Prompt_def struct_eval omit_defs
      list_all_iff c_pa.elems_round_trip split: option.split)

interpretation c_lpr: json_codec enc_ListPromptResult dec_ListPromptResult ListPromptResult_zero "\<lambda>_. True"
  by unfold_locales
    (case_tac x, auto simp: ListPromptResult_zero_def enc_ListPromptResult_def dec_ListPromptResult_def struct_eval omit_defs
      list_all_iff c_pr.slice_round_trip split: option.split)

interpretation c_re: json_codec enc_Resource dec_Resource Resource_zero "\<lambda>_. True"
  by unfold_locales
    (case_tac x, auto simp: Resource_zero_def enc_Resource_def dec_Resource_def struct_eval omit_defs
      list_all_iff split: option.split)

interpretation c_co: json_codec enc_Content dec_Content Content_zero "\<lambda>_. True"
  by unfold_locales
    (case_tac x, auto simp: Content_zero_def enc_Content_def dec_Content_def struct_eval omit_defs
      list_all_iff c_re.ptr_round_trip split: option.split)

interpretation c_pm: json_codec enc_PromptMessage dec_PromptMessage PromptMessage_zero "\<lambda>_. True"
  by unfold_locales
    (case_tac x, auto simp: PromptMessage_zero_def enc_PromptMessage_def dec_PromptMessage_def struct_eval omit_defs
      list_all_iff c_co.round_trip split: option.split)

interpretation c_gpr: json_codec enc_GetPromptResult dec_GetPromptResult GetPromptResult_zero "\<lambda>_. True"
  by unfold_locales
    (case_tac x, auto simp: GetPromptResult_zero_def enc_GetPromptResult_def dec_GetPromptResult_def struct_eval omit_defs
      list_all_iff c_pm.elems_round_trip split: option.split)

interpretation c_lrr: json_codec enc_ListResourcesResult dec_ListResourcesResult ListResourcesResult_zero "\<lambda>_. True"
  by unfold_locales
    (case_tac x, auto simp: ListResourcesResult_zero_def enc_ListResourcesResult_def dec_ListResourcesResult_def struct_eval omit_defs
      list_all_iff c_re.slice_round_trip split: option.split)

interpretation c_rrr: json_codec enc_ReadResourceResult dec_ReadResourceResult ReadResourceResult_zero "\<lambda>_. True"
  by unfold_locales
    (case_tac x, auto simp: ReadResourceResult_zero_def enc_ReadResourceResult_def dec_ReadResourceResult_def struct_eval omit_defs
      list_all_iff c_re.slice_round_trip split: option.split)

interpretation c_rt: json_codec enc_ResourceTemplate dec_ResourceTemplate ResourceTemplate_zero "\<lambda>_. True"
  by unfold_locales
    (case_tac x, auto simp: ResourceTemplate_zero_def enc_ResourceTemplate_def dec_ResourceTemplate_def struct_eval omit_defs
      list_all_iff split: option.split)

interpretation c_lrtr: json_codec enc_ListResourceTemplatesResult dec_ListResourceTemplatesResult ListResourceTemplatesResult_zero "\<lambda>_. True"
  by unfold_locales
    (case_tac x, auto simp: ListResourceTemplatesResult_zero_def enc_ListResourceTemplatesResult_def dec_ListResourceTemplatesResult_def struct_eval omit_defs
      list_all_iff c_rt.slice_round_trip split: option.split)

interpretation c_ctr: json_codec enc_CallToolResult dec_CallToolResult CallToolResult_zero "\<lambda>_. True"
  by unfold_locales
    (case_tac x, auto simp: CallToolResult_zero_def enc_CallToolResult_def dec_CallToolResult_def struct_eval omit_defs
      list_all_iff c_co.slice_round_trip split: option.split)

interpretation c_cn: json_codec enc_Completion dec_Completion Completion_zero "\<lambda>_. True"
  by unfold_locales
    (case_tac x, auto simp: Completion_zero_def enc_Completion_def dec_Completion_def struct_eval omit_defs
      list_all_iff str.slice_round_trip split: option.split)

interpretation c_cr: json_codec enc_CompletionResult dec_CompletionResult CompletionResult_zero "\<lambda>_. True"
  by unfold_locales
    (case_tac x, auto simp: CompletionResult_zero_def enc_CompletionResult_def dec_CompletionResult_def struct_eval omit_defs
      list_all_iff c_cn.round_trip split: option.split)

interpretation c_ro: json_codec enc_Root dec_Root Root_zero "\<lambda>_. True"
  by unfold_locales
    (case_tac x, auto simp: Root_zero_def enc_Root_def dec_Root_def struct_eval omit_defs
      list_all_iff split: option.split)

interpretation c_rl: json_codec enc_RootList dec_RootList RootList_zero "\<lambda>_. True"
  by unfold_locales
    (case_tac x, auto simp: RootList_zero_def enc_RootList_def dec_RootList_def struct_eval omit_defs
      list_all_iff c_ro.slice_round_trip split: option.split)

interpretation c_sco: json_codec enc_SamplingContent dec_SamplingContent SamplingContent_zero "\<lambda>_. True"
  by unfold_locales
    (case_tac x, auto simp: SamplingContent_zero_def enc_SamplingContent_def dec_SamplingContent_def struct_eval omit_defs
      list_all_iff split: option.split)

interpretation c_sam: json_codec enc_SamplingMessage dec_SamplingMessage SamplingMessage_zero "\<lambda>_. True"
  by unfold_locales
    (case_tac x, auto simp: SamplingMessage_zero_def enc_SamplingMessage_def dec_SamplingMessage_def struct_eval omit_defs
      list_all_iff c_sco.round_trip split: option.split)

interpretation c_sh: json_codec enc_SamplingHint dec_SamplingHint SamplingHint_zero "\<lambda>_. True"
  by unfold_locales
    (case_tac x, auto simp: SamplingHint_zero_def enc_SamplingHint_def dec_SamplingHint_def struct_eval omit_defs
      list_all_iff split: option.split)

interpretation c_smp: json_codec enc_SamplingModelPreferences dec_SamplingModelPreferences SamplingModelPreferences_zero smp_ok
  by unfold_locales
    (case_tac x, auto simp: SamplingModelPreferences_zero_def enc_SamplingModelPreferences_def dec_SamplingModelPreferences_def struct_eval omit_defs
      list_all_iff c_sh.slice_round_trip smp_ok_def int64.round_trip split: option.split)

interpretation c_sp: json_codec enc_SamplingParams dec_SamplingParams SamplingParams_zero sp_ok
  by unfold_locales
    (case_tac x, auto simp: SamplingParams_zero_def enc_SamplingParams_def dec_SamplingParams_def struct_eval omit_defs
      list_all_iff c_sam.slice_round_trip c_smp.round_trip sp_ok_def int64.round_trip split: option.split)

interpretation c_sres: json_codec enc_SamplingResult dec_SamplingResult SamplingResult_zero "\<lambda>_. True"
  by unfold_locales
    (case_tac x, auto simp: SamplingResult_zero_def enc_SamplingResult_def dec_SamplingResult_def struct_eval omit_defs
      list_all_iff c_sco.round_trip split: option.split)

text \<open>
  Tools: given a codec for schemas, \<^const>\<open>enc_Tool\<close> and \<^const>\<open>dec_Tool\<close> are a codec for tools with
  admissible schemas, and so is the list result.
\<close>

definition tool_ok :: "('sch \<Rightarrow> bool) \<Rightarrow> 'sch Tool \<Rightarrow> bool" where
  "tool_ok ok t \<longleftrightarrow> (case to_inputSchema t of None \<Rightarrow> True | Some s \<Rightarrow> ok s)"

context json_codec
begin

lemma tool_codec: "json_codec (enc_Tool enc) (dec_Tool zero dec) Tool_zero (tool_ok ok)"
proof unfold_locales
  fix t :: "'a Tool"
  assume "tool_ok ok t"
  then show "dec_Tool zero dec (enc_Tool enc t) Tool_zero = Inr t"
    by (cases t) (auto simp: dec_Tool_def enc_Tool_def Tool_zero_def struct_eval omit_defs
        tool_ok_def ptr_round_trip split: option.splits)
next
  fix t :: "'a Tool"
  show "enc_Tool enc t \<noteq> JNull" by (simp add: enc_Tool_def)
qed

lemma tools_round_trip:
  assumes "case ltr_tools r of None \<Rightarrow> True | Some ts \<Rightarrow> list_all (tool_ok ok) ts"
  shows "dec_ListToolsResult zero dec (enc_ListToolsResult enc r) ListToolsResult_zero = Inr r"
  using json_codec.slice_round_trip [OF tool_codec assms]
  by (cases r) (simp add: dec_ListToolsResult_def enc_ListToolsResult_def ListToolsResult_zero_def
      struct_eval omit_defs)

end

end
