(* ===== verification/Client.thy ===== *)
theory Client
  imports Results ServerConfig
begin

text \<open>
  The client of \<^verbatim>\<open>src/pkg/mcp/client.go\<close>: its options, \<^verbatim>\<open>NewClient\<close>, the capability check, its
  messages and handlers, \<^verbatim>\<open>Connect\<close> and the request methods. As for the server, the outcome
  \<open>out\<close> of a \<^verbatim>\<open>transport.Send\<close>, the id of a \<^verbatim>\<open>uuid.New\<close> and what user code returns are arguments,
  and a panic freezes the state. The message loop and the waiting callers are in
  \<^verbatim>\<open>ClientRun\<close>.
\<close>

section \<open>Configuration\<close>

record ServerRequirement =
  sq_PromptServer :: bool
  sq_ResourceServer :: bool
  sq_ToolServer :: bool

record client =
  cl_capabilities :: ClientCapabilities
  cl_info :: Info
  cl_requiredServerCapabilities :: ServerCapabilities
  cl_rootsListHandler :: iface
  cl_rootsListUpdater :: iface
  cl_samplingHandler :: iface
  cl_promptListWatcher :: iface
  cl_resourceListWatcher :: iface
  cl_resourceSubscribedWatcher :: iface
  cl_toolListWatcher :: iface
  cl_progressListener :: iface
  cl_logReceiver :: iface
  cl_writeTimeout :: int
  cl_readTimeout :: int
  cl_pingInterval :: int

datatype ClientOption =
    WithRootsListHandler iface
  | WithRootsListUpdater iface
  | WithSamplingHandler iface
  | WithPromptListWatcher iface
  | WithResourceListWatcher iface
  | WithResourceSubscribedWatcher iface
  | WithToolListWatcher iface
  | WithProgressListener iface
  | WithLogReceiver iface
  | WithClientWriteTimeout int
  | WithClientReadTimeout int
  | WithClientPingInterval int

fun apply_client_option :: "ClientOption \<Rightarrow> client \<Rightarrow> client" where
  "apply_client_option (WithRootsListHandler h) c = c\<lparr>cl_rootsListHandler := h\<rparr>"
| "apply_client_option (WithRootsListUpdater u) c = c\<lparr>cl_rootsListUpdater := u\<rparr>"
| "apply_client_option (WithSamplingHandler h) c = c\<lparr>cl_samplingHandler := h\<rparr>"
| "apply_client_option (WithPromptListWatcher w) c = c\<lparr>cl_promptListWatcher := w\<rparr>"
| "apply_client_option (WithResourceListWatcher w) c = c\<lparr>cl_resourceListWatcher := w\<rparr>"
| "apply_client_option (WithResourceSubscribedWatcher w) c = c\<lparr>cl_resourceSubscribedWatcher := w\<rparr>"
| "apply_client_option (WithToolListWatcher w) c = c\<lparr>cl_toolListWatcher := w\<rparr>"
| "apply_client_option (WithProgressListener l) c = c\<lparr>cl_progressListener := l\<rparr>"
| "apply_client_option (WithLogReceiver r) c = c\<lparr>cl_logReceiver := r\<rparr>"
| "apply_client_option (WithClientWriteTimeout t) c = c\<lparr>cl_writeTimeout := t\<rparr>"
| "apply_client_option (WithClientReadTimeout t) c = c\<lparr>cl_readTimeout := t\<rparr>"
| "apply_client_option (WithClientPingInterval t) c = c\<lparr>cl_pingInterval := t\<rparr>"

definition defaultClientWriteTimeout :: int where "defaultClientWriteTimeout = 30 * second"
definition defaultClientReadTimeout :: int where "defaultClientReadTimeout = 30 * second"
definition defaultClientPingInterval :: int where "defaultClientPingInterval = 30 * second"

definition bare_client :: "Info \<Rightarrow> client" where
  "bare_client info =
     \<lparr>cl_capabilities = ClientCapabilities_zero, cl_info = info,
      cl_requiredServerCapabilities = ServerCapabilities_zero, cl_rootsListHandler = None,
      cl_rootsListUpdater = None, cl_samplingHandler = None, cl_promptListWatcher = None,
      cl_resourceListWatcher = None, cl_resourceSubscribedWatcher = None, cl_toolListWatcher = None,
      cl_progressListener = None, cl_logReceiver = None, cl_writeTimeout = 0, cl_readTimeout = 0,
      cl_pingInterval = 0\<rparr>"

definition client_capabilities :: "client \<Rightarrow> ClientCapabilities" where
  "client_capabilities c =
     \<lparr>cc_roots = (if cl_rootsListHandler c \<noteq> None
        then Some \<lparr>roc_listChanged = (cl_rootsListUpdater c \<noteq> None)\<rparr> else None),
      cc_sampling = (if cl_samplingHandler c \<noteq> None then Some () else None)\<rparr>"

definition required_server_capabilities :: "ServerRequirement \<Rightarrow> client \<Rightarrow> ServerCapabilities" where
  "required_server_capabilities req c =
     \<lparr>sc_prompts = (if sq_PromptServer req
        then Some \<lparr>pc_listChanged = (cl_promptListWatcher c \<noteq> None)\<rparr> else None),
      sc_resources = (if sq_ResourceServer req
        then Some \<lparr>rc_subscribe = (cl_resourceSubscribedWatcher c \<noteq> None),
                   rc_listChanged = (cl_resourceListWatcher c \<noteq> None)\<rparr> else None),
      sc_tools = (if sq_ToolServer req
        then Some \<lparr>tc_listChanged = (cl_toolListWatcher c \<noteq> None)\<rparr> else None),
      sc_logging = (if cl_logReceiver c \<noteq> None then Some () else None)\<rparr>"

definition NewClient :: "Info \<Rightarrow> ServerRequirement \<Rightarrow> ClientOption list \<Rightarrow> client" where
  "NewClient info req options =
     (let c0 = fold apply_client_option options (bare_client info);
          c1 = (if cl_writeTimeout c0 = 0 then c0\<lparr>cl_writeTimeout := defaultClientWriteTimeout\<rparr> else c0);
          c2 = (if cl_readTimeout c1 = 0 then c1\<lparr>cl_readTimeout := defaultClientReadTimeout\<rparr> else c1);
          c3 = (if cl_pingInterval c2 = 0 then c2\<lparr>cl_pingInterval := defaultClientPingInterval\<rparr> else c2)
      in c3\<lparr>cl_capabilities := client_capabilities c3,
            cl_requiredServerCapabilities := required_server_capabilities req c3\<rparr>)"

section \<open>State\<close>

datatype client_effect =
    OnPromptListChanged
  | OnResourceListChanged
  | OnResourceSubscribedChanged string
  | OnToolListChanged
  | OnProgress ProgressParams
  | OnLog LogParams
  | CallRootsList
  | CallCreateSampleMessage SamplingParams

datatype client_panic = CNilDereference | CSendOnClosedChannel | CCloseOfClosedChannel

text \<open>
  The message loop: not started, waiting for a message, blocked in \<^verbatim>\<open>handleResultMessages\<close> on a
  response channel, or returned.
\<close>

datatype listen_loop = LStart | LIdle | LDeliver nat JSONRPCMessage | LExited

text \<open>
  A caller of \<^verbatim>\<open>sendRequest\<close> that waits, with its request id and channel: \<^verbatim>\<open>initialize\<close>, the ping
  loop, or a method call of the user.
\<close>

datatype caller = WInit | WPing | WUser

datatype ctask = CWait caller string nat | CDone

record cst =
  cs_sessionID :: string
  cs_connecting :: "string option"
  cs_clientRequests :: "(gokey, nat) smap"
  cs_serverRequests :: "(gokey, unit) smap"
  cs_initialized :: bool
  cs_connected :: "go_error option option"
  cs_nchan :: nat
  cs_tasks :: "ctask list"
  cs_loop :: listen_loop
  cs_sent :: "(SessionMsg \<times> go_error option) list"
  cs_errs :: "go_error list"
  cs_effects :: "client_effect list"
  cs_results :: "(string \<times> JSONRPCMessage res) list"
  cs_received :: "(string \<times> JSONRPCMessage) list"
  cs_closed :: bool
  cs_panic :: "client_panic option"

definition cst_init :: cst where
  "cst_init =
     \<lparr>cs_sessionID = [], cs_connecting = None, cs_clientRequests = [], cs_serverRequests = [],
      cs_initialized = False, cs_connected = None, cs_nchan = 0, cs_tasks = [], cs_loop = LStart,
      cs_sent = [], cs_errs = [], cs_effects = [], cs_results = [], cs_received = [],
      cs_closed = False, cs_panic = None\<rparr>"

section \<open>Primitive operations\<close>

definition Client_panic :: "client_panic \<Rightarrow> cst \<Rightarrow> cst" where
  "Client_panic x st = (if cs_panic st = None then st\<lparr>cs_panic := Some x\<rparr> else st)"

definition Client_logError :: "go_error \<Rightarrow> cst \<Rightarrow> cst" where
  "Client_logError e st =
     (if cs_panic st \<noteq> None then st
      else if cs_closed st then Client_panic CSendOnClosedChannel st
      else st\<lparr>cs_errs := cs_errs st @ [e]\<rparr>)"

definition Client_effect :: "client_effect \<Rightarrow> cst \<Rightarrow> cst" where
  "Client_effect u st = (if cs_panic st \<noteq> None then st else st\<lparr>cs_effects := cs_effects st @ [u]\<rparr>)"

definition Client_send :: "JSONRPCMessage \<Rightarrow> go_error option \<Rightarrow> cst \<Rightarrow> cst" where
  "Client_send msg out st =
     (if cs_panic st \<noteq> None then st
      else st\<lparr>cs_sent := cs_sent st @ [(\<lparr>sm_sessionID = cs_sessionID st, sm_msg = msg\<rparr>, out)]\<rparr>)"

text \<open>The fallible operations return their error, as the methods do.\<close>

type_synonym cop = "cst \<Rightarrow> go_error option \<times> cst"

definition wrap_out :: "string \<Rightarrow> go_error option \<Rightarrow> go_error option" where
  "wrap_out fmt out = map_option (\<lambda>e. ErrWrap fmt [e]) out"

definition Client_sendNotification :: "string \<Rightarrow> json res \<Rightarrow> go_error option \<Rightarrow> cop" where
  "Client_sendNotification meth params out st =
     (case params of
        Inl e \<Rightarrow> (Some (ErrWrap ''failed to marshal params: %w'' [e]), st)
      | Inr paramsBs \<Rightarrow>
          (wrap_out ''failed to send notification: %w'' out,
           Client_send (JSONRPCMessage_zero\<lparr>msg_jsonrpc := JSONRPCVersion, msg_method := meth,
              msg_params := Some paramsBs\<rparr>) out st))"

definition Client_sendResult :: "MustString \<Rightarrow> json res \<Rightarrow> go_error option \<Rightarrow> cop" where
  "Client_sendResult i result out st =
     (case result of
        Inl e \<Rightarrow> (Some (ErrWrap ''failed to marshal result: %w'' [e]), st)
      | Inr resBs \<Rightarrow>
          (wrap_out ''failed to send result: %w'' out,
           Client_send (JSONRPCMessage_zero\<lparr>msg_jsonrpc := JSONRPCVersion, msg_id := i,
              msg_result := Some resBs\<rparr>) out st))"

definition Client_sendError :: "MustString \<Rightarrow> JSONRPCError \<Rightarrow> go_error option \<Rightarrow> cop" where
  "Client_sendError i err out st =
     (wrap_out ''failed to send error: %w'' out,
      Client_send (JSONRPCMessage_zero\<lparr>msg_jsonrpc := JSONRPCVersion, msg_id := i,
         msg_error := Some err\<rparr>) out st)"

definition Client_registerRequest :: "string \<Rightarrow> cst \<Rightarrow> cst \<times> nat" where
  "Client_registerRequest reqID st =
     (st\<lparr>cs_clientRequests := smap_store (KString reqID) (cs_nchan st) (cs_clientRequests st),
         cs_nchan := Suc (cs_nchan st)\<rparr>, cs_nchan st)"

text \<open>\<^verbatim>\<open>sendRequest\<close> up to its \<^verbatim>\<open>select\<close>: the error of the send, or a caller that waits.\<close>

definition Client_sendRequest :: "caller \<Rightarrow> JSONRPCMessage \<Rightarrow> string \<Rightarrow> go_error option \<Rightarrow> cop" where
  "Client_sendRequest w msg reqID out st =
     (let (st1, ch) = Client_registerRequest reqID st;
          st2 = Client_send (msg\<lparr>msg_id := reqID\<rparr>) out st1
      in case out of
           None \<Rightarrow> (None, st2\<lparr>cs_tasks := cs_tasks st2 @ [CWait w reqID ch]\<rparr>)
         | Some e \<Rightarrow> (Some e, st2))"

section \<open>The handshake\<close>

definition insufficient :: "string \<Rightarrow> go_error" where
  "insufficient c = ErrNew (''insufficient server capabilities: missing required capability '' @
     [CHR 0x27] @ c @ [CHR 0x27])"

definition checkPrompts :: "PromptsCapability option \<Rightarrow> PromptsCapability option \<Rightarrow> go_error option" where
  "checkPrompts got req =
     (case req of None \<Rightarrow> None
      | Some r \<Rightarrow> (case got of None \<Rightarrow> Some (insufficient ''prompts'')
          | Some g \<Rightarrow> if pc_listChanged r \<and> \<not> pc_listChanged g
                     then Some (insufficient ''prompts.listChanged'') else None))"

definition checkResources ::
    "ResourcesCapability option \<Rightarrow> ResourcesCapability option \<Rightarrow> go_error option" where
  "checkResources got req =
     (case req of None \<Rightarrow> None
      | Some r \<Rightarrow> (case got of None \<Rightarrow> Some (insufficient ''resources'')
          | Some g \<Rightarrow> if rc_listChanged r \<and> \<not> rc_listChanged g
                     then Some (insufficient ''resources.listChanged'')
                     else if rc_subscribe r \<and> \<not> rc_subscribe g
                     then Some (insufficient ''resources.subscribe'') else None))"

definition checkTools :: "ToolsCapability option \<Rightarrow> ToolsCapability option \<Rightarrow> go_error option" where
  "checkTools got req =
     (case req of None \<Rightarrow> None
      | Some r \<Rightarrow> (case got of None \<Rightarrow> Some (insufficient ''tools'')
          | Some g \<Rightarrow> if tc_listChanged r \<and> \<not> tc_listChanged g
                     then Some (insufficient ''tools.listChanged'') else None))"

definition checkLogging :: "unit option \<Rightarrow> unit option \<Rightarrow> go_error option" where
  "checkLogging got req =
     (if req \<noteq> None \<and> got = None then Some (insufficient ''logging'') else None)"

definition checkCapabilities :: "initializeResult \<Rightarrow> ServerCapabilities \<Rightarrow> go_error option" where
  "checkCapabilities result req =
     (let got = ir_capabilities result in
      case checkPrompts (sc_prompts got) (sc_prompts req) of Some e \<Rightarrow> Some e | None \<Rightarrow>
      (case checkResources (sc_resources got) (sc_resources req) of Some e \<Rightarrow> Some e | None \<Rightarrow>
      (case checkTools (sc_tools got) (sc_tools req) of Some e \<Rightarrow> Some e | None \<Rightarrow>
       checkLogging (sc_logging got) (sc_logging req))))"

definition initialize_msg :: "client \<Rightarrow> JSONRPCMessage" where
  "initialize_msg c =
     JSONRPCMessage_zero\<lparr>msg_jsonrpc := JSONRPCVersion, msg_method := methodInitialize,
       msg_params := Some (enc_initializeParams
         \<lparr>ip_protocolVersion = protocolVersion, ip_capabilities = cl_capabilities c,
          ip_clientInfo = cl_info c\<rparr>)\<rparr>"

text \<open>An error reported to the server; if that fails too the two are wrapped together.\<close>

definition refuse :: "MustString \<Rightarrow> string \<Rightarrow> go_error \<Rightarrow> go_error \<Rightarrow> go_error option \<Rightarrow> cop" where
  "refuse i m data nErr out st =
     (case Client_sendError i \<lparr>err_code = jsonRPCInvalidParamsCode, err_message = m,
             err_data = [(''error'', AnyErr data)]\<rparr> out st of
        (None, st') \<Rightarrow> (Some nErr, st')
      | (Some e, st') \<Rightarrow> (Some (ErrWrap ''%w: failed to send error on initialize: %w'' [nErr, e]), st'))"

text \<open>\<^verbatim>\<open>initialize\<close> from the return of its \<^verbatim>\<open>sendRequest\<close> on.\<close>

definition Client_initialize :: "client \<Rightarrow> JSONRPCMessage res \<Rightarrow> go_error option \<Rightarrow> cop" where
  "Client_initialize c r out st =
     (case r of
        Inl e \<Rightarrow> (Some (ErrWrap ''failed to send initialize request: %w'' [e]), st)
      | Inr res \<Rightarrow>
         (case msg_error res of
            Some e \<Rightarrow> (Some (rpc_error e), st)
          | None \<Rightarrow>
             (case unmarshal dec_initializeResult initializeResult_zero (msg_result res) of
                Inl e \<Rightarrow> (Some (ErrWrap ''failed to unmarshal initialize result: %w'' [e]), st)
              | Inr result \<Rightarrow>
                  if ir_protocolVersion result \<noteq> protocolVersion then
                    let nErr = ErrNew (''protocol version mismatch: '' @ ir_protocolVersion result @
                                 '' != '' @ protocolVersion)
                    in refuse (msg_id res) errMsgUnsupportedProtocolVersion nErr nErr out st
                  else
                    (case checkCapabilities result (cl_requiredServerCapabilities c) of
                       Some err \<Rightarrow> refuse (msg_id res) errMsgInsufficientClientCapabilities err
                         (ErrWrap ''failed to check capabilities: %w'' [err]) out st
                     | None \<Rightarrow> Client_sendNotification methodNotificationsInitialized (Inr JNull) out
                         (st\<lparr>cs_initialized := True\<rparr>)))))"

text \<open>\<^verbatim>\<open>Connect\<close> reports what \<^verbatim>\<open>initialize\<close> returned.\<close>

definition Connect_return :: "go_error option \<Rightarrow> cst \<Rightarrow> cst" where
  "Connect_return e st =
     st\<lparr>cs_connected := Some (map_option (\<lambda>x. ErrWrap ''failed to initialize client: %w'' [x]) e)\<rparr>"

section \<open>Message handlers\<close>

definition Client_and_then :: "cop \<Rightarrow> cop \<Rightarrow> cop" where
  "Client_and_then f g st = (case f st of (Some e, st') \<Rightarrow> (Some e, st') | (None, st') \<Rightarrow> g st')"

text \<open>Log an error and return it.\<close>

definition fail_with :: "go_error \<Rightarrow> cop" where
  "fail_with e st = (Some e, Client_logError e st)"

definition Client_handleBasicMessages :: "JSONRPCMessage \<Rightarrow> go_error option \<Rightarrow> cop" where
  "Client_handleBasicMessages msg out st =
     (if msg_method msg \<noteq> methodPing then (None, st)
      else case Client_sendResult (msg_id msg) (Inr JNull) out st of
             (None, st') \<Rightarrow> (None, st')
           | (Some e, st') \<Rightarrow> fail_with (ErrWrap ''failed to handle ping: %w'' [e]) st')"

text \<open>
  The common end of the two handlers that call user code: track the request under its
  \<^verbatim>\<open>MustString\<close> id, call, answer with the error or the result.
\<close>

definition serve_request ::
    "string \<Rightarrow> string \<Rightarrow> string \<Rightarrow> client_effect \<Rightarrow> MustString \<Rightarrow> go_error + json res \<Rightarrow> go_error option \<Rightarrow> cop" where
  "serve_request failed sendErr sendRes u i outcome out st =
     (let st1 = Client_effect u (st\<lparr>cs_serverRequests :=
                  smap_store (KMustString i) () (cs_serverRequests st)\<rparr>)
      in case outcome of
           Inl err \<Rightarrow>
             (let nErr = ErrWrap failed [err] in
              case Client_sendError i \<lparr>err_code = jsonRPCInternalErrorCode,
                     err_message = errMsgInternalError, err_data = [(''error'', AnyErr nErr)]\<rparr> out st1 of
                (None, st2) \<Rightarrow> fail_with nErr st2
              | (Some e, st2) \<Rightarrow> fail_with (ErrWrap sendErr [nErr, e]) st2)
         | Inr result \<Rightarrow>
             (case Client_sendResult i result out st1 of
                (None, st2) \<Rightarrow> (None, st2)
              | (Some e, st2) \<Rightarrow> fail_with (ErrWrap sendRes [e]) st2))"

definition Client_handleRootMessages ::
    "client \<Rightarrow> JSONRPCMessage \<Rightarrow> go_error + json res \<Rightarrow> go_error option \<Rightarrow> cop" where
  "Client_handleRootMessages c msg outcome out st =
     (if cl_rootsListHandler c = None then (None, st)
      else if msg_method msg \<noteq> MethodRootsList then (None, st)
      else serve_request ''failed to list roots: %w'' ''%w: failed to send error on roots list: %w''
             ''failed to send result on roots list: %w'' CallRootsList (msg_id msg) outcome out st)"

definition Client_handleSamplingMessages ::
    "client \<Rightarrow> JSONRPCMessage \<Rightarrow> go_error + json res \<Rightarrow> go_error option \<Rightarrow> cop" where
  "Client_handleSamplingMessages c msg outcome out st =
     (if cl_samplingHandler c = None then (None, st)
      else if msg_method msg \<noteq> MethodSamplingCreateMessage then (None, st)
      else case unmarshal dec_SamplingParams SamplingParams_zero (msg_params msg) of
        Inl e \<Rightarrow> fail_with (ErrWrap ''failed to unmarshal sampling params: %w'' [e]) st
      | Inr params \<Rightarrow>
          serve_request ''failed to create sample message: %w''
            ''%w: failed to send error on create sample message: %w''
            ''failed to send result on create sample message: %w''
            (CallCreateSampleMessage params) (msg_id msg) outcome out st)"

text \<open>As on the server, a hit asserts the wrong type and calls a nil function.\<close>

definition Client_handleNotificationsCancelled :: "notificationsCancelledParams \<Rightarrow> cst \<Rightarrow> cst" where
  "Client_handleNotificationsCancelled params st =
     (case smap_load (cs_serverRequests st) (KString (ncp_requestID params)) of
        None \<Rightarrow> st
      | Some _ \<Rightarrow> Client_panic CNilDereference st)"

definition Client_handleNotificationMessages :: "client \<Rightarrow> JSONRPCMessage \<Rightarrow> cop" where
  "Client_handleNotificationMessages c msg st =
     (if msg_method msg = methodNotificationsCancelled then
        (case unmarshal dec_notificationsCancelledParams notificationsCancelledParams_zero (msg_params msg) of
           Inl e \<Rightarrow> fail_with (ErrWrap ''failed to unmarshal notifications cancelled params: %w'' [e]) st
         | Inr params \<Rightarrow> (None, Client_handleNotificationsCancelled params st))
      else if msg_method msg = methodNotificationsPromptsListChanged then
        (None, if cl_promptListWatcher c \<noteq> None then Client_effect OnPromptListChanged st else st)
      else if msg_method msg = methodNotificationsResourcesListChanged then
        (None, if cl_resourceListWatcher c \<noteq> None then Client_effect OnResourceListChanged st else st)
      else if msg_method msg = methodNotificationsResourcesUpdated then
        (if cl_resourceSubscribedWatcher c = None then (None, st)
         else case unmarshal dec_SubscribeResourceParams SubscribeResourceParams_zero (msg_params msg) of
           Inl e \<Rightarrow> fail_with (ErrWrap ''failed to unmarshal resources subscribe params: %w'' [e]) st
         | Inr params \<Rightarrow> (None, Client_effect (OnResourceSubscribedChanged (srp_uri params)) st))
      else if msg_method msg = methodNotificationsToolsListChanged then
        (None, if cl_toolListWatcher c \<noteq> None then Client_effect OnToolListChanged st else st)
      else if msg_method msg = methodNotificationsProgress then
        (if cl_progressListener c = None then (None, st)
         else case unmarshal dec_ProgressParams ProgressParams_zero (msg_params msg) of
           Inl e \<Rightarrow> (None, Client_logError (ErrWrap ''failed to unmarshal progress params: %w'' [e]) st)
         | Inr params \<Rightarrow> (None, Client_effect (OnProgress params) st))
      else if msg_method msg = methodNotificationsMessage then
        (if cl_logReceiver c = None then (None, st)
         else case unmarshal dec_LogParams LogParams_zero (msg_params msg) of
           Inl e \<Rightarrow> (None, Client_logError (ErrWrap ''failed to unmarshal log params: %w'' [e]) st)
         | Inr params \<Rightarrow> (None, Client_effect (OnLog params) st))
      else (None, st))"

text \<open>The send on the response channel blocks the message loop.\<close>

definition Client_handleResultMessages :: "JSONRPCMessage \<Rightarrow> cop" where
  "Client_handleResultMessages msg st =
     (if msg_method msg \<noteq> [] then (None, st)
      else case smap_load (cs_clientRequests st) (KString (msg_id msg)) of
        None \<Rightarrow> (None, st)
      | Some ch \<Rightarrow> (None, st\<lparr>cs_loop := LDeliver ch msg\<rparr>))"

definition Client_handleMsg ::
    "client \<Rightarrow> JSONRPCMessage \<Rightarrow> go_error + json res \<Rightarrow> go_error option \<Rightarrow> cop" where
  "Client_handleMsg c msg outcome out st =
     (if msg_jsonrpc msg \<noteq> JSONRPCVersion then
        fail_with (ErrNew (''invalid jsonrpc version: '' @ msg_jsonrpc msg)) st
      else
        Client_and_then (Client_handleBasicMessages msg out)
       (Client_and_then (Client_handleRootMessages c msg outcome out)
       (Client_and_then (Client_handleSamplingMessages c msg outcome out)
       (Client_and_then (Client_handleNotificationMessages c msg)
         (Client_handleResultMessages msg)))) st)"

text \<open>One turn of \<^verbatim>\<open>listenMessages\<close>: a message of another session ends the loop.\<close>

definition listenMessages ::
    "client \<Rightarrow> string \<Rightarrow> JSONRPCMessage \<Rightarrow> go_error + json res \<Rightarrow> go_error option \<Rightarrow> cop" where
  "listenMessages c sid msg outcome out st =
     (if sid \<noteq> cs_sessionID st then
        (Some (ErrNew (''invalid session ID: '' @ sid)), st\<lparr>cs_loop := LExited\<rparr>)
      else Client_handleMsg c msg outcome out st)"

definition listenRootsList :: "go_error option \<Rightarrow> cst \<Rightarrow> cst" where
  "listenRootsList out st =
     (case Client_sendNotification methodNotificationsRootsListChanged (Inr JNull) out st of
        (None, st') \<Rightarrow> st'
      | (Some e, st') \<Rightarrow> Client_logError
          (ErrWrap ''failed to send notification on roots list change: %w'' [e]) st')"

text \<open>\<^verbatim>\<open>Close\<close>: a second call closes a closed channel.\<close>

definition Client_Close :: "cst \<Rightarrow> cst" where
  "Client_Close st =
     (if cs_closed st then Client_panic CCloseOfClosedChannel st else st\<lparr>cs_closed := True\<rparr>)"

section \<open>Request methods\<close>

text \<open>
  The methods a user calls. Each marshals its parameters, sends one request and reads the
  response; \<open>send\<close> is the \<^verbatim>\<open>sendRequest\<close> of the client with what it returned. The parameters are
  JSON data, so marshalling them does not fail.
\<close>

type_synonym send = "JSONRPCMessage \<Rightarrow> JSONRPCMessage res"

definition request_msg :: "string \<Rightarrow> json \<Rightarrow> JSONRPCMessage" where
  "request_msg meth params =
     JSONRPCMessage_zero\<lparr>msg_jsonrpc := JSONRPCVersion, msg_method := meth, msg_params := Some params\<rparr>"

definition read_result :: "(raw \<Rightarrow> 'a res) \<Rightarrow> JSONRPCMessage res \<Rightarrow> 'a res" where
  "read_result f r = res_bind r (\<lambda>res.
     case msg_error res of
       Some e \<Rightarrow> Inl (ErrWrap ''result error: %w'' [rpc_error e])
     | None \<Rightarrow> f (msg_result res))"

definition ListPrompts :: "send \<Rightarrow> ListPromptsParams \<Rightarrow> ListPromptResult res" where
  "ListPrompts send params =
     read_result (unmarshal dec_ListPromptResult ListPromptResult_zero)
       (send (request_msg MethodPromptsList (enc_ListPromptsParams params)))"

definition GetPrompt :: "send \<Rightarrow> GetPromptParams \<Rightarrow> GetPromptResult res" where
  "GetPrompt send params =
     read_result (unmarshal dec_GetPromptResult GetPromptResult_zero)
       (send (request_msg MethodPromptsGet (enc_GetPromptParams params)))"

definition CompletesPrompt :: "send \<Rightarrow> CompletesCompletionParams \<Rightarrow> CompletionResult res" where
  "CompletesPrompt send params =
     read_result (unmarshal dec_CompletionResult CompletionResult_zero)
       (send (request_msg MethodCompletionComplete (enc_CompletesCompletionParams params)))"

definition ListResources :: "send \<Rightarrow> ListResourcesParams \<Rightarrow> ListResourcesResult res" where
  "ListResources send params =
     read_result (unmarshal dec_ListResourcesResult ListResourcesResult_zero)
       (send (request_msg MethodResourcesList (enc_ListResourcesParams params)))"

definition ReadResource :: "send \<Rightarrow> ReadResourceParams \<Rightarrow> ReadResourceResult res" where
  "ReadResource send params =
     read_result (unmarshal dec_ReadResourceResult ReadResourceResult_zero)
       (send (request_msg MethodResourcesRead (enc_ReadResourceParams params)))"

definition ListResourceTemplates :: "send \<Rightarrow> ListResourceTemplatesParams \<Rightarrow> ListResourceTemplatesResult res" where
  "ListResourceTemplates send params =
     read_result (unmarshal dec_ListResourceTemplatesResult ListResourceTemplatesResult_zero)
       (send (request_msg MethodResourcesTemplatesList (enc_ListResourceTemplatesParams params)))"

definition CompletesResourceTemplate :: "send \<Rightarrow> CompletesCompletionParams \<Rightarrow> CompletionResult res" where
  "CompletesResourceTemplate send params =
     read_result (unmarshal dec_CompletionResult CompletionResult_zero)
       (send (request_msg MethodCompletionComplete (enc_CompletesCompletionParams params)))"

definition SubscribeResource :: "send \<Rightarrow> SubscribeResourceParams \<Rightarrow> unit res" where
  "SubscribeResource send params =
     read_result (\<lambda>_. Inr ()) (send (request_msg MethodResourcesSubscribe (enc_SubscribeResourceParams params)))"

definition UnsubscribeResource :: "send \<Rightarrow> UnsubscribeResourceParams \<Rightarrow> unit res" where
  "UnsubscribeResource send params =
     read_result (\<lambda>_. Inr ()) (send (request_msg MethodResourcesUnsubscribe (enc_UnsubscribeResourceParams params)))"

definition ListTools :: "'sch \<Rightarrow> 'sch dec \<Rightarrow> send \<Rightarrow> ListToolsParams \<Rightarrow> 'sch ListToolsResult res" where
  "ListTools zeroS decS send params =
     read_result (unmarshal (dec_ListToolsResult zeroS decS) ListToolsResult_zero)
       (send (request_msg MethodToolsList (enc_ListToolsParams params)))"

definition CallTool :: "send \<Rightarrow> CallToolParams \<Rightarrow> CallToolResult res" where
  "CallTool send params =
     read_result (unmarshal dec_CallToolResult CallToolResult_zero)
       (send (request_msg MethodToolsCall (enc_CallToolParams params)))"

definition SetLogLevel :: "send \<Rightarrow> int \<Rightarrow> unit res" where
  "SetLogLevel send level =
     read_result (\<lambda>_. Inr ())
       (send (request_msg MethodLoggingSetLevel (enc_LogParams (LogParams_zero\<lparr>lp_level := level\<rparr>))))"

end
