(* ===== verification/ClientRun.thy ===== *)
theory ClientRun
  imports Client
begin

text \<open>
  The client as a state machine: its message loop, the callers that wait for a response, the
  ping loop, \<^verbatim>\<open>Connect\<close> and \<^verbatim>\<open>Close\<close>. A wait in \<^verbatim>\<open>sendRequest\<close> ends with the response, with the read
  ticker, or with the send context (cancelled by the caller, or past the write timeout).
\<close>

datatype wait_end = WTicker | WContext go_error

datatype cevent =
    CStartSession "string res"
  | CBegin string "go_error option"
  | CMessage string JSONRPCMessage "go_error + json res" "go_error option"
  | CReceive nat "go_error option"
  | CGiveUp nat wait_end "go_error option" "go_error option"
  | CCall JSONRPCMessage string "go_error option"
  | CPingTick string "go_error option"
  | CRootsUpdate "go_error option"
  | CClose
  | CLoopExit

definition ctask_at :: "cst \<Rightarrow> nat \<Rightarrow> ctask option" where
  "ctask_at st g = (if g < length (cs_tasks st) then Some (cs_tasks st ! g) else None)"

definition set_ctask :: "nat \<Rightarrow> ctask \<Rightarrow> cst \<Rightarrow> cst" where
  "set_ctask g t st = st\<lparr>cs_tasks := (cs_tasks st)[g := t]\<rparr>"

text \<open>What a caller does with what \<^verbatim>\<open>sendRequest\<close> returned.\<close>

definition ping_done :: "JSONRPCMessage res \<Rightarrow> cst \<Rightarrow> cst" where
  "ping_done r st =
     (case r of
        Inl e \<Rightarrow> Client_logError (ErrWrap ''failed to send ping: %w'' [e]) st
      | Inr res \<Rightarrow> (case msg_error res of
          None \<Rightarrow> st
        | Some e \<Rightarrow> Client_logError (ErrWrap ''error response: %w'' [rpc_error e]) st))"

definition resume :: "client \<Rightarrow> caller \<Rightarrow> string \<Rightarrow> JSONRPCMessage res \<Rightarrow> go_error option \<Rightarrow> cst \<Rightarrow> cst" where
  "resume c w reqID r out st =
     (let st1 = st\<lparr>cs_results := cs_results st @ [(reqID, r)]\<rparr>
      in case w of
           WInit \<Rightarrow> (case Client_initialize c r out st1 of (e, st2) \<Rightarrow> Connect_return e st2)
         | WPing \<Rightarrow> ping_done r st1
         | WUser \<Rightarrow> st1)"

text \<open>
  The two other arms of the \<^verbatim>\<open>select\<close>. A cancelled context makes the client notify the server;
  the outcome of that send is \<open>nout\<close>.
\<close>

definition wait_error :: "string \<Rightarrow> wait_end \<Rightarrow> go_error option \<Rightarrow> cst \<Rightarrow> go_error \<times> cst" where
  "wait_error reqID w nout st =
     (case w of
        WTicker \<Rightarrow> (ErrNew ''request timeout'', st)
      | WContext err \<Rightarrow>
          if \<not> errors_Is err ErrCanceled then (err, st)
          else case Client_sendNotification methodNotificationsCancelled
                      (Inr (enc_notificationsCancelledParams
                        \<lparr>ncp_requestID = reqID, ncp_reason = userCancelledReason\<rparr>)) nout st of
                 (None, st') \<Rightarrow> (err, st')
               | (Some nErr, st') \<Rightarrow> (ErrWrap ''%w: failed to send notification: %w'' [err, nErr], st'))"

text \<open>\<^verbatim>\<open>Connect\<close>, first half: the session starts, the loops start, the id is not yet assigned.\<close>

definition Connect_start :: "string res \<Rightarrow> cst \<Rightarrow> cst" where
  "Connect_start r st =
     (case r of
        Inl e \<Rightarrow> st\<lparr>cs_connected := Some (Some (ErrWrap ''failed to start session: %w'' [e]))\<rparr>
      | Inr sessID \<Rightarrow> st\<lparr>cs_loop := LIdle, cs_connecting := Some sessID\<rparr>)"

definition Connect_begin :: "client \<Rightarrow> string \<Rightarrow> string \<Rightarrow> go_error option \<Rightarrow> cst \<Rightarrow> cst" where
  "Connect_begin c sessID reqID out st =
     (case Client_sendRequest WInit (initialize_msg c) reqID out
             (st\<lparr>cs_sessionID := sessID, cs_connecting := None\<rparr>) of
        (None, st') \<Rightarrow> st'
      | (Some e, st') \<Rightarrow>
          (case Client_initialize c (Inl e) None st' of (e', st'') \<Rightarrow> Connect_return e' st''))"

definition Client_ping :: "string \<Rightarrow> go_error option \<Rightarrow> cst \<Rightarrow> cst" where
  "Client_ping reqID out st =
     (case Client_sendRequest WPing
             (JSONRPCMessage_zero\<lparr>msg_jsonrpc := JSONRPCVersion, msg_method := methodPing\<rparr>) reqID out st of
        (None, st') \<Rightarrow> st'
      | (Some e, st') \<Rightarrow> ping_done (Inl e) st')"

definition pinging :: "ctask \<Rightarrow> bool" where
  "pinging t = (case t of CWait WPing r ch \<Rightarrow> True | _ \<Rightarrow> False)"

definition cfresh :: "cst \<Rightarrow> string \<Rightarrow> bool" where
  "cfresh st reqID \<longleftrightarrow> smap_load (cs_clientRequests st) (KString reqID) = None"

definition cguard :: "bool \<Rightarrow> cst \<Rightarrow> cst option" where
  "cguard b st = (if b then Some st else None)"

fun cexec :: "client \<Rightarrow> cevent \<Rightarrow> cst \<Rightarrow> cst option" where
  "cexec c (CStartSession r) st =
     cguard (cs_loop st = LStart \<and> cs_connected st = None) (Connect_start r st)"
| "cexec c (CBegin reqID out) st =
     (case cs_connecting st of
        None \<Rightarrow> None
      | Some sessID \<Rightarrow> cguard (cfresh st reqID) (Connect_begin c sessID reqID out st))"
| "cexec c (CMessage sid msg outcome out) st =
     cguard (cs_loop st = LIdle)
       (snd (listenMessages c sid msg outcome out (st\<lparr>cs_received := cs_received st @ [(sid, msg)]\<rparr>)))"
| "cexec c (CReceive g out) st =
     (case (ctask_at st g, cs_loop st) of
        (Some (CWait w reqID ch), LDeliver ch' msg) \<Rightarrow>
          cguard (ch = ch') (resume c w reqID (Inr msg) out (set_ctask g CDone (st\<lparr>cs_loop := LIdle\<rparr>)))
      | _ \<Rightarrow> None)"
| "cexec c (CGiveUp g e nout out) st =
     (case ctask_at st g of
        Some (CWait w reqID ch) \<Rightarrow>
          (case wait_error reqID e nout st of
             (err, st1) \<Rightarrow> Some (resume c w reqID (Inl err) out (set_ctask g CDone st1)))
      | _ \<Rightarrow> None)"
| "cexec c (CCall msg reqID out) st =
     cguard (cfresh st reqID)
       (case Client_sendRequest WUser msg reqID out st of
          (None, st') \<Rightarrow> st'
        | (Some e, st') \<Rightarrow> st'\<lparr>cs_results := cs_results st' @ [(reqID, Inl e)]\<rparr>)"
| "cexec c (CPingTick reqID out) st =
     cguard (cs_loop st \<noteq> LStart \<and> \<not> list_ex pinging (cs_tasks st) \<and> cfresh st reqID)
       (Client_ping reqID out st)"
| "cexec c (CRootsUpdate out) st = cguard (cl_rootsListUpdater c \<noteq> None) (listenRootsList out st)"
| "cexec c CClose st = Some (Client_Close st)"
| "cexec c CLoopExit st = cguard (cs_closed st \<and> cs_loop st = LIdle) (st\<lparr>cs_loop := LExited\<rparr>)"

definition cstep :: "client \<Rightarrow> cevent \<Rightarrow> cst \<Rightarrow> cst option" where
  "cstep c e st = (if cs_panic st = None then cexec c e st else None)"

inductive creach :: "client \<Rightarrow> cst \<Rightarrow> bool" for c where
  creach_init: "creach c cst_init"
| creach_step: "creach c st \<Longrightarrow> cstep c e st = Some st' \<Longrightarrow> creach c st'"

fun crun :: "client \<Rightarrow> cevent list \<Rightarrow> cst \<Rightarrow> cst option" where
  "crun c [] st = Some st"
| "crun c (e # es) st = (case cstep c e st of None \<Rightarrow> None | Some st' \<Rightarrow> crun c es st')"

lemma crun_creach: "creach c st \<Longrightarrow> crun c es st = Some st' \<Longrightarrow> creach c st'"
proof (induction es arbitrary: st)
  case Nil
  then show ?case by simp
next
  case (Cons e es)
  then obtain st1 where "cstep c e st = Some st1" and rest: "crun c es st1 = Some st'"
    by (auto split: option.splits)
  with Cons.prems(1) have "creach c st1" by (auto intro: creach_step)
  then show ?case using rest by (rule Cons.IH)
qed

end
