(* ===== verification/ClientInv.thy ===== *)
theory ClientInv
  imports ClientRun
begin

text \<open>
  What every reachable state of the client satisfies: channels belong to one request, a waiting
  caller and a message in delivery are matched by request id, a client is initialized only
  after a response that passes its checks; and what happens when nobody receives.
\<close>

section \<open>The capability check\<close>

lemma check_parts_None:
  "checkPrompts p q = None \<longleftrightarrow> opt_meets (\<lambda>a b. pc_listChanged a \<longrightarrow> pc_listChanged b) q p"
  "checkResources r u = None \<longleftrightarrow>
     opt_meets (\<lambda>a b. (rc_listChanged a \<longrightarrow> rc_listChanged b) \<and> (rc_subscribe a \<longrightarrow> rc_subscribe b)) u r"
  "checkTools t v = None \<longleftrightarrow> opt_meets (\<lambda>a b. tc_listChanged a \<longrightarrow> tc_listChanged b) v t"
  "checkLogging l w = None \<longleftrightarrow> opt_meets (\<lambda>_ _. True) w l"
  by (auto simp: checkPrompts_def checkResources_def checkTools_def checkLogging_def opt_meets_def
      split: option.split)

lemma checkCapabilities_None:
  "checkCapabilities r req = None \<longleftrightarrow> server_caps_meet req (ir_capabilities r)"
  by (simp add: checkCapabilities_def server_caps_meet_def Let_def check_parts_None [symmetric]
      split: option.split)

definition accepts :: "client \<Rightarrow> JSONRPCMessage \<Rightarrow> bool" where
  "accepts c m \<longleftrightarrow> msg_error m = None \<and>
     (\<exists>r. unmarshal dec_initializeResult initializeResult_zero (msg_result m) = Inr r \<and>
          ir_protocolVersion r = protocolVersion \<and>
          server_caps_meet (cl_requiredServerCapabilities c) (ir_capabilities r))"

section \<open>Frames\<close>

text \<open>The fields the invariant reads; the operations below leave them alone.\<close>

definition csame :: "cst \<Rightarrow> cst \<Rightarrow> bool" where
  "csame st st' \<longleftrightarrow>
     cs_clientRequests st' = cs_clientRequests st \<and> cs_nchan st' = cs_nchan st \<and>
     cs_tasks st' = cs_tasks st \<and> cs_results st' = cs_results st \<and>
     cs_received st' = cs_received st \<and> cs_initialized st' = cs_initialized st \<and>
     cs_connected st' = cs_connected st"

lemma csame_refl [simp]: "csame st st"
  by (simp add: csame_def)

lemma csame_trans: "csame a b \<Longrightarrow> csame b c \<Longrightarrow> csame a c"
  by (simp add: csame_def)

lemma csame_ops [simp]:
  "csame st (Client_panic x st1) = csame st st1"
  "csame st (Client_logError e st1) = csame st st1"
  "csame st (Client_effect u st1) = csame st st1"
  "csame st (Client_send m out st1) = csame st st1"
  "csame st (snd (Client_sendNotification meth p out st1)) = csame st st1"
  "csame st (snd (Client_sendResult i res out st1)) = csame st st1"
  "csame st (snd (Client_sendError i err out st1)) = csame st st1"
  "csame st (snd (fail_with e st1)) = csame st st1"
  by (simp_all add: csame_def Client_panic_def Client_logError_def Client_effect_def Client_send_def
      Client_sendNotification_def Client_sendResult_def Client_sendError_def fail_with_def
      split: sum.split)

lemma cloop_ops [simp]:
  "cs_loop (Client_panic x st) = cs_loop st"
  "cs_loop (Client_logError e st) = cs_loop st"
  "cs_loop (Client_effect u st) = cs_loop st"
  "cs_loop (Client_send m out st) = cs_loop st"
  "cs_loop (snd (Client_sendNotification meth p out st)) = cs_loop st"
  "cs_loop (snd (Client_sendResult i res out st)) = cs_loop st"
  "cs_loop (snd (Client_sendError i err out st)) = cs_loop st"
  "cs_loop (snd (fail_with e st)) = cs_loop st"
  by (simp_all add: Client_panic_def Client_logError_def Client_effect_def Client_send_def
      Client_sendNotification_def Client_sendResult_def Client_sendError_def fail_with_def
      split: sum.split)

lemma creqs_ops [simp]:
  "cs_serverRequests (Client_panic x st) = cs_serverRequests st"
  "cs_serverRequests (Client_logError e st) = cs_serverRequests st"
  "cs_serverRequests (Client_effect u st) = cs_serverRequests st"
  "cs_serverRequests (Client_send m out st) = cs_serverRequests st"
  "cs_serverRequests (snd (Client_sendNotification meth p out st)) = cs_serverRequests st"
  "cs_serverRequests (snd (Client_sendResult i res out st)) = cs_serverRequests st"
  "cs_serverRequests (snd (Client_sendError i err out st)) = cs_serverRequests st"
  "cs_serverRequests (snd (fail_with e st)) = cs_serverRequests st"
  by (simp_all add: Client_panic_def Client_logError_def Client_effect_def Client_send_def
      Client_sendNotification_def Client_sendResult_def Client_sendError_def fail_with_def
      split: sum.split)

text \<open>A pair-valued operation, seen through its state.\<close>

lemma case_op_snd: "(case x of (None, st') \<Rightarrow> F st' | (Some e, st') \<Rightarrow> G e st') =
    (case fst x of None \<Rightarrow> F (snd x) | Some e \<Rightarrow> G e (snd x))"
  by (cases x) (simp split: option.split)

lemmas handler_defs =
  Client_handleBasicMessages_def Client_handleRootMessages_def Client_handleSamplingMessages_def
  Client_handleNotificationMessages_def serve_request_def Client_handleNotificationsCancelled_def

text \<open>What the four first groups of handlers keep.\<close>

definition quiet_op :: "cop \<Rightarrow> bool" where
  "quiet_op f \<longleftrightarrow> (\<forall>st. csame st (snd (f st)) \<and> cs_loop (snd (f st)) = cs_loop st \<and>
     ((\<forall>i. smap_load (cs_serverRequests st) (KString i) = None) \<longrightarrow>
      (\<forall>i. smap_load (cs_serverRequests (snd (f st))) (KString i) = None)))"

lemma csame_update [simp]:
  "csame st (st1\<lparr>cs_serverRequests := m\<rparr>) = csame st st1"
  "csame st (st1\<lparr>cs_loop := l\<rparr>) = csame st st1"
  by (simp_all add: csame_def)

lemma quiet_serve: "quiet_op (serve_request a b d u i outcome out)"
  unfolding quiet_op_def serve_request_def Let_def case_op_snd
  by (auto split: sum.split option.split)

lemma quiet_basic:
  "quiet_op (\<lambda>st. (r, st))"
  "quiet_op (\<lambda>st. (r, Client_effect u st))"
  "quiet_op (\<lambda>st. (r, Client_logError e st))"
  "quiet_op (\<lambda>st. (r, if b then Client_effect u st else st))"
  "quiet_op (\<lambda>st. fail_with e st)"
  "quiet_op (\<lambda>st. (r, Client_handleNotificationsCancelled q st))"
  by (auto simp: quiet_op_def Client_handleNotificationsCancelled_def split: option.split)

lemma quiet_if: "quiet_op f \<Longrightarrow> quiet_op g \<Longrightarrow> quiet_op (\<lambda>st. if b then f st else g st)"
  by (cases b) simp_all

lemma quiet_case: "(\<And>e. quiet_op (g e)) \<Longrightarrow> (\<And>x. quiet_op (h x)) \<Longrightarrow>
    quiet_op (\<lambda>st. case r of Inl e \<Rightarrow> g e st | Inr x \<Rightarrow> h x st)"
  by (cases r) simp_all

lemma quiet_ping: "quiet_op (\<lambda>st. case Client_sendResult i res out st of
    (None, st') \<Rightarrow> (None, st') | (Some e, st') \<Rightarrow> fail_with (E e) st')"
  unfolding quiet_op_def case_op_snd by (auto split: option.split)

lemma quiet_handlers:
  "quiet_op (Client_handleBasicMessages msg out)"
  "quiet_op (Client_handleRootMessages c msg outcome out)"
  "quiet_op (Client_handleSamplingMessages c msg outcome out)"
  "quiet_op (Client_handleNotificationMessages c msg)"
  unfolding Client_handleBasicMessages_def [abs_def] Client_handleRootMessages_def [abs_def]
    Client_handleSamplingMessages_def [abs_def] Client_handleNotificationMessages_def [abs_def]
  by (intro quiet_if quiet_case quiet_basic quiet_serve quiet_ping)+

lemma handleMsg_effect:
  fixes c msg outcome out st
  defines "st' \<equiv> snd (Client_handleMsg c msg outcome out st)"
  assumes sr: "\<forall>i. smap_load (cs_serverRequests st) (KString i) = None"
  shows "csame st st'" and "\<forall>i. smap_load (cs_serverRequests st') (KString i) = None"
    and "cs_loop st' = cs_loop st \<or> (\<exists>ch. cs_loop st' = LDeliver ch msg \<and> msg_method msg = [] \<and>
           smap_load (cs_clientRequests st) (KString (msg_id msg)) = Some ch)"
proof -
  let ?R = "\<lambda>st st'. csame st st' \<and> (\<forall>i. smap_load (cs_serverRequests st') (KString i) = None) \<and>
    (cs_loop st' = cs_loop st \<or> (\<exists>ch. cs_loop st' = LDeliver ch msg \<and> msg_method msg = [] \<and>
       smap_load (cs_clientRequests st) (KString (msg_id msg)) = Some ch))"
  have last: "?R st (snd (Client_handleResultMessages msg st))"
    if "\<forall>i. smap_load (cs_serverRequests st) (KString i) = None" for st
    using that by (auto simp: Client_handleResultMessages_def split: option.split)
  have chain: "?R st (snd (Client_and_then f g st))"
    if "quiet_op f" "\<And>st. \<forall>i. smap_load (cs_serverRequests st) (KString i) = None \<Longrightarrow> ?R st (snd (g st))"
      "\<forall>i. smap_load (cs_serverRequests st) (KString i) = None" for f g st
  proof -
    obtain r st1 where f: "f st = (r, st1)" by (cases "f st")
    from that(1) have q: "csame st (snd (f st))" "cs_loop (snd (f st)) = cs_loop st"
      "(\<forall>i. smap_load (cs_serverRequests st) (KString i) = None) \<longrightarrow>
         (\<forall>i. smap_load (cs_serverRequests (snd (f st))) (KString i) = None)"
      unfolding quiet_op_def by blast+
    then have st1: "csame st st1" "cs_loop st1 = cs_loop st"
      "\<forall>i. smap_load (cs_serverRequests st1) (KString i) = None"
      using that(3) f by simp_all
    have eq: "cs_clientRequests st1 = cs_clientRequests st" using st1(1) by (simp add: csame_def)
    show ?thesis
    proof (cases r)
      case None
      then have "snd (Client_and_then f g st) = snd (g st1)" by (simp add: Client_and_then_def f)
      with that(2) [OF st1(3)] st1(2) csame_trans [OF st1(1)] show ?thesis unfolding eq by simp
    next
      case (Some e)
      then have "snd (Client_and_then f g st) = st1" by (simp add: Client_and_then_def f)
      with st1 show ?thesis by simp
    qed
  qed
  have "?R st st'"
    unfolding st'_def Client_handleMsg_def
    using sr by (simp add: chain quiet_handlers last)
  then show "csame st st'" "\<forall>i. smap_load (cs_serverRequests st') (KString i) = None"
    "cs_loop st' = cs_loop st \<or> (\<exists>ch. cs_loop st' = LDeliver ch msg \<and> msg_method msg = [] \<and>
           smap_load (cs_clientRequests st) (KString (msg_id msg)) = Some ch)"
    by blast+
qed

section \<open>The invariant\<close>

definition creceived :: "cst \<Rightarrow> JSONRPCMessage \<Rightarrow> bool" where
  "creceived st m \<longleftrightarrow> (\<exists>sid. (sid, m) \<in> set (cs_received st)) \<and> msg_method m = []"

definition registered :: "cst \<Rightarrow> string \<Rightarrow> nat \<Rightarrow> bool" where
  "registered st reqID ch \<longleftrightarrow> smap_load (cs_clientRequests st) (KString reqID) = Some ch"

definition cchannels_ok :: "cst \<Rightarrow> bool" where
  "cchannels_ok st \<longleftrightarrow>
     (\<forall>k ch. smap_load (cs_clientRequests st) k = Some ch \<longrightarrow> ch < cs_nchan st) \<and>
     (\<forall>k l ch. smap_load (cs_clientRequests st) k = Some ch \<longrightarrow>
        smap_load (cs_clientRequests st) l = Some ch \<longrightarrow> k = l)"

definition cresult_ok :: "cst \<Rightarrow> string \<times> JSONRPCMessage res \<Rightarrow> bool" where
  "cresult_ok st x \<longleftrightarrow> (\<forall>m. snd x = Inr m \<longrightarrow> msg_id m = fst x \<and> creceived st m)"

definition cinv :: "client \<Rightarrow> cst \<Rightarrow> bool" where
  "cinv c st \<longleftrightarrow>
     cchannels_ok st \<and>
     (\<forall>w r ch. CWait w r ch \<in> set (cs_tasks st) \<longrightarrow> registered st r ch) \<and>
     (\<forall>ch m. cs_loop st = LDeliver ch m \<longrightarrow> registered st (msg_id m) ch \<and> creceived st m) \<and>
     (\<forall>x \<in> set (cs_results st). cresult_ok st x) \<and>
     (\<forall>i. smap_load (cs_serverRequests st) (KString i) = None) \<and>
     (cs_initialized st \<longrightarrow> (\<exists>r m. (r, Inr m) \<in> set (cs_results st) \<and> accepts c m)) \<and>
     (cs_connected st = Some None \<longrightarrow> cs_initialized st)"

lemma cinv_init: "cinv c cst_init"
  by (simp add: cinv_def cchannels_ok_def cst_init_def)

text \<open>The invariant survives what only talks to the outside and keeps the loop.\<close>

lemma cinv_same:
  assumes "cinv c st" "csame st st'" "cs_loop st' = cs_loop st"
    and "\<forall>i. smap_load (cs_serverRequests st') (KString i) = None"
  shows "cinv c st'"
  using assms
  by (simp add: cinv_def csame_def cchannels_ok_def registered_def creceived_def cresult_ok_def)

lemma cinv_sr: "cinv c st \<Longrightarrow> smap_load (cs_serverRequests st) (KString i) = None"
  by (simp add: cinv_def)

lemma registered_inj: "cinv c st \<Longrightarrow> registered st r ch \<Longrightarrow> registered st r' ch \<Longrightarrow> r = r'"
  unfolding cinv_def cchannels_ok_def registered_def by blast

lemma cinv_ops [simp]:
  "cinv c st \<Longrightarrow> cinv c (Client_panic x st)"
  "cinv c st \<Longrightarrow> cinv c (Client_logError e st)"
  "cinv c st \<Longrightarrow> cinv c (Client_send m out st)"
  "cinv c st \<Longrightarrow> cinv c (snd (Client_sendNotification meth p out st))"
  "cinv c st \<Longrightarrow> cinv c (snd (Client_sendError i err out st))"
  by (rule cinv_same, assumption, simp, simp, simp add: cinv_sr)+

lemma cinv_received:
  assumes "cinv c st"
  shows "cinv c (st\<lparr>cs_received := cs_received st @ xs\<rparr>)"
proof -
  let ?st = "st\<lparr>cs_received := cs_received st @ xs\<rparr>"
  have "creceived st m \<Longrightarrow> creceived ?st m" for m by (auto simp: creceived_def)
  then have "cresult_ok st x \<Longrightarrow> cresult_ok ?st x" "creceived st m \<Longrightarrow> creceived ?st m" for x m
    by (auto simp: cresult_ok_def)
  with assms show ?thesis by (simp add: cinv_def cchannels_ok_def registered_def)
qed

lemma cinv_listenMessages:
  assumes inv: "cinv c st" and idle: "cs_loop st = LIdle" and rec: "(sid, msg) \<in> set (cs_received st)"
  shows "cinv c (snd (listenMessages c sid msg outcome out st))"
proof (cases "sid = cs_sessionID st")
  case False
  then show ?thesis
    using inv by (simp add: listenMessages_def cinv_def cchannels_ok_def registered_def creceived_def cresult_ok_def)
next
  case True
  let ?st = "snd (Client_handleMsg c msg outcome out st)"
  have sr: "\<forall>i. smap_load (cs_serverRequests st) (KString i) = None" using inv by (simp add: cinv_def)
  note eff = handleMsg_effect [OF sr, of c msg outcome out]
  have "registered ?st (msg_id m) ch \<and> creceived ?st m" if "cs_loop ?st = LDeliver ch m" for ch m
    using eff(1,3) that idle rec by (auto simp: registered_def creceived_def csame_def)
  then have "cinv c ?st"
    using inv eff(1,2)
    by (simp add: cinv_def csame_def cchannels_ok_def registered_def creceived_def cresult_ok_def)
  with True show ?thesis by (simp add: listenMessages_def)
qed

lemma cinv_set_done: "cinv c st \<Longrightarrow> cinv c (set_ctask g CDone st)"
  by (auto simp: cinv_def set_ctask_def cchannels_ok_def registered_def creceived_def cresult_ok_def
      dest!: set_update_subset_insert [THEN subsetD])

lemma cinv_result:
  assumes "cinv c st" "cresult_ok st x"
  shows "cinv c (st\<lparr>cs_results := cs_results st @ [x]\<rparr>)"
proof -
  let ?st = "st\<lparr>cs_results := cs_results st @ [x]\<rparr>"
  have "creceived ?st = creceived st" "cresult_ok ?st = cresult_ok st"
    by (auto simp: fun_eq_iff creceived_def cresult_ok_def)
  with assms show ?thesis by (auto simp: cinv_def cchannels_ok_def registered_def)
qed

lemma cinv_idle: "cinv c st \<Longrightarrow> cinv c (st\<lparr>cs_loop := LIdle\<rparr>)"
  by (simp add: cinv_def cchannels_ok_def registered_def creceived_def cresult_ok_def)

lemma Connect_return_inv: "cinv c st \<Longrightarrow> (e = None \<longrightarrow> cs_initialized st) \<Longrightarrow> cinv c (Connect_return e st)"
  by (simp add: Connect_return_def cinv_def cchannels_ok_def registered_def creceived_def cresult_ok_def)

text \<open>\<^verbatim>\<open>initialize\<close> returns nil only after a response that the client accepts.\<close>

lemma cinv_set_initialized:
  "cinv c st \<Longrightarrow> (r, Inr m) \<in> set (cs_results st) \<Longrightarrow> accepts c m \<Longrightarrow> cinv c (st\<lparr>cs_initialized := True\<rparr>)"
  by (auto simp: cinv_def cchannels_ok_def registered_def creceived_def cresult_ok_def)

lemma refuse_effect:
  "cinv c st \<Longrightarrow> cinv c (snd (refuse i m d n out st))" "(fst (refuse i m d n out st) = None) = False"
proof -
  have [simp]: "cinv c st'" if "cinv c st" "Client_sendError i err out st = (x, st')" for err x st'
    using cinv_ops(5) [OF that(1), of i err out] that(2) by simp
  show "cinv c st \<Longrightarrow> cinv c (snd (refuse i m d n out st))" "(fst (refuse i m d n out st) = None) = False"
    unfolding refuse_def by (auto split: prod.split option.split)
qed

lemma cinit_send [simp]: "cs_initialized (snd (Client_sendNotification meth p out st)) = cs_initialized st"
  by (simp add: Client_sendNotification_def Client_send_def split: sum.split)

lemma Client_initialize_inv:
  assumes inv: "cinv c st" and res: "\<And>m. r = Inr m \<Longrightarrow> (q, Inr m) \<in> set (cs_results st)"
  shows "cinv c (snd (Client_initialize c r out st))"
    and "fst (Client_initialize c r out st) = None \<longrightarrow> cs_initialized (snd (Client_initialize c r out st))"
proof -
  have acc: "cinv c (st\<lparr>cs_initialized := True\<rparr>)"
    if "r = Inr m" "msg_error m = None" "ir_protocolVersion x = protocolVersion"
      "unmarshal dec_initializeResult initializeResult_zero (msg_result m) = Inr x"
      "checkCapabilities x (cl_requiredServerCapabilities c) = None" for m x
    by (rule cinv_set_initialized [OF inv res [OF that(1)]])
      (use that in \<open>auto simp: accepts_def checkCapabilities_None\<close>)
  show "cinv c (snd (Client_initialize c r out st))"
    unfolding Client_initialize_def
    using inv by (auto simp: refuse_effect Let_def acc split: sum.split option.split)
  show "fst (Client_initialize c r out st) = None \<longrightarrow> cs_initialized (snd (Client_initialize c r out st))"
    unfolding Client_initialize_def
    by (simp add: Let_def refuse_effect(2) cinit_send del: not_None_eq split: sum.split option.split)
qed

lemma cinv_resume:
  assumes inv: "cinv c st" and ok: "cresult_ok st (reqID, r)"
  shows "cinv c (resume c w reqID r out st)"
proof -
  let ?st = "st\<lparr>cs_results := cs_results st @ [(reqID, r)]\<rparr>"
  have inv1: "cinv c ?st" using inv ok by (rule cinv_result)
  note init = Client_initialize_inv [OF inv1, of r reqID out]
  show ?thesis
  proof (cases w)
    case WInit
    then show ?thesis
      using init by (auto simp: resume_def split_def Let_def intro!: Connect_return_inv)
  next
    case WPing
    then show ?thesis
      using inv1 by (auto simp: resume_def ping_done_def Let_def split: sum.split option.split)
  next
    case WUser
    then show ?thesis using inv1 by (simp add: resume_def)
  qed
qed

section \<open>Steps\<close>

lemma csendRequest_state:
  "snd (Client_sendRequest w m reqID out st) =
     (let st2 = Client_send (m\<lparr>msg_id := reqID\<rparr>) out (fst (Client_registerRequest reqID st))
      in if out = None then st2\<lparr>cs_tasks := cs_tasks st2 @ [CWait w reqID (cs_nchan st)]\<rparr> else st2)"
  "fst (Client_sendRequest w m reqID out st) = out"
  by (simp_all add: Client_sendRequest_def Client_registerRequest_def Let_def split: option.split)

lemma cinv_registerRequest:
  assumes inv: "cinv c st" and f: "cfresh st reqID"
  shows "cinv c (fst (Client_registerRequest reqID st))"
    and "registered (fst (Client_registerRequest reqID st)) reqID (cs_nchan st)"
proof -
  let ?st = "fst (Client_registerRequest reqID st)"
  have load: "smap_load (cs_clientRequests ?st) k =
      (if k = KString reqID then Some (cs_nchan st) else smap_load (cs_clientRequests st) k)" for k
    by (simp add: Client_registerRequest_def)
  have low: "smap_load (cs_clientRequests st) k = Some ch \<Longrightarrow> ch < cs_nchan st" for k ch
    using inv by (auto simp: cinv_def cchannels_ok_def)
  have chan: "cchannels_ok ?st"
    unfolding cchannels_ok_def load using inv low
    by (fastforce simp: Client_registerRequest_def cinv_def cchannels_ok_def split: if_splits)
  have mono: "registered st r ch \<Longrightarrow> registered ?st r ch" for r ch
    using f unfolding registered_def load cfresh_def by auto
  have same: "creceived ?st = creceived st" "cresult_ok ?st = cresult_ok st"
    by (auto simp: fun_eq_iff creceived_def cresult_ok_def Client_registerRequest_def)
  show "cinv c ?st"
    using inv chan mono unfolding cinv_def same by (auto simp: Client_registerRequest_def)
  show "registered ?st reqID (cs_nchan st)" unfolding registered_def load by simp
qed

lemma cinv_spawn:
  assumes "cinv c st" "registered st reqID ch"
  shows "cinv c (st\<lparr>cs_tasks := cs_tasks st @ [CWait w reqID ch]\<rparr>)"
  using assms
  by (auto simp: cinv_def cchannels_ok_def registered_def creceived_def cresult_ok_def)

lemma registered_send [simp]: "registered (Client_send m out st) r ch = registered st r ch"
  by (simp add: registered_def Client_send_def)

lemma cinv_sendRequest:
  assumes inv: "cinv c st" and f: "cfresh st reqID"
  shows "cinv c (snd (Client_sendRequest w m reqID out st))"
  using cinv_registerRequest [OF assms] unfolding csendRequest_state Let_def
  by (auto intro!: cinv_spawn)

lemma wait_error_inv: "cinv c st \<Longrightarrow> cinv c (snd (wait_error reqID e nout st))"
  unfolding wait_error_def case_op_snd
  by (auto split: wait_end.split option.split)

lemma cinv_fields:
  "cinv c st \<Longrightarrow> cinv c (st\<lparr>cs_sessionID := i, cs_connecting := x\<rparr>)"
  "cinv c st \<Longrightarrow> cinv c (st\<lparr>cs_closed := b\<rparr>)"
  "cinv c st \<Longrightarrow> cinv c (st\<lparr>cs_loop := LExited\<rparr>)"
  "cinv c st \<Longrightarrow> cinv c (st\<lparr>cs_loop := LIdle, cs_connecting := x\<rparr>)"
  "cinv c st \<Longrightarrow> cinv c (st\<lparr>cs_connected := Some (Some e)\<rparr>)"
  by (simp_all add: cinv_def cchannels_ok_def registered_def creceived_def cresult_ok_def)

lemma cinv_Connect_begin:
  assumes "cinv c st" "cfresh st reqID"
  shows "cinv c (Connect_begin c sessID reqID out st)"
proof -
  let ?st = "st\<lparr>cs_sessionID := sessID, cs_connecting := None\<rparr>"
  have f: "cfresh ?st reqID" using assms(2) by (simp add: cfresh_def)
  note inv = cinv_sendRequest [OF cinv_fields(1) [OF assms(1)] f, of WInit "initialize_msg c" out]
  show ?thesis
    using inv Client_initialize_inv [OF inv, of "Inl e" for e]
    unfolding Connect_begin_def case_op_snd
    by (auto simp: split_def split: option.split intro!: Connect_return_inv)
qed

lemma cinv_exec:
  assumes inv: "cinv c st" and r: "cexec c e st = Some st'"
  shows "cinv c st'"
proof (cases e)
  case (CStartSession x)
  with r inv show ?thesis
    by (auto simp: cguard_def Connect_start_def intro!: cinv_fields split: if_splits sum.split)
next
  case (CBegin reqID out)
  with r inv show ?thesis
    by (auto simp: cguard_def split: if_splits option.splits intro!: cinv_Connect_begin)
next
  case (CMessage sid msg outcome out)
  with r inv show ?thesis
    by (auto simp: cguard_def split: if_splits intro!: cinv_listenMessages cinv_received)
next
  case (CReceive g out)
  with r obtain w reqID ch msg where g: "ctask_at st g = Some (CWait w reqID ch)"
    and l: "cs_loop st = LDeliver ch msg"
    and st': "st' = resume c w reqID (Inr msg) out (set_ctask g CDone (st\<lparr>cs_loop := LIdle\<rparr>))"
    by (auto simp: cguard_def split: option.splits ctask.splits listen_loop.splits if_splits)
  from g have "CWait w reqID ch \<in> set (cs_tasks st)"
    by (auto simp: ctask_at_def split: if_splits) (metis nth_mem)
  with inv have "registered st reqID ch" by (auto simp: cinv_def)
  moreover have del: "registered st (msg_id msg) ch" "creceived st msg" using inv l by (auto simp: cinv_def)
  ultimately have "msg_id msg = reqID" using registered_inj [OF inv] by blast
  with del show ?thesis
    unfolding st'
    by (intro cinv_resume cinv_set_done cinv_idle inv)
      (simp add: cresult_ok_def creceived_def set_ctask_def)
next
  case (CGiveUp g w nout out)
  with r inv show ?thesis
    by (auto simp: split_def cresult_ok_def split: option.splits ctask.splits
        intro!: cinv_resume cinv_set_done wait_error_inv)
next
  case (CCall msg reqID out)
  with r have f: "cfresh st reqID" by (auto simp: cguard_def split: if_splits)
  have "st' = snd (Client_sendRequest WUser msg reqID out st) \<or>
      (\<exists>e. st' = (snd (Client_sendRequest WUser msg reqID out st))
         \<lparr>cs_results := cs_results (snd (Client_sendRequest WUser msg reqID out st)) @ [(reqID, Inl e)]\<rparr>)"
    using r CCall by (auto simp: cguard_def case_op_snd split: if_splits option.splits)
  with cinv_sendRequest [OF inv f] show ?thesis by (auto intro!: cinv_result simp: cresult_ok_def)
next
  case (CPingTick reqID out)
  with r have "cfresh st reqID" and "st' = Client_ping reqID out st" by (auto simp: cguard_def split: if_splits)
  with cinv_sendRequest [OF inv] show ?thesis
    by (auto simp: Client_ping_def case_op_snd ping_done_def split: option.split)
next
  case (CRootsUpdate out)
  with r inv show ?thesis
    by (auto simp: cguard_def listenRootsList_def case_op_snd split: if_splits option.split)
next
  case CClose
  with r inv show ?thesis by (auto simp: Client_Close_def intro!: cinv_fields)
next
  case CLoopExit
  with r inv show ?thesis by (auto simp: cguard_def split: if_splits intro!: cinv_fields)
qed

text \<open>The rule for invariants of the client.\<close>

locale client_invariant =
  fixes inv :: "client \<Rightarrow> cst \<Rightarrow> bool"
  assumes init: "inv c cst_init"
    and preserved: "inv c st \<Longrightarrow> creach c st \<Longrightarrow> cstep c e st = Some st' \<Longrightarrow> inv c st'"
begin

lemma always: "creach c st \<Longrightarrow> inv c st"
  by (induction rule: creach.induct) (auto intro: init preserved)

end

lemma cstep_exec: "cstep c e st = Some st' \<Longrightarrow> cexec c e st = Some st'"
  by (simp add: cstep_def split: if_splits)

interpretation ci: client_invariant cinv
  by unfold_locales (auto intro: cinv_init cinv_exec dest: cstep_exec)

end
