(* ===== verification/ClientProps.thy ===== *)
theory ClientProps
  imports ClientInv
begin

text \<open>
  The properties of the client: the handshake's conditions, the correlation of responses, and
  the two ways its message loop ends for good.
\<close>

section \<open>A loop that is stuck stays stuck\<close>

definition waits_on :: "nat \<Rightarrow> ctask \<Rightarrow> bool" where
  "waits_on ch t = (case t of CWait w r ch' \<Rightarrow> ch' = ch | CDone \<Rightarrow> False)"

text \<open>The loop is blocked on a channel nobody waits on, or has returned.\<close>

definition stuck :: "cst \<Rightarrow> bool" where
  "stuck st = (case cs_loop st of
      LDeliver ch m \<Rightarrow> ch < cs_nchan st \<and> \<not> list_ex (waits_on ch) (cs_tasks st)
    | LExited \<Rightarrow> True
    | _ \<Rightarrow> False)"

text \<open>A step that keeps the loop, receives nothing, and adds only waiters on new channels.\<close>

definition idle_step :: "cst \<Rightarrow> cst \<Rightarrow> bool" where
  "idle_step st st' \<longleftrightarrow>
     cs_loop st' = cs_loop st \<and> cs_received st' = cs_received st \<and> cs_nchan st \<le> cs_nchan st' \<and>
     (\<forall>ch. ch < cs_nchan st \<longrightarrow> list_ex (waits_on ch) (cs_tasks st') \<longrightarrow> list_ex (waits_on ch) (cs_tasks st))"

lemma idle_step_stuck: "idle_step st st' \<Longrightarrow> stuck st \<Longrightarrow> stuck st'"
  by (auto simp: idle_step_def stuck_def split: listen_loop.splits)

lemma idle_step_trans: "idle_step a b \<Longrightarrow> idle_step b c \<Longrightarrow> idle_step a c"
  unfolding idle_step_def by (metis le_trans less_le_trans)

lemma idle_step_refl [simp]: "idle_step st st"
  by (simp add: idle_step_def)

lemma csame_idle: "csame st st' \<Longrightarrow> cs_loop st' = cs_loop st \<Longrightarrow> idle_step st st'"
  by (simp add: csame_def idle_step_def)

lemma idle_done: "idle_step st (set_ctask g CDone st)"
proof -
  have "list_ex (waits_on ch) (xs[g := CDone]) \<Longrightarrow> list_ex (waits_on ch) xs" for ch xs
    by (auto simp: list_ex_iff waits_on_def dest!: set_update_subset_insert [THEN subsetD])
  then show ?thesis by (simp add: idle_step_def set_ctask_def)
qed

lemma idle_sendRequest: "idle_step st (snd (Client_sendRequest w m reqID out st))"
  unfolding csendRequest_state Let_def
  by (auto simp: idle_step_def Client_registerRequest_def Client_send_def waits_on_def)

lemma refuse_same: "csame st (snd (refuse i m d n out st)) \<and> cs_loop (snd (refuse i m d n out st)) = cs_loop st"
proof -
  have "snd (refuse i m d n out st) = snd (Client_sendError i \<lparr>err_code = jsonRPCInvalidParamsCode,
      err_message = m, err_data = [(''error'', AnyErr d)]\<rparr> out st)"
    by (simp add: refuse_def split: prod.split option.split)
  then show ?thesis by simp
qed

lemma idle_initialized [simp]: "idle_step st (snd (Client_sendNotification meth p out (st\<lparr>cs_initialized := b\<rparr>)))"
  by (auto simp: idle_step_def Client_sendNotification_def Client_send_def split: sum.split)

lemma idle_initialize: "idle_step st (snd (Client_initialize c r out st))"
  unfolding Client_initialize_def
  by (auto simp: Let_def refuse_same csame_idle split: sum.split option.split)

lemma idle_fields:
  "idle_step st (st\<lparr>cs_results := x\<rparr>)"
  "idle_step st (Connect_return e st)"
  "idle_step st (st\<lparr>cs_sessionID := i, cs_connecting := y\<rparr>)"
  "idle_step st (st\<lparr>cs_connected := z\<rparr>)"
  "idle_step st (Client_Close st)"
  by (simp_all add: idle_step_def Connect_return_def Client_Close_def Client_panic_def)

lemma idle_log: "idle_step st st1 \<Longrightarrow> idle_step st (Client_logError e st1)"
  by (rule idle_step_trans, assumption, rule csame_idle) simp_all

lemma idle_ping_done: "idle_step st st1 \<Longrightarrow> idle_step st (ping_done r st1)"
  by (auto simp: ping_done_def idle_log split: sum.split option.split)

lemma idle_resume: "idle_step st st1 \<Longrightarrow> idle_step st (resume c w reqID r out st1)"
proof -
  assume st1: "idle_step st st1"
  note s2 = idle_step_trans [OF st1 idle_fields(1) [of _ "cs_results st1 @ [(reqID, r)]"]]
  have "idle_step st (Connect_return e (snd (Client_initialize c r out
      (st1\<lparr>cs_results := cs_results st1 @ [(reqID, r)]\<rparr>))))" for e
    by (rule idle_step_trans [OF idle_step_trans [OF s2 idle_initialize] idle_fields(2)])
  then show ?thesis
    using s2 by (simp add: resume_def Let_def split_def idle_ping_done split: caller.split)
qed

lemma idle_wait_error: "idle_step st (snd (wait_error reqID e nout st))"
  unfolding wait_error_def case_op_snd
  by (auto split: wait_end.split option.split intro: csame_idle)

lemma stuck_exec:
  assumes st: "stuck st" and r: "cexec c e st = Some st'"
  shows "idle_step st st'"
proof (cases e)
  case (CBegin reqID out)
  then obtain sid where st': "st' = Connect_begin c sid reqID out st"
    using r by (auto simp: cguard_def split: if_splits option.splits)
  let ?st0 = "st\<lparr>cs_sessionID := sid, cs_connecting := None\<rparr>"
  note s1 = idle_step_trans [OF idle_fields(3) [where st=st and i=sid and y=None] idle_sendRequest [of ?st0 WInit "initialize_msg c" reqID out]]
  show ?thesis
    unfolding st' Connect_begin_def case_op_snd
    using s1 idle_step_trans [OF idle_step_trans [OF s1 idle_initialize] idle_fields(2)]
    by (auto simp: split_def split: option.split)
next
  case (CReceive g out)
  have False if "cs_loop st = LDeliver ch m" "ctask_at st g = Some (CWait w reqID ch)" for ch m w reqID
  proof -
    from that(2) have "CWait w reqID ch \<in> set (cs_tasks st)"
      by (auto simp: ctask_at_def split: if_splits) (metis nth_mem)
    then have "list_ex (waits_on ch) (cs_tasks st)" by (force simp: list_ex_iff waits_on_def)
    with st that(1) show False by (simp add: stuck_def)
  qed
  with CReceive r show ?thesis
    by (auto simp: cguard_def split: option.splits ctask.splits listen_loop.splits if_splits)
next
  case (CGiveUp g w nout out)
  with r show ?thesis
    by (auto simp: split_def split: option.splits ctask.splits
        intro!: idle_resume idle_step_trans [OF idle_wait_error idle_done])
next
  case (CCall msg reqID out)
  with r show ?thesis
    using idle_sendRequest [of st WUser msg reqID out]
    by (auto simp: cguard_def case_op_snd split: if_splits option.splits
        intro: idle_step_trans [OF _ idle_fields(1)])
next
  case (CPingTick reqID out)
  with r show ?thesis
    by (auto simp: cguard_def Client_ping_def case_op_snd idle_sendRequest split: if_splits option.splits
        intro!: idle_ping_done)
next
  case (CRootsUpdate out)
  with r show ?thesis
    by (auto simp: cguard_def listenRootsList_def case_op_snd split: if_splits option.splits
        intro!: idle_log csame_idle)
qed (use assms in \<open>auto simp: cguard_def stuck_def idle_fields Connect_start_def split: if_splits listen_loop.splits\<close>)

lemma stuck_run:
  "stuck st \<Longrightarrow> crun c es st = Some st' \<Longrightarrow> cs_loop st' = cs_loop st \<and> cs_received st' = cs_received st"
proof (induction es arbitrary: st)
  case Nil
  then show ?case by simp
next
  case (Cons e es)
  then obtain st1 where s1: "cstep c e st = Some st1" and rest: "crun c es st1 = Some st'"
    by (auto split: option.splits)
  have i: "idle_step st st1" by (rule stuck_exec [OF Cons.prems(1) cstep_exec [OF s1]])
  from Cons.IH [OF idle_step_stuck [OF i Cons.prems(1)] rest] i show ?case by (simp add: idle_step_def)
qed

section \<open>Example\<close>

definition demo_client :: client where
  "demo_client = NewClient \<lparr>info_name = ''demo'', info_version = ''1''\<rparr>
     \<lparr>sq_PromptServer = False, sq_ResourceServer = False, sq_ToolServer = True\<rparr>
     [WithRootsListHandler (Some 1), WithRootsListUpdater (Some 1)]"

definition demo_init_result :: JSONRPCMessage where
  "demo_init_result = JSONRPCMessage_zero\<lparr>msg_jsonrpc := JSONRPCVersion, msg_id := ''i'',
     msg_result := Some (enc_initializeResult \<lparr>ir_protocolVersion = protocolVersion,
       ir_capabilities = ServerCapabilities_zero\<lparr>sc_tools := Some \<lparr>tc_listChanged = True\<rparr>\<rparr>,
       ir_serverInfo = Info_zero\<rparr>)\<rparr>"

definition demo_connect :: "cevent list" where
  "demo_connect =
     [CStartSession (Inr ''a''), CBegin ''i'' None,
      CMessage ''a'' demo_init_result (Inr (Inr JNull)) None, CReceive 0 None]"

text \<open>A call times out; then its response arrives.\<close>

definition demo_late :: "cevent list" where
  "demo_late =
     [CCall (request_msg MethodToolsList JNull) ''u'' None, CGiveUp 1 WTicker None None,
      CMessage ''a'' (JSONRPCMessage_zero\<lparr>msg_jsonrpc := JSONRPCVersion, msg_id := ''u''\<rparr>)
        (Inr (Inr JNull)) None]"

definition demo_cst :: "cevent list \<Rightarrow> cst" where
  "demo_cst es = the (crun demo_client es cst_init)"

lemma demo_creach: "crun demo_client es cst_init \<noteq> None \<Longrightarrow> creach demo_client (demo_cst es)"
  unfolding demo_cst_def by (auto intro: crun_creach [OF creach_init])

lemma demo_connect_runs: "crun demo_client demo_connect cst_init \<noteq> None"
  by code_simp

lemma demo_late_runs: "crun demo_client (demo_connect @ demo_late) cst_init \<noteq> None"
  by code_simp

section \<open>Properties\<close>

text \<open>
  The client's capability check is the specification: it returns nil exactly when the server
  offers every component the client requires, with every flag the client requires of it.
\<close>

lemma checkCapabilities_iff:
  "checkCapabilities result req = None \<longleftrightarrow>
     opt_meets (\<lambda>a b. pc_listChanged a \<longrightarrow> pc_listChanged b) (sc_prompts req) (sc_prompts (ir_capabilities result)) \<and>
     opt_meets (\<lambda>a b. (rc_listChanged a \<longrightarrow> rc_listChanged b) \<and> (rc_subscribe a \<longrightarrow> rc_subscribe b))
       (sc_resources req) (sc_resources (ir_capabilities result)) \<and>
     opt_meets (\<lambda>a b. tc_listChanged a \<longrightarrow> tc_listChanged b) (sc_tools req) (sc_tools (ir_capabilities result)) \<and>
     opt_meets (\<lambda>_ _. True) (sc_logging req) (sc_logging (ir_capabilities result))"
  by (simp add: checkCapabilities_None server_caps_meet_def)

text \<open>
  C9. \<^verbatim>\<open>Connect\<close> succeeds only with a server that fits: in every reachable state in which
  \<^verbatim>\<open>Connect\<close> has returned nil, the client is initialized and had received a response without
  error whose protocol version is the client's and whose capabilities meet its requirements.
\<close>

theorem connect_requires_capabilities:
  assumes "creach c st" "cs_connected st = Some None"
  shows "cs_initialized st \<and>
    (\<exists>sid m r. (sid, m) \<in> set (cs_received st) \<and> msg_error m = None \<and>
       unmarshal dec_initializeResult initializeResult_zero (msg_result m) = Inr r \<and>
       ir_protocolVersion r = protocolVersion \<and>
       server_caps_meet (cl_requiredServerCapabilities c) (ir_capabilities r))"
proof -
  note inv = ci.always [OF assms(1)]
  from inv assms(2) have i: "cs_initialized st" by (simp add: cinv_def)
  with inv obtain q m where "(q, Inr m) \<in> set (cs_results st)" "accepts c m"
    by (auto simp: cinv_def)
  moreover from this inv have "cresult_ok st (q, Inr m)" by (auto simp: cinv_def)
  ultimately show ?thesis using i by (auto simp: accepts_def cresult_ok_def creceived_def)
qed

theorem connect_requires_capabilities_witness:
  "cs_initialized (demo_cst demo_connect)"
proof -
  have "cs_connected (demo_cst demo_connect) = Some None" by code_simp
  with connect_requires_capabilities [OF demo_creach [OF demo_connect_runs]] show ?thesis by blast
qed

text \<open>
  C8. A response reaches the call it answers: whenever \<^verbatim>\<open>sendRequest\<close> returned a message, it was
  received, is a response, and carries the id of that request.
\<close>

theorem client_reply_correlated:
  assumes "creach c st" "(reqID, Inr m) \<in> set (cs_results st)"
  shows "msg_id m = reqID \<and> msg_method m = [] \<and> (\<exists>sid. (sid, m) \<in> set (cs_received st))"
proof -
  from ci.always [OF assms(1)] assms(2) have "cresult_ok st (reqID, Inr m)" by (auto simp: cinv_def)
  then show ?thesis by (simp add: cresult_ok_def creceived_def)
qed

theorem client_reply_correlated_witness:
  "\<exists>sid. (sid, demo_init_result) \<in> set (cs_received (demo_cst demo_connect))"
proof -
  have "(''i'', Inr demo_init_result) \<in> set (cs_results (demo_cst demo_connect))" by code_simp
  from client_reply_correlated [OF demo_creach [OF demo_connect_runs] this] show ?thesis by blast
qed

text \<open>
  C25. A response nobody waits for blocks the client for good: once the message loop is delivering
  a response on a channel without a waiting caller (the caller gave up, or was answered
  before), or has returned because of a message of another session, no sequence of further
  events makes the client process another message.
\<close>

theorem client_deaf_forever:
  assumes "creach c st"
    and "cs_loop st = LExited \<or>
      (\<exists>ch m. cs_loop st = LDeliver ch m \<and> (\<forall>w r. CWait w r ch \<notin> set (cs_tasks st)))"
    and "crun c es st = Some st'"
  shows "cs_loop st' = cs_loop st \<and> cs_received st' = cs_received st"
proof -
  have "ch < cs_nchan st" if "cs_loop st = LDeliver ch m" for ch m
    using ci.always [OF assms(1)] that by (auto simp: cinv_def cchannels_ok_def registered_def)
  with assms(2) have "stuck st"
    by (auto simp: stuck_def list_ex_iff waits_on_def split: ctask.splits)
  then show ?thesis using assms(3) by (rule stuck_run)
qed

theorem client_deaf_forever_witness:
  "\<exists>st'. crun demo_client [CRootsUpdate None, CClose] (demo_cst (demo_connect @ demo_late)) = Some st' \<and>
     cs_received st' = cs_received (demo_cst (demo_connect @ demo_late)) \<and> cs_closed st'"
proof -
  let ?st = "demo_cst (demo_connect @ demo_late)"
  have "case crun demo_client [CRootsUpdate None, CClose] ?st of None \<Rightarrow> False | Some st' \<Rightarrow> cs_closed st'"
    by code_simp
  then obtain st' where r: "crun demo_client [CRootsUpdate None, CClose] ?st = Some st'" "cs_closed st'"
    by (auto split: option.splits)
  have "cs_loop ?st = LDeliver 1 (JSONRPCMessage_zero\<lparr>msg_jsonrpc := JSONRPCVersion, msg_id := ''u''\<rparr>)"
    "cs_tasks ?st = [CDone, CDone]" by code_simp+
  with client_deaf_forever [OF demo_creach [OF demo_late_runs] _ r(1)] r show ?thesis by auto
qed

end
