(* ===== verification/FilePath.thy ===== *)
theory FilePath
  imports Prelude
begin

text \<open>
  The lexical path functions of \<^verbatim>\<open>path/filepath\<close> (Unix) the filesystem server uses: \<^verbatim>\<open>Clean\<close>, \<^verbatim>\<open>Join\<close>
  and \<^verbatim>\<open>Match\<close>, and where a path string leads: a list of components below the root of the file
  system. Paths are byte strings; \<^verbatim>\<open>Match\<close> reads one byte as one character, as it does for ASCII.
\<close>

section \<open>Components\<close>

abbreviation slash :: char where "slash \<equiv> CHR 0x2F"

definition dotdot :: string where "dotdot = ''..''"
definition dot :: string where "dot = ''.''"

fun split_slash :: "string \<Rightarrow> string list" where
  "split_slash [] = [[]]"
| "split_slash (c # cs) =
     (if c = slash then [] # split_slash cs
      else case split_slash cs of [] \<Rightarrow> [[c]] | x # xs \<Rightarrow> (c # x) # xs)"

fun join_slash :: "string list \<Rightarrow> string" where
  "join_slash [] = []"
| "join_slash [x] = x"
| "join_slash (x # y # xs) = x @ slash # join_slash (y # xs)"

text \<open>
  The elimination of empty, dot and dot-dot components; the accumulator holds the output in
  reverse. In a rooted path a dot-dot at the root is dropped.
\<close>

fun clean_go :: "bool \<Rightarrow> string list \<Rightarrow> string list \<Rightarrow> string list" where
  "clean_go rooted st [] = rev st"
| "clean_go rooted st (c # cs) =
     (if c = [] \<or> c = dot then clean_go rooted st cs
      else if c = dotdot then
        (if st \<noteq> [] \<and> hd st \<noteq> dotdot then clean_go rooted (tl st) cs
         else if rooted then clean_go rooted st cs
         else clean_go rooted (c # st) cs)
      else clean_go rooted (c # st) cs)"

definition is_rooted :: "string \<Rightarrow> bool" where
  "is_rooted p \<longleftrightarrow> p \<noteq> [] \<and> hd p = slash"

definition clean_comps :: "string \<Rightarrow> string list" where
  "clean_comps p = clean_go (is_rooted p) [] (split_slash p)"

definition show_path :: "bool \<Rightarrow> string list \<Rightarrow> string" where
  "show_path rooted cs =
     (if rooted then slash # join_slash cs else if cs = [] then dot else join_slash cs)"

definition Clean :: "string \<Rightarrow> string" where
  "Clean p = show_path (is_rooted p) (clean_comps p)"

definition Join :: "string list \<Rightarrow> string" where
  "Join elems =
     (case dropWhile (\<lambda>e. e = []) elems of [] \<Rightarrow> [] | e # es \<Rightarrow> Clean (join_slash (e # es)))"

section \<open>Match\<close>

text \<open>
  A pattern is read into tokens, then cut at the stars. \<^verbatim>\<open>Match\<close> takes each chunk at its first
  possible position and does not come back; it reports a malformed pattern whether or not
  the name matches.
\<close>

datatype gtok = GStar | GAny | GLit char | GClass bool "(char \<times> char) list"

definition errBadPattern :: go_error where "errBadPattern = ErrNew ''syntax error in pattern''"

fun getEsc :: "string \<Rightarrow> (char \<times> string) option" where
  "getEsc [] = None"
| "getEsc (c # cs) =
     (if c = CHR ''-'' \<or> c = CHR '']'' then None
      else if c = CHR 0x5C then
        (case cs of [] \<Rightarrow> None | d # ds \<Rightarrow> if ds = [] then None else Some (d, ds))
      else if cs = [] then None else Some (c, cs))"

lemma getEsc_length: "getEsc p = Some (c, r) \<Longrightarrow> length r < length p"
  by (cases p) (auto split: if_splits list.splits)

function parse_ranges :: "string \<Rightarrow> (char \<times> char) list \<Rightarrow> ((char \<times> char) list \<times> string) option" where
  "parse_ranges p acc =
     (if p \<noteq> [] \<and> hd p = CHR '']'' \<and> acc \<noteq> [] then Some (rev acc, tl p)
      else case getEsc p of
        None \<Rightarrow> None
      | Some (lo, r) \<Rightarrow>
          (if hd r = CHR ''-'' then
             (case getEsc (tl r) of
                None \<Rightarrow> None
              | Some (hi, r2) \<Rightarrow> parse_ranges r2 ((lo, hi) # acc))
           else parse_ranges r ((lo, lo) # acc)))"
  by pat_completeness auto
termination
proof (relation "measure (length \<circ> fst)")
  fix p acc x lo r y hi r2
  assume 1: "getEsc p = Some x" "(lo, r) = x" and 2: "getEsc (tl r) = Some y" "(hi, r2) = y"
  have "length r2 < length (tl r)" "length r < length p"
    using getEsc_length [of p lo r] getEsc_length [of "tl r" hi r2] 1 2 by auto
  then show "((r2, (lo, hi) # acc), (p, acc)) \<in> measure (length \<circ> fst)" by simp
qed (auto dest: getEsc_length)

lemma parse_ranges_length: "parse_ranges p acc = Some (rs, r) \<Longrightarrow> length r < length p"
proof (induction p acc rule: parse_ranges.induct)
  case (1 p acc)
  show ?case
  proof (cases "p \<noteq> [] \<and> hd p = CHR '']'' \<and> acc \<noteq> []")
    case True
    with 1(3) show ?thesis by (subst (asm) parse_ranges.simps) auto
  next
    case False
    with 1(3) obtain lo q where q: "getEsc p = Some (lo, q)"
      by (subst (asm) parse_ranges.simps) (auto split: option.splits)
    note lq = getEsc_length [OF q]
    show ?thesis
    proof (cases "hd q = CHR ''-''")
      case True
      with 1(3) False q obtain hi q2 where q2: "getEsc (tl q) = Some (hi, q2)"
        and rec: "parse_ranges q2 ((lo, hi) # acc) = Some (rs, r)"
        by (subst (asm) parse_ranges.simps) (auto split: option.splits)
      from 1(1) [OF False q refl True q2 refl rec] getEsc_length [OF q2] lq show ?thesis by simp
    next
      case nd: False
      with 1(3) False q have "parse_ranges q ((lo, lo) # acc) = Some (rs, r)"
        by (subst (asm) parse_ranges.simps) auto
      from 1(2) [OF False q refl nd this] lq show ?thesis by simp
    qed
  qed
qed

declare parse_ranges.simps [simp del]

function parse_glob :: "string \<Rightarrow> gtok list option" where
  "parse_glob [] = Some []"
| "parse_glob (c # cs) =
     (if c = CHR ''*'' then map_option ((#) GStar) (parse_glob cs)
      else if c = CHR ''?'' then map_option ((#) GAny) (parse_glob cs)
      else if c = CHR ''['' then
        (let neg = (cs \<noteq> [] \<and> hd cs = CHR ''^'') in
         case parse_ranges (if neg then tl cs else cs) [] of
           None \<Rightarrow> None
         | Some (rs, r) \<Rightarrow> map_option ((#) (GClass neg rs)) (parse_glob r))
      else if c = CHR 0x5C then
        (case cs of [] \<Rightarrow> None | d # ds \<Rightarrow> map_option ((#) (GLit d)) (parse_glob ds))
      else map_option ((#) (GLit c)) (parse_glob cs))"
  by pat_completeness auto
termination
  by (relation "measure length") (auto dest!: parse_ranges_length split: if_splits)

definition class_has :: "(char \<times> char) list \<Rightarrow> char \<Rightarrow> bool" where
  "class_has rs c = list_ex (\<lambda>(lo, hi). (of_char lo :: nat) \<le> of_char c \<and> (of_char c :: nat) \<le> of_char hi) rs"

fun match_chunk :: "gtok list \<Rightarrow> string \<Rightarrow> string option" where
  "match_chunk [] s = Some s"
| "match_chunk (t # ts) [] = None"
| "match_chunk (GLit c # ts) (d # s) = (if c = d then match_chunk ts s else None)"
| "match_chunk (GAny # ts) (d # s) = (if d \<noteq> slash then match_chunk ts s else None)"
| "match_chunk (GClass neg rs # ts) (d # s) = (if class_has rs d \<noteq> neg then match_chunk ts s else None)"
| "match_chunk (GStar # ts) (d # s) = None"

fun skip_match :: "gtok list \<Rightarrow> bool \<Rightarrow> string \<Rightarrow> string option" where
  "skip_match ch fin [] = None"
| "skip_match ch fin (c # s) =
     (if c = slash then None
      else case match_chunk ch s of
        Some t \<Rightarrow> if fin \<and> t \<noteq> [] then skip_match ch fin s else Some t
      | None \<Rightarrow> skip_match ch fin s)"

fun scan_chunks :: "bool \<Rightarrow> gtok list \<Rightarrow> gtok list \<Rightarrow> (bool \<times> gtok list) list" where
  "scan_chunks star ch [] = (if star \<or> ch \<noteq> [] then [(star, rev ch)] else [])"
| "scan_chunks star ch (GStar # ts) =
     (if ch = [] then scan_chunks True [] ts else (star, rev ch) # scan_chunks True [] ts)"
| "scan_chunks star ch (t # ts) = scan_chunks star (t # ch) ts"

fun match_chunks :: "(bool \<times> gtok list) list \<Rightarrow> string \<Rightarrow> bool" where
  "match_chunks [] s = (s = [])"
| "match_chunks ((star, ch) # rest) s =
     (if star \<and> ch = [] then slash \<notin> set s
      else case match_chunk ch s of
        Some t \<Rightarrow>
          if t = [] \<or> rest \<noteq> [] then match_chunks rest t
          else if star then (case skip_match ch (rest = []) s of None \<Rightarrow> False | Some t \<Rightarrow> match_chunks rest t)
          else False
      | None \<Rightarrow>
          if star then (case skip_match ch (rest = []) s of None \<Rightarrow> False | Some t \<Rightarrow> match_chunks rest t)
          else False)"

definition Match :: "string \<Rightarrow> string \<Rightarrow> bool res" where
  "Match pattern name =
     (case parse_glob pattern of
        None \<Rightarrow> Inl errBadPattern
      | Some ts \<Rightarrow> Inr (match_chunks (scan_chunks False [] ts) name))"

section \<open>Lemmas\<close>

definition plain :: "string \<Rightarrow> bool" where
  "plain c \<longleftrightarrow> c \<noteq> [] \<and> c \<noteq> dot \<and> c \<noteq> dotdot \<and> slash \<notin> set c"

lemma split_slash_nonempty [simp]: "split_slash p \<noteq> []"
  by (cases p) (simp_all split: list.split)

lemma split_slash_append: "split_slash (p @ slash # q) = split_slash p @ split_slash q"
proof (induction p)
  case Nil
  then show ?case by simp
next
  case (Cons c p)
  then show ?case by (cases "split_slash p") (simp_all add: split_slash_nonempty)
qed

lemma split_slash_simple: "slash \<notin> set c \<Longrightarrow> split_slash c = [c]"
  by (induction c) auto

lemma split_join: "xs \<noteq> [] \<Longrightarrow> (\<And>x. x \<in> set xs \<Longrightarrow> slash \<notin> set x) \<Longrightarrow> split_slash (join_slash xs) = xs"
proof (induction xs rule: join_slash.induct)
  case 1
  then show ?case by simp
next
  case (2 x)
  then show ?case by (simp add: split_slash_simple)
next
  case (3 x y xs)
  then show ?case by (simp add: split_slash_append split_slash_simple)
qed

lemma split_slash_no_slash: "x \<in> set (split_slash p) \<Longrightarrow> slash \<notin> set x"
proof (induction p arbitrary: x)
  case Nil
  then show ?case by simp
next
  case (Cons c p)
  then show ?case by (cases "split_slash p") (auto split: if_splits)
qed

text \<open>Output components are plain, or leading dot-dots of an unrooted path.\<close>

definition clean_stack :: "bool \<Rightarrow> string list \<Rightarrow> bool" where
  "clean_stack rooted st \<longleftrightarrow>
     (\<exists>n xs. st = rev xs @ replicate n dotdot \<and> list_all plain xs \<and> (rooted \<longrightarrow> n = 0))"

lemma plain_facts [simp]: "\<not> plain []" "\<not> plain dot" "\<not> plain dotdot"
  by (simp_all add: plain_def)

lemma dot_neq [simp]: "dot \<noteq> dotdot" "dotdot \<noteq> dot" "dot \<noteq> []" "dotdot \<noteq> []" "[] \<noteq> dot" "[] \<noteq> dotdot"
  by (simp_all add: dot_def dotdot_def)

lemma clean_go_plain:
  "list_all plain cs \<Longrightarrow> clean_go rooted st cs = rev st @ cs"
  by (induction cs arbitrary: st) (auto simp: plain_def)

lemma clean_go_append_plain:
  "list_all plain cs \<Longrightarrow> clean_go rooted st (cs @ ds) = clean_go rooted (rev cs @ st) ds"
  by (induction cs arbitrary: st) (auto simp: plain_def)

text \<open>Dot-dots pop plain components and, in a rooted path, stop at the root.\<close>

lemma clean_go_dotdots:
  "list_all plain xs \<Longrightarrow> length xs \<le> n \<Longrightarrow>
     clean_go True (rev xs) (replicate n dotdot @ cs) = clean_go True [] cs"
proof (induction n arbitrary: xs)
  case 0
  then show ?case by simp
next
  case (Suc n)
  show ?case
  proof (cases xs rule: rev_cases)
    case Nil
    then show ?thesis using Suc.IH [of "[]"] by simp
  next
    case (snoc ys y)
    with Suc.prems have "y \<noteq> dotdot" by (auto simp: plain_def)
    with snoc Suc show ?thesis by simp
  qed
qed

lemma list_all_rev [simp]: "list_all P (rev xs) = list_all P xs"
  by (induction xs) auto

lemma clean_stack_Nil [simp]: "clean_stack r []"
  by (auto simp: clean_stack_def)

text \<open>The top of a clean stack that is not a dot-dot is plain, and below it the stack is clean.\<close>

lemma clean_stack_top:
  assumes "clean_stack r (d # st)" "d \<noteq> dotdot"
  shows "plain d" "clean_stack r st"
proof -
  from assms obtain n xs where st: "d # st = rev xs @ replicate n dotdot" "list_all plain xs" "r \<longrightarrow> n = 0"
    by (auto simp: clean_stack_def)
  show "plain d" using st assms(2) by (cases xs rule: rev_cases; cases n) auto
  show "clean_stack r st"
  proof (cases xs rule: rev_cases)
    case Nil
    with st assms(2) have False by (cases n) auto
    then show ?thesis ..
  next
    case (snoc ys y)
    with st have "st = rev ys @ replicate n dotdot" "list_all plain ys" by simp_all
    with st(3) show ?thesis unfolding clean_stack_def by blast
  qed
qed

lemma clean_stack_push:
  "clean_stack r st \<Longrightarrow> plain c \<Longrightarrow> clean_stack r (c # st)"
proof -
  assume "clean_stack r st" "plain c"
  then obtain n xs where "st = rev xs @ replicate n dotdot" "list_all plain xs" "r \<longrightarrow> n = 0"
    by (auto simp: clean_stack_def)
  with \<open>plain c\<close> have "c # st = rev (xs @ [c]) @ replicate n dotdot" "list_all plain (xs @ [c])" by simp_all
  with \<open>r \<longrightarrow> n = 0\<close> show ?thesis unfolding clean_stack_def by blast
qed

lemma clean_stack_up:
  assumes "clean_stack False st" "\<not> (st \<noteq> [] \<and> hd st \<noteq> dotdot)"
  shows "clean_stack False (dotdot # st)"
proof -
  from assms(1) obtain n xs where st: "st = rev xs @ replicate n dotdot" "list_all plain xs"
    by (auto simp: clean_stack_def)
  with assms(2) have "xs = []" by (cases xs rule: rev_cases) auto
  with st have "dotdot # st = rev [] @ replicate (Suc n) dotdot" by simp
  then show ?thesis unfolding clean_stack_def by (metis list.pred_inject(1))
qed

lemma clean_go_stack:
  assumes "clean_stack rooted st" "\<And>c. c \<in> set cs \<Longrightarrow> slash \<notin> set c"
  shows "clean_stack rooted (rev (clean_go rooted st cs))"
  using assms
proof (induction cs arbitrary: st)
  case Nil
  then show ?case by simp
next
  case (Cons c cs)
  have rest: "\<And>d. d \<in> set cs \<Longrightarrow> slash \<notin> set d" using Cons.prems(2) by auto
  have pop: "clean_stack rooted (tl st)" if "st \<noteq> []" "hd st \<noteq> dotdot"
    using clean_stack_top(2) [of rooted "hd st" "tl st"] Cons.prems(1) that by simp
  have push: "clean_stack rooted (c # st)" if "c \<noteq> []" "c \<noteq> dot" "c \<noteq> dotdot"
    using clean_stack_push [OF Cons.prems(1), of c] Cons.prems(2) that by (simp add: plain_def)
  have up: "clean_stack rooted (dotdot # st)" if "\<not> (st \<noteq> [] \<and> hd st \<noteq> dotdot)" "\<not> rooted"
    using clean_stack_up [of st] Cons.prems(1) that by simp
  show ?case using Cons.IH [OF _ rest] Cons.prems(1) pop push up by (cases rooted) auto
qed

lemma clean_comps_stack: "clean_stack (is_rooted p) (rev (clean_comps p))"
  unfolding clean_comps_def
  by (rule clean_go_stack) (auto simp: clean_stack_def split_slash_no_slash)

section \<open>Where a path leads\<close>

text \<open>
  The components of a path below the root of the file system, for a working directory \<open>cwd\<close>
  (there are no symbolic links).
\<close>

definition resolve :: "string list \<Rightarrow> string \<Rightarrow> string list" where
  "resolve cwd p =
     (if is_rooted p then clean_go True [] (split_slash p)
      else clean_go True (rev cwd) (split_slash p))"

lemma clean_go_append:
  "clean_go r st (xs @ ys) = clean_go r (rev (clean_go r st xs)) ys"
  by (cases r; induction xs arbitrary: st; simp)

text \<open>Cleaning first does not change where a path leads.\<close>

lemma clean_go_clean_go:
  assumes "clean_stack r st" "\<And>c. c \<in> set cs \<Longrightarrow> slash \<notin> set c" "r \<longrightarrow> s0 = []"
  shows "clean_go True s0 (clean_go r st cs) = clean_go True s0 (rev st @ cs)"
  using assms
proof (induction cs arbitrary: st)
  case Nil
  then show ?case by simp
next
  case (Cons c cs)
  note IH = Cons.IH [OF _ _ Cons.prems(3)]
  have ns: "slash \<notin> set c" and rest: "\<And>d. d \<in> set cs \<Longrightarrow> slash \<notin> set d" using Cons.prems(2) by auto
  consider (skip) "c = [] \<or> c = dot" | (pop) "c = dotdot" "st \<noteq> []" "hd st \<noteq> dotdot"
    | (up) "c = dotdot" "\<not> (st \<noteq> [] \<and> hd st \<noteq> dotdot)" | (push) "plain c"
    using ns by (auto simp: plain_def)
  then show ?case
  proof cases
    case skip
    then show ?thesis using IH [OF Cons.prems(1) rest] by (auto simp: clean_go_append)
  next
    case pop
    then obtain d st1 where st: "st = d # st1" "d \<noteq> dotdot" by (cases st) auto
    note top = clean_stack_top [OF Cons.prems(1) [unfolded st(1)] st(2)]
    have "clean_go True s0 (rev st1 @ [d, dotdot] @ cs) = clean_go True s0 (rev st1 @ cs)"
      using top(1) by (simp add: clean_go_append plain_def)
    then show ?thesis using pop st IH [OF top(2) rest] by simp
  next
    case up
    show ?thesis
    proof (cases r)
      case True
      with Cons.prems(1) obtain xs where "st = rev xs" "list_all plain xs" by (auto simp: clean_stack_def)
      with up(2) have "st = []" by (cases xs rule: rev_cases) auto
      then show ?thesis using True up Cons.prems(3) IH [OF Cons.prems(1) rest] by simp
    next
      case False
      then show ?thesis
        using up IH [of "dotdot # st", OF _ rest] clean_stack_up [OF _ up(2)] Cons.prems(1) by auto
    qed
  next
    case push
    then show ?thesis using IH [OF clean_stack_push [OF Cons.prems(1) push] rest] by (auto simp: plain_def)
  qed
qed

lemma clean_stack_rev:
  assumes "clean_stack r (rev cs)"
  obtains n xs where "cs = replicate n dotdot @ xs" "list_all plain xs" "r \<longrightarrow> n = 0"
proof -
  from assms obtain n xs where st: "rev cs = rev xs @ replicate n dotdot" "list_all plain xs" "r \<longrightarrow> n = 0"
    unfolding clean_stack_def by blast
  from arg_cong [OF st(1), of rev] have "cs = replicate n dotdot @ xs" by simp
  with st that show ?thesis by blast
qed

lemma plain_no_slash: "plain c \<Longrightarrow> slash \<notin> set c"
  by (simp add: plain_def)

lemma no_slash_dotdot: "slash \<notin> set dotdot"
  by (simp add: dotdot_def)

lemma split_dot: "split_slash dot = [dot]"
  by (simp add: dot_def)

lemma split_join_comps:
  assumes "clean_stack r (rev cs)"
  shows "split_slash (join_slash cs) = (if cs = [] then [[]] else cs)"
proof -
  from assms obtain n xs where "cs = replicate n dotdot @ xs" "list_all plain xs"
    by (rule clean_stack_rev)
  then have "slash \<notin> set x" if "x \<in> set cs" for x
    using that no_slash_dotdot by (auto simp: list_all_iff dest: plain_no_slash)
  then show ?thesis by (simp add: split_join)
qed

lemma split_Clean:
  "split_slash (Clean p) =
     (if is_rooted p then [] # (if clean_comps p = [] then [[]] else clean_comps p)
      else if clean_comps p = [] then [dot] else clean_comps p)"
  using split_join_comps [OF clean_comps_stack, of p]
  by (simp add: Clean_def show_path_def split_dot)

lemma clean_go_split_Clean: "clean_go True st (split_slash (Clean p)) = clean_go True st (clean_comps p)"
  by (simp add: split_Clean)

lemma is_rooted_Clean: "is_rooted (Clean p) = is_rooted p"
proof (cases "is_rooted p")
  case True
  then show ?thesis by (simp add: Clean_def show_path_def is_rooted_def)
next
  case False
  have "hd (split_slash (Clean p)) \<noteq> []"
  proof (cases "clean_comps p")
    case Nil
    with False show ?thesis by (simp add: split_Clean)
  next
    case (Cons c cs)
    obtain n xs where "clean_comps p = replicate n dotdot @ xs" "list_all plain xs"
      by (rule clean_stack_rev [OF clean_comps_stack])
    with Cons have "c \<noteq> []" by (cases n; cases xs) auto
    with Cons False show ?thesis by (simp add: split_Clean)
  qed
  then have "\<not> is_rooted (Clean p)" by (cases "Clean p") (auto simp: is_rooted_def)
  with False show ?thesis by simp
qed

lemma resolve_Clean: "resolve cwd (Clean p) = resolve cwd p"
proof -
  have "clean_go True s0 (clean_comps p) = clean_go True s0 (split_slash p)" if "is_rooted p \<longrightarrow> s0 = []" for s0
    using clean_go_clean_go [of "is_rooted p" "[]" "split_slash p" s0] that
    by (simp add: clean_comps_def split_slash_no_slash)
  then show ?thesis by (simp add: resolve_def is_rooted_Clean clean_go_split_Clean)
qed

text \<open>The path the tools build: the root, then the cleaned argument.\<close>

definition full_path :: "string \<Rightarrow> string \<Rightarrow> string" where
  "full_path rootPath path = Join [rootPath, Clean path]"

lemma resolve_full_path:
  assumes "root \<noteq> []"
  shows "resolve cwd (full_path root p) = clean_go True (rev (resolve cwd root)) (clean_comps p)"
proof -
  have "resolve cwd (full_path root p) = resolve cwd (root @ slash # Clean p)"
    using assms by (simp add: full_path_def Join_def resolve_Clean)
  also have "\<dots> = clean_go True (rev (resolve cwd root)) (split_slash (Clean p))"
    using assms by (simp add: resolve_def is_rooted_def split_slash_append clean_go_append)
  finally show ?thesis by (simp add: clean_go_split_Clean)
qed

text \<open>The number of leading dot-dots that cleaning leaves, and what follows them.\<close>

definition ups :: "string \<Rightarrow> nat" where
  "ups p = length (takeWhile (\<lambda>c. c = dotdot) (clean_comps p))"

definition downs :: "string \<Rightarrow> string list" where
  "downs p = dropWhile (\<lambda>c. c = dotdot) (clean_comps p)"

lemma clean_comps_ups_downs:
  "clean_comps p = replicate (ups p) dotdot @ downs p" "list_all plain (downs p)"
  "is_rooted p \<Longrightarrow> ups p = 0"
proof -
  obtain n xs where
    cs: "clean_comps p = replicate n dotdot @ xs" "list_all plain xs" "is_rooted p \<longrightarrow> n = 0"
    by (rule clean_stack_rev [OF clean_comps_stack])
  have "takeWhile (\<lambda>c. c = dotdot) xs = []" "dropWhile (\<lambda>c. c = dotdot) xs = xs"
    using cs(2) by (cases xs; auto)+
  then have "takeWhile (\<lambda>c. c = dotdot) (replicate n dotdot @ xs) = replicate n dotdot"
    "dropWhile (\<lambda>c. c = dotdot) (replicate n dotdot @ xs) = xs"
    by (induction n) simp_all
  then have "ups p = n" "downs p = xs" by (simp_all add: ups_def downs_def cs(1))
  with cs show "clean_comps p = replicate (ups p) dotdot @ downs p" "list_all plain (downs p)"
    "is_rooted p \<Longrightarrow> ups p = 0" by simp_all
qed

lemma clean_go_ups:
  "list_all plain xs \<Longrightarrow>
     clean_go True (rev xs) (replicate n dotdot @ ds) = clean_go True (rev (take (length xs - n) xs)) ds"
proof (induction n arbitrary: xs)
  case 0
  then show ?case by simp
next
  case (Suc n)
  show ?case
  proof (cases xs rule: rev_cases)
    case Nil
    then show ?thesis using Suc.IH [of "[]"] by simp
  next
    case (snoc ys y)
    with Suc.prems have "y \<noteq> dotdot" by auto
    with snoc Suc show ?thesis by simp
  qed
qed

lemma clean_go_True_plain:
  assumes "list_all plain (rev st)" "\<And>c. c \<in> set cs \<Longrightarrow> slash \<notin> set c"
  shows "list_all plain (clean_go True st cs)"
proof -
  have "clean_stack True st"
    using assms(1) unfolding clean_stack_def by (intro exI [of _ 0] exI [of _ "rev st"]) simp
  from clean_go_stack [OF this assms(2)] show ?thesis
    by (auto simp: clean_stack_def)
qed

lemma resolve_plain: "list_all plain cwd \<Longrightarrow> list_all plain (resolve cwd p)"
  by (simp add: resolve_def clean_go_True_plain split_slash_no_slash)

text \<open>Exactly where a tool's path leads: up from the root as often as the argument says, then down.\<close>

lemma resolve_full_path_exact:
  assumes "root \<noteq> []" "list_all plain cwd"
  shows "resolve cwd (full_path root p) =
     take (length (resolve cwd root) - ups p) (resolve cwd root) @ downs p"
proof -
  have "resolve cwd (full_path root p) =
      clean_go True (rev (take (length (resolve cwd root) - ups p) (resolve cwd root))) (downs p)"
    unfolding resolve_full_path [OF assms(1)]
    by (subst clean_comps_ups_downs(1)) (rule clean_go_ups [OF resolve_plain [OF assms(2)]])
  then show ?thesis by (simp add: clean_go_plain clean_comps_ups_downs(2))
qed

end
