(* ===== verification/OsFs.thy ===== *)
theory OsFs
  imports FilePath "HOL-Library.Char_ord" "HOL-Library.List_Lexorder"
begin

text \<open>
  The part of the operating system the filesystem server works on: a tree of directories and
  files, and the functions of the \<^verbatim>\<open>os\<close> and \<^verbatim>\<open>path/filepath\<close> packages the tools call, with their
  errors. There are no permissions, links or special files, and a call of a tool is not
  interleaved with other changes. The working directory \<open>cwd\<close> of the process is an argument:
  it is the one at the time of the call.
\<close>

section \<open>The tree\<close>

datatype fnode = FFile string | FDir "(string \<times> fnode) list"

fun IsDir :: "fnode \<Rightarrow> bool" where
  "IsDir (FDir m) = True"
| "IsDir (FFile s) = False"

fun lookup :: "fnode \<Rightarrow> string list \<Rightarrow> fnode option" where
  "lookup n [] = Some n"
| "lookup (FDir m) (c # cs) = (case smap_load m c of None \<Rightarrow> None | Some n \<Rightarrow> lookup n cs)"
| "lookup (FFile s) (c # cs) = None"

fun put :: "string list \<Rightarrow> fnode \<Rightarrow> fnode \<Rightarrow> fnode" where
  "put [] x n = x"
| "put (c # cs) x (FDir m) =
     (case smap_load m c of
        None \<Rightarrow> if cs = [] then FDir (smap_store c x m) else FDir m
      | Some n \<Rightarrow> FDir (smap_store c (put cs x n) m))"
| "put (c # cs) x (FFile s) = FFile s"

fun del :: "string list \<Rightarrow> fnode \<Rightarrow> fnode" where
  "del [] n = n"
| "del [c] (FDir m) = FDir (smap_delete c m)"
| "del (c # d # cs) (FDir m) =
     (case smap_load m c of None \<Rightarrow> FDir m | Some n \<Rightarrow> FDir (smap_store c (del (d # cs) n) m))"
| "del (c # cs) (FFile s) = FFile s"

definition dir_at :: "fnode \<Rightarrow> string list \<Rightarrow> bool" where
  "dir_at t p = (case lookup t p of Some n \<Rightarrow> IsDir n | None \<Rightarrow> False)"

text \<open>Every directory has each name once.\<close>

fun fs_wf :: "fnode \<Rightarrow> bool" where
  "fs_wf (FFile s) = True"
| "fs_wf (FDir m) = (distinct (map fst m) \<and> (\<forall>(c, n) \<in> set m. fs_wf n))"

text \<open>
  The interface of the tree: what a path holds after an insertion or a removal. \<open>is_prefix\<close> says
  that one path leads through the other.
\<close>

definition is_prefix :: "string list \<Rightarrow> string list \<Rightarrow> bool" where
  "is_prefix p q \<longleftrightarrow> take (length p) q = p"

locale file_tree =
  fixes look :: "'t \<Rightarrow> string list \<Rightarrow> 'n option"
    and ins :: "string list \<Rightarrow> 'n \<Rightarrow> 't \<Rightarrow> 't"
    and rem :: "string list \<Rightarrow> 't \<Rightarrow> 't"
    and isdir :: "'n \<Rightarrow> bool"
    and wf :: "'t \<Rightarrow> bool"
    and nwf :: "'n \<Rightarrow> bool"
  assumes look_prefix: "look t (p @ q) \<noteq> None \<Longrightarrow> q \<noteq> [] \<Longrightarrow> \<exists>n. look t p = Some n \<and> isdir n"
    and look_ins_same: "look t p = Some n \<Longrightarrow> isdir n \<Longrightarrow> look (ins (p @ [c]) x t) (p @ [c]) = Some x"
    and look_ins_other: "\<not> is_prefix p q \<Longrightarrow> \<not> is_prefix q p \<Longrightarrow> look (ins p x t) q = look t q"
    and look_rem_same: "p \<noteq> [] \<Longrightarrow> look (rem p t) p = None"
    and look_rem_other: "\<not> is_prefix p q \<Longrightarrow> \<not> is_prefix q p \<Longrightarrow> look (rem p t) q = look t q"
    and look_rem_above: "is_prefix q p \<Longrightarrow> q \<noteq> p \<Longrightarrow> look t q = Some n \<Longrightarrow> isdir n \<Longrightarrow>
          \<exists>n'. look (rem p t) q = Some n' \<and> isdir n'"
    and wf_ins: "wf t \<Longrightarrow> nwf x \<Longrightarrow> wf (ins p x t)"
    and wf_rem: "wf t \<Longrightarrow> wf (rem p t)"
    and wf_look: "wf t \<Longrightarrow> look t p = Some n \<Longrightarrow> nwf n"
begin

text \<open>Moving an entry to a fresh or replaced name: it is there, it is gone here, the rest is unchanged.\<close>

lemma move_there:
  assumes "look t d = Some m" "isdir m" "\<not> is_prefix p (d @ [c])" "p \<noteq> []"
  shows "look (ins (d @ [c]) x (rem p t)) (d @ [c]) = Some x"
proof -
  have "\<exists>m'. look (rem p t) d = Some m' \<and> isdir m'"
  proof (cases "is_prefix d p")
    case True
    have "d \<noteq> p" using assms(3) by (auto simp: is_prefix_def)
    with True assms show ?thesis by (blast intro: look_rem_above)
  next
    case False
    moreover have "\<not> is_prefix p d" using assms(3) by (auto simp: is_prefix_def)
    ultimately show ?thesis using assms(1,2) look_rem_other [of p d t] by auto
  qed
  then show ?thesis using look_ins_same by blast
qed

lemma move_gone:
  assumes "p \<noteq> []" "\<not> is_prefix p q" "\<not> is_prefix q p"
  shows "look (ins q x (rem p t)) p = None"
  using assms by (simp add: look_ins_other look_rem_same)

lemma move_rest:
  assumes "\<not> is_prefix p r" "\<not> is_prefix r p" "\<not> is_prefix q r" "\<not> is_prefix r q"
  shows "look (ins q x (rem p t)) r = look t r"
  using assms by (simp add: look_ins_other look_rem_other)

lemma move_wf: "wf t \<Longrightarrow> look t p = Some x \<Longrightarrow> wf (ins q x (rem p t))"
  by (blast intro: wf_ins wf_rem wf_look)

end

lemma is_prefix_Nil [simp]: "is_prefix [] q" "is_prefix p [] \<longleftrightarrow> p = []"
  by (auto simp: is_prefix_def)

lemma is_prefix_Cons [simp]: "is_prefix (c # p) (d # q) \<longleftrightarrow> c = d \<and> is_prefix p q"
  by (auto simp: is_prefix_def)

lemma is_prefix_refl [simp]: "is_prefix p p"
  by (simp add: is_prefix_def)

lemma is_prefix_append [simp]: "is_prefix p (p @ q)"
  by (simp add: is_prefix_def)

lemma is_prefix_iff: "is_prefix p q \<longleftrightarrow> (\<exists>r. q = p @ r)"
  unfolding is_prefix_def by (metis append_eq_conv_conj append_take_drop_id)

lemma is_prefix_extend: "is_prefix p q \<Longrightarrow> is_prefix p (q @ r)"
  by (auto simp: is_prefix_iff)

lemma is_prefix_comparable: "is_prefix p r \<Longrightarrow> is_prefix q r \<Longrightarrow> is_prefix p q \<or> is_prefix q p"
  unfolding is_prefix_iff by (metis append_eq_append_conv2)

lemma lookup_prefix: "lookup t (p @ q) \<noteq> None \<Longrightarrow> q \<noteq> [] \<Longrightarrow> \<exists>n. lookup t p = Some n \<and> IsDir n"
proof (induction t p rule: lookup.induct)
  case (1 n)
  then show ?case by (cases n; cases q) auto
qed (auto split: option.splits)

lemma lookup_append: "lookup t (p @ q) = (case lookup t p of None \<Rightarrow> None | Some n \<Rightarrow> lookup n q)"
  by (induction t p rule: lookup.induct) (auto split: option.splits)

lemma lookup_put_same: "lookup t p = Some n \<Longrightarrow> IsDir n \<Longrightarrow> lookup (put (p @ [c]) x t) (p @ [c]) = Some x"
proof (induction t p rule: lookup.induct)
  case (1 n)
  then show ?case by (cases n) (auto split: option.splits)
qed (auto split: option.splits)

lemma lookup_put_other: "\<not> is_prefix p q \<Longrightarrow> \<not> is_prefix q p \<Longrightarrow> lookup (put p x t) q = lookup t q"
proof (induction p x t arbitrary: q rule: put.induct)
  case (2 c cs x m)
  then show ?case by (cases q) (auto split: option.splits)
qed auto

lemma lookup_del_same: "p \<noteq> [] \<Longrightarrow> lookup (del p t) p = None"
  by (induction p t rule: del.induct) (auto split: option.splits)

lemma lookup_del_other: "\<not> is_prefix p q \<Longrightarrow> \<not> is_prefix q p \<Longrightarrow> lookup (del p t) q = lookup t q"
proof (induction p t arbitrary: q rule: del.induct)
  case (2 c m)
  then show ?case by (cases q) (auto split: option.splits)
next
  case (3 c d cs m)
  then show ?case by (cases q) (auto split: option.splits)
qed auto

lemma lookup_del_above:
  "is_prefix q p \<Longrightarrow> q \<noteq> p \<Longrightarrow> lookup t q = Some n \<Longrightarrow> IsDir n \<Longrightarrow>
     \<exists>n'. lookup (del p t) q = Some n' \<and> IsDir n'"
proof (induction p t arbitrary: q rule: del.induct)
  case (3 c d cs m)
  show ?case
  proof (cases q)
    case Nil
    then show ?thesis by (auto split: option.split)
  next
    case (Cons e q')
    with 3 show ?thesis by (auto split: option.splits)
  qed
next
  case (2 c m)
  then show ?case by (cases q) auto
qed auto

lemma fs_wf_load: "fs_wf (FDir m) \<Longrightarrow> smap_load m c = Some n \<Longrightarrow> fs_wf n"
  by (auto dest!: smap_load_Some_set)

lemma fs_wf_store: "fs_wf (FDir m) \<Longrightarrow> fs_wf n \<Longrightarrow> fs_wf (FDir (smap_store c n m))"
  using sm.wf_store [of m c n] by (auto simp: smap_wf_def dest!: smap_store_set)

lemma fs_wf_delete: "fs_wf (FDir m) \<Longrightarrow> fs_wf (FDir (smap_delete c m))"
  using sm.wf_delete [of m c] by (auto simp: smap_wf_def dest!: smap_delete_set)

lemma fs_wf_lookup: "fs_wf t \<Longrightarrow> lookup t p = Some n \<Longrightarrow> fs_wf n"
  by (induction t p rule: lookup.induct) (auto simp del: fs_wf.simps split: option.splits dest: fs_wf_load)

lemma fs_wf_put: "fs_wf t \<Longrightarrow> fs_wf x \<Longrightarrow> fs_wf (put p x t)"
proof (induction p x t rule: put.induct)
  case (2 c cs x m)
  then show ?case
    by (cases "smap_load m c") (auto simp del: fs_wf.simps intro: fs_wf_store fs_wf_load)
qed auto

lemma fs_wf_del: "fs_wf t \<Longrightarrow> fs_wf (del p t)"
proof (induction p t rule: del.induct)
  case (2 c m)
  then show ?case by (simp del: fs_wf.simps add: fs_wf_delete)
next
  case (3 c d cs m)
  then show ?case
    by (cases "smap_load m c") (auto simp del: fs_wf.simps intro: fs_wf_store fs_wf_load)
qed auto

interpretation ft: file_tree lookup put del IsDir fs_wf fs_wf
  by unfold_locales
    (rule lookup_prefix lookup_put_same lookup_put_other lookup_del_same lookup_del_other
      lookup_del_above fs_wf_put fs_wf_del fs_wf_lookup; assumption)+


section \<open>Errors\<close>

definition ENOENT :: go_error where "ENOENT = ErrNew ''no such file or directory''"
definition ENOTDIR :: go_error where "ENOTDIR = ErrNew ''not a directory''"
definition EISDIR :: go_error where "EISDIR = ErrNew ''is a directory''"
definition EEXIST :: go_error where "EEXIST = ErrNew ''file exists''"
definition EINVAL :: go_error where "EINVAL = ErrNew ''invalid argument''"
definition EBUSY :: go_error where "EBUSY = ErrNew ''device or resource busy''"

definition PathError :: "string \<Rightarrow> string \<Rightarrow> go_error \<Rightarrow> go_error" where
  "PathError op path e = ErrWrap (op @ '' '' @ path @ '': %w'') [e]"

definition LinkError :: "string \<Rightarrow> string \<Rightarrow> string \<Rightarrow> go_error \<Rightarrow> go_error" where
  "LinkError op old new e = ErrWrap (op @ '' '' @ old @ '' '' @ new @ '': %w'') [e]"

section \<open>Path lookup\<close>

text \<open>
  The kernel walks a path one component at a time and needs a directory before every step. The
  accumulator is the place reached so far, in reverse. The last component need not exist.
\<close>

definition step_into :: "string list \<Rightarrow> string \<Rightarrow> string list" where
  "step_into st c = (if c = [] \<or> c = dot then st else if c = dotdot then tl st else c # st)"

fun walk :: "fnode \<Rightarrow> string list \<Rightarrow> string list \<Rightarrow> go_error + string list" where
  "walk t st [] = Inr (rev st)"
| "walk t st (c # cs) =
     (case lookup t (rev st) of
        None \<Rightarrow> Inl ENOENT
      | Some n \<Rightarrow>
          if IsDir n then walk t (step_into st c) cs else Inl ENOTDIR)"

definition namei :: "fnode \<Rightarrow> string list \<Rightarrow> string \<Rightarrow> go_error + string list" where
  "namei t cwd p =
     (if p = [] then Inl ENOENT
      else walk t (if is_rooted p then [] else rev cwd) (split_slash p))"

definition node_at :: "fnode \<Rightarrow> string list \<Rightarrow> string \<Rightarrow> go_error + string list \<times> fnode" where
  "node_at t cwd p =
     (case namei t cwd p of
        Inl e \<Rightarrow> Inl e
      | Inr q \<Rightarrow> (case lookup t q of None \<Rightarrow> Inl ENOENT | Some n \<Rightarrow> Inr (q, n)))"

section \<open>Operations\<close>

definition os_Stat :: "fnode \<Rightarrow> string list \<Rightarrow> string \<Rightarrow> fnode res" where
  "os_Stat t cwd p =
     (case node_at t cwd p of Inl e \<Rightarrow> Inl (PathError ''stat'' p e) | Inr (q, n) \<Rightarrow> Inr n)"

definition os_Lstat :: "fnode \<Rightarrow> string list \<Rightarrow> string \<Rightarrow> fnode res" where
  "os_Lstat t cwd p =
     (case node_at t cwd p of Inl e \<Rightarrow> Inl (PathError ''lstat'' p e) | Inr (q, n) \<Rightarrow> Inr n)"

definition os_ReadFile :: "fnode \<Rightarrow> string list \<Rightarrow> string \<Rightarrow> string res" where
  "os_ReadFile t cwd p =
     (case node_at t cwd p of
        Inl e \<Rightarrow> Inl (PathError ''open'' p e)
      | Inr (q, FDir m) \<Rightarrow> Inl (PathError ''read'' p EISDIR)
      | Inr (q, FFile s) \<Rightarrow> Inr s)"

text \<open>\<^verbatim>\<open>WriteFile\<close> opens with \<^verbatim>\<open>O_WRONLY|O_CREATE|O_TRUNC\<close>.\<close>

definition os_WriteFile :: "fnode \<Rightarrow> string list \<Rightarrow> string \<Rightarrow> string \<Rightarrow> fnode res" where
  "os_WriteFile t cwd p content =
     (case namei t cwd p of
        Inl e \<Rightarrow> Inl (PathError ''open'' p e)
      | Inr q \<Rightarrow>
          (case lookup t q of
             Some (FDir m) \<Rightarrow> Inl (PathError ''open'' p EISDIR)
           | _ \<Rightarrow> Inr (put q (FFile content) t)))"

text \<open>
  \<^verbatim>\<open>MkdirAll\<close> of a cleaned path: every missing directory from left to right. \<open>st\<close> is the place
  reached, in reverse, \<open>pre\<close> the part of the path read so far. A file in the place of the last
  component and one before it give different errors.
\<close>

fun mkdirs :: "string list \<Rightarrow> string list \<Rightarrow> string list \<Rightarrow> fnode \<Rightarrow> fnode res" where
  "mkdirs st pre [] t = Inr t"
| "mkdirs st pre (c # cs) t =
     (let here = pre @ [c]; st' = step_into st c in
      case lookup t (rev st') of
        None \<Rightarrow> mkdirs st' here cs (put (rev st') (FDir []) t)
      | Some n \<Rightarrow>
          if IsDir n then mkdirs st' here cs t
          else if cs = [] then Inl (PathError ''mkdir'' (join_slash here) ENOTDIR)
          else Inl (PathError ''mkdir'' (join_slash here @ [slash]) EEXIST))"

definition os_MkdirAll :: "fnode \<Rightarrow> string list \<Rightarrow> string \<Rightarrow> fnode res" where
  "os_MkdirAll t cwd p = mkdirs (if is_rooted p then [] else rev cwd) [] (split_slash p) t"

text \<open>\<^verbatim>\<open>ReadDir\<close> returns the entries sorted by name.\<close>

definition os_ReadDir :: "fnode \<Rightarrow> string list \<Rightarrow> string \<Rightarrow> (string \<times> fnode) list res" where
  "os_ReadDir t cwd p =
     (case node_at t cwd p of
        Inl e \<Rightarrow> Inl (PathError ''open'' p e)
      | Inr (q, FFile s) \<Rightarrow> Inl (PathError ''open'' p ENOTDIR)
      | Inr (q, FDir m) \<Rightarrow> Inr (sort_key fst m))"

text \<open>The system call: the parents first, then the names, then the two entries.\<close>

definition parent_at :: "fnode \<Rightarrow> string list \<Rightarrow> string \<Rightarrow> go_error + string list" where
  "parent_at t cwd p =
     (if p = [] then Inl ENOENT
      else case walk t (if is_rooted p then [] else rev cwd) (butlast (split_slash p)) of
        Inl e \<Rightarrow> Inl e
      | Inr d \<Rightarrow> (case lookup t d of
            None \<Rightarrow> Inl ENOENT
          | Some n \<Rightarrow> if IsDir n then Inr d else Inl ENOTDIR))"

definition sys_rename :: "fnode \<Rightarrow> string list \<Rightarrow> string \<Rightarrow> string \<Rightarrow> go_error + fnode" where
  "sys_rename t cwd old new =
     (case parent_at t cwd old of Inl e \<Rightarrow> Inl e | Inr d1 \<Rightarrow>
     (case parent_at t cwd new of Inl e \<Rightarrow> Inl e | Inr d2 \<Rightarrow>
       let a = last (split_slash old); b = last (split_slash new); p = d1 @ [a]; q = d2 @ [b] in
       if a \<in> {[], dot, dotdot} \<or> b \<in> {[], dot, dotdot} then Inl EBUSY
       else case lookup t p of None \<Rightarrow> Inl ENOENT | Some x \<Rightarrow>
         if is_prefix p q \<and> p \<noteq> q then Inl EINVAL
         else if p = q then Inr t
         else case lookup t q of
             None \<Rightarrow> Inr (put q x (del p t))
           | Some y \<Rightarrow>
               if IsDir x \<and> \<not> IsDir y then Inl ENOTDIR
               else if \<not> IsDir x \<and> IsDir y then Inl EISDIR
               else Inr (put q x (del p t))))"

text \<open>
  \<^verbatim>\<open>os.Rename\<close> refuses an existing directory as the new name, unless both names are the same
  directory under different spellings.
\<close>

definition os_Rename :: "fnode \<Rightarrow> string list \<Rightarrow> string \<Rightarrow> string \<Rightarrow> fnode res" where
  "os_Rename t cwd old new =
     (let call = (case sys_rename t cwd old new of
                    Inl e \<Rightarrow> Inl (LinkError ''rename'' old new e) | Inr t' \<Rightarrow> Inr t')
      in case node_at t cwd new of
           Inr (q, FDir m) \<Rightarrow>
             (case node_at t cwd old of
                Inl e \<Rightarrow> Inl (LinkError ''rename'' old new e)
              | Inr (p, n) \<Rightarrow> if new = old \<or> p \<noteq> q then Inl (LinkError ''rename'' old new EEXIST) else call)
         | _ \<Rightarrow> call)"

text \<open>
  \<^verbatim>\<open>filepath.WalkDir\<close>: the function is called on the root, then, for a directory, on its entries
  in the order of their names; an error ends the walk. \<open>'a\<close> is what the function accumulates.
  If the root cannot be read the function gets the error; the one caller returns it.
\<close>

fun node_size :: "fnode \<Rightarrow> nat" where
  "node_size (FFile s) = 1"
| "node_size (FDir m) = Suc (sum_list (map (\<lambda>(c, n). Suc (node_size n)) m))"

lemma sum_list_insort_key: "sum_list (map f (insort_key k x xs)) = (f x + sum_list (map f xs) :: nat)"
  by (induction xs) auto

lemma sum_list_sort_key: "sum_list (map f (sort_key k xs)) = (sum_list (map f xs) :: nat)"
  by (induction xs) (simp_all add: sum_list_insort_key)

function walkDir :: "(string \<Rightarrow> fnode \<Rightarrow> 'a \<Rightarrow> 'a res) \<Rightarrow> string \<Rightarrow> fnode \<Rightarrow> 'a \<Rightarrow> 'a res"
  and walkDirs :: "(string \<Rightarrow> fnode \<Rightarrow> 'a \<Rightarrow> 'a res) \<Rightarrow> string \<Rightarrow> (string \<times> fnode) list \<Rightarrow> 'a \<Rightarrow> 'a res" where
  "walkDir fn path (FFile s) a = fn path (FFile s) a"
| "walkDir fn path (FDir m) a =
     (case fn path (FDir m) a of Inl e \<Rightarrow> Inl e | Inr b \<Rightarrow> walkDirs fn path (sort_key fst m) b)"
| "walkDirs fn path [] a = Inr a"
| "walkDirs fn path ((c, n) # ds) a =
     (case walkDir fn (Join [path, c]) n a of Inl e \<Rightarrow> Inl e | Inr b \<Rightarrow> walkDirs fn path ds b)"
  by pat_completeness auto
termination
  by (relation "measure (\<lambda>x. case x of
        Inl (fn, path, n, a) \<Rightarrow> node_size n
      | Inr (fn, path, ds, a) \<Rightarrow> sum_list (map (\<lambda>(c, n). Suc (node_size n)) ds))")
    (auto simp: sum_list_sort_key)

definition WalkDir ::
    "fnode \<Rightarrow> string list \<Rightarrow> string \<Rightarrow> (string \<Rightarrow> fnode \<Rightarrow> 'a \<Rightarrow> 'a res) \<Rightarrow> 'a \<Rightarrow> 'a res" where
  "WalkDir t cwd root fn a =
     (case os_Lstat t cwd root of Inl e \<Rightarrow> Inl e | Inr n \<Rightarrow> walkDir fn root n a)"


section \<open>Where the operations act\<close>

text \<open>A walk that succeeds ends where the path leads lexically; the tree only decides whether it succeeds.\<close>

lemma walk_place:
  assumes "walk t st cs = Inr q" "list_all plain st" "\<And>c. c \<in> set cs \<Longrightarrow> slash \<notin> set c"
  shows "q = clean_go True st cs"
  using assms
proof (induction cs arbitrary: st)
  case Nil
  then show ?case by simp
next
  case (Cons c cs)
  have "st \<noteq> [] \<Longrightarrow> hd st \<noteq> dotdot" "list_all plain (tl st)"
    using Cons.prems(2) by (cases st; auto)+
  moreover have "c \<noteq> [] \<Longrightarrow> c \<noteq> dot \<Longrightarrow> c \<noteq> dotdot \<Longrightarrow> plain c"
    using Cons.prems(3) by (simp add: plain_def)
  ultimately show ?case using Cons by (cases st) (auto simp: step_into_def split: option.splits if_splits)
qed

lemma namei_place:
  assumes "namei t cwd p = Inr q" "list_all plain cwd"
  shows "q = resolve cwd p"
proof -
  have "list_all plain (if is_rooted p then [] else rev cwd)" using assms(2) by simp
  from walk_place [OF _ this split_slash_no_slash, of t "split_slash p" q] assms(1)
  show ?thesis by (simp add: namei_def resolve_def split: if_splits)
qed

lemma node_at_place:
  assumes "node_at t cwd p = Inr (q, n)" "list_all plain cwd"
  shows "q = resolve cwd p" "lookup t (resolve cwd p) = Some n"
  using assms namei_place [of t cwd p] by (auto simp: node_at_def split: sum.splits option.splits)

lemma dir_at_prefix: "dir_at t (p @ q) \<Longrightarrow> dir_at t p"
  using lookup_prefix [of t p q] by (cases q) (auto simp: dir_at_def split: option.splits)

lemma lookup_dir_before: "lookup t (p @ [c]) = Some n \<Longrightarrow> dir_at t p"
  using lookup_prefix [of t p "[c]"] by (auto simp: dir_at_def)

lemma dir_atE: "dir_at t p \<Longrightarrow> (\<And>n. lookup t p = Some n \<Longrightarrow> IsDir n \<Longrightarrow> P) \<Longrightarrow> P"
  by (auto simp: dir_at_def split: option.splits)

lemma walk_down:
  assumes "list_all plain cs" "cs \<noteq> [] \<Longrightarrow> dir_at t (rev st @ butlast cs)"
  shows "walk t st cs = Inr (rev st @ cs)"
  using assms
proof (induction cs arbitrary: st)
  case Nil
  then show ?case by simp
next
  case (Cons c cs)
  then have c: "c \<noteq> []" "c \<noteq> dot" "c \<noteq> dotdot" by (auto simp: plain_def)
  have "dir_at t (rev st)" using Cons.prems(2) by (auto intro: dir_at_prefix)
  moreover have "walk t (c # st) cs = Inr (rev (c # st) @ cs)"
    using Cons.prems by (intro Cons.IH) (auto split: if_splits)
  ultimately show ?case using c by (auto simp: step_into_def elim!: dir_atE)
qed

lemma dir_at_tl: "dir_at t (rev st) \<Longrightarrow> dir_at t (rev (tl st))"
  by (cases st) (auto intro: dir_at_prefix)

lemma walk_up:
  assumes "dir_at t (rev st)"
  shows "walk t st (replicate k dotdot @ cs) = walk t (drop k st) cs"
  using assms
proof (induction k arbitrary: st)
  case 0
  then show ?case by simp
next
  case (Suc k)
  have "walk t st (replicate (Suc k) dotdot @ cs) = walk t (tl st) (replicate k dotdot @ cs)"
    using Suc.prems by (auto simp: step_into_def elim!: dir_atE)
  also have "\<dots> = walk t (drop k (tl st)) cs" using dir_at_tl [OF Suc.prems] by (rule Suc.IH)
  finally show ?case by (simp add: drop_Suc)
qed

lemma Clean_nonempty: "Clean p \<noteq> []"
proof
  assume "Clean p = []"
  then have "split_slash (Clean p) = [[]]" by simp
  moreover obtain n xs where "clean_comps p = replicate n dotdot @ xs" "list_all plain xs"
    by (rule clean_stack_rev [OF clean_comps_stack])
  ultimately show False by (cases n; cases xs) (auto simp: split_Clean split: if_splits)
qed

text \<open>
  In a sane environment (the root is a directory, the working directory exists) a cleaned path
  is found as soon as the directory before its last component is there.
\<close>

definition env_ok :: "fnode \<Rightarrow> string list \<Rightarrow> bool" where
  "env_ok t cwd \<longleftrightarrow> list_all plain cwd \<and> dir_at t cwd"

lemma env_plain: "env_ok t cwd \<Longrightarrow> list_all plain cwd"
  by (simp add: env_ok_def)

lemma env_root: "env_ok t cwd \<Longrightarrow> dir_at t []"
  using dir_at_prefix [of t "[]" cwd] by (simp add: env_ok_def)

lemma walk_clean:
  assumes "clean_stack r (rev cs)" "r \<Longrightarrow> st = []" "dir_at t (rev st)" "list_all plain st"
    and "dir_at t (butlast (clean_go True st cs))"
  shows "walk t st cs = Inr (clean_go True st cs)"
proof -
  from assms(1) obtain n xs where cs: "cs = replicate n dotdot @ xs" "list_all plain xs"
    by (rule clean_stack_rev)
  have q: "clean_go True st cs = rev (drop n st) @ xs"
    using clean_go_ups [of "rev st" n xs] assms(4) cs(2)
    by (simp add: cs(1) clean_go_plain rev_drop rev_take)
  have "walk t (drop n st) xs = Inr (rev (drop n st) @ xs)"
    using assms(5) cs(2) by (intro walk_down) (auto simp: q butlast_append)
  then show ?thesis using walk_up [OF assms(3), of n xs] by (simp add: cs(1) q [unfolded cs(1)])
qed

lemma namei_Clean:
  assumes "env_ok t cwd" "dir_at t (butlast (resolve cwd p))"
  shows "namei t cwd (Clean p) = Inr (resolve cwd p)"
proof -
  let ?st = "if is_rooted p then [] else rev cwd"
  have r: "resolve cwd p = clean_go True ?st (clean_comps p)"
    using resolve_Clean [of cwd p]
    by (cases "is_rooted p") (simp_all add: resolve_def is_rooted_Clean clean_go_split_Clean)
  have d: "dir_at t (rev ?st)" using assms(1) env_root [OF assms(1)] by (simp add: env_ok_def)
  have w: "walk t ?st (clean_comps p) = Inr (resolve cwd p)"
    using assms d unfolding r
    by (intro walk_clean [OF clean_comps_stack]) (auto simp: env_ok_def)
  have "walk t ?st (split_slash (Clean p)) = walk t ?st (clean_comps p)"
    using d by (auto simp: split_Clean step_into_def elim!: dir_atE)
  with w show ?thesis by (simp add: namei_def Clean_nonempty is_rooted_Clean)
qed

lemma lookup_dir_butlast: "dir_at t [] \<Longrightarrow> lookup t q = Some n \<Longrightarrow> dir_at t (butlast q)"
  by (cases q rule: rev_cases) (auto intro: lookup_dir_before)

lemma node_at_Clean:
  assumes "env_ok t cwd" "lookup t (resolve cwd p) = Some n"
  shows "node_at t cwd (Clean p) = Inr (resolve cwd p, n)"
  using namei_Clean [OF assms(1) lookup_dir_butlast [OF env_root [OF assms(1)] assms(2)]] assms(2)
  by (simp add: node_at_def)

lemma node_at_Clean_iff:
  assumes "env_ok t cwd"
  shows "node_at t cwd (Clean p) = Inr (q, n) \<longleftrightarrow> q = resolve cwd p \<and> lookup t q = Some n"
  using node_at_Clean [OF assms] node_at_place [of t cwd "Clean p" q n] assms
  by (auto simp: env_ok_def resolve_Clean)


text \<open>Conversely, a path that is found has a directory before its last component.\<close>

lemma walk_butlast:
  "walk t st cs = Inr q \<Longrightarrow> dir_at t (butlast (rev st)) \<Longrightarrow> dir_at t (butlast q)"
proof (induction cs arbitrary: st)
  case Nil
  then show ?case by simp
next
  case (Cons c cs)
  then have d: "dir_at t (rev st)" and w: "walk t (step_into st c) cs = Inr q"
    by (auto simp: dir_at_def split: option.splits if_splits)
  have b: "dir_at t (butlast x)" if "dir_at t x" for x
    using that by (cases x rule: rev_cases) (auto intro: dir_at_prefix)
  have "dir_at t (butlast (rev (step_into st c)))"
    using d b [OF d] b [OF dir_at_tl [OF d]] by (auto simp: step_into_def)
  with w show ?case by (rule Cons.IH)
qed

lemma namei_butlast:
  assumes "namei t cwd p = Inr q" "env_ok t cwd"
  shows "dir_at t (butlast q)"
proof -
  have "dir_at t (butlast cwd)"
    using assms(2) by (cases cwd rule: rev_cases) (auto simp: env_ok_def intro: dir_at_prefix)
  with assms env_root [OF assms(2)] show ?thesis
    by (auto simp: namei_def split: if_splits intro: walk_butlast)
qed

lemma WriteFile_Clean_iff:
  assumes "env_ok t cwd"
  shows "os_WriteFile t cwd (Clean p) s = Inr t' \<longleftrightarrow>
    dir_at t (butlast (resolve cwd p)) \<and> \<not> dir_at t (resolve cwd p) \<and>
    t' = put (resolve cwd p) (FFile s) t"
proof (cases "dir_at t (butlast (resolve cwd p))")
  case True
  then show ?thesis
    using namei_Clean [OF assms True] by (auto simp: os_WriteFile_def dir_at_def split: option.splits fnode.splits)
next
  case False
  have "q = resolve cwd p" if "namei t cwd (Clean p) = Inr q" for q
    using namei_place [OF that] assms by (simp add: env_ok_def resolve_Clean)
  with False namei_butlast [OF _ assms] show ?thesis
    by (auto simp: os_WriteFile_def split: sum.splits)
qed

lemma node_at_Clean_cases:
  assumes "env_ok t cwd"
  obtains n where "lookup t (resolve cwd p) = Some n" "node_at t cwd (Clean p) = Inr (resolve cwd p, n)"
    | e where "lookup t (resolve cwd p) = None" "node_at t cwd (Clean p) = Inl e"
proof (cases "node_at t cwd (Clean p)")
  case (Inl e)
  with node_at_Clean [OF assms, of p] that(2) show ?thesis by (cases "lookup t (resolve cwd p)") auto
next
  case (Inr x)
  with node_at_Clean_iff [OF assms, of p "fst x" "snd x"] that(1) show ?thesis by (cases x) auto
qed

lemma ReadFile_Clean_iff:
  assumes "env_ok t cwd"
  shows "os_ReadFile t cwd (Clean p) = Inr s \<longleftrightarrow> lookup t (resolve cwd p) = Some (FFile s)"
  by (rule node_at_Clean_cases [OF assms, of p]) (auto simp: os_ReadFile_def split: fnode.splits)

lemma Stat_Clean_iff:
  assumes "env_ok t cwd"
  shows "os_Stat t cwd (Clean p) = Inr n \<longleftrightarrow> lookup t (resolve cwd p) = Some n"
  by (rule node_at_Clean_cases [OF assms, of p]) (auto simp: os_Stat_def)

lemma ReadDir_Clean_iff:
  assumes "env_ok t cwd"
  shows "os_ReadDir t cwd (Clean p) = Inr ds \<longleftrightarrow>
    (\<exists>m. lookup t (resolve cwd p) = Some (FDir m) \<and> ds = sort_key fst m)"
  by (rule node_at_Clean_cases [OF assms, of p]) (auto simp: os_ReadDir_def split: fnode.splits)

subsection \<open>Directories\<close>

lemma lookup_put_fresh_dir:
  "lookup t p = None \<Longrightarrow> \<not> is_prefix q p \<Longrightarrow> lookup (put p (FDir []) t) q = lookup t q"
proof (induction p "FDir []" t arbitrary: q rule: put.induct)
  case (2 c cs m)
  then show ?case by (cases q; cases "tl q") (auto split: option.splits)
qed auto

lemma dir_at_put_fresh: "dir_at t p \<Longrightarrow> dir_at (put (p @ [c]) (FDir []) t) (p @ [c])"
  by (auto simp: dir_at_def lookup_put_same split: option.splits)

lemma mkdirs_up:
  assumes "dir_at t (rev st)"
  shows "mkdirs st pre (replicate k dotdot @ cs) t = mkdirs (drop k st) (pre @ replicate k dotdot) cs t"
  using assms
proof (induction k arbitrary: st pre)
  case 0
  then show ?case by simp
next
  case (Suc k)
  note d = dir_at_tl [OF Suc.prems]
  have "mkdirs st pre (replicate (Suc k) dotdot @ cs) t = mkdirs (tl st) (pre @ [dotdot]) (replicate k dotdot @ cs) t"
    using d by (auto simp: step_into_def elim!: dir_atE)
  also have "\<dots> = mkdirs (drop (Suc k) st) (pre @ replicate (Suc k) dotdot) cs t"
    using Suc.IH [OF d, of "pre @ [dotdot]"] by (simp add: drop_Suc)
  finally show ?case .
qed

text \<open>
  Below a directory, \<^verbatim>\<open>MkdirAll\<close> succeeds exactly when no component is a file; then the directory
  exists and what is not on the way to it is unchanged.
\<close>

lemma mkdirs_down:
  assumes "list_all plain cs" "dir_at t (rev st)" "mkdirs st pre cs t = Inr t'"
  shows "dir_at t' (rev st @ cs) \<and> (\<forall>q. \<not> is_prefix q (rev st @ cs) \<longrightarrow> lookup t' q = lookup t q)"
  using assms
proof (induction cs arbitrary: st pre t)
  case Nil
  then show ?case by simp
next
  case (Cons c cs)
  have st: "step_into st c = c # st" using Cons.prems(1) by (auto simp: step_into_def plain_def)
  have plain: "list_all plain cs" using Cons.prems(1) by simp
  show ?case
  proof (cases "lookup t (rev st @ [c])")
    case None
    let ?t1 = "put (rev st @ [c]) (FDir []) t"
    have "mkdirs (c # st) (pre @ [c]) cs ?t1 = Inr t'" using Cons.prems(3) None by (simp add: st)
    from Cons.IH [OF plain _ this] dir_at_put_fresh [OF Cons.prems(2), of c]
    have IH: "dir_at t' (rev st @ c # cs)" "\<And>q. \<not> is_prefix q (rev st @ c # cs) \<Longrightarrow> lookup t' q = lookup ?t1 q"
      by auto
    have "\<not> is_prefix q (rev st @ [c])" if "\<not> is_prefix q (rev st @ c # cs)" for q
      using that is_prefix_extend [of q "rev st @ [c]" cs] by auto
    then show ?thesis using IH lookup_put_fresh_dir [OF None] by auto
  next
    case (Some n)
    then have "IsDir n" "mkdirs (c # st) (pre @ [c]) cs t = Inr t'"
      using Cons.prems(3) by (auto simp: st Let_def split: if_splits)
    from Cons.IH [OF plain _ this(2)] this(1) Some show ?thesis by (simp add: dir_at_def)
  qed
qed

text \<open>Files stay as they are.\<close>

lemma lookup_put_below_file:
  "lookup t q = Some (FFile s) \<Longrightarrow> r \<noteq> [] \<Longrightarrow> lookup (put (q @ r) x t) q = Some (FFile s)"
proof (induction t q rule: lookup.induct)
  case (1 n)
  then show ?case by (cases r) auto
qed (auto split: option.splits)

lemma mkdirs_keeps_files:
  "mkdirs st pre cs t = Inr t' \<Longrightarrow> lookup t q = Some (FFile s) \<Longrightarrow> lookup t' q = Some (FFile s)"
proof (induction cs arbitrary: st pre t)
  case (Cons c cs)
  have "lookup (put p (FDir []) t) q = Some (FFile s)" if p: "lookup t p = None" for p
  proof (cases "is_prefix q p")
    case True
    then obtain r where r: "p = q @ r" by (auto simp: is_prefix_iff)
    with p Cons.prems(2) have "r \<noteq> []" by auto
    with r lookup_put_below_file [OF Cons.prems(2)] show ?thesis by simp
  next
    case False
    then show ?thesis using lookup_put_fresh_dir [OF p] Cons.prems(2) by simp
  qed
  with Cons show ?case by (auto simp: Let_def split: option.splits if_splits)
qed simp

lemma mkdirs_wf: "fs_wf t \<Longrightarrow> mkdirs st pre cs t = Inr t' \<Longrightarrow> fs_wf t'"
proof (induction cs arbitrary: st pre t)
  case (Cons c cs)
  have "fs_wf (put p (FDir []) t)" for p using Cons.prems(1) by (simp add: fs_wf_put)
  with Cons show ?case by (simp add: Let_def split: option.splits if_splits) blast+
qed simp

lemma mkdirs_total:
  assumes "list_all plain cs" "dir_at t (rev st)"
    and "\<And>k s. lookup t (rev st @ take k cs) \<noteq> Some (FFile s)"
  shows "\<exists>t'. mkdirs st pre cs t = Inr t'"
  using assms
proof (induction cs arbitrary: st pre t)
  case Nil
  then show ?case by simp
next
  case (Cons c cs)
  have st: "step_into st c = c # st" using Cons.prems(1) by (auto simp: step_into_def plain_def)
  have plain: "list_all plain cs" using Cons.prems(1) by simp
  have nofile: "lookup t (rev st @ c # take k cs) \<noteq> Some (FFile s)" for k s
    using Cons.prems(3) [of "Suc k" s] by simp
  show ?case
  proof (cases "lookup t (rev st @ [c])")
    case None
    let ?t1 = "put (rev st @ [c]) (FDir []) t"
    have d: "dir_at ?t1 (rev (c # st))" using dir_at_put_fresh [OF Cons.prems(2), of c] by simp
    have "lookup ?t1 (rev st @ c # take k cs) \<noteq> Some (FFile s)" for k s
    proof (cases "take k cs")
      case Nil
      then show ?thesis using d by (auto simp: dir_at_def)
    next
      case (Cons e es)
      then show ?thesis using lookup_put_fresh_dir [OF None, of "rev st @ c # take k cs"] nofile [of k s]
        by (simp add: is_prefix_def)
    qed
    with Cons.IH [OF plain d] None show ?thesis by (simp add: st)
  next
    case (Some n)
    then have "IsDir n" using nofile [of 0] by (cases n) auto
    with Some Cons.IH [OF plain, of t "c # st"] nofile show ?thesis by (simp add: st dir_at_def)
  qed
qed


lemma dir_at_drop: "dir_at t (rev st) \<Longrightarrow> dir_at t (rev (drop k st))"
proof (induction k)
  case (Suc k)
  then show ?case using dir_at_tl [of t "drop k st"] by (simp add: drop_Suc tl_drop)
qed simp

lemma mkdirs_stay: "dir_at t (rev st) \<Longrightarrow> c = [] \<or> c = dot \<Longrightarrow> mkdirs st pre (c # cs) t = mkdirs st (pre @ [c]) cs t"
  by (auto simp: step_into_def elim!: dir_atE)

lemma resolve_parts:
  assumes "list_all plain cwd"
  obtains n xs where "clean_comps p = replicate n dotdot @ xs" "list_all plain xs"
    "resolve cwd p = rev (drop n (if is_rooted p then [] else rev cwd)) @ xs"
proof -
  let ?st = "if is_rooted p then [] else rev cwd"
  obtain n xs where cs: "clean_comps p = replicate n dotdot @ xs" "list_all plain xs"
    by (rule clean_stack_rev [OF clean_comps_stack])
  have "resolve cwd p = clean_go True ?st (clean_comps p)"
    using resolve_Clean [of cwd p]
    by (cases "is_rooted p") (simp_all add: resolve_def is_rooted_Clean clean_go_split_Clean)
  also have "\<dots> = rev (drop n ?st) @ xs"
    using clean_go_ups [of "rev ?st" n xs] assms cs(2)
    by (simp add: cs(1) clean_go_plain rev_drop rev_take)
  finally show ?thesis using that [OF cs] by blast
qed

lemma MkdirAll_Clean:
  assumes "env_ok t cwd"
  obtains st pre xs where "os_MkdirAll t cwd (Clean p) = mkdirs st pre xs t" "dir_at t (rev st)"
    "list_all plain xs" "rev st @ xs = resolve cwd p"
proof -
  let ?st = "if is_rooted p then [] else rev cwd"
  have d: "dir_at t (rev ?st)" using assms env_root [OF assms] by (simp add: env_ok_def)
  obtain n xs where cs: "clean_comps p = replicate n dotdot @ xs" "list_all plain xs"
    and r: "resolve cwd p = rev (drop n ?st) @ xs"
    by (rule resolve_parts [OF env_plain [OF assms]])
  have up: "mkdirs ?st pre (clean_comps p) t = mkdirs (drop n ?st) (pre @ replicate n dotdot) xs t" for pre
    unfolding cs(1) by (rule mkdirs_up [OF d])
  have "os_MkdirAll t cwd (Clean p) = mkdirs ?st [] (split_slash (Clean p)) t"
    by (simp add: os_MkdirAll_def is_rooted_Clean)
  also have "\<exists>pre. \<dots> = mkdirs (drop n ?st) pre xs t"
  proof (cases "clean_comps p = []")
    case True
    then have "n = 0" "xs = []" using cs(1) by simp_all
    with True d show ?thesis
      by (cases "is_rooted p") (simp_all del: mkdirs.simps(2) add: split_Clean mkdirs_stay)
  next
    case False
    with d up [of "[]"] up [of "[[]]"] show ?thesis
      by (cases "is_rooted p") (auto simp del: mkdirs.simps simp: split_Clean mkdirs_stay)
  qed
  finally obtain pre where m: "os_MkdirAll t cwd (Clean p) = mkdirs (drop n ?st) pre xs t" by blast
  from that [OF m dir_at_drop [OF d] cs(2) r [symmetric]] show ?thesis .
qed

lemma MkdirAll_done:
  assumes "env_ok t cwd" "os_MkdirAll t cwd (Clean p) = Inr t'"
  shows "dir_at t' (resolve cwd p)"
    "\<not> is_prefix q (resolve cwd p) \<Longrightarrow> lookup t' q = lookup t q"
proof -
  obtain st pre xs where m: "os_MkdirAll t cwd (Clean p) = mkdirs st pre xs t" "dir_at t (rev st)"
    "list_all plain xs" "rev st @ xs = resolve cwd p"
    by (rule MkdirAll_Clean [OF assms(1)])
  from mkdirs_down [OF m(3,2)] m(1,4) assms(2)
  show "dir_at t' (resolve cwd p)" "\<not> is_prefix q (resolve cwd p) \<Longrightarrow> lookup t' q = lookup t q"
    by auto
qed

lemma mkdirs_file:
  assumes "list_all plain cs" "dir_at t (rev st)" "lookup t (rev st @ take k cs) = Some (FFile s)"
  shows "\<exists>e. mkdirs st pre cs t = Inl e"
proof (cases "mkdirs st pre cs t")
  case (Inr t')
  let ?p = "rev st @ take k cs"
  from mkdirs_down [OF assms(1,2) Inr] have d: "dir_at t' (rev st @ cs)" by blast
  then have "dir_at t' (?p @ drop k cs)" by simp
  then have "dir_at t' ?p" by (rule dir_at_prefix)
  moreover have "lookup t' ?p = Some (FFile s)" using mkdirs_keeps_files [OF Inr assms(3)] .
  ultimately show ?thesis by (simp add: dir_at_def)
qed simp

lemma MkdirAll_iff:
  assumes "env_ok t cwd"
  shows "(\<exists>t'. os_MkdirAll t cwd (Clean p) = Inr t') \<longleftrightarrow>
    \<not> (\<exists>k s. lookup t (take k (resolve cwd p)) = Some (FFile s))"
proof -
  obtain st pre xs where m: "os_MkdirAll t cwd (Clean p) = mkdirs st pre xs t" "dir_at t (rev st)"
    "list_all plain xs" "rev st @ xs = resolve cwd p"
    by (rule MkdirAll_Clean [OF assms])
  have up: "lookup t (take k (rev st)) \<noteq> Some (FFile s)" for k s
    using dir_at_prefix [of t "take k (rev st)" "drop k (rev st)"] m(2) by (auto simp: dir_at_def)
  have "(\<exists>k s. lookup t (take k (resolve cwd p)) = Some (FFile s)) \<longleftrightarrow>
      (\<exists>k s. lookup t (rev st @ take k xs) = Some (FFile s))"
  proof
    assume "\<exists>k s. lookup t (take k (resolve cwd p)) = Some (FFile s)"
    then obtain k s where k: "lookup t (take k (rev st) @ take (k - length st) xs) = Some (FFile s)"
      by (auto simp: m(4) [symmetric])
    show "\<exists>k s. lookup t (rev st @ take k xs) = Some (FFile s)"
    proof (cases "length st < k")
      case True
      with k show ?thesis by auto
    next
      case False
      with k up [of k s] show ?thesis by simp
    qed
  next
    assume "\<exists>k s. lookup t (rev st @ take k xs) = Some (FFile s)"
    then obtain k s where "lookup t (take (length st + k) (resolve cwd p)) = Some (FFile s)"
      by (auto simp: m(4) [symmetric])
    then show "\<exists>k s. lookup t (take k (resolve cwd p)) = Some (FFile s)" by blast
  qed
  moreover have "(\<exists>t'. mkdirs st pre xs t = Inr t') \<longleftrightarrow> \<not> (\<exists>k s. lookup t (rev st @ take k xs) = Some (FFile s))"
    using mkdirs_total [OF m(3,2)] mkdirs_file [OF m(3,2)] by (metis sum.distinct(1))
  ultimately show ?thesis by (simp add: m(1))
qed

subsection \<open>Renaming\<close>

lemma parent_place:
  assumes "parent_at t cwd p = Inr d" "list_all plain cwd" "last (split_slash p) \<notin> {[], dot, dotdot}"
  shows "d @ [last (split_slash p)] = resolve cwd p" "dir_at t d"
proof -
  let ?st = "if is_rooted p then [] else rev cwd" and ?cs = "butlast (split_slash p)" and ?a = "last (split_slash p)"
  have w: "walk t ?st ?cs = Inr d" and "dir_at t d"
    using assms(1) by (auto simp: parent_at_def dir_at_def split: if_splits sum.splits option.splits)
  then show "dir_at t d" by simp
  have st: "list_all plain ?st" using assms(2) by simp
  have d: "d = clean_go True ?st ?cs"
    using walk_place [OF w st] split_slash_no_slash [of _ p] by (meson in_set_butlastD)
  have "resolve cwd p = clean_go True ?st (?cs @ [?a])" by (simp add: resolve_def)
  also have "\<dots> = d @ [?a]"
    unfolding clean_go_append [of True ?st ?cs "[?a]"] d using assms(3) by simp
  finally show "d @ [?a] = resolve cwd p" by simp
qed

text \<open>A successful rename moves the entry, or both names are the same.\<close>

lemma sys_rename_done:
  assumes "sys_rename t cwd old new = Inr t'" "list_all plain cwd"
  obtains "resolve cwd old = resolve cwd new" "t' = t"
    | d c x where "resolve cwd new = d @ [c]" "dir_at t d" "lookup t (resolve cwd old) = Some x"
        "resolve cwd old \<noteq> []" "\<not> is_prefix (resolve cwd old) (resolve cwd new)"
        "t' = put (resolve cwd new) x (del (resolve cwd old) t)"
proof -
  from assms(1) obtain d1 d2 where p: "parent_at t cwd old = Inr d1" "parent_at t cwd new = Inr d2"
    by (auto simp: sys_rename_def split: sum.splits)
  have ab: "last (split_slash old) \<notin> {[], dot, dotdot}" "last (split_slash new) \<notin> {[], dot, dotdot}"
    using assms(1) by (auto simp: sys_rename_def p Let_def split: if_splits)
  note o = parent_place [OF p(1) assms(2) ab(1)] and n = parent_place [OF p(2) assms(2) ab(2)]
  have ne: "resolve cwd old \<noteq> []" using o(1) by auto
  show ?thesis
    using assms(1) ab that(1) that(2) [of d2 "last (split_slash new)"] o n ne
    by (auto simp: sys_rename_def p Let_def split: option.splits if_splits)
qed


lemma parent_at_Clean:
  assumes env: "env_ok t cwd" and d: "dir_at t (butlast (resolve cwd p))" and nd: "\<not> dir_at t (resolve cwd p)"
  shows "parent_at t cwd (Clean p) = Inr (butlast (resolve cwd p))"
    "last (split_slash (Clean p)) = last (resolve cwd p)" "resolve cwd p \<noteq> []"
    "plain (last (resolve cwd p))"
proof -
  let ?st = "if is_rooted p then [] else rev cwd"
  have st: "dir_at t (rev ?st)" using env env_root [OF env] by (simp add: env_ok_def)
  obtain n xs where cs: "clean_comps p = replicate n dotdot @ xs" "list_all plain xs"
    and r: "resolve cwd p = rev (drop n ?st) @ xs"
    by (rule resolve_parts [OF env_plain [OF env]])
  have xs: "xs \<noteq> []" using nd dir_at_drop [OF st, of n] r by (cases xs) auto
  then show "resolve cwd p \<noteq> []" "last (split_slash (Clean p)) = last (resolve cwd p)"
    by (simp_all add: r split_Clean cs(1))
  show "plain (last (resolve cwd p))" using xs cs(2) by (simp add: r list_all_iff)
  have b: "butlast (resolve cwd p) = rev (drop n ?st) @ butlast xs" using xs by (simp add: r butlast_append)
  have pb: "list_all plain (butlast xs)" using cs(2) by (auto simp: list_all_iff dest: in_set_butlastD)
  have "walk t (drop n ?st) (butlast xs) = Inr (butlast (resolve cwd p))"
    unfolding b using d [unfolded b] dir_at_prefix pb
    by (intro walk_down) (metis append_assoc append_butlast_last_id)+
  then have w: "walk t ?st (replicate n dotdot @ butlast xs) = Inr (butlast (resolve cwd p))"
    by (simp add: walk_up [OF st])
  have "walk t ?st (butlast (split_slash (Clean p))) = walk t ?st (replicate n dotdot @ butlast xs)"
    using st xs by (auto simp: split_Clean cs(1) butlast_append step_into_def elim!: dir_atE)
  with w d show "parent_at t cwd (Clean p) = Inr (butlast (resolve cwd p))"
    by (auto simp: parent_at_def Clean_nonempty is_rooted_Clean elim!: dir_atE)
qed

text \<open>A file is moved to every place that is not a directory and has one before it, taken or not.\<close>

lemma Rename_file:
  assumes env: "env_ok t cwd" and f: "lookup t (resolve cwd old) = Some (FFile s)"
    and d: "dir_at t (butlast (resolve cwd new))" "\<not> dir_at t (resolve cwd new)"
    and ne: "resolve cwd old \<noteq> resolve cwd new"
  shows "os_Rename t cwd (Clean old) (Clean new) =
    Inr (put (resolve cwd new) (FFile s) (del (resolve cwd old) t))"
proof -
  let ?p = "resolve cwd old" and ?q = "resolve cwd new"
  have o: "dir_at t (butlast ?p)" "\<not> dir_at t ?p"
    using lookup_dir_butlast [OF env_root [OF env] f] f by (auto simp: dir_at_def)
  note po = parent_at_Clean [OF env o] and pn = parent_at_Clean [OF env d]
  have np: "\<not> is_prefix ?p ?q"
  proof
    assume "is_prefix ?p ?q"
    then obtain r where r: "?q = ?p @ r" by (auto simp: is_prefix_iff)
    with ne have "butlast ?q = ?p @ butlast r" by (auto simp: butlast_append)
    with d(1) have "dir_at t ?p" by (auto intro: dir_at_prefix)
    with o(2) show False ..
  qed
  have "sys_rename t cwd (Clean old) (Clean new) = Inr (put ?q (FFile s) (del ?p t))"
    using po pn np f d(2) ne
    by (auto simp: sys_rename_def plain_def dir_at_def split: option.splits fnode.splits)
  moreover have "node_at t cwd (Clean new) \<noteq> Inr (a, FDir m)" for a m
    using d(2) node_at_Clean_iff [OF env, of new a "FDir m"] by (auto simp: dir_at_def)
  ultimately show ?thesis
    by (auto simp: os_Rename_def Let_def split: sum.splits fnode.splits)
qed


subsection \<open>Keeping directories\<close>

lemma dir_at_simps:
  "dir_at t [] = IsDir t" "dir_at (FFile s) (c # cs) = False"
  "dir_at (FDir m) (c # cs) = (case smap_load m c of None \<Rightarrow> False | Some n \<Rightarrow> dir_at n cs)"
  by (simp_all add: dir_at_def split: option.split)

lemma dir_at_put_above: "dir_at t q \<Longrightarrow> is_prefix q p \<Longrightarrow> q \<noteq> p \<Longrightarrow> dir_at (put p x t) q"
proof (induction p x t arbitrary: q rule: put.induct)
  case (2 c cs x m)
  then show ?case by (cases q) (auto simp: dir_at_simps split: option.splits)
qed (auto simp: dir_at_simps)

text \<open>Writing a file where no directory is keeps every directory.\<close>

lemma dir_at_put_file:
  assumes "dir_at t q" "\<not> dir_at t p"
  shows "dir_at (put p x t) q"
proof -
  have "p \<noteq> q" using assms by auto
  have "\<not> is_prefix p q" using assms dir_at_prefix by (auto simp: is_prefix_iff)
  then show ?thesis
    using assms dir_at_put_above [of t q p x] lookup_put_other [of p q x t] \<open>p \<noteq> q\<close>
    by (cases "is_prefix q p") (auto simp: dir_at_def)
qed

lemma lookup_put_at:
  assumes "dir_at t (butlast p)" "\<not> dir_at t p"
  shows "lookup (put p x t) p = Some x"
proof (cases p rule: rev_cases)
  case Nil
  with assms show ?thesis by simp
next
  case (snoc d c)
  with assms show ?thesis using lookup_put_same [of t d] by (auto elim!: dir_atE)
qed

lemma env_ok_put_file: "env_ok t cwd \<Longrightarrow> \<not> dir_at t p \<Longrightarrow> env_ok (put p x t) cwd"
  by (simp add: env_ok_def dir_at_put_file)

end
