(* ===== verification/FilesystemTools.thy ===== *)
theory FilesystemTools
  imports Results
begin

text \<open>
  The tool list of the filesystem server (\<^verbatim>\<open>src/pkg/servers/filesystem/tool.go\<close>): the input schemas,
  as JSON values, and the names and descriptions. A schema is only given to the validator of the
  jsonschema package, which is a parameter of the tools.
\<close>

section \<open>Schemas\<close>

definition readFileSchema :: json where
  "readFileSchema =
     JObj [
       (''type'', JStr ''object''),
       (''properties'', JObj [(''path'', JObj [(''type'', JStr ''string'')])])]"

definition readMultipleFilesSchema :: json where
  "readMultipleFilesSchema =
     JObj [
       (''type'', JStr ''object''),
       (''properties'', JObj [
          (''paths'', JObj [(''type'', JStr ''array''), (''items'', JObj [(''type'', JStr ''string'')])])])]"

definition writeFileSchema :: json where
  "writeFileSchema =
     JObj [
       (''type'', JStr ''object''),
       (''properties'', JObj [
          (''path'', JObj [(''type'', JStr ''string'')]),
          (''content'', JObj [(''type'', JStr ''string'')])])]"

definition editFileSchema :: json where
  "editFileSchema =
     JObj [
       (''type'', JStr ''object''),
       (''properties'', JObj [
          (''path'', JObj [(''type'', JStr ''string'')]),
          (''edits'', JObj [
             (''type'', JStr ''array''),
             (''items'', JObj [
                (''type'', JStr ''object''),
                (''properties'', JObj [
                   (''oldText'', JObj [
                      (''type'', JStr ''string''),
                      (''description'', JStr ''Text to search for - must match exactly'')]),
                   (''newText'', JObj [
                      (''type'', JStr ''string''),
                      (''description'', JStr ''Text to replace with'')])])])]),
          (''dryRun'', JObj [
             (''type'', JStr ''boolean''),
             (''default'', JBool False),
             (''description'', JStr ''Preview changes using git-style diff format'')])])]"

definition createDirectorySchema :: json where
  "createDirectorySchema =
     JObj [
       (''type'', JStr ''object''),
       (''properties'', JObj [(''path'', JObj [(''type'', JStr ''string'')])])]"

definition listDirectorySchema :: json where
  "listDirectorySchema =
     JObj [
       (''type'', JStr ''object''),
       (''properties'', JObj [(''path'', JObj [(''type'', JStr ''string'')])])]"

definition directoryTreeSchema :: json where
  "directoryTreeSchema =
     JObj [
       (''type'', JStr ''object''),
       (''properties'', JObj [(''path'', JObj [(''type'', JStr ''string'')])])]"

definition moveFileSchema :: json where
  "moveFileSchema =
     JObj [
       (''type'', JStr ''object''),
       (''properties'', JObj [
          (''source'', JObj [(''type'', JStr ''string'')]),
          (''destination'', JObj [(''type'', JStr ''string'')])])]"

definition searchFilesSchema :: json where
  "searchFilesSchema =
     JObj [
       (''type'', JStr ''object''),
       (''properties'', JObj [
          (''path'', JObj [(''type'', JStr ''string'')]),
          (''pattern'', JObj [(''type'', JStr ''string'')]),
          (''excludePatterns'', JObj [(''type'', JStr ''array''), (''items'', JObj [(''type'', JStr ''string'')])])])]"

definition getFileInfoSchema :: json where
  "getFileInfoSchema =
     JObj [
       (''type'', JStr ''object''),
       (''properties'', JObj [(''path'', JObj [(''type'', JStr ''string'')])])]"

section \<open>The list\<close>

text \<open>The lines of a raw string literal, joined by newlines.\<close>

fun unlines :: "string list \<Rightarrow> string" where
  "unlines [] = []"
| "unlines [x] = x"
| "unlines (x # y # xs) = x @ CHR 0x0A # unlines (y # xs)"

definition toolList :: "json ListToolsResult" where
  "toolList =
     \<lparr>ltr_tools = Some [
      \<lparr>to_name = ''read_file'',
        to_description = unlines
         [[],
          ''Read the complete contents of a file from the file system.'',
          ''Handles various text encodings and provides detailed error messages'',
          ''if the file cannot be read. Use this tool when you need to examine'',
          ''the contents of a single file. Only works within allowed directories.,'',
          ''        ''],
        to_inputSchema = Some readFileSchema\<rparr>,
      \<lparr>to_name = ''read_multiple_files'',
        to_description = unlines
         [[],
          ''Read the contents of multiple files simultaneously. This is more'',
          ''efficient than reading files one by one when you need to analyze'',
          ''or compare multiple files. Each file's content is returned with its'',
          ''path as a reference. Failed reads for individual files won't stop'',
          ''the entire operation. Only works within allowed directories.'',
          ''        ''],
        to_inputSchema = Some readMultipleFilesSchema\<rparr>,
      \<lparr>to_name = ''write_file'',
        to_description = unlines
         [[],
          ''Create a new file or completely overwrite an existing file with new content.'',
          ''Use with caution as it will overwrite existing files without warning.'',
          ''Handles text content with proper encoding. Only works within allowed directories.'',
          ''        ''],
        to_inputSchema = Some writeFileSchema\<rparr>,
      \<lparr>to_name = ''edit_file'',
        to_description = unlines
         [[],
          ''Make line-based edits to a text file. Each edit replaces exact line sequences'',
          ''with new content. Returns a git-style diff showing the changes made.'',
          ''Only works within allowed directories.'',
          ''        ''],
        to_inputSchema = Some editFileSchema\<rparr>,
      \<lparr>to_name = ''create_directory'',
        to_description = unlines
         [[],
          ''Create a new directory or ensure a directory exists. Can create multiple'',
          ''nested directories in one operation. If the directory already exists,'',
          ''this operation will succeed silently. Perfect for setting up directory'',
          ''structures for projects or ensuring required paths exist. Only works within allowed directories.'',
          ''        ''],
        to_inputSchema = Some createDirectorySchema\<rparr>,
      \<lparr>to_name = ''list_directory'',
        to_description = unlines
         [[],
          ''Get a detailed listing of all files and directories in a specified path.'',
          ''Results clearly distinguish between files and directories with [FILE] and [DIR]'',
          ''prefixes. This tool is essential for understanding directory structure and'',
          ''finding specific files within a directory. Only works within allowed directories.'',
          ''        ''],
        to_inputSchema = Some listDirectorySchema\<rparr>,
      \<lparr>to_name = ''directory_tree'',
        to_description = unlines
         [[],
          ''Get a recursive tree view of files and directories as a JSON structure.'',
          ''Each entry includes 'name', 'type' (file/directory), and 'children' for directories.'',
          ''Files have no children array, while directories always have a children array (which may be empty).'',
          ''The output is formatted with 2-space indentation for readability. Only works within allowed directories.'',
          ''        ''],
        to_inputSchema = Some directoryTreeSchema\<rparr>,
      \<lparr>to_name = ''move_file'',
        to_description = unlines
         [''Move or rename files and directories. Can move files between directories'',
          ''and rename them in a single operation. If the destination exists, the'',
          ''operation will fail. Works across different directories and can be used'',
          ''for simple renaming within the same directory. Both source and destination must be within allowed directories.'',
          ''        ''],
        to_inputSchema = Some moveFileSchema\<rparr>,
      \<lparr>to_name = ''search_files'',
        to_description = unlines
         [''Recursively search for files and directories matching a pattern.'',
          ''Searches through all subdirectories from the starting path. The search'',
          ''is case-insensitive and matches partial names. Returns full paths to all'',
          ''matching items. Great for finding files when you don't know their exact location.'',
          ''Only searches within allowed directories.'',
          ''        ''],
        to_inputSchema = Some searchFilesSchema\<rparr>,
      \<lparr>to_name = ''get_file_info'',
        to_description = unlines
         [''Retrieve detailed metadata about a file or directory. Returns comprehensive'',
          ''information including size, creation time, last modified time, permissions,'',
          ''and type. This tool is perfect for understanding file characteristics'',
          ''without reading the actual content. Only works within allowed directories.'',
          ''        ''],
        to_inputSchema = Some getFileInfoSchema\<rparr>],
      ltr_nextCursor = []\<rparr>"

end
