(* ===== verification/ToolArgs.thy ===== *)
theory ToolArgs
  imports Results
begin

text \<open>
  What the tools of the servers under \<^verbatim>\<open>src/pkg/servers\<close> share: reading arguments out of a
  \<^verbatim>\<open>map[string]any\<close>, reporting the validator's messages, and building results.
\<close>

section \<open>Strings\<close>

text \<open>\<^verbatim>\<open>strings.Split\<close> at one character, \<^verbatim>\<open>strings.HasPrefix\<close>, \<^verbatim>\<open>strings.TrimSpace\<close> for the white space of ASCII.\<close>

fun split_at :: "char \<Rightarrow> string \<Rightarrow> string list" where
  "split_at d [] = [[]]"
| "split_at d (c # cs) =
     (if c = d then [] # split_at d cs
      else case split_at d cs of [] \<Rightarrow> [[c]] | x # xs \<Rightarrow> (c # x) # xs)"

definition HasPrefix :: "string \<Rightarrow> string \<Rightarrow> bool" where
  "HasPrefix s p \<longleftrightarrow> take (length p) s = p"

definition is_space :: "char \<Rightarrow> bool" where
  "is_space c \<longleftrightarrow> c = CHR '' '' \<or> (9 \<le> (of_char c :: nat) \<and> (of_char c :: nat) \<le> 13)"

definition TrimSpace :: "string \<Rightarrow> string" where
  "TrimSpace s = rev (dropWhile is_space (rev (dropWhile is_space s)))"

lemma split_at_nonempty [simp]: "split_at d s \<noteq> []"
  by (induction s) (auto split: list.split)

lemma split_at_plain: "d \<notin> set s \<Longrightarrow> split_at d s = [s]"
  by (induction s) auto

lemma split_at_append:
  "d \<notin> set t \<Longrightarrow> split_at d (s @ d # t) = split_at d s @ [t]"
  by (induction s) (auto simp: split_at_plain split: list.split)

section \<open>Arguments\<close>

type_synonym validator = "json \<Rightarrow> (string, json) smap option \<Rightarrow> string list"

definition argument :: "CallToolParams \<Rightarrow> string \<Rightarrow> json option" where
  "argument params k = (case ctp_arguments params of None \<Rightarrow> None | Some m \<Rightarrow> smap_load m k)"

text \<open>Type assertions whose second result is dropped give the zero value.\<close>

fun as_string :: "json option \<Rightarrow> string" where
  "as_string (Some (JStr s)) = s"
| "as_string _ = []"

fun as_bool :: "json option \<Rightarrow> bool" where
  "as_bool (Some (JBool b)) = b"
| "as_bool _ = False"

fun as_slice :: "json option \<Rightarrow> json list" where
  "as_slice (Some (JArr xs)) = xs"
| "as_slice _ = []"

text \<open>A member of an object that was decoded into a map: of two members with one name the last counts.\<close>

fun map_entry :: "json \<Rightarrow> string \<Rightarrow> json option" where
  "map_entry (JObj ms) k = map_of (rev ms) k"
| "map_entry _ k = None"

fun join_comma :: "string list \<Rightarrow> string" where
  "join_comma [] = []"
| "join_comma [x] = x"
| "join_comma (x # y # xs) = x @ '', '' @ join_comma (y # xs)"

definition validation_error :: "validator \<Rightarrow> json \<Rightarrow> CallToolParams \<Rightarrow> go_error option" where
  "validation_error validate schema params =
     (let errs = validate schema (ctp_arguments params) in
      if errs \<noteq> [] then Some (ErrNew (''params validation failed: '' @ join_comma errs)) else None)"

lemma validation_error_None [simp]:
  "validation_error validate schema params = None \<longleftrightarrow> validate schema (ctp_arguments params) = []"
  by (simp add: validation_error_def Let_def)

lemma validation_error_Some:
  "validation_error validate schema params = Some e \<Longrightarrow>
     e = ErrNew (''params validation failed: '' @ join_comma (validate schema (ctp_arguments params)))"
  by (simp add: validation_error_def Let_def split: if_splits)

section \<open>Results\<close>

definition newline :: char where "newline = CHR 0x0A"

definition ContentTypeText :: string where "ContentTypeText = ''text''"

definition text_content :: "string \<Rightarrow> Content" where
  "text_content s = Content_zero\<lparr>co_type := ContentTypeText, co_text := s\<rparr>"

definition tool_text :: "string \<Rightarrow> CallToolResult" where
  "tool_text s = \<lparr>ctr_content = Some [text_content s], ctr_isError = False\<rparr>"

text \<open>A slice built by \<^verbatim>\<open>append\<close> from nil stays nil if nothing is appended.\<close>

definition tool_texts :: "string list \<Rightarrow> CallToolResult" where
  "tool_texts ss =
     \<lparr>ctr_content = (if ss = [] then None else Some (map text_content ss)), ctr_isError = False\<rparr>"

end
