(* ===== verification/Filesystem.thy ===== *)
theory Filesystem
  imports OsFs FilesystemTools ToolArgs
begin

text \<open>
  The filesystem server (\<^verbatim>\<open>src/pkg/servers/filesystem\<close>): \<^verbatim>\<open>NewServer\<close> and the ten tools behind
  \<^verbatim>\<open>CallTool\<close>. A tool takes the file system and returns its result with the file system after it.
  The environment holds what the tools get from outside: the validator of the jsonschema package
  (it returns the messages of its errors), the working directory of the process, and the size of
  directories and the modification times \<^verbatim>\<open>os.Stat\<close> reports.
\<close>

section \<open>Environment and arguments\<close>

record env =
  ev_validate :: "json \<Rightarrow> (string, json) smap option \<Rightarrow> string list"
  ev_cwd :: "string list"
  ev_dirsize :: "string \<Rightarrow> nat"
  ev_modtime :: "string \<Rightarrow> string"

type_synonym tool = "fnode \<Rightarrow> CallToolResult res \<times> fnode"

definition validated :: "env \<Rightarrow> json \<Rightarrow> CallToolParams \<Rightarrow> tool \<Rightarrow> tool" where
  "validated ev schema params body fs =
     (case validation_error (ev_validate ev) schema params of
        Some e \<Rightarrow> (Inl e, fs)
      | None \<Rightarrow> body fs)"

lemma validated_eq:
  "validated ev schema params body fs =
     (if ev_validate ev schema (ctp_arguments params) \<noteq> []
      then (Inl (ErrNew (''params validation failed: '' @ join_comma (ev_validate ev schema (ctp_arguments params)))), fs)
      else body fs)"
  by (simp add: validated_def validation_error_def Let_def)

definition path_failure :: "string \<Rightarrow> string \<Rightarrow> go_error \<Rightarrow> go_error" where
  "path_failure what path e = ErrWrap (what @ path @ '': %w'') [e]"

section \<open>Tools\<close>

text \<open>\<^verbatim>\<open>Stat\<close>, the directory test and \<^verbatim>\<open>ReadFile\<close>, as \<^verbatim>\<open>readFile\<close> and \<^verbatim>\<open>readMultipleFiles\<close> do them.\<close>

definition read_regular :: "env \<Rightarrow> string \<Rightarrow> fnode \<Rightarrow> string res" where
  "read_regular ev fullPath fs =
     (case os_Stat fs (ev_cwd ev) fullPath of
        Inl e \<Rightarrow> Inl (path_failure ''failed to stat file with path '' fullPath e)
      | Inr info \<Rightarrow>
          if IsDir info then Inl (ErrNew (''path '' @ fullPath @ '' is a directory, not a file''))
          else case os_ReadFile fs (ev_cwd ev) fullPath of
            Inl e \<Rightarrow> Inl (path_failure ''failed to read file with path '' fullPath e)
          | Inr bs \<Rightarrow> Inr bs)"

definition readFile :: "env \<Rightarrow> string \<Rightarrow> CallToolParams \<Rightarrow> tool" where
  "readFile ev rootPath params = validated ev readFileSchema params (\<lambda>fs.
     let path = as_string (argument params ''path'');
         fullPath = Join [rootPath, Clean path]
     in case read_regular ev fullPath fs of
          Inl e \<Rightarrow> (Inl e, fs)
        | Inr bs \<Rightarrow> (Inr (tool_text bs), fs))"

fun read_all :: "env \<Rightarrow> string \<Rightarrow> string list \<Rightarrow> fnode \<Rightarrow> string list res" where
  "read_all ev rootPath [] fs = Inr []"
| "read_all ev rootPath (path # ps) fs =
     (let fullPath = Join [rootPath, Clean path] in
      case read_regular ev fullPath fs of
        Inl e \<Rightarrow> Inl e
      | Inr bs \<Rightarrow>
          (case read_all ev rootPath ps fs of
             Inl e \<Rightarrow> Inl e
           | Inr rest \<Rightarrow>
               Inr ((''File content of '' @ path @ '':'' @ [newline] @ bs @ [newline]) # rest)))"

definition readMultipleFiles :: "env \<Rightarrow> string \<Rightarrow> CallToolParams \<Rightarrow> tool" where
  "readMultipleFiles ev rootPath params = validated ev readMultipleFilesSchema params (\<lambda>fs.
     let pathsStr = map (\<lambda>p. as_string (Some p)) (as_slice (argument params ''paths''))
     in case read_all ev rootPath pathsStr fs of
          Inl e \<Rightarrow> (Inl e, fs)
        | Inr result \<Rightarrow> (Inr (tool_texts result), fs))"

definition writeFile :: "env \<Rightarrow> string \<Rightarrow> CallToolParams \<Rightarrow> tool" where
  "writeFile ev rootPath params = validated ev writeFileSchema params (\<lambda>fs.
     let path = as_string (argument params ''path'');
         content = as_string (argument params ''content'');
         fullPath = Join [rootPath, Clean path]
     in case os_WriteFile fs (ev_cwd ev) fullPath content of
          Inl e \<Rightarrow> (Inl (path_failure ''failed to write file with path '' fullPath e), fs)
        | Inr fs' \<Rightarrow> (Inr (tool_text (''File '' @ path @ '' written successfully'')), fs'))"

text \<open>
  \<^verbatim>\<open>strings.ReplaceAll\<close>: from left to right, without overlap; an empty old text matches before
  every character and at the end.
\<close>

function replace_from :: "string \<Rightarrow> string \<Rightarrow> string \<Rightarrow> string" where
  "replace_from old new s =
     (if old = [] then s
      else if s = [] then []
      else if take (length old) s = old then new @ replace_from old new (drop (length old) s)
      else hd s # replace_from old new (tl s))"
  by pat_completeness auto
termination by (relation "measure (\<lambda>(old, new, s). length s)") auto

declare replace_from.simps [simp del]

definition ReplaceAll :: "string \<Rightarrow> string \<Rightarrow> string \<Rightarrow> string" where
  "ReplaceAll s old new =
     (if old = [] then new @ concat (map (\<lambda>c. c # new) s) else replace_from old new s)"

fun apply_edits :: "json list \<Rightarrow> string \<Rightarrow> string" where
  "apply_edits [] content = content"
| "apply_edits (edit # es) content =
     apply_edits es
       (ReplaceAll content (as_string (map_entry edit ''oldText'')) (as_string (map_entry edit ''newText'')))"

definition editFile :: "env \<Rightarrow> string \<Rightarrow> CallToolParams \<Rightarrow> tool" where
  "editFile ev rootPath params = validated ev editFileSchema params (\<lambda>fs.
     let path = as_string (argument params ''path'');
         edits = as_slice (argument params ''edits'');
         dryRun = as_bool (argument params ''dryRun'');
         fullPath = Join [rootPath, Clean path];
         done = Inr (tool_text (''File '' @ path @ '' edited successfully''))
     in case os_ReadFile fs (ev_cwd ev) fullPath of
          Inl e \<Rightarrow> (Inl (path_failure ''failed to read file with path '' fullPath e), fs)
        | Inr bs \<Rightarrow>
            if dryRun then (done, fs)
            else case os_WriteFile fs (ev_cwd ev) fullPath (apply_edits edits bs) of
              Inl e \<Rightarrow> (Inl (path_failure ''failed to write file with path '' fullPath e), fs)
            | Inr fs' \<Rightarrow> (done, fs'))"

definition createDirectory :: "env \<Rightarrow> string \<Rightarrow> CallToolParams \<Rightarrow> tool" where
  "createDirectory ev rootPath params = validated ev createDirectorySchema params (\<lambda>fs.
     let path = as_string (argument params ''path'');
         fullPath = Join [rootPath, Clean path]
     in case os_MkdirAll fs (ev_cwd ev) fullPath of
          Inl e \<Rightarrow> (Inl (path_failure ''failed to create directory with path '' fullPath e), fs)
        | Inr fs' \<Rightarrow> (Inr (tool_text (''Directory '' @ path @ '' created successfully'')), fs'))"

definition entry_line :: "string \<times> fnode \<Rightarrow> string" where
  "entry_line d = (if IsDir (snd d) then ''[DIR] '' else ''[FILE] '') @ fst d @ [newline]"

definition listDirectory :: "env \<Rightarrow> string \<Rightarrow> CallToolParams \<Rightarrow> tool" where
  "listDirectory ev rootPath params = validated ev listDirectorySchema params (\<lambda>fs.
     let path = as_string (argument params ''path'');
         fullPath = Join [rootPath, Clean path]
     in case os_ReadDir fs (ev_cwd ev) fullPath of
          Inl e \<Rightarrow> (Inl (path_failure ''failed to read directory with path '' fullPath e), fs)
        | Inr files \<Rightarrow> (Inr (tool_texts (map entry_line files)), fs))"

definition directoryTree :: "env \<Rightarrow> string \<Rightarrow> CallToolParams \<Rightarrow> tool" where
  "directoryTree ev rootPath params = validated ev directoryTreeSchema params (\<lambda>fs.
     let path = as_string (argument params ''path'');
         fullPath = Join [rootPath, Clean path]
     in case os_ReadDir fs (ev_cwd ev) fullPath of
          Inl e \<Rightarrow> (Inl (path_failure ''failed to read directory with path '' fullPath e), fs)
        | Inr files \<Rightarrow> (Inr (tool_texts (map entry_line files)), fs))"

definition moveFile :: "env \<Rightarrow> string \<Rightarrow> CallToolParams \<Rightarrow> tool" where
  "moveFile ev rootPath params = validated ev moveFileSchema params (\<lambda>fs.
     let source = as_string (argument params ''source'');
         destination = as_string (argument params ''destination'');
         fullSourcePath = Join [rootPath, Clean source];
         fullDestinationPath = Join [rootPath, Clean destination]
     in case os_Rename fs (ev_cwd ev) fullSourcePath fullDestinationPath of
          Inl e \<Rightarrow> (Inl (path_failure ''failed to move file with path '' fullSourcePath e), fs)
        | Inr fs' \<Rightarrow> (Inr (tool_text (''File '' @ source @ '' moved successfully'')), fs'))"

text \<open>The loop over the exclude patterns: whether one matches, or the first bad pattern's error.\<close>

fun excluded :: "json list \<Rightarrow> string \<Rightarrow> bool res" where
  "excluded [] path = Inr False"
| "excluded (ep # eps) path =
     (case Match (as_string (Some ep)) path of
        Inl e \<Rightarrow> Inl e
      | Inr True \<Rightarrow> Inr True
      | Inr False \<Rightarrow> excluded eps path)"

definition search_visit :: "string \<Rightarrow> json list \<Rightarrow> string \<Rightarrow> fnode \<Rightarrow> string list \<Rightarrow> string list res" where
  "search_visit pattern excludePatterns path d result =
     (if IsDir d then Inr result
      else case Match pattern path of
        Inl e \<Rightarrow> Inl e
      | Inr False \<Rightarrow> Inr result
      | Inr True \<Rightarrow>
          (case excluded excludePatterns path of
             Inl e \<Rightarrow> Inl e
           | Inr True \<Rightarrow> Inr result
           | Inr False \<Rightarrow> Inr (result @ [path])))"

definition searchFiles :: "env \<Rightarrow> string \<Rightarrow> CallToolParams \<Rightarrow> tool" where
  "searchFiles ev rootPath params = validated ev searchFilesSchema params (\<lambda>fs.
     let pattern = as_string (argument params ''pattern'');
         excludePatterns = as_slice (argument params ''excludePatterns'')
     in case WalkDir fs (ev_cwd ev) rootPath (search_visit pattern excludePatterns) [] of
          Inl e \<Rightarrow> (Inl (ErrWrap ''failed to search files: %w'' [e]), fs)
        | Inr result \<Rightarrow> (Inr (if result = [] then tool_text ''No files found'' else tool_texts result), fs))"

fun node_Size :: "env \<Rightarrow> string \<Rightarrow> fnode \<Rightarrow> nat" where
  "node_Size ev fullPath (FFile s) = length s"
| "node_Size ev fullPath (FDir m) = ev_dirsize ev fullPath"

definition getFileInfo :: "env \<Rightarrow> string \<Rightarrow> CallToolParams \<Rightarrow> tool" where
  "getFileInfo ev rootPath params = validated ev getFileInfoSchema params (\<lambda>fs.
     let path = as_string (argument params ''path'');
         fullPath = Join [rootPath, Clean path]
     in case os_Stat fs (ev_cwd ev) fullPath of
          Inl e \<Rightarrow> (Inl (path_failure ''failed to stat file with path '' fullPath e), fs)
        | Inr info \<Rightarrow>
            (Inr (tool_text (''File '' @ path @ '' info:'' @ [newline] @
               ''Size: '' @ show_nat (node_Size ev fullPath info) @ [newline] @
               ''Last modified: '' @ ev_modtime ev fullPath @ [newline])), fs))"

section \<open>The server\<close>

record fsServer =
  fss_rootPath :: string

definition NewServer :: "env \<Rightarrow> fnode \<Rightarrow> string \<Rightarrow> fsServer res" where
  "NewServer ev fs root =
     (case os_Stat fs (ev_cwd ev) (Clean root) of
        Inl e \<Rightarrow> Inl (ErrWrap ''failed to stat root directory: %w'' [e])
      | Inr info \<Rightarrow>
          if \<not> IsDir info then Inl (ErrNew (''root directory is not a directory: '' @ root))
          else Inr \<lparr>fss_rootPath = root\<rparr>)"

definition fs_Info :: "fsServer \<Rightarrow> Info" where
  "fs_Info s = \<lparr>info_name = ''filesystem'', info_version = ''1.0''\<rparr>"

definition fs_RequireRootsListClient :: "fsServer \<Rightarrow> bool" where
  "fs_RequireRootsListClient s = False"

definition fs_RequireSamplingClient :: "fsServer \<Rightarrow> bool" where
  "fs_RequireSamplingClient s = False"

definition fs_ListTools :: "fsServer \<Rightarrow> ListToolsParams \<Rightarrow> json ListToolsResult res" where
  "fs_ListTools s params = Inr toolList"

definition fs_CallTool :: "env \<Rightarrow> fsServer \<Rightarrow> CallToolParams \<Rightarrow> tool" where
  "fs_CallTool ev s params =
     (if ctp_name params = ''read_file'' then readFile ev (fss_rootPath s) params
      else if ctp_name params = ''read_multiple_files'' then readMultipleFiles ev (fss_rootPath s) params
      else if ctp_name params = ''write_file'' then writeFile ev (fss_rootPath s) params
      else if ctp_name params = ''edit_file'' then editFile ev (fss_rootPath s) params
      else if ctp_name params = ''create_directory'' then createDirectory ev (fss_rootPath s) params
      else if ctp_name params = ''list_directory'' then listDirectory ev (fss_rootPath s) params
      else if ctp_name params = ''directory_tree'' then directoryTree ev (fss_rootPath s) params
      else if ctp_name params = ''move_file'' then moveFile ev (fss_rootPath s) params
      else if ctp_name params = ''search_files'' then searchFiles ev (fss_rootPath s) params
      else if ctp_name params = ''get_file_info'' then getFileInfo ev (fss_rootPath s) params
      else (\<lambda>fs. (Inl (ErrNew (''tool not found: '' @ ctp_name params)), fs)))"

end
