(* ===== verification/FilesystemInv.thy ===== *)
theory FilesystemInv
  imports Filesystem
begin

text \<open>
  Lemmas on the tools of the filesystem server: the place a path argument leads to, the change each
  call makes to the file system, and \<^verbatim>\<open>strings.ReplaceAll\<close> against its specification by pieces.
\<close>

section \<open>Places\<close>

definition place :: "env \<Rightarrow> string \<Rightarrow> string \<Rightarrow> string list" where
  "place ev root p = resolve (ev_cwd ev) (full_path root p)"

definition full_raw :: "string \<Rightarrow> string \<Rightarrow> string" where
  "full_raw root p = (if root = [] then Clean p else root @ slash # Clean p)"

lemma full_path_Clean: "Join [root, Clean p] = Clean (full_raw root p)"
  by (simp add: Join_def full_raw_def Clean_nonempty)

lemma place_raw: "place ev root p = resolve (ev_cwd ev) (full_raw root p)"
  by (simp add: place_def full_path_def full_path_Clean resolve_Clean)

lemma place_in_root:
  assumes "root \<noteq> []" "list_all plain (ev_cwd ev)" "ups p = 0"
  shows "place ev root p = resolve (ev_cwd ev) root @ downs p"
  using resolve_full_path_exact [OF assms(1,2), of p] assms(3) by (simp add: place_def)

text \<open>The argument that leads to \<open>q\<close> from a root \<open>k\<close> levels deep.\<close>

definition escape_path :: "nat \<Rightarrow> string list \<Rightarrow> string" where
  "escape_path k q = join_slash (replicate k dotdot @ q)"

lemma clean_go_keep_dotdots:
  assumes "list_all plain q"
  shows "clean_go False (replicate m dotdot) (replicate k dotdot @ q) = replicate (m + k) dotdot @ q"
proof (induction k arbitrary: m)
  case 0
  then show ?case using assms by (simp add: clean_go_plain)
next
  case (Suc k)
  have "hd (replicate m dotdot) = dotdot \<or> replicate m dotdot = []" by (cases m) auto
  then show ?case using Suc.IH [of "Suc m"] by auto
qed

lemma escape_path_parts:
  assumes "list_all plain q" "q \<noteq> []"
  shows "ups (escape_path k q) = k" "downs (escape_path k q) = q"
proof -
  let ?cs = "replicate k dotdot @ q"
  have ns: "slash \<notin> set x" if "x \<in> set ?cs" for x
    using that assms(1) no_slash_dotdot by (auto simp: list_all_iff plain_def)
  have sp: "split_slash (escape_path k q) = ?cs"
    unfolding escape_path_def using assms(2) ns by (intro split_join) auto
  have "hd ?cs \<noteq> []" using assms by (cases k; cases q) auto
  then have "hd (split_slash (escape_path k q)) \<noteq> []" by (simp add: sp)
  then have "\<not> is_rooted (escape_path k q)"
    by (cases "escape_path k q") (auto simp: is_rooted_def)
  then have c: "clean_comps (escape_path k q) = ?cs"
    using clean_go_keep_dotdots [OF assms(1), of 0 k] by (simp add: clean_comps_def sp)
  have h: "hd q \<noteq> dotdot" using assms by (cases q) auto
  then show "ups (escape_path k q) = k" "downs (escape_path k q) = q"
    using assms(2) unfolding ups_def downs_def c by (induction k; cases q; simp)+
qed

section \<open>Reading\<close>

lemma read_regular_iff:
  assumes "env_ok fs (ev_cwd ev)"
  shows "read_regular ev (Join [root, Clean p]) fs = Inr s \<longleftrightarrow>
    lookup fs (place ev root p) = Some (FFile s)"
  unfolding read_regular_def full_path_Clean
  by (rule node_at_Clean_cases [OF assms, of "full_raw root p"])
    (auto simp: os_Stat_def os_ReadFile_def place_raw split: fnode.splits)

definition file_text :: "string \<Rightarrow> string \<Rightarrow> string" where
  "file_text p s = ''File content of '' @ p @ '':'' @ [newline] @ s @ [newline]"

lemma read_all_iff:
  assumes "env_ok fs (ev_cwd ev)"
  shows "read_all ev root ps fs = Inr out \<longleftrightarrow>
    (\<exists>ss. list_all2 (\<lambda>p s. lookup fs (place ev root p) = Some (FFile s)) ps ss \<and>
       out = map2 file_text ps ss)"
proof (induction ps arbitrary: out)
  case Nil
  then show ?case by auto
next
  case (Cons p ps)
  note r = read_regular_iff [OF assms, of root p]
  show ?case
  proof (cases "read_regular ev (Join [root, Clean p]) fs")
    case (Inl e)
    with r have "lookup fs (place ev root p) \<noteq> Some (FFile s)" for s by auto
    with Inl show ?thesis by (auto simp: list_all2_Cons1)
  next
    case (Inr s)
    with r have s: "lookup fs (place ev root p) = Some (FFile s)" by blast
    have "read_all ev root (p # ps) fs = Inr out \<longleftrightarrow>
        (\<exists>rest. read_all ev root ps fs = Inr rest \<and> out = file_text p s # rest)"
      using Inr by (auto simp: file_text_def split: sum.splits)
    also have "\<dots> \<longleftrightarrow> (\<exists>ss. list_all2 (\<lambda>p s. lookup fs (place ev root p) = Some (FFile s)) ps ss \<and>
        out = file_text p s # map2 file_text ps ss)"
      using Cons.IH by blast
    finally show ?thesis using s by (auto simp: list_all2_Cons1)
  qed
qed

section \<open>What a call changes\<close>

abbreviation arg_of :: "CallToolParams \<Rightarrow> string \<Rightarrow> string" where
  "arg_of params k \<equiv> as_string (argument params k)"

abbreviation place_of :: "env \<Rightarrow> fsServer \<Rightarrow> CallToolParams \<Rightarrow> string \<Rightarrow> string list" where
  "place_of ev s params k \<equiv> place ev (fss_rootPath s) (arg_of params k)"

lemmas tool_defs = readFile_def readMultipleFiles_def writeFile_def editFile_def createDirectory_def
  listDirectory_def directoryTree_def moveFile_def searchFiles_def getFileInfo_def

lemma validated_cases:
  "validated ev schema params body fs = (r, fs') \<Longrightarrow> (\<exists>e. r = Inl e) \<and> fs' = fs \<or> body fs = (r, fs')"
  by (auto simp: validated_eq Let_def split: if_splits)

text \<open>The effect of each tool that writes.\<close>

definition call_effect :: "env \<Rightarrow> fsServer \<Rightarrow> CallToolParams \<Rightarrow> fnode \<Rightarrow> fnode \<Rightarrow> bool" where
  "call_effect ev s params fs fs' \<longleftrightarrow>
     (\<exists>c. os_WriteFile fs (ev_cwd ev) (Clean (full_raw (fss_rootPath s) (arg_of params ''path''))) c = Inr fs') \<or>
     os_MkdirAll fs (ev_cwd ev) (Clean (full_raw (fss_rootPath s) (arg_of params ''path''))) = Inr fs' \<or>
     os_Rename fs (ev_cwd ev) (Clean (full_raw (fss_rootPath s) (arg_of params ''source'')))
       (Clean (full_raw (fss_rootPath s) (arg_of params ''destination''))) = Inr fs'"

lemma writeFile_effect:
  "writeFile ev (fss_rootPath s) params fs = (r, fs') \<Longrightarrow> fs' = fs \<or> (\<exists>x. r = Inr x) \<and> call_effect ev s params fs fs'"
  unfolding writeFile_def call_effect_def
  by (drule validated_cases) (auto simp: Let_def full_path_Clean split: sum.splits)

lemma editFile_effect:
  "editFile ev (fss_rootPath s) params fs = (r, fs') \<Longrightarrow> fs' = fs \<or> (\<exists>x. r = Inr x) \<and> call_effect ev s params fs fs'"
  unfolding editFile_def call_effect_def
  by (drule validated_cases) (auto simp: Let_def full_path_Clean split: sum.splits if_splits)

lemma createDirectory_effect:
  "createDirectory ev (fss_rootPath s) params fs = (r, fs') \<Longrightarrow> fs' = fs \<or> (\<exists>x. r = Inr x) \<and> call_effect ev s params fs fs'"
  unfolding createDirectory_def call_effect_def
  by (drule validated_cases) (auto simp: Let_def full_path_Clean split: sum.splits)

lemma moveFile_effect:
  "moveFile ev (fss_rootPath s) params fs = (r, fs') \<Longrightarrow> fs' = fs \<or> (\<exists>x. r = Inr x) \<and> call_effect ev s params fs fs'"
  unfolding moveFile_def call_effect_def
  by (drule validated_cases) (auto simp: Let_def full_path_Clean split: sum.splits)

lemma reading_tools_keep:
  "snd (readFile ev root params fs) = fs" "snd (readMultipleFiles ev root params fs) = fs"
  "snd (listDirectory ev root params fs) = fs" "snd (directoryTree ev root params fs) = fs"
  "snd (searchFiles ev root params fs) = fs" "snd (getFileInfo ev root params fs) = fs"
  by (simp_all add: tool_defs validated_eq Let_def split: sum.split)

lemma CallTool_effect:
  assumes "fs_CallTool ev s params fs = (r, fs')"
  shows "fs' = fs \<or> (\<exists>x. r = Inr x) \<and> call_effect ev s params fs fs'"
  using assms reading_tools_keep [of ev "fss_rootPath s" params fs]
    writeFile_effect [of ev s params fs r fs'] editFile_effect [of ev s params fs r fs']
    createDirectory_effect [of ev s params fs r fs'] moveFile_effect [of ev s params fs r fs']
  by (auto simp: fs_CallTool_def split: if_splits)

lemma Rename_sys: "os_Rename t cwd old new = Inr t' \<Longrightarrow> sys_rename t cwd old new = Inr t'"
  by (auto simp: os_Rename_def Let_def split: sum.splits fnode.splits if_splits)

text \<open>Nothing changes but along the paths that the arguments lead to.\<close>

definition apart :: "string list \<Rightarrow> string list \<Rightarrow> bool" where
  "apart p q \<longleftrightarrow> \<not> is_prefix p q \<and> \<not> is_prefix q p"

lemma effect_frame:
  assumes env: "env_ok fs (ev_cwd ev)" and e: "call_effect ev s params fs fs'"
    and q: "\<And>k. k \<in> {''path'', ''source'', ''destination''} \<Longrightarrow> apart (place_of ev s params k) q"
  shows "lookup fs' q = lookup fs q"
proof -
  let ?c = "ev_cwd ev" and ?raw = "\<lambda>k. full_raw (fss_rootPath s) (arg_of params k)"
  have rp: "place_of ev s params k = resolve ?c (?raw k)" for k by (simp add: place_raw)
  note q = q [unfolded rp apart_def]
  consider (wrote) c where "os_WriteFile fs ?c (Clean (?raw ''path'')) c = Inr fs'"
    | (mkdir) "os_MkdirAll fs ?c (Clean (?raw ''path'')) = Inr fs'"
    | (move) "os_Rename fs ?c (Clean (?raw ''source'')) (Clean (?raw ''destination'')) = Inr fs'"
    using e by (auto simp: call_effect_def)
  then show ?thesis
  proof cases
    case wrote
    then show ?thesis using q [of "''path''"] by (simp add: WriteFile_Clean_iff [OF env] lookup_put_other)
  next
    case mkdir
    then show ?thesis using MkdirAll_done(2) [OF env] q [of "''path''"] by simp
  next
    case move
    from sys_rename_done [OF Rename_sys [OF move] env_plain [OF env]] show ?thesis
      using q [of "''source''"] q [of "''destination''"] ft.move_rest by (cases) (auto simp: resolve_Clean)
  qed
qed

lemma effect_wf:
  assumes env: "env_ok fs (ev_cwd ev)" and e: "call_effect ev s params fs fs'" and "fs_wf fs"
  shows "fs_wf fs'"
proof -
  have "fs_wf fs'" if "os_Rename fs (ev_cwd ev) (Clean a) (Clean b) = Inr fs'" for a b
    by (rule sys_rename_done [OF Rename_sys [OF that] env_plain [OF env]])
      (use assms(3) in \<open>auto intro: ft.move_wf\<close>)
  then show ?thesis
    using e assms(3) unfolding call_effect_def
    by (auto simp: WriteFile_Clean_iff [OF env] os_MkdirAll_def fs_wf_put intro: mkdirs_wf)
qed

section \<open>Replacing text\<close>

fun intercalate :: "string \<Rightarrow> string list \<Rightarrow> string" where
  "intercalate sep [] = []"
| "intercalate sep [x] = x"
| "intercalate sep (x # y # xs) = x @ sep @ intercalate sep (y # xs)"

definition occurs :: "string \<Rightarrow> string \<Rightarrow> bool" where
  "occurs old s \<longleftrightarrow> (\<exists>a b. s = a @ old @ b)"

lemma intercalate_Cons: "xs \<noteq> [] \<Longrightarrow> intercalate sep (x # xs) = x @ sep @ intercalate sep xs"
  by (cases xs) auto

lemma intercalate_prefix: "\<exists>t. intercalate sep (x # xs) = x @ t"
  by (cases xs) auto

lemma occurs_Cons: "occurs old (c # s) \<Longrightarrow> take (length old) (c # s) = old \<or> occurs old s"
  unfolding occurs_def by (metis append_eq_Cons_conv append_eq_conv_conj append_take_drop_id)

text \<open>The text is cut at the occurrences of the old text; none is left in a piece.\<close>

lemma replace_from_pieces:
  assumes "old \<noteq> []"
  shows "\<exists>xs. xs \<noteq> [] \<and> s = intercalate old xs \<and> replace_from old new s = intercalate new xs \<and>
    (\<forall>x \<in> set xs. \<not> occurs old x)"
  using assms
proof (induction old new s rule: replace_from.induct)
  case (1 old new s)
  consider "s = []" | (hit) "s \<noteq> []" "take (length old) s = old" | (miss) "s \<noteq> []" "take (length old) s \<noteq> old"
    by blast
  then show ?case
  proof cases
    case 1
    then show ?thesis using \<open>old \<noteq> []\<close>
      by (intro exI [of _ "[[]]"]) (simp add: replace_from.simps occurs_def)
  next
    case hit
    from 1(1) [OF \<open>old \<noteq> []\<close> hit \<open>old \<noteq> []\<close>] obtain xs where xs: "xs \<noteq> []"
      "drop (length old) s = intercalate old xs"
      "replace_from old new (drop (length old) s) = intercalate new xs" "\<forall>x\<in>set xs. \<not> occurs old x" by blast
    have "s = old @ drop (length old) s" using hit(2) by (metis append_take_drop_id)
    then have "s = intercalate old ([] # xs)" using xs(1,2) by (simp add: intercalate_Cons)
    moreover have "replace_from old new s = intercalate new ([] # xs)"
      using hit \<open>old \<noteq> []\<close> xs by (subst replace_from.simps) (simp add: intercalate_Cons)
    ultimately show ?thesis using xs(4) \<open>old \<noteq> []\<close>
      by (intro exI [of _ "[] # xs"]) (auto simp: occurs_def)
  next
    case miss
    from 1(2) [OF \<open>old \<noteq> []\<close> miss \<open>old \<noteq> []\<close>] obtain ys where ys: "ys \<noteq> []" "tl s = intercalate old ys"
      "replace_from old new (tl s) = intercalate new ys" "\<forall>x\<in>set ys. \<not> occurs old x" by blast
    then obtain y zs where y: "ys = y # zs" by (cases ys) auto
    have push: "intercalate sep ((hd s # y) # zs) = hd s # intercalate sep ys" for sep by (cases zs) (auto simp: y)
    have s: "s = hd s # tl s" using miss(1) by simp
    obtain t where "intercalate old ys = y @ t" using intercalate_prefix [of old y zs] y by auto
    with ys(2) s have "s = (hd s # y) @ t" by simp
    then have "take (length old) (hd s # y) \<noteq> old"
      using miss(2) by (metis append_eq_conv_conj append_take_drop_id append_assoc length_take)
    with occurs_Cons ys(4) y have "\<not> occurs old (hd s # y)" by auto
    moreover have "s = intercalate old ((hd s # y) # zs)" "replace_from old new s = intercalate new ((hd s # y) # zs)"
      using s ys push miss \<open>old \<noteq> []\<close> by (simp, subst replace_from.simps, simp)
    ultimately show ?thesis using ys(4) y by (intro exI [of _ "(hd s # y) # zs"]) simp
  qed
qed

lemma replace_from_absent: "\<not> occurs old s \<Longrightarrow> replace_from old new s = s"
proof (induction old new s rule: replace_from.induct)
  case (1 old new s)
  show ?case
  proof (cases "old = [] \<or> s = []")
    case True
    then show ?thesis by (subst replace_from.simps) auto
  next
    case False
    have "take (length old) s \<noteq> old"
      using 1(3) unfolding occurs_def by (metis append_Nil append_take_drop_id)
    moreover have "\<not> occurs old (tl s)"
      using 1(3) False unfolding occurs_def by (metis append_Cons list.collapse)
    ultimately show ?thesis using 1(2) False by (subst replace_from.simps) auto
  qed
qed

section \<open>Searching\<close>

lemma node_size_child: "(c, n) \<in> set m \<Longrightarrow> node_size n < node_size (FDir m)"
proof -
  assume "(c, n) \<in> set m"
  then have "Suc (node_size n) \<in> set (map (\<lambda>(c, n). Suc (node_size n)) m)" by force
  then have "Suc (node_size n) \<le> sum_list (map (\<lambda>(c, n). Suc (node_size n)) m)"
    by (rule member_le_sum_list) simp
  then show ?thesis by simp
qed

text \<open>The files below a node, with the paths \<^verbatim>\<open>WalkDir\<close> gives them, in its order.\<close>

function tree_files :: "string \<Rightarrow> fnode \<Rightarrow> string list" where
  "tree_files path (FFile s) = [path]"
| "tree_files path (FDir m) = concat (map (\<lambda>(c, n). tree_files (Join [path, c]) n) (sort_key fst m))"
  by pat_completeness auto
termination by (relation "measure (node_size \<circ> snd)") (auto dest: node_size_child simp del: node_size.simps)

definition glob_ok :: "string \<Rightarrow> bool" where
  "glob_ok pattern \<longleftrightarrow> parse_glob pattern \<noteq> None"

definition matches :: "string \<Rightarrow> string \<Rightarrow> bool" where
  "matches pattern path = (case Match pattern path of Inl e \<Rightarrow> False | Inr b \<Rightarrow> b)"

lemma Match_ok: "glob_ok pattern \<Longrightarrow> Match pattern path = Inr (matches pattern path)"
  by (auto simp: Match_def glob_ok_def matches_def)

definition wanted :: "string \<Rightarrow> json list \<Rightarrow> string \<Rightarrow> bool" where
  "wanted pattern exs path \<longleftrightarrow> matches pattern path \<and> \<not> list_ex (\<lambda>e. matches (as_string (Some e)) path) exs"

lemma excluded_ok:
  "list_all (\<lambda>e. glob_ok (as_string (Some e))) exs \<Longrightarrow>
     excluded exs path = Inr (list_ex (\<lambda>e. matches (as_string (Some e)) path) exs)"
proof (induction exs)
  case (Cons e exs)
  then show ?case
    using Match_ok [of "as_string (Some e)" path]
    by (cases "matches (as_string (Some e)) path") auto
qed simp

lemma search_visit_ok:
  assumes "glob_ok pattern" "list_all (\<lambda>e. glob_ok (as_string (Some e))) exs"
  shows "search_visit pattern exs path d acc =
    Inr (acc @ (if \<not> IsDir d \<and> wanted pattern exs path then [path] else []))"
  using Match_ok [OF assms(1), of path] excluded_ok [OF assms(2), of path]
  by (cases "matches pattern path"; cases "list_ex (\<lambda>e. matches (as_string (Some e)) path) exs")
    (auto simp: search_visit_def wanted_def)

lemma search_walk:
  assumes "glob_ok pattern" "list_all (\<lambda>e. glob_ok (as_string (Some e))) exs"
  shows "walkDir (search_visit pattern exs) path n acc = Inr (acc @ filter (wanted pattern exs) (tree_files path n))"
    and "walkDirs (search_visit pattern exs) path ds acc =
      Inr (acc @ filter (wanted pattern exs) (concat (map (\<lambda>(c, n). tree_files (Join [path, c]) n) ds)))"
  by (induction "search_visit pattern exs" path n acc and "search_visit pattern exs" path ds acc
      rule: walkDir_walkDirs.induct)
    (simp_all add: search_visit_ok [OF assms])

text \<open>They are the files the tree holds, each under the path joined from its components.\<close>

lemma tree_files_iff:
  assumes "fs_wf n"
  shows "x \<in> set (tree_files path n) \<longleftrightarrow>
    (\<exists>cs s. lookup n cs = Some (FFile s) \<and> x = foldl (\<lambda>a c. Join [a, c]) path cs)"
  using assms
proof (induction path n rule: tree_files.induct)
  case (1 path s)
  have "lookup (FFile s) cs = Some (FFile s') \<longleftrightarrow> cs = [] \<and> s' = s" for cs s' by (cases cs) auto
  then show ?case by auto
next
  case (2 path m)
  have load: "(c, n) \<in> set (sort_key fst m) \<longleftrightarrow> smap_load m c = Some n" for c n
    using 2(2) by (simp add: smap_load_def)
  have IH: "x \<in> set (tree_files (Join [path, c]) n) \<longleftrightarrow>
      (\<exists>cs s. lookup n cs = Some (FFile s) \<and> x = foldl (\<lambda>a c. Join [a, c]) (Join [path, c]) cs)"
    if "smap_load m c = Some n" for c n
    using 2(1) [of "(c, n)" c n] load that fs_wf_load [OF 2(2) that] by auto
  have "x \<in> set (tree_files path (FDir m)) \<longleftrightarrow>
      (\<exists>c n. smap_load m c = Some n \<and> x \<in> set (tree_files (Join [path, c]) n))"
    using load by (auto simp del: set_sort)
  also have "\<dots> \<longleftrightarrow> (\<exists>c n cs s. smap_load m c = Some n \<and> lookup n cs = Some (FFile s) \<and>
      x = foldl (\<lambda>a c. Join [a, c]) path (c # cs))"
    unfolding foldl_Cons using IH by blast
  also have "\<dots> \<longleftrightarrow> (\<exists>cs s. lookup (FDir m) cs = Some (FFile s) \<and> x = foldl (\<lambda>a c. Join [a, c]) path cs)"
    (is "?L \<longleftrightarrow> ?R")
  proof
    assume ?R
    then obtain cs s where cs: "lookup (FDir m) cs = Some (FFile s)" "x = foldl (\<lambda>a c. Join [a, c]) path cs" by blast
    then show ?L by (cases cs) (auto split: option.splits)
  next
    assume ?L
    then obtain c n cs s where "smap_load m c = Some n" "lookup n cs = Some (FFile s)"
      "x = foldl (\<lambda>a c. Join [a, c]) path (c # cs)" by blast
    then show ?R by (intro exI [of _ "c # cs"] exI [of _ s]) simp
  qed
  finally show ?case .
qed

end
