(* ===== verification/FilesystemProps.thy ===== *)
theory FilesystemProps
  imports FilesystemInv
begin

text \<open>
  Properties of the filesystem server: what its root confines and what it does not, and what each
  tool does to the files. \<open>apart p q\<close> says that neither place leads through the other. The
  witnesses run the tools on a small tree with a validator that checks the type of \<^verbatim>\<open>path\<close>.
\<close>

section \<open>An example\<close>

definition demo_validate :: "json \<Rightarrow> (string, json) smap option \<Rightarrow> string list" where
  "demo_validate schema args =
     (case args of
        None \<Rightarrow> []
      | Some m \<Rightarrow> (case smap_load m ''path'' of
           None \<Rightarrow> []
         | Some (JStr p) \<Rightarrow> []
         | Some v \<Rightarrow> [''type should be string'']))"

definition demo_env :: env where
  "demo_env = \<lparr>ev_validate = demo_validate, ev_cwd = [''srv''], ev_dirsize = (\<lambda>_. 4096),
     ev_modtime = (\<lambda>_. ''now'')\<rparr>"

definition demo_fs :: fnode where
  "demo_fs = FDir [(''srv'', FDir [(''b.txt'', FFile ''two''), (''a.txt'', FFile ''one'')]),
     (''etc'', FDir [(''key'', FFile ''secret'')])]"

definition demo_fss :: fsServer where
  "demo_fss = \<lparr>fss_rootPath = ''/srv''\<rparr>"

definition demo_call :: "string \<Rightarrow> (string \<times> json) list \<Rightarrow> CallToolParams" where
  "demo_call tool args = CallToolParams_zero\<lparr>ctp_name := tool, ctp_arguments := Some args\<rparr>"

lemma demo_ok: "env_ok demo_fs (ev_cwd demo_env)" by code_simp

section \<open>Confinement\<close>

text \<open>
  C15. A call whose path arguments do not climb above their start (cleaning leaves no leading
  dot-dot) changes nothing outside the root directory, and what \<^verbatim>\<open>read_file\<close> returns is the
  content of a file below the root.
\<close>

theorem tools_confined:
  assumes "fss_rootPath s \<noteq> []" "env_ok fs (ev_cwd ev)"
    and "\<forall>k \<in> {''path'', ''source'', ''destination''}. ups (as_string (argument params k)) = 0"
    and "fs_CallTool ev s params fs = (r, fs')"
  shows "(apart (resolve (ev_cwd ev) (fss_rootPath s)) q \<longrightarrow> lookup fs' q = lookup fs q) \<and>
    (ctp_name params = ''read_file'' \<and> r = Inr x \<longrightarrow>
       (\<exists>d t. lookup fs (resolve (ev_cwd ev) (fss_rootPath s) @ d) = Some (FFile t) \<and> x = tool_text t))"
proof -
  let ?R = "resolve (ev_cwd ev) (fss_rootPath s)"
  have pl: "place_of ev s params k = ?R @ downs (arg_of params k)"
    if "k \<in> {''path'', ''source'', ''destination''}" for k
    using place_in_root [OF assms(1) env_plain [OF assms(2)]] assms(3) that by blast
  have "lookup fs' q = lookup fs q" if q: "apart ?R q"
  proof -
    have "apart (place_of ev s params k) q" if "k \<in> {''path'', ''source'', ''destination''}" for k
      unfolding pl [OF that] using q is_prefix_comparable [of q "?R @ downs (arg_of params k)" ?R]
      by (auto simp: apart_def is_prefix_iff)
    then show ?thesis using CallTool_effect [OF assms(4)] effect_frame [OF assms(2)] by blast
  qed
  moreover have "\<exists>d t. lookup fs (?R @ d) = Some (FFile t) \<and> x = tool_text t"
    if "ctp_name params = ''read_file''" "r = Inr x"
    using assms(4) that read_regular_iff [OF assms(2), of "fss_rootPath s"] pl [of "''path''"]
    by (auto simp: fs_CallTool_def readFile_def validated_eq Let_def split: if_splits sum.splits)
  ultimately show ?thesis by blast
qed

theorem tools_confined_witness:
  "lookup (snd (fs_CallTool demo_env demo_fss
      (demo_call ''write_file'' [(''path'', JStr ''a.txt''), (''content'', JStr ''new'')]) demo_fs)) [''etc'', ''key''] =
    Some (FFile ''secret'')"
proof -
  let ?p = "demo_call ''write_file'' [(''path'', JStr ''a.txt''), (''content'', JStr ''new'')]"
  have h: "fss_rootPath demo_fss \<noteq> []" "\<forall>k \<in> {''path'', ''source'', ''destination''}. ups (arg_of ?p k) = 0"
    "apart (resolve (ev_cwd demo_env) (fss_rootPath demo_fss)) [''etc'', ''key'']"
    "lookup demo_fs [''etc'', ''key''] = Some (FFile ''secret'')" by code_simp+
  obtain r fs' where c: "fs_CallTool demo_env demo_fss ?p demo_fs = (r, fs')" by (rule prod.exhaust)
  show ?thesis using tools_confined [OF h(1) demo_ok h(2) c] h(3,4) c by simp
qed

text \<open>
  C26. The root is not a boundary: for every file of the file system there is an argument, as many
  dot-dots as the root is deep and then the file's place, with which \<^verbatim>\<open>read_file\<close> returns it.
\<close>

theorem tools_escape:
  assumes "fss_rootPath s \<noteq> []" "env_ok fs (ev_cwd ev)" "lookup fs q = Some (FFile t)" "list_all plain q" "q \<noteq> []"
    and "ctp_name params = ''read_file''" "ev_validate ev readFileSchema (ctp_arguments params) = []"
    and "as_string (argument params ''path'') =
      join_slash (replicate (length (resolve (ev_cwd ev) (fss_rootPath s))) ''..'' @ q)"
  shows "fs_CallTool ev s params fs = (Inr (tool_text t), fs)"
proof -
  let ?R = "resolve (ev_cwd ev) (fss_rootPath s)"
  have "arg_of params ''path'' = escape_path (length ?R) q"
    using assms(8) by (simp add: escape_path_def dotdot_def)
  then have "place_of ev s params ''path'' = q"
    using resolve_full_path_exact [OF assms(1) env_plain [OF assms(2)]]
      escape_path_parts [OF assms(4,5)] by (simp add: place_def)
  with assms(3) have "read_regular ev (Join [fss_rootPath s, Clean (arg_of params ''path'')]) fs = Inr t"
    by (simp add: read_regular_iff [OF assms(2)])
  with assms(6,7) show ?thesis by (simp add: fs_CallTool_def readFile_def validated_eq)
qed

theorem tools_escape_witness:
  "fs_CallTool demo_env demo_fss (demo_call ''read_file'' [(''path'', JStr ''../etc/key'')]) demo_fs =
     (Inr (tool_text ''secret''), demo_fs)"
  by (rule tools_escape [where q = "[''etc'', ''key'']", OF _ demo_ok]) code_simp+

section \<open>Which calls change files\<close>



section \<open>Writing and editing\<close>

lemma WriteFile_then:
  assumes env: "env_ok fs (ev_cwd ev)"
    and w: "os_WriteFile fs (ev_cwd ev) (Clean (full_raw root p)) c = Inr fs'"
  shows "lookup fs' (place ev root p) = Some (FFile c)" "env_ok fs' (ev_cwd ev)"
    "apart (place ev root p) q \<Longrightarrow> lookup fs' q = lookup fs q"
  using w [unfolded WriteFile_Clean_iff [OF env]]
  by (auto simp: place_raw apart_def lookup_put_other intro: lookup_put_at env_ok_put_file [OF env])

lemma write_read_back:
  assumes "env_ok fs (ev_cwd ev)" "ctp_name w = ''write_file''" "fs_CallTool ev s w fs = (Inr x, fs')"
    and "ctp_name r = ''read_file''" "ev_validate ev readFileSchema (ctp_arguments r) = []"
    and "argument r ''path'' = argument w ''path''"
  shows "fs_CallTool ev s r fs' = (Inr (tool_text (as_string (argument w ''content''))), fs')"
    "apart (place ev (fss_rootPath s) (as_string (argument w ''path''))) q \<Longrightarrow> lookup fs' q = lookup fs q"
proof -
  have "os_WriteFile fs (ev_cwd ev) (Clean (full_raw (fss_rootPath s) (arg_of w ''path''))) (arg_of w ''content'') = Inr fs'"
    using assms(2,3)
    by (auto simp: fs_CallTool_def writeFile_def validated_eq Let_def full_path_Clean split: if_splits sum.splits)
  note t = WriteFile_then [OF assms(1) this]
  have "read_regular ev (Join [fss_rootPath s, Clean (arg_of w ''path'')]) fs' = Inr (arg_of w ''content'')"
    using t(1) by (simp add: read_regular_iff [OF t(2)])
  then show "fs_CallTool ev s r fs' = (Inr (tool_text (as_string (argument w ''content''))), fs')"
    using assms(4-6) by (simp add: fs_CallTool_def readFile_def validated_eq)
  show "apart (place ev (fss_rootPath s) (as_string (argument w ''path''))) q \<Longrightarrow> lookup fs' q = lookup fs q"
    by (rule t(3))
qed

text \<open>
  C18. What \<^verbatim>\<open>write_file\<close> wrote, \<^verbatim>\<open>read_file\<close> of the same path returns, and no other file changed.
\<close>

theorem write_then_read:
  assumes "env_ok fs (ev_cwd ev)" "ctp_name w = ''write_file''" "fs_CallTool ev s w fs = (Inr x, fs')"
    and "ctp_name r = ''read_file''" "ev_validate ev readFileSchema (ctp_arguments r) = []"
    and "argument r ''path'' = argument w ''path''"
  shows "fs_CallTool ev s r fs' = (Inr (tool_text (as_string (argument w ''content''))), fs') \<and>
    (apart (place ev (fss_rootPath s) (as_string (argument w ''path''))) q \<longrightarrow> lookup fs' q = lookup fs q)"
  using write_read_back [OF assms] by blast

theorem write_then_read_witness:
  "\<exists>fs'. fs_CallTool demo_env demo_fss (demo_call ''read_file'' [(''path'', JStr ''c.txt'')]) fs' =
     (Inr (tool_text ''three''), fs')"
proof -
  let ?w = "demo_call ''write_file'' [(''path'', JStr ''c.txt''), (''content'', JStr ''three'')]"
    and ?r = "demo_call ''read_file'' [(''path'', JStr ''c.txt'')]"
  have "case fst (fs_CallTool demo_env demo_fss ?w demo_fs) of Inl e \<Rightarrow> False | Inr x \<Rightarrow> True" by code_simp
  then obtain x fs' where c: "fs_CallTool demo_env demo_fss ?w demo_fs = (Inr x, fs')"
    by (cases "fs_CallTool demo_env demo_fss ?w demo_fs") (auto split: sum.splits)
  have h: "ctp_name ?w = ''write_file''" "ctp_name ?r = ''read_file''"
    "ev_validate demo_env readFileSchema (ctp_arguments ?r) = []" "argument ?r ''path'' = argument ?w ''path''"
    "arg_of ?w ''content'' = ''three''" by code_simp+
  show ?thesis using write_then_read [OF demo_ok h(1) c h(2,3,4)] h(5) by auto
qed



section \<open>Moving, reading many, listing, searching\<close>

text \<open>
  \<^verbatim>\<open>move_file\<close> of a file to a place that is not a directory and has one before it succeeds,
  whether or not a file is there: the destination then holds the content of the source, whatever
  it held is lost, the source is gone and nothing else has changed.
\<close>

lemma move_overwrites:
  assumes "env_ok fs (ev_cwd ev)" "ctp_name params = ''move_file''"
    and "ev_validate ev moveFileSchema (ctp_arguments params) = []"
    and "p = place ev (fss_rootPath s) (as_string (argument params ''source''))"
    and "q = place ev (fss_rootPath s) (as_string (argument params ''destination''))"
    and "lookup fs p = Some (FFile t)" "dir_at fs (butlast q)" "\<not> dir_at fs q" "p \<noteq> q"
  shows "\<exists>x fs'. fs_CallTool ev s params fs = (Inr x, fs') \<and> lookup fs' q = Some (FFile t) \<and>
    lookup fs' p = None \<and> (\<forall>r. apart p r \<and> apart q r \<longrightarrow> lookup fs' r = lookup fs r)"
proof -
  have pq: "p = resolve (ev_cwd ev) (full_raw (fss_rootPath s) (arg_of params ''source''))"
    "q = resolve (ev_cwd ev) (full_raw (fss_rootPath s) (arg_of params ''destination''))"
    using assms(4,5) by (simp_all add: place_raw)
  from Rename_file [OF assms(1) assms(6,7,8,9) [unfolded pq]]
  have c: "\<exists>x. fs_CallTool ev s params fs = (Inr x, put q (FFile t) (del p fs))"
    using assms(2,3) by (simp add: fs_CallTool_def moveFile_def validated_eq full_path_Clean pq Let_def)
  have np: "\<not> dir_at fs p" "p \<noteq> []"
    using assms(6) env_root [OF assms(1)] by (auto simp: dir_at_def)
  have a: "\<not> is_prefix p q"
  proof
    assume "is_prefix p q"
    then obtain r where r: "q = p @ r" by (auto simp: is_prefix_iff)
    with assms(9) have "butlast q = p @ butlast r" by (simp add: butlast_append)
    with assms(7) np(1) dir_at_prefix show False by metis
  qed
  have b: "\<not> is_prefix q p"
    using assms(6,8,9) lookup_prefix [of fs q] by (fastforce simp: is_prefix_iff dir_at_def)
  then have "q \<noteq> []" by auto
  then obtain d e where q: "q = d @ [e]" by (cases q rule: rev_cases) auto
  have "lookup (put q (FFile t) (del p fs)) q = Some (FFile t)"
    using assms(7) a np(2) unfolding q by (auto elim!: dir_atE intro: ft.move_there)
  then show ?thesis
    using c ft.move_gone [OF np(2) a b] ft.move_rest [of p _ q] by (auto simp: apart_def)
qed

text \<open>
  C29. \<^verbatim>\<open>read_multiple_files\<close> is all or nothing: it succeeds exactly when every path is a file, with
  the contents in the order of the arguments; one unreadable path fails the whole call.
\<close>

theorem read_multiple_all_or_nothing:
  assumes "env_ok fs (ev_cwd ev)" "ctp_name params = ''read_multiple_files''"
    and "ev_validate ev readMultipleFilesSchema (ctp_arguments params) = []"
    and "ps = map (\<lambda>p. as_string (Some p)) (as_slice (argument params ''paths''))"
  shows "fs_CallTool ev s params fs = (Inr x, fs') \<longleftrightarrow>
    fs' = fs \<and> (\<exists>ts. list_all2 (\<lambda>p t. lookup fs (place ev (fss_rootPath s) p) = Some (FFile t)) ps ts \<and>
      x = tool_texts (map2 (\<lambda>p t. ''File content of '' @ p @ '':'' @ [newline] @ t @ [newline]) ps ts))"
proof -
  have "fs_CallTool ev s params fs = (case read_all ev (fss_rootPath s) ps fs of
      Inl e \<Rightarrow> (Inl e, fs) | Inr out \<Rightarrow> (Inr (tool_texts out), fs))"
    using assms(2-4) by (simp add: fs_CallTool_def readMultipleFiles_def validated_eq)
  then have "fs_CallTool ev s params fs = (Inr x, fs') \<longleftrightarrow>
      fs' = fs \<and> (\<exists>out. read_all ev (fss_rootPath s) ps fs = Inr out \<and> x = tool_texts out)"
    by (auto split: sum.splits)
  then show ?thesis unfolding read_all_iff [OF assms(1)] file_text_def [abs_def] by blast
qed

theorem read_multiple_all_or_nothing_witness:
  "\<not> (\<exists>x fs'. fs_CallTool demo_env demo_fss
      (demo_call ''read_multiple_files'' [(''paths'', JArr [JStr ''a.txt'', JStr ''no''])]) demo_fs = (Inr x, fs'))"
proof -
  let ?p = "demo_call ''read_multiple_files'' [(''paths'', JArr [JStr ''a.txt'', JStr ''no''])]"
  have h: "ctp_name ?p = ''read_multiple_files''"
    "ev_validate demo_env readMultipleFilesSchema (ctp_arguments ?p) = []"
    "[''a.txt'', ''no''] = map (\<lambda>p. as_string (Some p)) (as_slice (argument ?p ''paths''))"
    "lookup demo_fs (place demo_env (fss_rootPath demo_fss) ''no'') = None" by code_simp+
  from read_multiple_all_or_nothing [OF demo_ok h(1-3), of demo_fss] h(4) show ?thesis
    by (auto simp: list_all2_Cons1)
qed

text \<open>
  \<^verbatim>\<open>list_directory\<close> and \<^verbatim>\<open>directory_tree\<close> give the same answer: one line for every entry of the
  directory, marked as file or directory, sorted by name and without repetition; the entries of
  subdirectories are not in it.
\<close>

lemma list_directory_complete:
  assumes "env_ok fs (ev_cwd ev)" "fs_wf fs" "ctp_name params \<in> {''list_directory'', ''directory_tree''}"
    and "ev_validate ev listDirectorySchema (ctp_arguments params) = []"
    and "ev_validate ev directoryTreeSchema (ctp_arguments params) = []"
    and "lookup fs (place ev (fss_rootPath s) (as_string (argument params ''path''))) = Some (FDir m)"
  shows "\<exists>ds. fs_CallTool ev s params fs =
      (Inr (tool_texts (map (\<lambda>(c, n). (if IsDir n then ''[DIR] '' else ''[FILE] '') @ c @ [newline]) ds)), fs) \<and>
    set ds = set m \<and> sorted (map fst ds) \<and> distinct (map fst ds)"
proof -
  let ?raw = "full_raw (fss_rootPath s) (arg_of params ''path'')" and ?ds = "sort_key fst m"
  have "os_ReadDir fs (ev_cwd ev) (Clean ?raw) = Inr ?ds"
    using assms(6) by (auto simp: ReadDir_Clean_iff [OF assms(1)] place_raw)
  then have c: "fs_CallTool ev s params fs = (Inr (tool_texts (map entry_line ?ds)), fs)"
    using assms(3-5) by (auto simp: fs_CallTool_def listDirectory_def directoryTree_def validated_eq full_path_Clean)
  have l: "entry_line = (\<lambda>(c, n). (if IsDir n then ''[DIR] '' else ''[FILE] '') @ c @ [newline])"
    by (auto simp: entry_line_def fun_eq_iff)
  have "distinct (map fst m)" using fs_wf_lookup [OF assms(2,6)] by simp
  then have "distinct (map fst ?ds)" by (simp add: distinct_map)
  with c show ?thesis unfolding l by (intro exI [of _ ?ds]) simp
qed

text \<open>
  C30. With well-formed patterns, \<^verbatim>\<open>search_files\<close> returns exactly the files below the root directory
  whose whole path matches the pattern and no exclude pattern, or the text \<^verbatim>\<open>No files found\<close> if there
  is none. The argument \<^verbatim>\<open>path\<close> plays no part: the search starts at the root.
\<close>

theorem search_files_spec:
  assumes "fs_wf fs" "ctp_name params = ''search_files''"
    and "ev_validate ev searchFilesSchema (ctp_arguments params) = []"
    and "os_Lstat fs (ev_cwd ev) (fss_rootPath s) = Inr n"
    and "glob_ok (as_string (argument params ''pattern''))"
    and "list_all (\<lambda>e. glob_ok (as_string (Some e))) (as_slice (argument params ''excludePatterns''))"
  shows "\<exists>found. fs_CallTool ev s params fs =
      (Inr (if found = [] then tool_text ''No files found'' else tool_texts found), fs) \<and>
    (\<forall>x. x \<in> set found \<longleftrightarrow>
       (\<exists>cs t. lookup n cs = Some (FFile t) \<and> x = foldl (\<lambda>a c. Join [a, c]) (fss_rootPath s) cs) \<and>
       Match (as_string (argument params ''pattern'')) x = Inr True \<and>
       (\<forall>e \<in> set (as_slice (argument params ''excludePatterns'')). Match (as_string (Some e)) x = Inr False))"
proof -
  let ?pat = "as_string (argument params ''pattern'')" and ?exs = "as_slice (argument params ''excludePatterns'')"
  let ?found = "filter (wanted ?pat ?exs) (tree_files (fss_rootPath s) n)"
  have "fs_CallTool ev s params fs =
      (Inr (if ?found = [] then tool_text ''No files found'' else tool_texts ?found), fs)"
    using assms(2-4) search_walk(1) [OF assms(5,6), of "fss_rootPath s" n "[]"]
    by (simp add: fs_CallTool_def searchFiles_def validated_eq WalkDir_def)
  moreover have "fs_wf n"
    using assms(1,4) by (auto simp: os_Lstat_def node_at_def split: sum.splits option.splits intro: fs_wf_lookup)
  moreover have "wanted ?pat ?exs x \<longleftrightarrow> Match ?pat x = Inr True \<and> (\<forall>e \<in> set ?exs. Match (as_string (Some e)) x = Inr False)" for x
    using assms(5,6) by (auto simp: wanted_def Match_ok list_all_iff list_ex_iff)
  ultimately show ?thesis by (intro exI [of _ ?found]) (auto simp: tree_files_iff)
qed

theorem search_files_spec_witness:
  "\<exists>found. fs_CallTool demo_env demo_fss
      (demo_call ''search_files'' [(''path'', JStr ''nowhere''), (''pattern'', JStr ''/srv/*.txt''),
         (''excludePatterns'', JArr [JStr ''*/b*''])]) demo_fs =
      (Inr (if found = [] then tool_text ''No files found'' else tool_texts found), demo_fs) \<and>
    ''/srv/a.txt'' \<in> set found"
proof -
  let ?p = "demo_call ''search_files'' [(''path'', JStr ''nowhere''), (''pattern'', JStr ''/srv/*.txt''),
    (''excludePatterns'', JArr [JStr ''*/b*''])]"
  let ?n = "FDir [(''b.txt'', FFile ''two''), (''a.txt'', FFile ''one'')]"
  have h: "fs_wf demo_fs" "ctp_name ?p = ''search_files''"
    "ev_validate demo_env searchFilesSchema (ctp_arguments ?p) = []"
    "os_Lstat demo_fs (ev_cwd demo_env) (fss_rootPath demo_fss) = Inr ?n"
    "glob_ok (as_string (argument ?p ''pattern''))"
    "list_all (\<lambda>e. glob_ok (as_string (Some e))) (as_slice (argument ?p ''excludePatterns''))" by code_simp+
  have m: "lookup ?n [''a.txt''] = Some (FFile ''one'')"
    "''/srv/a.txt'' = foldl (\<lambda>a c. Join [a, c]) (fss_rootPath demo_fss) [''a.txt'']"
    "Match (as_string (argument ?p ''pattern'')) ''/srv/a.txt'' = Inr True"
    "list_all (\<lambda>e. Match (as_string (Some e)) ''/srv/a.txt'' = Inr False) (as_slice (argument ?p ''excludePatterns''))"
    by code_simp+
  from search_files_spec [OF h] obtain found where f: "fs_CallTool demo_env demo_fss ?p demo_fs =
      (Inr (if found = [] then tool_text ''No files found'' else tool_texts found), demo_fs)"
    "\<forall>x. x \<in> set found \<longleftrightarrow>
       (\<exists>cs t. lookup ?n cs = Some (FFile t) \<and> x = foldl (\<lambda>a c. Join [a, c]) (fss_rootPath demo_fss) cs) \<and>
       Match (as_string (argument ?p ''pattern'')) x = Inr True \<and>
       (\<forall>e \<in> set (as_slice (argument ?p ''excludePatterns'')). Match (as_string (Some e)) x = Inr False)"
    by blast
  from m(1,2) have "\<exists>cs t. lookup ?n cs = Some (FFile t) \<and>
      ''/srv/a.txt'' = foldl (\<lambda>a c. Join [a, c]) (fss_rootPath demo_fss) cs" by blast
  with f(2) m(3,4) have "''/srv/a.txt'' \<in> set found" unfolding list_all_iff by blast
  with f(1) show ?thesis by blast
qed

section \<open>Directories and the server\<close>

text \<open>
  \<^verbatim>\<open>create_directory\<close> succeeds exactly when no component of the place is a file. Then the
  directory exists, and everything that does not lie on the way to it is as before.
\<close>

lemma create_directory_spec:
  assumes "env_ok fs (ev_cwd ev)" "ctp_name params = ''create_directory''"
    and "ev_validate ev createDirectorySchema (ctp_arguments params) = []"
    and "p = place ev (fss_rootPath s) (as_string (argument params ''path''))"
  shows "if \<exists>k t. lookup fs (take k p) = Some (FFile t)
    then \<exists>e. fs_CallTool ev s params fs = (Inl e, fs)
    else \<exists>x fs'. fs_CallTool ev s params fs = (Inr x, fs') \<and> dir_at fs' p \<and>
      (\<forall>q. \<not> is_prefix q p \<longrightarrow> lookup fs' q = lookup fs q)"
proof -
  let ?raw = "full_raw (fss_rootPath s) (arg_of params ''path'')"
  have p: "p = resolve (ev_cwd ev) ?raw" using assms(4) by (simp add: place_raw)
  have c: "fs_CallTool ev s params fs = (case os_MkdirAll fs (ev_cwd ev) (Clean ?raw) of
      Inl e \<Rightarrow> (Inl (path_failure ''failed to create directory with path '' (Clean ?raw) e), fs)
    | Inr fs' \<Rightarrow> (Inr (tool_text (''Directory '' @ arg_of params ''path'' @ '' created successfully'')), fs'))"
    using assms(2,3) by (simp add: fs_CallTool_def createDirectory_def validated_eq full_path_Clean Let_def)
  note iff = MkdirAll_iff [OF assms(1), of ?raw, folded p]
  show ?thesis
  proof (cases "os_MkdirAll fs (ev_cwd ev) (Clean ?raw)")
    case (Inl e)
    with iff c show ?thesis by auto
  next
    case (Inr fs')
    with iff c MkdirAll_done [OF assms(1) Inr] show ?thesis by (auto simp: p)
  qed
qed

text \<open>
  \<^verbatim>\<open>NewServer\<close> succeeds exactly when the root leads to a directory, and keeps the root as given.
\<close>

lemma NewServer_iff:
  assumes "env_ok fs (ev_cwd ev)"
  shows "NewServer ev fs root = Inr s \<longleftrightarrow>
    dir_at fs (resolve (ev_cwd ev) root) \<and> s = \<lparr>fss_rootPath = root\<rparr>"
  by (rule node_at_Clean_cases [OF assms, of root])
    (auto simp: NewServer_def os_Stat_def dir_at_def)

text \<open>No tool returns the error of the dispatch.\<close>

lemma read_regular_error: "read_regular ev p fs \<noteq> Inl (ErrNew (''tool not found: '' @ x))"
  by (auto simp: read_regular_def path_failure_def split: sum.splits)

lemma read_all_error: "read_all ev root ps fs \<noteq> Inl (ErrNew (''tool not found: '' @ x))"
  using read_regular_error by (induction ps) (auto simp: Let_def split: sum.splits)

lemma validated_error:
  "fst (body fs) \<noteq> Inl (ErrNew (''tool not found: '' @ x)) \<Longrightarrow>
     fst (validated ev schema params body fs) \<noteq> Inl (ErrNew (''tool not found: '' @ x))"
  by (simp add: validated_eq Let_def)

lemma tool_error_texts:
  "fst (readFile ev root params fs) \<noteq> Inl (ErrNew (''tool not found: '' @ x))"
  "fst (readMultipleFiles ev root params fs) \<noteq> Inl (ErrNew (''tool not found: '' @ x))"
  "fst (writeFile ev root params fs) \<noteq> Inl (ErrNew (''tool not found: '' @ x))"
  "fst (editFile ev root params fs) \<noteq> Inl (ErrNew (''tool not found: '' @ x))"
  "fst (createDirectory ev root params fs) \<noteq> Inl (ErrNew (''tool not found: '' @ x))"
  "fst (listDirectory ev root params fs) \<noteq> Inl (ErrNew (''tool not found: '' @ x))"
  "fst (directoryTree ev root params fs) \<noteq> Inl (ErrNew (''tool not found: '' @ x))"
  "fst (moveFile ev root params fs) \<noteq> Inl (ErrNew (''tool not found: '' @ x))"
  "fst (searchFiles ev root params fs) \<noteq> Inl (ErrNew (''tool not found: '' @ x))"
  "fst (getFileInfo ev root params fs) \<noteq> Inl (ErrNew (''tool not found: '' @ x))"
  unfolding tool_defs
  by (rule validated_error; use read_regular_error read_all_error in
      \<open>auto simp: Let_def path_failure_def split: sum.splits\<close>)+

text \<open>
  The tools that \<^verbatim>\<open>ListTools\<close> lists are the tools \<^verbatim>\<open>CallTool\<close> knows: an unlisted name is
  answered with the error \<^verbatim>\<open>tool not found\<close>, and only an unlisted name.
\<close>

lemma listed_tools_are_callable:
  shows "\<exists>l ts. fs_ListTools s q = Inr l \<and> ltr_tools l = Some ts \<and> distinct (map to_name ts) \<and>
    (if ctp_name params \<in> to_name ` set ts
     then fst (fs_CallTool ev s params fs) \<noteq> Inl (ErrNew (''tool not found: '' @ ctp_name params))
     else fs_CallTool ev s params fs = (Inl (ErrNew (''tool not found: '' @ ctp_name params)), fs))"
proof -
  let ?ts = "the (ltr_tools toolList)"
  have l: "ltr_tools toolList = Some ?ts" by (simp add: toolList_def)
  have names: "map to_name ?ts = [''read_file'', ''read_multiple_files'', ''write_file'', ''edit_file'',
      ''create_directory'', ''list_directory'', ''directory_tree'', ''move_file'', ''search_files'', ''get_file_info'']"
    by (simp add: toolList_def)
  have "to_name ` set ?ts = set (map to_name ?ts)" by simp
  then have i: "ctp_name params \<in> to_name ` set ?ts \<longleftrightarrow> ctp_name params \<in> {''read_file'', ''read_multiple_files'',
      ''write_file'', ''edit_file'', ''create_directory'', ''list_directory'', ''directory_tree'', ''move_file'',
      ''search_files'', ''get_file_info''}" unfolding names by simp
  have "distinct (map to_name ?ts)" unfolding names by code_simp
  moreover have "fst (fs_CallTool ev s params fs) \<noteq> Inl (ErrNew (''tool not found: '' @ ctp_name params))"
    if "ctp_name params \<in> to_name ` set ?ts"
  proof -
    have "fst (fs_CallTool ev s params fs) \<noteq> Inl (ErrNew (''tool not found: '' @ x))" for x
      using that unfolding i by (auto simp: fs_CallTool_def tool_error_texts [simplified])
    then show ?thesis .
  qed
  moreover have "fs_CallTool ev s params fs = (Inl (ErrNew (''tool not found: '' @ ctp_name params)), fs)"
    if "ctp_name params \<notin> to_name ` set ?ts"
    using that unfolding i by (simp add: fs_CallTool_def)
  ultimately show ?thesis using l unfolding fs_ListTools_def by auto
qed

end
