(* ===== verification/JsonText.thy ===== *)
theory JsonText
  imports Json
begin

text \<open>
  JSON as text: what \<^verbatim>\<open>json.Marshal\<close> prints for a value and what \<^verbatim>\<open>json.Unmarshal\<close> reads. Strings are
  byte strings that hold valid UTF-8. A number is printed with exactly the fraction digits it
  has; the members of an object are printed in their order. The parser takes fuel; the length of
  the text is enough, since every call consumes a character.
\<close>

section \<open>Printing\<close>

abbreviation quote :: char where "quote \<equiv> CHR 0x22"
abbreviation backslash :: char where "backslash \<equiv> CHR 0x5C"

definition hex_digit :: "nat \<Rightarrow> char" where
  "hex_digit d = (if d < 10 then char_of (48 + d) else char_of (87 + d))"

definition unicode_escape :: "nat \<Rightarrow> string" where
  "unicode_escape n =
     [backslash, CHR ''u'', hex_digit (n div 4096 mod 16), hex_digit (n div 256 mod 16),
      hex_digit (n div 16 mod 16), hex_digit (n mod 16)]"

text \<open>
  Quotes, backslashes and control characters are escaped; so are \<^verbatim>\<open><\<close>, \<^verbatim>\<open>>\<close> and \<^verbatim>\<open>&\<close>, and the two
  line separators U+2028 and U+2029 (three bytes each).
\<close>

definition escape_char :: "char \<Rightarrow> string" where
  "escape_char c =
     (if c = quote \<or> c = backslash then [backslash, c]
      else if c = CHR 0x08 then [backslash, CHR ''b'']
      else if c = CHR 0x0C then [backslash, CHR ''f'']
      else if c = CHR 0x0A then [backslash, CHR ''n'']
      else if c = CHR 0x0D then [backslash, CHR ''r'']
      else if c = CHR 0x09 then [backslash, CHR ''t'']
      else if (of_char c :: nat) < 32 \<or> c = CHR ''<'' \<or> c = CHR ''>'' \<or> c = CHR ''&''
      then unicode_escape (of_char c)
      else [c])"

fun escape_string :: "string \<Rightarrow> string" where
  "escape_string [] = []"
| "escape_string (c # cs) =
     (if c = CHR 0xE2 \<and> take 2 cs = [CHR 0x80, CHR 0xA8] then unicode_escape 8232 @ escape_string (drop 2 cs)
      else if c = CHR 0xE2 \<and> take 2 cs = [CHR 0x80, CHR 0xA9] then unicode_escape 8233 @ escape_string (drop 2 cs)
      else escape_char c @ escape_string cs)"

definition show_string :: "string \<Rightarrow> string" where
  "show_string s = quote # escape_string s @ [quote]"

fun fixed_digits :: "nat \<Rightarrow> nat \<Rightarrow> string" where
  "fixed_digits 0 n = []"
| "fixed_digits (Suc k) n = fixed_digits k (n div 10) @ [digit_char (n mod 10)]"

definition show_num :: "int \<Rightarrow> nat \<Rightarrow> string" where
  "show_num m k =
     (let n = nat \<bar>m\<bar> in
      (if m < 0 then [CHR ''-''] else []) @ show_nat (n div 10 ^ k) @
      (if k = 0 then [] else CHR ''.'' # fixed_digits k (n mod 10 ^ k)))"

fun show_json :: "json \<Rightarrow> string"
  and show_elems :: "json list \<Rightarrow> string"
  and show_members :: "(string \<times> json) list \<Rightarrow> string" where
  "show_json JNull = ''null''"
| "show_json (JBool True) = ''true''"
| "show_json (JBool False) = ''false''"
| "show_json (JNum m k) = show_num m k"
| "show_json (JStr s) = show_string s"
| "show_json (JArr js) = CHR ''['' # show_elems js @ '']''"
| "show_json (JObj ms) = CHR ''{'' # show_members ms @ ''}''"
| "show_elems [] = []"
| "show_elems [j] = show_json j"
| "show_elems (j # j' # js) = show_json j @ CHR '','' # show_elems (j' # js)"
| "show_members [] = []"
| "show_members [(k, j)] = show_string k @ CHR '':'' # show_json j"
| "show_members ((k, j) # m # ms) = show_string k @ CHR '':'' # show_json j @ CHR '','' # show_members (m # ms)"

section \<open>Parsing\<close>

definition is_ws :: "char \<Rightarrow> bool" where
  "is_ws c \<longleftrightarrow> c = CHR '' '' \<or> c = CHR 0x09 \<or> c = CHR 0x0A \<or> c = CHR 0x0D"

definition skip_ws :: "string \<Rightarrow> string" where
  "skip_ws s = dropWhile is_ws s"

definition hex_val :: "char \<Rightarrow> nat option" where
  "hex_val c =
     (let n = of_char c in
      if 48 \<le> n \<and> n \<le> 57 then Some (n - 48)
      else if 97 \<le> n \<and> n \<le> 102 then Some (n - 87)
      else if 65 \<le> n \<and> n \<le> 70 then Some (n - 55)
      else None)"

fun hex4 :: "string \<Rightarrow> nat option" where
  "hex4 (a # b # c # d # r) =
     (case (hex_val a, hex_val b, hex_val c, hex_val d) of
        (Some x, Some y, Some z, Some w) \<Rightarrow> Some (4096 * x + 256 * y + 16 * z + w)
      | _ \<Rightarrow> None)"
| "hex4 _ = None"

text \<open>The UTF-8 bytes of a code point.\<close>

definition utf8 :: "nat \<Rightarrow> string" where
  "utf8 n =
     (if n < 128 then [char_of n]
      else if n < 2048 then [char_of (192 + n div 64), char_of (128 + n mod 64)]
      else if n < 65536 then
        [char_of (224 + n div 4096), char_of (128 + n div 64 mod 64), char_of (128 + n mod 64)]
      else [char_of (240 + n div 262144), char_of (128 + n div 4096 mod 64),
            char_of (128 + n div 64 mod 64), char_of (128 + n mod 64)])"

definition is_high :: "nat \<Rightarrow> bool" where "is_high n \<longleftrightarrow> 55296 \<le> n \<and> n < 56320"
definition is_low :: "nat \<Rightarrow> bool" where "is_low n \<longleftrightarrow> 56320 \<le> n \<and> n < 57344"

definition esc_char :: "char \<Rightarrow> char option" where
  "esc_char c =
     (if c = quote \<or> c = backslash \<or> c = CHR ''/'' then Some c
      else if c = CHR ''b'' then Some (CHR 0x08)
      else if c = CHR ''f'' then Some (CHR 0x0C)
      else if c = CHR ''n'' then Some (CHR 0x0A)
      else if c = CHR ''r'' then Some (CHR 0x0D)
      else if c = CHR ''t'' then Some (CHR 0x09)
      else None)"

definition prepend :: "string \<Rightarrow> (string \<times> string) option \<Rightarrow> (string \<times> string) option" where
  "prepend xs r = map_option (\<lambda>(s, t). (xs @ s, t)) r"

text \<open>
  The rest of a string after its opening quote. A surrogate pair is one code point; a lone
  surrogate is U+FFFD.
\<close>

function parse_str :: "string \<Rightarrow> (string \<times> string) option" where
  "parse_str s =
     (case s of
        [] \<Rightarrow> None
      | c # cs \<Rightarrow>
          if c = quote then Some ([], cs)
          else if c = backslash then
            (if cs = [] then None
             else if hd cs = CHR ''u'' then
               (case hex4 (tl cs) of
                  None \<Rightarrow> None
                | Some n \<Rightarrow>
                    if is_high n then
                      (case hex4 (drop 7 cs) of
                         Some m \<Rightarrow>
                           if take 2 (drop 5 cs) = [backslash, CHR ''u''] \<and> is_low m
                           then prepend (utf8 (65536 + (n - 55296) * 1024 + (m - 56320))) (parse_str (drop 11 cs))
                           else prepend (utf8 65533) (parse_str (drop 5 cs))
                       | None \<Rightarrow> prepend (utf8 65533) (parse_str (drop 5 cs)))
                    else if is_low n then prepend (utf8 65533) (parse_str (drop 5 cs))
                    else prepend (utf8 n) (parse_str (drop 5 cs)))
             else
               (case esc_char (hd cs) of
                  None \<Rightarrow> None
                | Some e \<Rightarrow> prepend [e] (parse_str (tl cs))))
          else if (of_char c :: nat) < 32 then None
          else prepend [c] (parse_str cs))"
  by pat_completeness auto
termination by (relation "measure length") auto

declare parse_str.simps [simp del]

text \<open>Numbers: no leading zeros, digits on both sides of the point, an optional exponent.\<close>

definition int_digits :: "string \<Rightarrow> string" where
  "int_digits s = (if s \<noteq> [] \<and> hd s = CHR ''0'' then ''0'' else takeWhile is_digit s)"

definition parse_frac :: "string \<Rightarrow> string option" where
  "parse_frac s =
     (if s \<noteq> [] \<and> hd s = CHR ''.'' then
        (let ds = takeWhile is_digit (tl s) in if ds = [] then None else Some ds)
      else Some [])"

definition parse_exp :: "string \<Rightarrow> (int \<times> string) option" where
  "parse_exp s =
     (if s \<noteq> [] \<and> (hd s = CHR ''e'' \<or> hd s = CHR ''E'') then
        (let t = tl s;
             neg = (t \<noteq> [] \<and> hd t = CHR ''-'');
             u = (if t \<noteq> [] \<and> (hd t = CHR ''-'' \<or> hd t = CHR ''+'') then tl t else t);
             ds = takeWhile is_digit u
         in if ds = [] then None
            else case digits_val 0 ds of
              None \<Rightarrow> None
            | Some e \<Rightarrow> Some (if neg then - int e else int e, drop (length ds) u))
      else Some (0, s))"

definition scale_num :: "int \<Rightarrow> nat \<Rightarrow> int \<Rightarrow> json" where
  "scale_num m k e =
     (if e \<le> int k then JNum m (nat (int k - e)) else JNum (m * 10 ^ nat (e - int k)) 0)"

definition parse_num :: "string \<Rightarrow> (json \<times> string) option" where
  "parse_num s =
     (let neg = (s \<noteq> [] \<and> hd s = CHR ''-'');
          s1 = (if neg then tl s else s);
          is = int_digits s1;
          s2 = drop (length is) s1
      in if is = [] then None
         else case parse_frac s2 of
           None \<Rightarrow> None
         | Some fs \<Rightarrow>
             (let s3 = (if fs = [] then s2 else drop (Suc (length fs)) s2) in
              case parse_exp s3 of
                None \<Rightarrow> None
              | Some (e, r) \<Rightarrow>
                  (case digits_val 0 (is @ fs) of
                     None \<Rightarrow> None
                   | Some n \<Rightarrow> Some (scale_num (if neg then - int n else int n) (length fs) e, r))))"

definition literal :: "string \<Rightarrow> json \<Rightarrow> string \<Rightarrow> (json \<times> string) option" where
  "literal w j s = (if take (length w) s = w then Some (j, drop (length w) s) else None)"

fun parse_value :: "nat \<Rightarrow> string \<Rightarrow> (json \<times> string) option"
  and parse_elems :: "nat \<Rightarrow> string \<Rightarrow> (json list \<times> string) option"
  and parse_members :: "nat \<Rightarrow> string \<Rightarrow> ((string \<times> json) list \<times> string) option" where
  "parse_value 0 s = None"
| "parse_value (Suc f) s =
     (case skip_ws s of
        [] \<Rightarrow> None
      | c # cs \<Rightarrow>
          if c = CHR ''['' then
            (case skip_ws cs of
               [] \<Rightarrow> None
             | d # ds \<Rightarrow> if d = CHR '']'' then Some (JArr [], ds)
                        else map_option (\<lambda>(js, r). (JArr js, r)) (parse_elems f (d # ds)))
          else if c = CHR ''{'' then
            (case skip_ws cs of
               [] \<Rightarrow> None
             | d # ds \<Rightarrow> if d = CHR ''}'' then Some (JObj [], ds)
                        else map_option (\<lambda>(ms, r). (JObj ms, r)) (parse_members f (d # ds)))
          else if c = quote then map_option (\<lambda>(x, r). (JStr x, r)) (parse_str cs)
          else if c = CHR ''t'' then literal ''true'' (JBool True) (c # cs)
          else if c = CHR ''f'' then literal ''false'' (JBool False) (c # cs)
          else if c = CHR ''n'' then literal ''null'' JNull (c # cs)
          else parse_num (c # cs))"
| "parse_elems 0 s = None"
| "parse_elems (Suc f) s =
     (case parse_value f s of
        None \<Rightarrow> None
      | Some (j, r) \<Rightarrow>
          (case skip_ws r of
             [] \<Rightarrow> None
           | d # ds \<Rightarrow>
               if d = CHR '','' then map_option (\<lambda>(js, r'). (j # js, r')) (parse_elems f ds)
               else if d = CHR '']'' then Some ([j], ds) else None))"
| "parse_members 0 s = None"
| "parse_members (Suc f) s =
     (case skip_ws s of
        [] \<Rightarrow> None
      | q # qs \<Rightarrow>
          if q \<noteq> quote then None
          else case parse_str qs of
            None \<Rightarrow> None
          | Some (k, r) \<Rightarrow>
              (case skip_ws r of
                 [] \<Rightarrow> None
               | e # es \<Rightarrow>
                   if e \<noteq> CHR '':'' then None
                   else case parse_value f es of
                     None \<Rightarrow> None
                   | Some (j, r') \<Rightarrow>
                       (case skip_ws r' of
                          [] \<Rightarrow> None
                        | d # ds \<Rightarrow>
                            if d = CHR '','' then map_option (\<lambda>(ms, t). ((k, j) # ms, t)) (parse_members f ds)
                            else if d = CHR ''}'' then Some ([(k, j)], ds) else None)))"

text \<open>A whole text: one value and nothing but white space after it.\<close>

definition parse_json :: "string \<Rightarrow> json option" where
  "parse_json s =
     (case parse_value (Suc (length s)) s of
        None \<Rightarrow> None
      | Some (j, r) \<Rightarrow> if skip_ws r = [] then Some j else None)"

section \<open>Strings\<close>

lemma hex_val_digit: "d < 16 \<Longrightarrow> hex_val (hex_digit d) = Some d"
  by (auto simp: hex_val_def hex_digit_def Let_def)

lemma hex4_escape: "n < 65536 \<Longrightarrow> hex4 (drop 2 (unicode_escape n) @ r) = Some n"
proof -
  assume "n < 65536"
  define a b c where "a = n div 16" "b = a div 16" "c = b div 16"
  note abc = this
  have q: "n div 256 = b" "n div 4096 = c" by (simp_all add: abc flip: div_mult2_eq)
  have "c < 16" using \<open>n < 65536\<close> by (simp add: abc flip: div_mult2_eq)
  moreover have "n = 16 * a + n mod 16" "a = 16 * b + a mod 16" "b = 16 * c + b mod 16"
    unfolding abc by simp_all
  ultimately have "4096 * (c mod 16) + 256 * (b mod 16) + 16 * (a mod 16) + n mod 16 = n" by simp
  then have "4096 * (n div 4096 mod 16) + 256 * (n div 256 mod 16) + 16 * (n div 16 mod 16) + n mod 16 = n"
    by (simp add: q abc(1))
  moreover have "n div 4096 mod 16 = n div 4096" using \<open>c < 16\<close> q(2) by simp
  moreover have "hex_val (hex_digit (n div 4096)) = Some (n div 4096)"
    using \<open>c < 16\<close> q(2) by (simp add: hex_val_digit)
  ultimately show ?thesis by (simp add: unicode_escape_def hex_val_digit)
qed

lemma prepend_Some [simp]: "prepend xs (Some (s, t)) = Some (xs @ s, t)"
  by (simp add: prepend_def)

lemma parse_str_quote: "parse_str (quote # r) = Some ([], r)"
  by (subst parse_str.simps) simp

lemma parse_str_unicode:
  assumes "n < 55296"
  shows "parse_str (unicode_escape n @ r) = prepend (utf8 n) (parse_str r)"
proof -
  have "hex4 (drop 2 (unicode_escape n) @ r) = Some n" using assms by (simp add: hex4_escape)
  moreover have "unicode_escape n = backslash # CHR ''u'' # drop 2 (unicode_escape n)"
    "length (drop 2 (unicode_escape n)) = 4" by (simp_all add: unicode_escape_def)
  moreover have "\<not> is_high n" "\<not> is_low n" using assms by (simp_all add: is_high_def is_low_def)
  ultimately show ?thesis
    by (subst parse_str.simps) (simp add: unicode_escape_def)
qed

lemma parse_str_simple_escape:
  "esc_char e = Some c \<Longrightarrow> e \<noteq> CHR ''u'' \<Longrightarrow> parse_str (backslash # e # r) = prepend [c] (parse_str r)"
  by (subst parse_str.simps) simp

lemma parse_str_char:
  "c \<noteq> quote \<Longrightarrow> c \<noteq> backslash \<Longrightarrow> \<not> (of_char c :: nat) < 32 \<Longrightarrow> parse_str (c # r) = prepend [c] (parse_str r)"
  by (subst parse_str.simps) simp

lemma parse_escape_char: "parse_str (escape_char c @ r) = prepend [c] (parse_str r)"
proof -
  have u: "parse_str (unicode_escape (of_char c) @ r) = prepend [c] (parse_str r)" if "(of_char c :: nat) < 128"
    using that parse_str_unicode [of "of_char c" r] by (simp add: utf8_def)
  have "(of_char c :: nat) < 32 \<Longrightarrow> (of_char c :: nat) < 128" by simp
  then show ?thesis
    using u parse_str_char [of c r]
    by (auto simp: escape_char_def parse_str_simple_escape esc_char_def)
qed

lemma utf8_separators: "utf8 8232 = [CHR 0xE2, CHR 0x80, CHR 0xA8]" "utf8 8233 = [CHR 0xE2, CHR 0x80, CHR 0xA9]"
  by (simp_all add: utf8_def char_of_def bit_0)

lemma parse_escape_string: "parse_str (escape_string s @ quote # r) = Some (s, r)"
proof (induction s rule: escape_string.induct)
  case 1
  then show ?case by (simp add: parse_str_quote)
next
  case (2 c cs)
  have tk: "cs = take 2 cs @ drop 2 cs" by simp
  consider (a) "c = CHR 0xE2" "take 2 cs = [CHR 0x80, CHR 0xA8]"
    | (b) "c = CHR 0xE2" "take 2 cs = [CHR 0x80, CHR 0xA9]" "take 2 cs \<noteq> [CHR 0x80, CHR 0xA8]"
    | (c) "\<not> (c = CHR 0xE2 \<and> take 2 cs = [CHR 0x80, CHR 0xA8])" "\<not> (c = CHR 0xE2 \<and> take 2 cs = [CHR 0x80, CHR 0xA9])"
    by fastforce
  then show ?case
  proof cases
    case a
    with 2(1) tk show ?thesis
      by (simp add: parse_str_unicode utf8_separators)
  next
    case b
    with 2(2) tk show ?thesis
      by (simp add: parse_str_unicode utf8_separators)
  next
    case c
    with 2(3) show ?thesis by (auto simp: parse_escape_char)
  qed
qed

section \<open>Numbers\<close>

lemma fixed_digits_length [simp]: "length (fixed_digits k n) = k"
  by (induction k arbitrary: n) simp_all

lemma fixed_digits_digits: "c \<in> set (fixed_digits k n) \<Longrightarrow> is_digit c"
  by (induction k arbitrary: n) (auto simp: digit_char_digit)

lemma digits_val_fixed: "digits_val acc (fixed_digits k n) = Some (acc * 10 ^ k + n mod 10 ^ k)"
proof (induction k arbitrary: n)
  case 0
  then show ?case by simp
next
  case (Suc k)
  have "n mod 10 ^ Suc k = 10 * (n div 10 mod 10 ^ k) + n mod 10"
    using mod_mult2_eq [of n 10 "10 ^ k"] by simp
  then show ?case using Suc by (simp add: digits_val_append digit_char_digit algebra_simps)
qed

lemma show_nat_zero: "hd (show_nat n) = CHR ''0'' \<Longrightarrow> n = 0"
proof (induction n rule: show_nat.induct)
  case (1 n)
  show ?case
  proof (cases "n < 10")
    case True
    then have "digit_char n = CHR ''0''" using 1(2) by (simp add: show_nat.simps)
    then have "digit_val (digit_char n) = 0" by (simp add: digit_val_def)
    with True digit_char_digit show ?thesis by metis
  next
    case False
    then have "hd (show_nat (n div 10)) = CHR ''0''" using 1(2) by (subst (asm) show_nat.simps) simp
    with 1(1) [OF False] have "n div 10 = 0" by blast
    with False show ?thesis by simp
  qed
qed

lemma takeWhile_digits:
  assumes "\<And>c. c \<in> set ds \<Longrightarrow> is_digit c" "r = [] \<or> \<not> is_digit (hd r)"
  shows "takeWhile is_digit (ds @ r) = ds"
  using assms by (cases r) (auto simp: takeWhile_append)

lemma int_digits_show:
  assumes "r = [] \<or> \<not> is_digit (hd r)"
  shows "int_digits (show_nat n @ r) = show_nat n"
proof (cases "hd (show_nat n) = CHR ''0''")
  case True
  then have "n = 0" by (rule show_nat_zero)
  moreover have "show_nat 0 = ''0''" by code_simp
  ultimately show ?thesis by (simp add: int_digits_def)
next
  case False
  then show ?thesis
    using takeWhile_digits [of "show_nat n" r] assms show_nat_digits by (auto simp: int_digits_def)
qed

text \<open>What may follow a number.\<close>

definition ends :: "string \<Rightarrow> bool" where
  "ends r \<longleftrightarrow> r = [] \<or> hd r = CHR '','' \<or> hd r = CHR '']'' \<or> hd r = CHR ''}''"

lemma ends_facts:
  assumes "ends r"
  shows "r = [] \<or> \<not> is_digit (hd r)" "\<not> (r \<noteq> [] \<and> hd r = CHR ''.'')" "parse_exp r = Some (0, r)"
  using assms by (auto simp: ends_def is_digit_def parse_exp_def)

lemma parse_show_num:
  assumes "ends r"
  shows "parse_num (show_num m k @ r) = Some (JNum m k, r)"
proof -
  let ?n = "nat \<bar>m\<bar>"
  let ?i = "show_nat (?n div 10 ^ k)" and ?f = "if k = 0 then [] else fixed_digits k (?n mod 10 ^ k)"
  let ?t = "(if k = 0 then [] else CHR ''.'' # fixed_digits k (?n mod 10 ^ k)) @ r"
  note e = ends_facts [OF assms]
  have t: "?t = [] \<or> \<not> is_digit (hd ?t)" using e(1) by (cases "k = 0") (auto simp: is_digit_def)
  have i: "int_digits (?i @ ?t) = ?i" using t by (rule int_digits_show)
  have fr: "parse_frac ?t = Some ?f"
  proof (cases "k = 0")
    case True
    then show ?thesis using e(2) by (auto simp: parse_frac_def)
  next
    case False
    then have "takeWhile is_digit (fixed_digits k (?n mod 10 ^ k) @ r) = fixed_digits k (?n mod 10 ^ k)"
      "fixed_digits k (?n mod 10 ^ k) \<noteq> []"
      using takeWhile_digits [OF fixed_digits_digits e(1)] by (simp, cases k, simp_all)
    with False show ?thesis by (simp add: parse_frac_def Let_def)
  qed
  have rest: "(if ?f = [] then ?t else drop (Suc (length ?f)) ?t) = r" by (cases k) auto
  have v: "digits_val 0 (?i @ ?f) = Some ?n"
    using digits_val_fixed [of "?n div 10 ^ k" k "?n mod 10 ^ k"]
    by (auto simp: digits_val_append digits_val_show_nat div_mult_mod_eq)
  have hd: "hd ?i \<noteq> CHR ''-''" "?i \<noteq> []" using show_nat_no_sign by simp_all
  have s: "show_num m k @ r = (if m < 0 then [CHR ''-''] else []) @ ?i @ ?t"
    by (auto simp: show_num_def Let_def)
  have len: "length ?f = k" by simp
  show ?thesis
    unfolding s parse_num_def
    using i fr rest v hd hd(2) [symmetric] len e(3) by (auto simp: Let_def scale_num_def split: if_splits)
qed

section \<open>Values\<close>

lemma show_string_hd: "hd (show_string s) = quote" "show_string s \<noteq> []"
  by (simp_all add: show_string_def)

lemma show_num_hd: "\<exists>c cs. show_num m k = c # cs \<and> (c = CHR ''-'' \<or> is_digit c)"
proof -
  obtain c cs where "show_nat (nat \<bar>m\<bar> div 10 ^ k) = c # cs" by (cases "show_nat (nat \<bar>m\<bar> div 10 ^ k)") auto
  moreover from this have "is_digit c" using show_nat_digits by (metis list.set_intros(1))
  ultimately show ?thesis by (auto simp: show_num_def Let_def)
qed

lemma show_json_hd: "\<exists>c cs. show_json j = c # cs \<and> \<not> is_ws c \<and> c \<noteq> CHR '']''"
proof (cases j)
  case (JNum m k)
  then show ?thesis using show_num_hd [of m k] by (auto simp: is_ws_def is_digit_def)
next
  case (JBool b)
  then show ?thesis by (cases b) (auto simp: is_ws_def)
qed (auto simp: is_ws_def show_string_def)

lemma skip_ws_json: "skip_ws (show_json j @ r) = show_json j @ r"
  using show_json_hd [of j] by (auto simp: skip_ws_def)

lemma skip_ws_nonws: "\<not> is_ws c \<Longrightarrow> skip_ws (c # r) = c # r"
  by (simp add: skip_ws_def)

lemma not_ws [simp]: "\<not> is_ws (CHR '','')" "\<not> is_ws (CHR '']'')" "\<not> is_ws (CHR ''}'')" "\<not> is_ws (CHR '':'')"
  "\<not> is_ws (CHR ''['')" "\<not> is_ws (CHR ''{'')" "\<not> is_ws quote"
  by (simp_all add: is_ws_def)

lemma show_elems_hd: "js \<noteq> [] \<Longrightarrow> \<exists>c cs. show_elems js = c # cs \<and> \<not> is_ws c \<and> c \<noteq> CHR '']''"
proof -
  assume "js \<noteq> []"
  then obtain j js' where js: "js = j # js'" by (cases js) auto
  obtain t where "show_elems js = show_json j @ t" by (cases js') (simp_all add: js)
  with show_json_hd [of j] show ?thesis by auto
qed

lemma parse_value_JStr: "parse_value (Suc f) (show_string x @ r) = Some (JStr x, r)"
  by (simp add: show_string_def skip_ws_nonws parse_escape_string)

lemma parse_value_JNum: "ends r \<Longrightarrow> parse_value (Suc f) (show_num m k @ r) = Some (JNum m k, r)"
proof -
  assume e: "ends r"
  obtain c cs where c: "show_num m k = c # cs" "c = CHR ''-'' \<or> is_digit c" using show_num_hd by blast
  then have "\<not> is_ws c" "c \<noteq> CHR ''[''" "c \<noteq> CHR ''{''" "c \<noteq> quote" "c \<noteq> CHR ''t''" "c \<noteq> CHR ''f''" "c \<noteq> CHR ''n''"
    by (auto simp: is_ws_def is_digit_def)
  then show ?thesis using parse_show_num [OF e, of m k] by (simp add: c(1) skip_ws_nonws)
qed

text \<open>The parser reads back what was printed, given fuel for its length.\<close>

lemma parse_show:
  "length (show_json j) \<le> f \<Longrightarrow> ends r \<Longrightarrow> parse_value f (show_json j @ r) = Some (j, r)"
  "js \<noteq> [] \<Longrightarrow> Suc (length (show_elems js)) \<le> f \<Longrightarrow>
     parse_elems f (show_elems js @ CHR '']'' # r) = Some (js, r)"
  "ms \<noteq> [] \<Longrightarrow> Suc (length (show_members ms)) \<le> f \<Longrightarrow>
     parse_members f (show_members ms @ CHR ''}'' # r) = Some (ms, r)"
proof (induction j and js and ms arbitrary: f r and f r and f r rule: show_json_show_elems_show_members.induct)
  case 1
  then show ?case by (cases f) (auto simp: skip_ws_nonws is_ws_def literal_def)
next
  case 2
  then show ?case by (cases f) (auto simp: skip_ws_nonws is_ws_def literal_def)
next
  case 3
  then show ?case by (cases f) (auto simp: skip_ws_nonws is_ws_def literal_def)
next
  case (4 m k)
  then obtain f' where "f = Suc f'" using show_num_hd [of m k] by (cases f) auto
  with 4 show ?case by (simp only: show_json.simps parse_value_JNum)
next
  case (5 s)
  then obtain f' where "f = Suc f'" by (cases f) (auto simp: show_string_def)
  then show ?case by (simp only: show_json.simps parse_value_JStr)
next
  case (6 js)
  then obtain f' where f: "f = Suc f'" "Suc (length (show_elems js)) \<le> f'" by (cases f) auto
  show ?case
  proof (cases "js = []")
    case True
    then show ?thesis by (simp add: f skip_ws_nonws)
  next
    case False
    then obtain c cs where c: "show_elems js = c # cs" "\<not> is_ws c" "c \<noteq> CHR '']''" using show_elems_hd by blast
    with 6(1) [OF False f(2), of r] show ?thesis by (simp add: f skip_ws_nonws)
  qed
next
  case (7 ms)
  then obtain f' where f: "f = Suc f'" "Suc (length (show_members ms)) \<le> f'" by (cases f) auto
  show ?case
  proof (cases "ms = []")
    case True
    then show ?thesis by (simp add: f skip_ws_nonws)
  next
    case False
    then obtain t where "show_members ms = quote # t"
      by (cases ms rule: show_members.cases) (auto simp: show_string_def)
    with 7(1) [OF False f(2), of r] show ?thesis by (simp add: f skip_ws_nonws)
  qed
next
  case 8
  then show ?case by simp
next
  case (9 j)
  then obtain f' where f: "f = Suc f'" "length (show_json j) \<le> f'" by (cases f) auto
  have "ends (CHR '']'' # r)" by (simp add: ends_def)
  from 9(1) [OF f(2) this] show ?case by (simp add: f skip_ws_nonws)
next
  case (10 j j' js)
  let ?t = "show_elems (j' # js) @ CHR '']'' # r"
  from 10(4) obtain f' where f: "f = Suc f'" "length (show_json j) \<le> f'" "Suc (length (show_elems (j' # js))) \<le> f'"
    by (cases f) auto
  have "ends (CHR '','' # ?t)" by (simp add: ends_def)
  from 10(1) [OF f(2) this] 10(2) [OF _ f(3), of r] show ?case by (simp add: f(1) skip_ws_nonws)
next
  case 11
  then show ?case by simp
next
  case (12 k j)
  then obtain f' where f: "f = Suc f'" "length (show_json j) \<le> f'" by (cases f) auto
  have "ends (CHR ''}'' # r)" by (simp add: ends_def)
  from 12(1) [OF f(2) this] show ?case by (simp add: f show_string_def skip_ws_nonws parse_escape_string)
next
  case (13 k j m ms)
  let ?t = "show_members (m # ms) @ CHR ''}'' # r"
  from 13(4) obtain f' where f: "f = Suc f'" "length (show_json j) \<le> f'" "Suc (length (show_members (m # ms))) \<le> f'"
    by (cases f) auto
  have "ends (CHR '','' # ?t)" by (simp add: ends_def)
  from 13(1) [OF f(2) this] 13(2) [OF _ f(3), of r] show ?case
    by (simp add: f(1) show_string_def skip_ws_nonws parse_escape_string)
qed

lemma parse_json_show: "parse_json (show_json j) = Some j"
  using parse_show(1) [of j "Suc (length (show_json j))" "[]"] by (simp add: parse_json_def ends_def skip_ws_def)

section \<open>No line breaks\<close>

definition printable :: "string \<Rightarrow> bool" where
  "printable s \<longleftrightarrow> (\<forall>c \<in> set s. \<not> (of_char c :: nat) < 32)"

lemma printable_append [simp]: "printable (s @ t) \<longleftrightarrow> printable s \<and> printable t"
  by (auto simp: printable_def)

lemma printable_Cons [simp]: "printable (c # t) \<longleftrightarrow> \<not> (of_char c :: nat) < 32 \<and> printable t"
  by (auto simp: printable_def)

lemma printable_Nil [simp]: "printable []"
  by (simp add: printable_def)

lemma printable_digits: "(\<And>c. c \<in> set s \<Longrightarrow> is_digit c) \<Longrightarrow> printable s"
  by (fastforce simp: printable_def is_digit_def)

lemma printable_hex: "d < 16 \<Longrightarrow> \<not> (of_char (hex_digit d) :: nat) < 32"
  by (auto simp: hex_digit_def)

lemma printable_escape: "printable (escape_string s)"
proof (induction s rule: escape_string.induct)
  case (2 c cs)
  have u: "printable (unicode_escape n)" for n by (simp add: unicode_escape_def printable_hex)
  have "printable (escape_char c)" by (auto simp: escape_char_def u)
  with 2 u show ?case by simp
qed simp

lemma printable_num: "printable (show_num m k)"
  by (auto simp: show_num_def Let_def intro: printable_digits show_nat_digits fixed_digits_digits)

lemma printable_json: "printable (show_json j)" "printable (show_elems js)" "printable (show_members ms)"
  by (induction j and js and ms rule: show_json_show_elems_show_members.induct)
    (simp_all add: show_string_def printable_escape printable_num)

end
