(* ===== verification/Transport.thy ===== *)
theory Transport
  imports Protocol
begin

text \<open>
  The interface of one direction of a transport, as the server and the client rely on it: a
  link that hands over every message it was given, once, in the order given. The sender's
  end and the receiver's end meet in the stream between them.
\<close>

locale message_link =
  fixes fresh :: "'w"
    and send :: "'m \<Rightarrow> 'w \<Rightarrow> 'w"
    and received :: "'w \<Rightarrow> 'd list"
    and fits :: "'m \<Rightarrow> bool"
    and view :: "'m \<Rightarrow> 'd"
    and wf :: "'w \<Rightarrow> bool"
  assumes wf_fresh: "wf fresh"
    and wf_send: "wf w \<Longrightarrow> fits m \<Longrightarrow> wf (send m w)"
    and received_fresh: "received fresh = []"
    and received_send: "wf w \<Longrightarrow> fits m \<Longrightarrow> received (send m w) = received w @ [view m]"
begin

lemma received_sends:
  assumes "wf w" "list_all fits ms"
  shows "received (fold send ms w) = received w @ map view ms" "wf (fold send ms w)"
  using assms by (induction ms arbitrary: w) (simp_all add: received_send wf_send)

lemma link_is_queue:
  assumes "list_all fits ms"
  shows "received (fold send ms fresh) = map view ms"
  using received_sends(1) [OF wf_fresh assms] by (simp add: received_fresh)

text \<open>What was received is never taken back and never reordered.\<close>

lemma link_monotone:
  assumes "list_all fits ms" "list_all fits ms'"
  shows "\<exists>ds. received (fold send (ms @ ms') fresh) = received (fold send ms fresh) @ ds \<and> length ds = length ms'"
  using link_is_queue [OF assms(1)] link_is_queue [of "ms @ ms'"] assms by (auto simp del: fold_append)

end

end
