(* ===== verification/StdIO.thy ===== *)
theory StdIO
  imports JsonText Transport
begin

text \<open>
  The standard input/output transport (\<^verbatim>\<open>src/pkg/mcp/stdio.go\<close>): messages framed as lines of JSON.
  \<^verbatim>\<open>Send\<close> appends a line to what was written; \<^verbatim>\<open>Start\<close> reads lines with \<^verbatim>\<open>bufio.Scanner\<close> and hands every
  message to the one that reads \<^verbatim>\<open>SessionMessages\<close>, waiting for its answer before the next line.
  Whether \<^verbatim>\<open>closeChan\<close> is closed when an iteration looks at it, what the reader of the message
  answers, how a write ends and which arm of a \<^verbatim>\<open>select\<close> wins are arguments.
\<close>

section \<open>bufio.Scanner\<close>

abbreviation nl :: char where "nl \<equiv> CHR 0x0A"

definition maxScanTokenSize :: nat where "maxScanTokenSize = 65536"

definition errTooLong :: go_error where "errTooLong = ErrNew ''bufio.Scanner: token too long''"

definition dropCR :: "string \<Rightarrow> string" where
  "dropCR s = (if s \<noteq> [] \<and> last s = CHR 0x0D then butlast s else s)"

text \<open>
  The lines of an input, and whether the scanner gave up on a line that does not fit its buffer
  (of the line and its newline at most \<^verbatim>\<open>maxScanTokenSize\<close> bytes fit).
\<close>

function scan_lines :: "string \<Rightarrow> string list \<times> bool" where
  "scan_lines s =
     (if s = [] then ([], False)
      else
        let line = takeWhile (\<lambda>c. c \<noteq> nl) s in
        if maxScanTokenSize \<le> length line then ([], True)
        else case scan_lines (tl (dropWhile (\<lambda>c. c \<noteq> nl) s)) of
          (ls, long) \<Rightarrow> (dropCR line # ls, long))"
  by pat_completeness auto
termination
proof (relation "measure length")
  fix s :: string
  assume "s \<noteq> []"
  moreover have "length (tl (dropWhile (\<lambda>c. c \<noteq> nl) s)) \<le> length s - 1"
    using length_dropWhile_le [of "\<lambda>c. c \<noteq> nl" s] by simp
  ultimately show "(tl (dropWhile (\<lambda>c. c \<noteq> nl) s), s) \<in> measure length" by (cases s) auto
qed simp

declare scan_lines.simps [simp del]

section \<open>The transport\<close>

definition errSyntax :: go_error where "errSyntax = ErrNew ''invalid JSON text''"

definition unmarshal_text :: "string \<Rightarrow> JSONRPCMessage res" where
  "unmarshal_text line =
     (case parse_json line of
        None \<Rightarrow> Inl errSyntax
      | Some j \<Rightarrow> unmarshal dec_JSONRPCMessage JSONRPCMessage_zero (Some j))"

definition stdioSession :: string where "stdioSession = ''1''"

text \<open>What \<^verbatim>\<open>Start\<close> handed over, what it gave to \<^verbatim>\<open>logError\<close>, and whether it read to the end.\<close>

record start_run =
  sn_delivered :: "SessionMsg list"
  sn_errors :: "go_error list"
  sn_finished :: bool

definition sn_log :: "go_error \<Rightarrow> start_run \<Rightarrow> start_run" where
  "sn_log e r = r\<lparr>sn_errors := e # sn_errors r\<rparr>"

definition sn_deliver :: "JSONRPCMessage \<Rightarrow> start_run \<Rightarrow> start_run" where
  "sn_deliver m r = r\<lparr>sn_delivered := \<lparr>sm_sessionID = stdioSession, sm_msg = m\<rparr> # sn_delivered r\<rparr>"

fun Start_loop :: "(nat \<Rightarrow> bool) \<Rightarrow> (nat \<Rightarrow> go_error option) \<Rightarrow> nat \<Rightarrow> string list \<Rightarrow> start_run" where
  "Start_loop closed reply i [] = \<lparr>sn_delivered = [], sn_errors = [], sn_finished = True\<rparr>"
| "Start_loop closed reply i (line # ls) =
     (if closed i then \<lparr>sn_delivered = [], sn_errors = [], sn_finished = False\<rparr>
      else
        let rest = Start_loop closed reply (Suc i) ls in
        if line = [] then rest
        else case unmarshal_text line of
          Inl e \<Rightarrow> sn_log (ErrWrap ''failed to unmarshal message: %w'' [e]) rest
        | Inr msg \<Rightarrow>
            sn_deliver msg
              (case reply i of
                 None \<Rightarrow> rest
               | Some e \<Rightarrow> sn_log (ErrWrap ''failed to handle message: %w'' [e]) rest))"

definition StdIO_Start ::
    "(nat \<Rightarrow> bool) \<Rightarrow> (nat \<Rightarrow> go_error option) \<Rightarrow> go_error option \<Rightarrow> string \<Rightarrow> start_run" where
  "StdIO_Start closed reply readErr input =
     (let (ls, long) = scan_lines input;
          run = Start_loop closed reply 0 ls;
          err = (if long then Some errTooLong else readErr)
      in if \<not> sn_finished run then run
         else case err of
           None \<Rightarrow> run
         | Some e \<Rightarrow> run\<lparr>sn_errors := sn_errors run @ [ErrWrap ''failed to read messages: %w'' [e]]\<rparr>)"

text \<open>
  \<^verbatim>\<open>Send\<close>: the write runs in its own goroutine; if the context ends first its error is returned,
  and the write goes on. \<open>w\<close> is the error of the write and how much of the line it wrote.
\<close>

definition frame :: "JSONRPCMessage \<Rightarrow> string" where
  "frame msg = show_json (enc_JSONRPCMessage msg) @ [nl]"

definition StdIO_Send ::
    "JSONRPCMessage \<Rightarrow> (go_error \<times> nat) option \<Rightarrow> go_error option \<Rightarrow> string \<Rightarrow> go_error option \<times> string" where
  "StdIO_Send msg w ctxDone written =
     (let written' = written @ (case w of None \<Rightarrow> frame msg | Some (e, n) \<Rightarrow> take n (frame msg));
          result = (case w of None \<Rightarrow> None | Some (e, n) \<Rightarrow> Some (ErrWrap ''failed to write message: %w'' [e]))
      in case ctxDone of
           Some e \<Rightarrow> (Some e, written')
         | None \<Rightarrow> (result, written'))"

text \<open>\<^verbatim>\<open>Close\<close>: whether \<^verbatim>\<open>closeChan\<close> is closed; closing it again panics (\<open>None\<close>).\<close>

definition StdIO_Close :: "bool \<Rightarrow> bool option" where
  "StdIO_Close closed = (if closed then None else Some True)"

definition StdIO_Sessions :: "string list" where "StdIO_Sessions = [stdioSession]"

definition StdIO_StartSession :: "string res" where "StdIO_StartSession = Inr stdioSession"

section \<open>Lines\<close>

lemma scan_lines_Nil [simp]: "scan_lines [] = ([], False)"
  by (simp add: scan_lines.simps)

lemma scan_lines_line:
  assumes "nl \<notin> set l" "length l < maxScanTokenSize"
  shows "scan_lines (l @ nl # s) = (dropCR l # fst (scan_lines s), snd (scan_lines s))"
proof -
  have "takeWhile (\<lambda>c. c \<noteq> nl) (l @ nl # s) = l" "dropWhile (\<lambda>c. c \<noteq> nl) (l @ nl # s) = nl # s"
    using assms(1) by (auto simp: takeWhile_append dropWhile_append)
  then show ?thesis using assms(2) by (subst scan_lines.simps) (simp add: Let_def split: prod.split)
qed

text \<open>A complete stream: nothing, or lines that fit, each with its newline.\<close>

inductive complete :: "string \<Rightarrow> bool" where
  complete_Nil: "complete []"
| complete_line: "nl \<notin> set l \<Longrightarrow> length l < maxScanTokenSize \<Longrightarrow> complete s \<Longrightarrow> complete (l @ nl # s)"

lemma complete_append: "complete s \<Longrightarrow> complete t \<Longrightarrow> complete (s @ t)"
proof (induction rule: complete.induct)
  case (complete_line l s)
  then show ?case using complete.complete_line [of l "s @ t"] by simp
qed simp

lemma scan_lines_append:
  "complete s \<Longrightarrow> scan_lines (s @ t) = (fst (scan_lines s) @ fst (scan_lines t), snd (scan_lines t))"
proof (induction rule: complete.induct)
  case complete_Nil
  then show ?case by simp
next
  case (complete_line l s)
  then show ?case by (simp add: scan_lines_line)
qed

lemma scan_lines_complete: "complete s \<Longrightarrow> snd (scan_lines s) = False"
  using scan_lines_append [of s "[]"] by (metis append_Nil2 scan_lines_Nil snd_conv)

text \<open>A line that does not fit ends the scan.\<close>

lemma scan_lines_long:
  assumes "nl \<notin> set l" "maxScanTokenSize \<le> length l"
  shows "scan_lines (l @ s) = ([], True)"
proof -
  have "l @ s \<noteq> []" using assms(2) by (auto simp: maxScanTokenSize_def)
  have "takeWhile (\<lambda>c. c \<noteq> nl) (l @ s) = l @ takeWhile (\<lambda>c. c \<noteq> nl) s"
    using assms(1) by (auto simp: takeWhile_append)
  then show ?thesis using assms(2) \<open>l @ s \<noteq> []\<close> by (subst scan_lines.simps) (simp add: Let_def)
qed

section \<open>The loop\<close>

lemma Start_loop_append:
  assumes "\<And>i. \<not> closed i"
  shows "sn_delivered (Start_loop closed reply i (ls @ ls')) =
      sn_delivered (Start_loop closed reply i ls) @ sn_delivered (Start_loop closed reply (i + length ls) ls')"
    "sn_finished (Start_loop closed reply i ls)"
  using assms
  by (induction ls arbitrary: i)
    (auto simp: sn_log_def sn_deliver_def Let_def split: sum.splits option.splits)

section \<open>The link\<close>

lemma frame_line: "nl \<notin> set (show_json (enc_JSONRPCMessage m))" "dropCR (show_json (enc_JSONRPCMessage m)) = show_json (enc_JSONRPCMessage m)"
proof -
  let ?s = "show_json (enc_JSONRPCMessage m)"
  have p: "\<not> (of_char c :: nat) < 32" if "c \<in> set ?s" for c
    using printable_json(1) [of "enc_JSONRPCMessage m"] that by (auto simp: printable_def)
  show "nl \<notin> set ?s" using p [of nl] by auto
  show "dropCR ?s = ?s" using p [OF last_in_set] by (auto simp: dropCR_def)
qed

lemma unmarshal_frame: "msg_ok m \<Longrightarrow> unmarshal_text (show_json (enc_JSONRPCMessage m)) = Inr (wire_msg m)"
  by (simp add: unmarshal_text_def parse_json_show unmarshal_def dec_enc_JSONRPCMessage)

lemma frame_not_empty: "show_json (enc_JSONRPCMessage m) \<noteq> []"
  using show_json_hd [of "enc_JSONRPCMessage m"] by auto

text \<open>A message a line can carry.\<close>

definition line_fits :: "JSONRPCMessage \<Rightarrow> bool" where
  "line_fits m \<longleftrightarrow> msg_ok m \<and> length (frame m) \<le> maxScanTokenSize"

lemma frame_complete: "line_fits m \<Longrightarrow> complete (frame m)"
  using complete_line [OF frame_line(1) _ complete_Nil] by (simp add: line_fits_def frame_def)

lemma scan_frame: "line_fits m \<Longrightarrow> scan_lines (frame m @ s) = (show_json (enc_JSONRPCMessage m) # fst (scan_lines s), snd (scan_lines s))"
  by (simp add: frame_def line_fits_def scan_lines_line frame_line)

lemma Start_delivered:
  assumes "\<And>i. \<not> closed i"
  shows "sn_delivered (StdIO_Start closed reply readErr input) =
    sn_delivered (Start_loop closed reply 0 (fst (scan_lines input)))"
  using Start_loop_append(2) [where closed = closed, OF assms]
  by (auto simp: StdIO_Start_def Let_def split: prod.split option.split)

lemma Start_append_frame:
  assumes "\<And>i. \<not> closed i" "complete s" "line_fits m"
  shows "sn_delivered (StdIO_Start closed reply e (s @ frame m)) =
    sn_delivered (StdIO_Start closed reply e s) @ [\<lparr>sm_sessionID = stdioSession, sm_msg = wire_msg m\<rparr>]"
proof -
  have "fst (scan_lines (s @ frame m)) = fst (scan_lines s) @ [show_json (enc_JSONRPCMessage m)]"
    using scan_frame [OF assms(3), of "[]"] by (simp add: scan_lines_append [OF assms(2)])
  moreover have "unmarshal_text (show_json (enc_JSONRPCMessage m)) = Inr (wire_msg m)"
    using assms(3) by (simp add: line_fits_def unmarshal_frame)
  ultimately show ?thesis
    using Start_loop_append(1) [where closed = closed, OF assms(1)] assms(1)
    by (simp add: Start_delivered [where closed = closed, OF assms(1)] frame_not_empty sn_log_def sn_deliver_def Let_def
        split: option.split)
qed

text \<open>The stream between a sender and a \<^verbatim>\<open>Start\<close> loop that is not closed is a message link.\<close>

definition stdio_received :: "(nat \<Rightarrow> go_error option) \<Rightarrow> string \<Rightarrow> SessionMsg list" where
  "stdio_received reply stream = sn_delivered (StdIO_Start (\<lambda>_. False) reply None stream)"

interpretation stdio: message_link "[]" "\<lambda>m w. snd (StdIO_Send m None None w)" "stdio_received reply"
    line_fits "\<lambda>m. \<lparr>sm_sessionID = stdioSession, sm_msg = wire_msg m\<rparr>" complete
  for reply
proof unfold_locales
  show "complete []" by (rule complete_Nil)
  show "stdio_received reply [] = []"
    by (simp add: stdio_received_def StdIO_Start_def)
next
  fix w m
  assume w: "complete w" and m: "line_fits m"
  then show "complete (snd (StdIO_Send m None None w))"
    by (simp add: StdIO_Send_def complete_append frame_complete)
  show "stdio_received reply (snd (StdIO_Send m None None w)) =
      stdio_received reply w @ [\<lparr>sm_sessionID = stdioSession, sm_msg = wire_msg m\<rparr>]"
    using Start_append_frame [OF _ w m, where closed = "\<lambda>_. False"] by (simp add: stdio_received_def StdIO_Send_def)
qed

section \<open>Properties\<close>

text \<open>
  C13. The standard input/output transport refines a queue of messages: if \<^verbatim>\<open>Send\<close> wrote the
  messages \<open>ms\<close>, each of at most 64 KiB as a line, then \<^verbatim>\<open>Start\<close> on the other side hands over exactly
  these messages, in order, in session 1, whatever the receiver answers to each of them.
\<close>

theorem stdio_refines_queue:
  assumes "list_all (\<lambda>m. msg_ok m \<and> length (frame m) \<le> 65536) ms"
  shows "sn_delivered (StdIO_Start (\<lambda>_. False) reply None
      (fold (\<lambda>m w. snd (StdIO_Send m None None w)) ms [])) =
    map (\<lambda>m. \<lparr>sm_sessionID = ''1'', sm_msg = wire_msg m\<rparr>) ms"
  using stdio.link_is_queue [of ms reply] assms
  by (simp add: line_fits_def [abs_def] maxScanTokenSize_def stdio_received_def stdioSession_def)

theorem stdio_refines_queue_witness:
  "sn_delivered (StdIO_Start (\<lambda>_. False) (\<lambda>_. None) None
      (fold (\<lambda>m w. snd (StdIO_Send m None None w)) [JSONRPCMessage_zero\<lparr>msg_jsonrpc := ''2.0'', msg_id := ''7''\<rparr>] [])) =
    [\<lparr>sm_sessionID = ''1'', sm_msg = JSONRPCMessage_zero\<lparr>msg_jsonrpc := ''2.0'', msg_id := ''7''\<rparr>\<rparr>]"
proof -
  let ?m = "JSONRPCMessage_zero\<lparr>msg_jsonrpc := ''2.0'', msg_id := ''7''\<rparr>"
  have "list_all (\<lambda>m. msg_ok m \<and> length (frame m) \<le> 65536) [?m]"
    by (simp add: msg_ok_def frame_def enc_JSONRPCMessage_def JSONRPCMessage_zero_def omit_defs
        show_string_def escape_char_def)
  from stdio_refines_queue [OF this, of "\<lambda>_. None"] show ?thesis
    by (simp add: wire_msg_def JSONRPCMessage_zero_def)
qed

text \<open>
  C31. One line of 64 KiB or more ends the transport: what was complete before it is handed over,
  nothing after it is, and \<^verbatim>\<open>Start\<close> returns with the scanner's error. \<^verbatim>\<open>Send\<close> has no such limit.
\<close>

theorem stdio_long_line_ends:
  assumes "complete s" "65536 \<le> length l" "nl \<notin> set l"
  shows "sn_delivered (StdIO_Start (\<lambda>_. False) reply None (s @ l @ later)) =
      sn_delivered (StdIO_Start (\<lambda>_. False) reply None s) \<and>
    last (sn_errors (StdIO_Start (\<lambda>_. False) reply None (s @ l @ later))) =
      ErrWrap ''failed to read messages: %w'' [errTooLong]"
proof -
  have "scan_lines (s @ l @ later) = (fst (scan_lines s), True)"
    using scan_lines_append [OF assms(1), of "l @ later"] scan_lines_long [OF assms(3), of later] assms(2)
    by (simp add: maxScanTokenSize_def)
  moreover have "sn_finished (Start_loop (\<lambda>_. False) reply 0 (fst (scan_lines s)))"
    using Start_loop_append(2) [where closed = "\<lambda>_. False"] by simp
  ultimately show ?thesis
    by (simp add: Start_delivered [where closed = "\<lambda>_. False"]) (simp add: StdIO_Start_def Let_def)
qed

theorem stdio_long_line_ends_witness:
  "sn_delivered (StdIO_Start (\<lambda>_. False) (\<lambda>_. None) None
     ([] @ replicate 65536 (CHR ''x'') @ nl # ''{}'' @ [nl])) = []"
proof -
  have "nl \<notin> set (replicate 65536 (CHR ''x''))" by simp
  from stdio_long_line_ends [OF complete_Nil _ this, of "\<lambda>_. None" "nl # ''{}'' @ [nl]"]
  show ?thesis by (simp add: StdIO_Start_def)
qed

end
