(* ===== verification/SSE.thy ===== *)
theory SSE
  imports StdIO
begin

text \<open>
  The server-sent events transport (\<^verbatim>\<open>src/pkg/mcp/sse.go\<close>): \<^verbatim>\<open>SSEServer\<close>, which writes the events of each
  session to its own stream and takes messages by HTTP POST, and \<^verbatim>\<open>SSEClient\<close>, which reads the one and
  posts the other. \<open>read\<close> stands for \<^verbatim>\<open>sse.Read\<close> of the package go-sse, \<open>parseURL\<close> for whether
  \<^verbatim>\<open>url.Parse\<close> accepts a text and what \<^verbatim>\<open>String\<close> makes of it; how a write ends, the session id that
  \<^verbatim>\<open>uuid.New\<close> gives, the answer of the one that handles a message and the moment of \<^verbatim>\<open>Close\<close> are arguments.
\<close>

section \<open>Query strings\<close>

definition str_cut :: "char \<Rightarrow> string \<Rightarrow> string \<times> string" where
  "str_cut d s = (takeWhile (\<lambda>c. c \<noteq> d) s, tl (dropWhile (\<lambda>c. c \<noteq> d) s))"

lemma str_cut_less:
  assumes "(a, r) = str_cut d s" "s \<noteq> []"
  shows "length r < length s"
  using assms length_dropWhile_le [of "\<lambda>c. c \<noteq> d" s] by (cases s) (auto simp: str_cut_def less_Suc_eq_le)

text \<open>\<^verbatim>\<open>url.QueryUnescape\<close>; \<open>None\<close> is its error.\<close>

fun query_unescape :: "string \<Rightarrow> string option" where
  "query_unescape [] = Some []"
| "query_unescape (c # s) =
     (if c = CHR ''%'' then
        (case s of
           a # b # r \<Rightarrow>
             (case (hex_val a, hex_val b) of
                (Some x, Some y) \<Rightarrow> map_option ((#) (char_of (16 * x + y))) (query_unescape r)
              | _ \<Rightarrow> None)
         | _ \<Rightarrow> None)
      else map_option ((#) (if c = CHR ''+'' then CHR '' '' else c)) (query_unescape s))"

text \<open>\<^verbatim>\<open>url.ParseQuery\<close> with its error dropped: the pairs in order.\<close>

function parse_query :: "string \<Rightarrow> (string \<times> string) list" where
  "parse_query q =
     (if q = [] then []
      else
        let (key, rest) = str_cut (CHR ''&'') q;
            (k, v) = str_cut (CHR ''='') key
        in if CHR '';'' \<in> set key \<or> key = [] then parse_query rest
           else case (query_unescape k, query_unescape v) of
             (Some k', Some v') \<Rightarrow> (k', v') # parse_query rest
           | _ \<Rightarrow> parse_query rest)"
  by pat_completeness auto
termination by (relation "measure length") (auto dest: str_cut_less)

declare parse_query.simps [simp del]

definition query_get :: "string \<Rightarrow> string \<Rightarrow> string" where
  "query_get q k = (case map_of (parse_query q) k of None \<Rightarrow> [] | Some v \<Rightarrow> v)"

text \<open>\<^verbatim>\<open>RawQuery\<close> of a parsed URL: what follows the first question mark before the fragment.\<close>

definition raw_query :: "string \<Rightarrow> string" where
  "raw_query url = snd (str_cut (CHR ''?'') (fst (str_cut (CHR ''#'') url)))"

section \<open>Events\<close>

record ssevent =
  ev_Type :: string
  ev_Data :: string

text \<open>The text of one event, as both \<^verbatim>\<open>Fprintf\<close> calls of the server write it.\<close>

definition event_frame :: "string \<Rightarrow> string \<Rightarrow> string" where
  "event_frame t d = ''event: '' @ t @ [nl] @ ''data: '' @ d @ [nl, nl]"

text \<open>
  What the transport relies on of \<^verbatim>\<open>sse.Read\<close>: an event written as a type and a data line and an
  empty line, both without line breaks and in all at most \<open>limit\<close> bytes, is read as that event, and
  reading goes on after it. The package's default limit is 64 KiB.
\<close>

definition reads_frames :: "nat \<Rightarrow> (string \<Rightarrow> (go_error + ssevent) list) \<Rightarrow> bool" where
  "reads_frames limit read \<longleftrightarrow>
     read [] = [] \<and>
     (\<forall>t d s. t \<noteq> [] \<and> d \<noteq> [] \<and> printable t \<and> printable d \<and> length (event_frame t d) \<le> limit \<longrightarrow>
        read (event_frame t d @ s) = Inr \<lparr>ev_Type = t, ev_Data = d\<rparr> # read s)"

section \<open>The server\<close>

text \<open>
  \<open>ws_writers\<close> holds for every session the text written to its response so far, \<open>ws_sessions\<close> the buffer
  of \<^verbatim>\<open>sessionsChan\<close>, which takes one entry, \<open>ws_errors\<close> what was given to \<^verbatim>\<open>logError\<close> and \<open>ws_closed\<close> whether
  the channels are closed.
\<close>

record sse_server =
  ws_writers :: "(string, string) smap"
  ws_sessions :: "string list"
  ws_errors :: "go_error list"
  ws_closed :: bool

definition NewSSEServer :: sse_server where
  "NewSSEServer = \<lparr>ws_writers = [], ws_sessions = [], ws_errors = [], ws_closed = False\<rparr>"

text \<open>How a handler ends: a panic (a send on a closed channel), waiting for a channel, or a result.\<close>

datatype 'a served = Panicked | Waiting | Served 'a sse_server

text \<open>A response: \<open>None\<close> for status 200, else the status and the error whose text is the body.\<close>

type_synonym response = "(nat \<times> go_error) option"

definition StatusOK :: nat where "StatusOK = 200"
definition StatusBadRequest :: nat where "StatusBadRequest = 400"
definition StatusInternalServerError :: nat where "StatusInternalServerError = 500"

definition SSEServer_logError :: "go_error \<Rightarrow> (sse_server \<Rightarrow> 'a served) \<Rightarrow> sse_server \<Rightarrow> 'a served" where
  "SSEServer_logError e k st = (if ws_closed st then Panicked else k (st\<lparr>ws_errors := ws_errors st @ [e]\<rparr>))"

text \<open>
  The part of a frame a write put on the stream, and its error: \<open>None\<close> if all was written, \<open>Some (e, n)\<close>
  if the write failed after \<open>n\<close> bytes.
\<close>

definition written_part :: "(go_error \<times> nat) option \<Rightarrow> string \<Rightarrow> string" where
  "written_part w s = (case w of None \<Rightarrow> s | Some (e, n) \<Rightarrow> take n s)"

definition SSEServer_Send ::
    "SessionMsg \<Rightarrow> (go_error \<times> nat) option \<Rightarrow> go_error option \<Rightarrow> sse_server \<Rightarrow> go_error option \<times> sse_server" where
  "SSEServer_Send msg w ctxDone st =
     (case smap_load (ws_writers st) (sm_sessionID msg) of
        None \<Rightarrow> (Some (ErrNew ''session not found''), st)
      | Some stream \<Rightarrow>
          let frame = event_frame ''message'' (show_json (enc_JSONRPCMessage (sm_msg msg)));
              st' = st\<lparr>ws_writers := smap_store (sm_sessionID msg) (stream @ written_part w frame) (ws_writers st)\<rparr>
          in case ctxDone of
               Some e \<Rightarrow> (Some e, st')
             | None \<Rightarrow> (map_option (\<lambda>(e, n). ErrWrap ''failed to write message: %w'' [e]) w, st'))"

definition sse_headers :: "(string \<times> string) list" where
  "sse_headers =
     [(''Content-Type'', ''text/event-stream''), (''Connection'', ''keep-alive''),
      (''Cache-Control'', ''no-cache''), (''Access-Control-Allow-Origin'', ''*''),
      (''Transfer-Encoding'', ''identity'')]"

text \<open>
  \<^verbatim>\<open>HandleSSE\<close> in the order of the code: announce the session, store the writer, write the endpoint.
  The handler then waits for the end of the request or \<^verbatim>\<open>Close\<close> and changes nothing: the writer stays.
\<close>

definition announce :: "string \<Rightarrow> sse_server \<Rightarrow> unit served" where
  "announce sessID st =
     (if ws_closed st then Panicked
      else if ws_sessions st \<noteq> [] then Waiting
      else Served () (st\<lparr>ws_sessions := [sessID]\<rparr>))"

definition store_writer :: "string \<Rightarrow> sse_server \<Rightarrow> sse_server" where
  "store_writer sessID st = st\<lparr>ws_writers := smap_store sessID [] (ws_writers st)\<rparr>"

definition endpoint_url :: "string \<Rightarrow> string \<Rightarrow> string" where
  "endpoint_url messageBaseURL sessID = messageBaseURL @ ''?sessionID='' @ sessID"

definition write_endpoint ::
    "string \<Rightarrow> string \<Rightarrow> (go_error \<times> nat) option \<Rightarrow> sse_server \<Rightarrow> response served" where
  "write_endpoint messageBaseURL sessID w st =
     (let frame = event_frame ''endpoint'' (endpoint_url messageBaseURL sessID);
          stream = (case smap_load (ws_writers st) sessID of None \<Rightarrow> [] | Some s \<Rightarrow> s);
          st' = st\<lparr>ws_writers := smap_store sessID (stream @ written_part w frame) (ws_writers st)\<rparr>
      in case w of
           None \<Rightarrow> Served None st'
         | Some (e, n) \<Rightarrow>
             let nErr = ErrWrap ''failed to write SSE URL: %w'' [e] in
             SSEServer_logError nErr (Served (Some (StatusInternalServerError, nErr))) st')"

definition HandleSSE ::
    "string \<Rightarrow> string \<Rightarrow> (go_error \<times> nat) option \<Rightarrow> sse_server \<Rightarrow> response served" where
  "HandleSSE messageBaseURL sessID w st =
     (case announce sessID st of
        Panicked \<Rightarrow> Panicked
      | Waiting \<Rightarrow> Waiting
      | Served _ st' \<Rightarrow> write_endpoint messageBaseURL sessID w (store_writer sessID st'))"

text \<open>The reader of \<^verbatim>\<open>Sessions\<close> takes the announced session.\<close>

definition SSEServer_Sessions :: "sse_server \<Rightarrow> string option \<times> sse_server" where
  "SSEServer_Sessions st =
     (case ws_sessions st of [] \<Rightarrow> (None, st) | s # ss \<Rightarrow> (Some s, st\<lparr>ws_sessions := ss\<rparr>))"

text \<open>
  \<^verbatim>\<open>json.Decoder\<close> reads the first value of the body and leaves the rest. \<open>reply\<close> is what the one that
  took the message sent back.
\<close>

definition decode_body :: "string \<Rightarrow> JSONRPCMessage res" where
  "decode_body body =
     (case parse_value (Suc (length body)) body of
        None \<Rightarrow> Inl errSyntax
      | Some (j, rest) \<Rightarrow> unmarshal dec_JSONRPCMessage JSONRPCMessage_zero (Some j))"

definition HandleMessage ::
    "string \<Rightarrow> string \<Rightarrow> go_error option \<Rightarrow> sse_server \<Rightarrow> (SessionMsg option \<times> response) served" where
  "HandleMessage rawQuery body reply st =
     (let sessID = query_get rawQuery ''sessionID'';
          fail = (\<lambda>d e. SSEServer_logError e (Served (d, Some (StatusBadRequest, e))) st)
      in if sessID = [] then fail None (ErrNew ''missing sessionID query parameter'')
         else case decode_body body of
           Inl e \<Rightarrow> fail None (ErrWrap ''failed to decode message: %w'' [e])
         | Inr msg \<Rightarrow>
             if ws_closed st then Panicked
             else
               let d = Some \<lparr>sm_sessionID = sessID, sm_msg = msg\<rparr> in
               case reply of
                 Some e \<Rightarrow> fail d (ErrWrap ''failed to handle message: %w'' [e])
               | None \<Rightarrow> Served (d, None) st)"

definition SSEServer_Close :: "sse_server \<Rightarrow> unit served" where
  "SSEServer_Close st = (if ws_closed st then Panicked else Served () (st\<lparr>ws_closed := True\<rparr>))"

section \<open>The client\<close>

text \<open>\<open>wc_httpClient\<close> says whether the HTTP client is there or nil.\<close>

record sse_client =
  wc_httpClient :: bool
  wc_baseURL :: string
  wc_messageURL :: string
  wc_delivered :: "SessionMsg list"
  wc_errors :: "go_error list"
  wc_closed :: bool

definition NewSSEClient :: "string \<Rightarrow> bool \<Rightarrow> sse_client" where
  "NewSSEClient baseURL httpClient =
     \<lparr>wc_httpClient = httpClient, wc_baseURL = baseURL, wc_messageURL = [], wc_delivered = [], wc_errors = [],
      wc_closed = False\<rparr>"

definition SSEClient_Close :: "sse_client \<Rightarrow> sse_client option" where
  "SSEClient_Close c = (if wc_closed c then None else Some (c\<lparr>wc_closed := True\<rparr>))"

definition unexpected_status :: "nat \<Rightarrow> go_error" where
  "unexpected_status n = ErrNew (''unexpected status code: '' @ show_nat n)"

text \<open>
  \<open>newReq\<close> is the error of building the request, \<open>post\<close> the round trip: an error or a status.
  \<open>None\<close>: the nil HTTP client panics.
\<close>

definition SSEClient_Send ::
    "(string \<Rightarrow> go_error option) \<Rightarrow> (string \<Rightarrow> string \<Rightarrow> go_error + nat) \<Rightarrow> SessionMsg \<Rightarrow> sse_client \<Rightarrow>
     go_error option option" where
  "SSEClient_Send newReq post msg c =
     (case newReq (wc_messageURL c) of
        Some e \<Rightarrow> Some (Some e)
      | None \<Rightarrow>
          if \<not> wc_httpClient c then None
          else case post (wc_messageURL c) (show_json (enc_JSONRPCMessage (sm_msg msg))) of
            Inl e \<Rightarrow> Some (Some (ErrWrap ''failed to send message: %w'' [e]))
          | Inr status \<Rightarrow> Some (if status \<noteq> StatusOK then Some (unexpected_status status) else None))"

text \<open>
  The state of \<^verbatim>\<open>listenMessages\<close>: what was sent on the session channel, whose reader takes one value,
  and how the goroutine stands. A second send on the session channel waits for ever.
\<close>

datatype listen_end = Reading | Ended | Stuck | Crashed

record listening =
  li_client :: sse_client
  li_sessID :: string
  li_session :: "(string \<times> go_error option) option"
  li_end :: listen_end

text \<open>When an event comes: before \<^verbatim>\<open>Close\<close>, after it, or with \<^verbatim>\<open>Close\<close> while it is handled.\<close>

datatype close_time = NotClosed | ClosedBefore | ClosedWithin

definition finish :: "listening \<Rightarrow> listening" where
  "finish li = (if li_end li = Reading then li\<lparr>li_end := Ended\<rparr> else li)"

definition respond :: "string \<times> go_error option \<Rightarrow> listening \<Rightarrow> listening" where
  "respond r li =
     (if li_end li \<noteq> Reading then li
      else if li_session li \<noteq> None then li\<lparr>li_end := Stuck\<rparr>
      else li\<lparr>li_session := Some r\<rparr>)"

definition SSEClient_logError :: "close_time \<Rightarrow> go_error \<Rightarrow> listening \<Rightarrow> listening" where
  "SSEClient_logError cl e li =
     (if cl = ClosedWithin then li\<lparr>li_end := Crashed\<rparr>
      else li\<lparr>li_client := (li_client li)\<lparr>wc_errors := wc_errors (li_client li) @ [e]\<rparr>\<rparr>)"

definition handle_endpoint :: "(string \<Rightarrow> string res) \<Rightarrow> string \<Rightarrow> listening \<Rightarrow> listening" where
  "handle_endpoint parseURL data li =
     (if li_sessID li \<noteq> [] then li
      else case parseURL data of
        Inl e \<Rightarrow> finish (respond ([], Some (ErrWrap ''parse endpoint URL: %w'' [e])) li)
      | Inr u \<Rightarrow>
          let sessID = query_get (raw_query data) ''sessionID'';
              li' = li\<lparr>li_client := (li_client li)\<lparr>wc_messageURL := u\<rparr>, li_sessID := sessID\<rparr>
          in if sessID = [] then respond ([], Some (ErrNew ''no session ID in message URL'')) li'
             else respond (sessID, None) li')"

definition handle_message :: "close_time \<Rightarrow> go_error option \<Rightarrow> string \<Rightarrow> listening \<Rightarrow> listening" where
  "handle_message cl reply data li =
     (if li_sessID li = [] then
        finish (SSEClient_logError cl (ErrNew ''received message before endpoint URL'') li)
      else case unmarshal_text data of
        Inl e \<Rightarrow> SSEClient_logError cl (ErrWrap ''failed to unmarshal message: %w'' [e]) li
      | Inr msg \<Rightarrow>
          if cl = ClosedWithin then li\<lparr>li_end := Crashed\<rparr>
          else
            let c = li_client li;
                li' = li\<lparr>li_client := c\<lparr>wc_delivered := wc_delivered c @
                        [\<lparr>sm_sessionID = li_sessID li, sm_msg = msg\<rparr>]\<rparr>\<rparr>
            in case reply of
                 None \<Rightarrow> li'
               | Some e \<Rightarrow> SSEClient_logError cl (ErrWrap ''failed to handle message: %w'' [e]) li')"

text \<open>The argument of \<^verbatim>\<open>%q\<close> in the last message stands beside its format.\<close>

definition listen_event ::
    "close_time \<Rightarrow> go_error option \<Rightarrow> (string \<Rightarrow> string res) \<Rightarrow> go_error + ssevent \<Rightarrow> listening \<Rightarrow> listening" where
  "listen_event cl reply parseURL ev li =
     (let answer = (\<lambda>e li. if li_sessID li = [] then respond ([], Some e) li else li) in
      if cl = ClosedBefore then
        finish (answer (ErrNew ''failed to initialize session: client closed'') li)
      else case ev of
        Inl e \<Rightarrow>
          finish (answer (ErrWrap ''failed to initialize session: %w'' [e])
            (if errors_Is e ErrCanceled then li
             else SSEClient_logError cl (ErrWrap ''failed to read SSE events: %w'' [e]) li))
      | Inr ev \<Rightarrow>
          if ev_Type ev = ''endpoint'' then handle_endpoint parseURL (ev_Data ev) li
          else if ev_Type ev = ''message'' then handle_message cl reply (ev_Data ev) li
          else SSEClient_logError cl (ErrWrap ''unhandled event type %q'' [ErrNew (ev_Type ev)]) li)"

fun SSEClient_listenMessages ::
    "(nat \<Rightarrow> close_time) \<Rightarrow> (nat \<Rightarrow> go_error option) \<Rightarrow> (string \<Rightarrow> string res) \<Rightarrow> nat \<Rightarrow>
     (go_error + ssevent) list \<Rightarrow> listening \<Rightarrow> listening" where
  "SSEClient_listenMessages closing reply parseURL i [] li = finish li"
| "SSEClient_listenMessages closing reply parseURL i (ev # evs) li =
     (let li' = listen_event (closing i) (reply i) parseURL ev li in
      if li_end li' \<noteq> Reading then li' else SSEClient_listenMessages closing reply parseURL (Suc i) evs li')"

text \<open>
  What the connection attempt of \<^verbatim>\<open>StartSession\<close> met. Its result is the value from the session channel,
  which is the zero value once the goroutine has closed it without sending.
\<close>

datatype sse_conn = NewRequestFailed go_error | DoFailed go_error | Response nat string

datatype start_result = NilClient | ProcessCrashed | Started string "go_error option"

definition listen_start :: "sse_client \<Rightarrow> listening" where
  "listen_start c = \<lparr>li_client = c, li_sessID = [], li_session = None, li_end = Reading\<rparr>"

definition SSEClient_StartSession ::
    "(string \<Rightarrow> (go_error + ssevent) list) \<Rightarrow> (nat \<Rightarrow> close_time) \<Rightarrow> (nat \<Rightarrow> go_error option) \<Rightarrow>
     (string \<Rightarrow> string res) \<Rightarrow> sse_conn \<Rightarrow> sse_client \<Rightarrow> start_result \<times> sse_client" where
  "SSEClient_StartSession read closing reply parseURL conn c =
     (case conn of
        NewRequestFailed e \<Rightarrow> (Started [] (Some (ErrWrap ''failed to create request: %w'' [e])), c)
      | DoFailed e \<Rightarrow>
          (if \<not> wc_httpClient c then NilClient
           else Started [] (Some (ErrWrap ''failed to connect to SSE server: %w'' [e])), c)
      | Response status body \<Rightarrow>
          if \<not> wc_httpClient c then (NilClient, c)
          else if status \<noteq> StatusOK then (Started [] (Some (unexpected_status status)), c)
          else
            let li = SSEClient_listenMessages closing reply parseURL 0 (read body) (listen_start c) in
            (case li_session li of
               Some (s, e) \<Rightarrow> Started s e
             | None \<Rightarrow> if li_end li = Crashed then ProcessCrashed else Started [] None, li_client li))"

end
