(* ===== verification/SSEProps.thy ===== *)
theory SSEProps
  imports SSE
begin

text \<open>
  Properties of the event-stream transport: the handshake and delivery from the server's writer to the
  client's message channel, the way back by POST, and the sessions the client starts without one.
\<close>

section \<open>Query strings\<close>

text \<open>The characters of a session id made by \<^verbatim>\<open>uuid\<close>.\<close>

definition id_char :: "char \<Rightarrow> bool" where
  "id_char c \<longleftrightarrow> is_digit c \<or> c = CHR ''-'' \<or> (97 \<le> (of_char c :: nat) \<and> (of_char c :: nat) \<le> 102)"

definition uuid_ok :: "string \<Rightarrow> bool" where
  "uuid_ok s \<longleftrightarrow> s \<noteq> [] \<and> list_all id_char s"

definition base_ok :: "string \<Rightarrow> bool" where
  "base_ok s \<longleftrightarrow> printable s \<and> CHR ''?'' \<notin> set s \<and> CHR ''#'' \<notin> set s"

lemma id_char_plain [simp]:
  "\<not> id_char (CHR ''%'')" "\<not> id_char (CHR ''+'')" "\<not> id_char (CHR ''&'')" "\<not> id_char (CHR '';'')"
  "\<not> id_char (CHR ''#'')" "\<not> id_char (CHR ''?'')" "id_char c \<Longrightarrow> \<not> (of_char c :: nat) < 32"
  by (auto simp: id_char_def is_digit_def)

lemma uuid_plain:
  assumes "uuid_ok s"
  shows "printable s" "CHR ''&'' \<notin> set s" "CHR '';'' \<notin> set s" "CHR ''#'' \<notin> set s" "CHR ''?'' \<notin> set s"
    "CHR ''%'' \<notin> set s" "CHR ''+'' \<notin> set s"
  using assms by (auto simp: uuid_ok_def list_all_iff printable_def dest: bspec)

lemma str_cut_none: "d \<notin> set s \<Longrightarrow> str_cut d s = (s, [])"
  by (induction s) (auto simp: str_cut_def)

lemma str_cut_some: "d \<notin> set s \<Longrightarrow> str_cut d (s @ d # t) = (s, t)"
  by (auto simp: str_cut_def takeWhile_append dropWhile_append)

lemma unescape_plain: "CHR ''%'' \<notin> set s \<Longrightarrow> CHR ''+'' \<notin> set s \<Longrightarrow> query_unescape s = Some s"
  by (induction s) auto

lemma query_get_id:
  assumes "uuid_ok s"
  shows "query_get (''sessionID='' @ s) ''sessionID'' = s"
proof -
  have "str_cut (CHR ''&'') (''sessionID='' @ s) = (''sessionID='' @ s, [])"
    using uuid_plain [OF assms] by (intro str_cut_none) simp
  moreover have "str_cut (CHR ''='') (''sessionID='' @ s) = (''sessionID'', s)"
    using str_cut_some [of "CHR ''=''" "''sessionID''" s] by simp
  moreover have "query_unescape s = Some s"
    using uuid_plain [OF assms] by (intro unescape_plain)
  moreover have "query_unescape ''sessionID'' = Some ''sessionID''" by (intro unescape_plain) simp_all
  ultimately have "parse_query (''sessionID='' @ s) = [(''sessionID'', s)]"
    using uuid_plain [OF assms] by (subst parse_query.simps) (simp add: parse_query.simps [of "[]"] del: query_unescape.simps)
  then show ?thesis by (simp add: query_get_def)
qed

lemma raw_query_endpoint:
  assumes "uuid_ok s" "base_ok base"
  shows "raw_query (endpoint_url base s) = ''sessionID='' @ s"
proof -
  have "str_cut (CHR ''#'') (endpoint_url base s) = (endpoint_url base s, [])"
    using uuid_plain [OF assms(1)] assms(2) by (intro str_cut_none) (simp add: endpoint_url_def base_ok_def)
  moreover have "str_cut (CHR ''?'') (endpoint_url base s) = (base, ''sessionID='' @ s)"
    using str_cut_some [of "CHR ''?''" base "''sessionID='' @ s"] assms(2) by (simp add: endpoint_url_def base_ok_def)
  ultimately show ?thesis by (simp add: raw_query_def)
qed

lemma endpoint_printable: "uuid_ok s \<Longrightarrow> base_ok base \<Longrightarrow> printable (endpoint_url base s) \<and> endpoint_url base s \<noteq> []"
  using uuid_plain(1) by (auto simp: endpoint_url_def base_ok_def printable_def)

section \<open>Streams\<close>

abbreviation message_frame :: "JSONRPCMessage \<Rightarrow> string" where
  "message_frame m \<equiv> event_frame ''message'' (show_json (enc_JSONRPCMessage m))"

abbreviation message_event :: "JSONRPCMessage \<Rightarrow> ssevent" where
  "message_event m \<equiv> \<lparr>ev_Type = ''message'', ev_Data = show_json (enc_JSONRPCMessage m)\<rparr>"

abbreviation server_sends :: "SessionMsg list \<Rightarrow> sse_server \<Rightarrow> sse_server" where
  "server_sends ms st \<equiv> fold (\<lambda>m st. snd (SSEServer_Send m None None st)) ms st"

lemma stream_after_sends:
  assumes "smap_load (ws_writers st) sess = Some s"
  shows "smap_load (ws_writers (server_sends ms st)) sess =
    Some (s @ concat (map (\<lambda>m. message_frame (sm_msg m)) (filter (\<lambda>m. sm_sessionID m = sess) ms)))"
  using assms
proof (induction ms arbitrary: st s)
  case (Cons m ms)
  show ?case
  proof (cases "sm_sessionID m = sess")
    case True
    then have "smap_load (ws_writers (snd (SSEServer_Send m None None st))) sess = Some (s @ message_frame (sm_msg m))"
      using Cons.prems by (simp add: SSEServer_Send_def written_part_def Let_def)
    from Cons.IH [OF this] True show ?thesis by simp
  next
    case False
    then have "smap_load (ws_writers (snd (SSEServer_Send m None None st))) sess = Some s"
      using Cons.prems by (simp add: SSEServer_Send_def Let_def split: option.split)
    from Cons.IH [OF this] False show ?thesis by simp
  qed
qed simp

lemma read_messages:
  assumes "reads_frames limit read" "list_all (\<lambda>m. length (message_frame m) \<le> limit) ms"
  shows "read (concat (map message_frame ms)) = map (\<lambda>m. Inr (message_event m)) ms"
  using assms(2)
proof (induction ms)
  case (Cons m ms)
  have "read (message_frame m @ concat (map message_frame ms)) =
      Inr (message_event m) # read (concat (map message_frame ms))"
    using assms(1) Cons.prems frame_not_empty printable_json(1) by (simp add: reads_frames_def)
  with Cons show ?case by simp
qed (use assms(1) in \<open>simp add: reads_frames_def\<close>)

lemma listen_messages:
  assumes "list_all msg_ok ms" "li_sessID li \<noteq> []" "li_end li = Reading" "\<And>i. closing i = NotClosed"
  shows "wc_delivered (li_client (SSEClient_listenMessages closing reply parseURL i (map (\<lambda>m. Inr (message_event m)) ms) li)) =
      wc_delivered (li_client li) @ map (\<lambda>m. \<lparr>sm_sessionID = li_sessID li, sm_msg = wire_msg m\<rparr>) ms \<and>
    li_session (SSEClient_listenMessages closing reply parseURL i (map (\<lambda>m. Inr (message_event m)) ms) li) = li_session li"
  using assms(1-3)
proof (induction ms arbitrary: i li)
  case Nil
  then show ?case by (simp add: finish_def)
next
  case (Cons m ms)
  have u: "unmarshal_text (show_json (enc_JSONRPCMessage m)) = Inr (wire_msg m)"
    using Cons.prems by (simp add: unmarshal_frame)
  let ?li = "listen_event NotClosed (reply i) parseURL (Inr (message_event m)) li"
  have "li_end ?li = Reading" "li_sessID ?li = li_sessID li" "li_session ?li = li_session li"
    "wc_delivered (li_client ?li) = wc_delivered (li_client li) @ [\<lparr>sm_sessionID = li_sessID li, sm_msg = wire_msg m\<rparr>]"
    using Cons.prems u
    by (simp_all add: listen_event_def handle_message_def SSEClient_logError_def Let_def split: option.split)
  with Cons.IH [of ?li "Suc i"] Cons.prems show ?case by (simp add: assms(4))
qed

lemma listen_keeps_url:
  "li_sessID li \<noteq> [] \<Longrightarrow>
    wc_messageURL (li_client (SSEClient_listenMessages closing reply parseURL i (map (\<lambda>m. Inr (message_event m)) ms) li)) =
      wc_messageURL (li_client li)"
proof (induction ms arbitrary: i li)
  case (Cons m ms)
  let ?li = "listen_event (closing i) (reply i) parseURL (Inr (message_event m)) li"
  have "li_sessID ?li = li_sessID li" "wc_messageURL (li_client ?li) = wc_messageURL (li_client li)"
    using Cons.prems
    by (simp_all add: listen_event_def handle_message_def SSEClient_logError_def finish_def Let_def
        split: option.split sum.split)
  with Cons show ?case by (simp add: Let_def)
qed (simp add: finish_def)

text \<open>The stream a client meets: the endpoint event and then messages.\<close>

lemma start_over_stream:
  assumes "reads_frames limit read" "uuid_ok sess" "base_ok base" "parseURL (endpoint_url base sess) = Inr u"
    and "length (event_frame ''endpoint'' (endpoint_url base sess)) \<le> limit"
    and "list_all (\<lambda>m. msg_ok m \<and> length (message_frame m) \<le> limit) ms" "wc_httpClient c" "\<And>i. closing i = NotClosed"
    and "body = event_frame ''endpoint'' (endpoint_url base sess) @ concat (map message_frame ms)"
    and "SSEClient_StartSession read closing reply parseURL (Response 200 body) c = (r, c')"
  shows "r = Started sess None" "wc_messageURL c' = u"
    "wc_delivered c' = wc_delivered c @ map (\<lambda>m. \<lparr>sm_sessionID = sess, sm_msg = wire_msg m\<rparr>) ms"
proof -
  let ?e = "\<lparr>ev_Type = ''endpoint'', ev_Data = endpoint_url base sess\<rparr>"
  let ?li = "\<lparr>li_client = c\<lparr>wc_messageURL := u\<rparr>, li_sessID = sess, li_session = Some (sess, None), li_end = Reading\<rparr>"
  let ?evs = "map (\<lambda>m. Inr (message_event m)) ms"
  have rd: "read body = Inr ?e # ?evs"
    using assms(1,5,6) endpoint_printable [OF assms(2,3)] read_messages [OF assms(1), of ms]
    by (simp add: assms(9) reads_frames_def list_all_iff)
  have first: "listen_event NotClosed (reply 0) parseURL (Inr ?e) (listen_start c) = ?li"
    using assms(2) query_get_id [OF assms(2)] raw_query_endpoint [OF assms(2,3)] assms(4)
    by (simp add: listen_event_def handle_endpoint_def listen_start_def respond_def Let_def uuid_ok_def)
  have run: "SSEClient_listenMessages closing reply parseURL 0 (read body) (listen_start c) =
      SSEClient_listenMessages closing reply parseURL 1 ?evs ?li"
    by (simp add: rd first assms(8))
  have "sess \<noteq> []" "list_all msg_ok ms" using assms(2,6) by (auto simp: uuid_ok_def list_all_iff)
  from listen_messages [where closing = closing and li = ?li and reply = reply and parseURL = parseURL and i = 1,
      OF this(2) _ _ assms(8)] this(1) assms(7,10)
  show "r = Started sess None"
    "wc_delivered c' = wc_delivered c @ map (\<lambda>m. \<lparr>sm_sessionID = sess, sm_msg = wire_msg m\<rparr>) ms"
    by (auto simp: SSEClient_StartSession_def Let_def run StatusOK_def)
  show "wc_messageURL c' = u"
    using listen_keeps_url [where closing = closing and li = ?li and reply = reply and parseURL = parseURL and i = 1 and ms = ms]
      \<open>sess \<noteq> []\<close> assms(7,10)
    by (auto simp: SSEClient_StartSession_def Let_def run StatusOK_def)
qed

text \<open>
  C14. A session over the event stream. After \<^verbatim>\<open>HandleSSE\<close> opened the stream of a session and \<^verbatim>\<open>Send\<close> was
  called for any sequence of messages to this and to other sessions, \<^verbatim>\<open>StartSession\<close> on the text
  written for this session returns its id and hands over exactly the messages sent to it, in
  order and under that id, whatever their handler answers.
\<close>

theorem sse_session_delivers:
  assumes "reads_frames limit read" "uuid_ok sess" "base_ok base" "parseURL (endpoint_url base sess) = Inr u"
    and "length (event_frame ''endpoint'' (endpoint_url base sess)) \<le> limit"
    and "list_all (\<lambda>m. msg_ok (sm_msg m) \<and> length (message_frame (sm_msg m)) \<le> limit)
           (filter (\<lambda>m. sm_sessionID m = sess) ms)"
    and "HandleSSE base sess None st = Served resp st'"
    and "smap_load (ws_writers (server_sends ms st')) sess = Some body"
    and "SSEClient_StartSession read (\<lambda>_. NotClosed) reply parseURL (Response 200 body) (NewSSEClient url True) = (r, c)"
  shows "r = Started sess None \<and> wc_messageURL c = u \<and>
    wc_delivered c = map (\<lambda>m. \<lparr>sm_sessionID = sess, sm_msg = wire_msg (sm_msg m)\<rparr>)
      (filter (\<lambda>m. sm_sessionID m = sess) ms)"
proof -
  let ?own = "map sm_msg (filter (\<lambda>m. sm_sessionID m = sess) ms)"
  have "smap_load (ws_writers st') sess = Some (event_frame ''endpoint'' (endpoint_url base sess))"
    using assms(7) by (auto simp: HandleSSE_def announce_def write_endpoint_def store_writer_def written_part_def Let_def
        split: if_splits)
  from stream_after_sends [OF this, of ms] assms(8)
  have b: "body = event_frame ''endpoint'' (endpoint_url base sess) @ concat (map message_frame ?own)"
    by (simp add: comp_def)
  have "list_all (\<lambda>m. msg_ok m \<and> length (message_frame m) \<le> limit) ?own"
    using assms(6) by (simp add: list_all_iff)
  from start_over_stream [OF assms(1-5) this _ _ b assms(9)] show ?thesis
    by (simp add: NewSSEClient_def comp_def)
qed

text \<open>A reader of events of the form the server writes; other input ends it with an error.\<close>

function frame_reader :: "string \<Rightarrow> (go_error + ssevent) list" where
  "frame_reader s =
     (if s = [] then []
      else
        let t = takeWhile (\<lambda>c. c \<noteq> nl) (drop 7 s); s1 = dropWhile (\<lambda>c. c \<noteq> nl) (drop 7 s);
            d = takeWhile (\<lambda>c. c \<noteq> nl) (drop 7 s1); s2 = dropWhile (\<lambda>c. c \<noteq> nl) (drop 7 s1)
        in if take 7 s = ''event: '' \<and> take 7 s1 = nl # ''data: '' \<and> take 2 s2 = [nl, nl]
           then Inr \<lparr>ev_Type = t, ev_Data = d\<rparr> # frame_reader (drop 2 s2)
           else [Inl (ErrNew ''unexpected event'')])"
  by pat_completeness auto
termination
proof (relation "measure length", simp, clarsimp)
  fix s :: string
  assume "s \<noteq> []"
  let ?s1 = "dropWhile (\<lambda>c. c \<noteq> nl) (drop 7 s)"
  have "length (dropWhile (\<lambda>c. c \<noteq> nl) (drop 7 ?s1)) \<le> length ?s1"
    using length_dropWhile_le [of "\<lambda>c. c \<noteq> nl" "drop 7 ?s1"] by simp
  moreover have "length ?s1 \<le> length s" using length_dropWhile_le [of "\<lambda>c. c \<noteq> nl" "drop 7 s"] by simp
  moreover have "0 < length s" using \<open>s \<noteq> []\<close> by simp
  ultimately show "length (dropWhile (\<lambda>c. c \<noteq> nl) (drop 7 ?s1)) - 2 < length s" by linarith
qed

declare frame_reader.simps [simp del]

lemma frame_reader_reads: "reads_frames limit frame_reader"
proof -
  have "frame_reader (event_frame t d @ s) = Inr \<lparr>ev_Type = t, ev_Data = d\<rparr> # frame_reader s"
    if "printable t" "printable d" for t d s
  proof -
    have nt: "nl \<notin> set t" "nl \<notin> set d" using that by (auto simp: printable_def dest: bspec)
    have "drop 7 (event_frame t d @ s) = t @ nl # (''data: '' @ d @ nl # nl # s)"
      "take 7 (event_frame t d @ s) = ''event: ''" "event_frame t d @ s \<noteq> []"
      by (simp_all add: event_frame_def)
    moreover have "takeWhile (\<lambda>c. c \<noteq> nl) (x @ nl # y) = x" "dropWhile (\<lambda>c. c \<noteq> nl) (x @ nl # y) = nl # y"
      if "nl \<notin> set x" for x y using that by (auto simp: takeWhile_append dropWhile_append)
    ultimately show ?thesis using nt by (subst frame_reader.simps) (simp add: Let_def)
  qed
  then show ?thesis by (simp add: reads_frames_def frame_reader.simps)
qed

definition demo_ping :: JSONRPCMessage where
  "demo_ping = JSONRPCMessage_zero\<lparr>msg_jsonrpc := ''2.0'', msg_id := ''7''\<rparr>"

lemma demo_ping_facts: "msg_ok demo_ping" "wire_msg demo_ping = demo_ping" "length (message_frame demo_ping) \<le> 65536"
  by (simp_all add: demo_ping_def msg_ok_def wire_msg_def event_frame_def enc_JSONRPCMessage_def JSONRPCMessage_zero_def
      omit_defs show_string_def escape_char_def)

theorem sse_session_delivers_witness:
  "\<exists>st' body c. HandleSSE ''/m'' ''a1'' None NewSSEServer = Served None st' \<and>
     smap_load (ws_writers (server_sends [\<lparr>sm_sessionID = ''a1'', sm_msg = demo_ping\<rparr>,
       \<lparr>sm_sessionID = ''b2'', sm_msg = demo_ping\<rparr>] st')) ''a1'' = Some body \<and>
     SSEClient_StartSession frame_reader (\<lambda>_. NotClosed) (\<lambda>_. None) Inr (Response 200 body) (NewSSEClient ''/sse'' True) =
       (Started ''a1'' None, c) \<and>
     wc_delivered c = [\<lparr>sm_sessionID = ''a1'', sm_msg = demo_ping\<rparr>]"
proof -
  let ?ms = "[\<lparr>sm_sessionID = ''a1'', sm_msg = demo_ping\<rparr>, \<lparr>sm_sessionID = ''b2'', sm_msg = demo_ping\<rparr>]"
  obtain st' where h: "HandleSSE ''/m'' ''a1'' None NewSSEServer = Served None st'"
    and w: "smap_load (ws_writers st') ''a1'' \<noteq> None"
    by (simp add: HandleSSE_def announce_def write_endpoint_def store_writer_def NewSSEServer_def Let_def)
  then obtain body where b: "smap_load (ws_writers (server_sends ?ms st')) ''a1'' = Some body"
    using stream_after_sends [of st' "''a1''" _ ?ms] by fastforce
  obtain r c where s: "SSEClient_StartSession frame_reader (\<lambda>_. NotClosed) (\<lambda>_. None) Inr (Response 200 body)
      (NewSSEClient ''/sse'' True) = (r, c)" by fastforce
  have ok: "uuid_ok ''a1''" "base_ok ''/m''"
    by (simp_all add: uuid_ok_def id_char_def is_digit_def base_ok_def)
  have fit: "length (event_frame ''endpoint'' (endpoint_url ''/m'' ''a1'')) \<le> 65536"
    "list_all (\<lambda>m. msg_ok (sm_msg m) \<and> length (message_frame (sm_msg m)) \<le> 65536)
       (filter (\<lambda>m. sm_sessionID m = ''a1'') ?ms)"
    using demo_ping_facts by (simp_all add: event_frame_def endpoint_url_def)
  from sse_session_delivers [OF frame_reader_reads ok refl fit h b s] h b s demo_ping_facts(2) show ?thesis by auto
qed

section \<open>The way back\<close>

text \<open>The round trip of a POST request to a server in state \<open>st\<close>; a handler that panics drops the connection.\<close>

definition post_to :: "go_error option \<Rightarrow> sse_server \<Rightarrow> string \<Rightarrow> string \<Rightarrow> go_error + nat" where
  "post_to reply st url body =
     (case HandleMessage (raw_query url) body reply st of
        Served (d, resp) st' \<Rightarrow> Inr (case resp of None \<Rightarrow> StatusOK | Some (status, e) \<Rightarrow> status)
      | _ \<Rightarrow> Inl (ErrNew ''EOF''))"

lemma decode_body_show: "msg_ok m \<Longrightarrow> decode_body (show_json (enc_JSONRPCMessage m)) = Inr (wire_msg m)"
  using parse_show(1) [of "enc_JSONRPCMessage m" "Suc (length (show_json (enc_JSONRPCMessage m)))" "[]"]
  by (simp add: decode_body_def ends_def unmarshal_def dec_enc_JSONRPCMessage)

text \<open>
  C32. A message the client posts to the endpoint it was given reaches the server's message channel as
  it was sent and under the id of the client's session, and \<^verbatim>\<open>Send\<close> returns nil exactly if the
  server handled it without error; the text of an error does not reach the client.
\<close>

theorem sse_post_reaches_session:
  assumes "uuid_ok sess" "base_ok base" "msg_ok (sm_msg m)" "wc_httpClient c" "\<not> ws_closed st"
    and "wc_messageURL c = endpoint_url base sess" "newReq (endpoint_url base sess) = None"
  shows "\<exists>resp st'. HandleMessage (raw_query (wc_messageURL c)) (show_json (enc_JSONRPCMessage (sm_msg m))) reply st =
      Served (Some \<lparr>sm_sessionID = sess, sm_msg = wire_msg (sm_msg m)\<rparr>, resp) st' \<and>
    SSEClient_Send newReq (post_to reply st) m c =
      Some (if reply = None then None else Some (ErrNew ''unexpected status code: 400''))"
proof -
  let ?b = "show_json (enc_JSONRPCMessage (sm_msg m))"
  have q: "query_get (raw_query (wc_messageURL c)) ''sessionID'' = sess"
    using raw_query_endpoint [OF assms(1,2)] query_get_id [OF assms(1)] assms(6) by simp
  have "sess \<noteq> []" using assms(1) by (simp add: uuid_ok_def)
  then have h: "HandleMessage (raw_query (wc_messageURL c)) ?b reply st =
      (case reply of
         None \<Rightarrow> Served (Some \<lparr>sm_sessionID = sess, sm_msg = wire_msg (sm_msg m)\<rparr>, None) st
       | Some e \<Rightarrow> Served (Some \<lparr>sm_sessionID = sess, sm_msg = wire_msg (sm_msg m)\<rparr>,
           Some (400, ErrWrap ''failed to handle message: %w'' [e]))
           (st\<lparr>ws_errors := ws_errors st @ [ErrWrap ''failed to handle message: %w'' [e]]\<rparr>))"
    using q assms(5) decode_body_show [OF assms(3)]
    by (simp add: HandleMessage_def Let_def SSEServer_logError_def StatusBadRequest_def split: option.split)
  have "show_nat 400 = ''400''" by (simp add: show_nat.simps digit_char_def char_of_def bit_numeral_rec bit_0)
  with h assms(4,6,7) show ?thesis
    by (cases reply) (simp_all add: SSEClient_Send_def post_to_def StatusOK_def unexpected_status_def)
qed

theorem sse_post_reaches_session_witness:
  "SSEClient_Send (\<lambda>_. None) (post_to (Some ErrCanceled) NewSSEServer) \<lparr>sm_sessionID = ''a1'', sm_msg = demo_ping\<rparr>
     ((NewSSEClient ''/sse'' True)\<lparr>wc_messageURL := ''/m?sessionID=a1''\<rparr>) =
   Some (Some (ErrNew ''unexpected status code: 400''))"
proof -
  have ok: "uuid_ok ''a1''" "base_ok ''/m''" "endpoint_url ''/m'' ''a1'' = ''/m?sessionID=a1''"
    by (simp_all add: uuid_ok_def id_char_def is_digit_def base_ok_def endpoint_url_def)
  from sse_post_reaches_session [OF ok(1,2), of "\<lparr>sm_sessionID = ''a1'', sm_msg = demo_ping\<rparr>"
      "(NewSSEClient ''/sse'' True)\<lparr>wc_messageURL := ''/m?sessionID=a1''\<rparr>" NewSSEServer "\<lambda>_. None" "Some ErrCanceled"]
  show ?thesis by (simp add: ok demo_ping_facts NewSSEClient_def NewSSEServer_def)
qed

section \<open>Sessions without an endpoint\<close>

text \<open>
  C33. Where the handshake fails silently: if the first event of the stream is a message, or the stream
  ends at once, \<^verbatim>\<open>StartSession\<close> returns the empty session id and no error; and between the announcement
  of a session and the storing of its writer, \<^verbatim>\<open>Send\<close> to it fails with \<^verbatim>\<open>session not found\<close>.
\<close>

theorem sse_handshake_gaps:
  assumes "read body = [] \<or> (\<exists>ev evs. read body = Inr ev # evs \<and> ev_Type ev = ''message'')" "wc_httpClient c"
    and "announce sess st = Served () st'" "smap_load (ws_writers st) sess = None"
  shows "fst (SSEClient_StartSession read (\<lambda>_. NotClosed) reply parseURL (Response 200 body) c) = Started [] None \<and>
    fst (SSEServer_Send \<lparr>sm_sessionID = sess, sm_msg = m\<rparr> w ctxDone st') = Some (ErrNew ''session not found'') \<and>
    fst (SSEServer_Send \<lparr>sm_sessionID = sess, sm_msg = m\<rparr> None None (store_writer sess st')) = None"
proof -
  have "fst (SSEClient_StartSession read (\<lambda>_. NotClosed) reply parseURL (Response 200 body) c) = Started [] None"
    using assms(1,2)
    by (auto simp: SSEClient_StartSession_def StatusOK_def Let_def finish_def listen_start_def listen_event_def
        handle_message_def SSEClient_logError_def)
  moreover have "ws_writers st' = ws_writers st"
    using assms(3) by (auto simp: announce_def split: if_splits)
  ultimately show ?thesis using assms(4) by (simp add: SSEServer_Send_def store_writer_def Let_def)
qed

theorem sse_handshake_gaps_witness:
  "fst (SSEClient_StartSession frame_reader (\<lambda>_. NotClosed) (\<lambda>_. None) Inr (Response 200 []) (NewSSEClient ''/sse'' True)) =
     Started [] None"
proof -
  have "frame_reader [] = []" "wc_httpClient (NewSSEClient ''/sse'' True)"
    "announce ''a1'' NewSSEServer = Served () (NewSSEServer\<lparr>ws_sessions := [''a1'']\<rparr>)"
    "smap_load (ws_writers NewSSEServer) ''a1'' = None"
    by (simp_all add: frame_reader.simps NewSSEClient_def announce_def NewSSEServer_def)
  from sse_handshake_gaps [of frame_reader "[]", OF disjI1 [OF this(1)] this(2-4)] show ?thesis by blast
qed

end
