(* ===== verification/Everything.thy ===== *)
theory Everything
  imports ToolArgs JsonText
begin

text \<open>
  The everything server (\<^verbatim>\<open>src/pkg/servers/everything\<close>): prompts, resources, tools, log level and
  subscriptions. A method takes the server's state and returns its result with the state after
  it; it can also block (the log channel is full and nobody reads it) or panic (a slice out of
  range). The validator, the environment variables, the client's answer to a sampling request,
  what \<^verbatim>\<open>strconv.ParseFloat\<close> and \<^verbatim>\<open>%.2f\<close> do, the fixed image and the choices of \<^verbatim>\<open>select\<close> are arguments.
\<close>

section \<open>State\<close>

text \<open>
  \<open>es_logChan\<close> is the log channel, a queue of at most ten entries. \<open>es_updates\<close> and \<open>es_progress\<close> are the
  histories of what was sent on the update and the progress channel.
\<close>

record everything =
  es_resourceSubscribers :: "(string, unit) smap"
  es_logLevel :: int
  es_updates :: "string list"
  es_progress :: "ProgressParams list"
  es_logChan :: "LogParams list"
  es_done :: bool

definition LogLevelDebug :: int where "LogLevelDebug = 0"
definition LogLevelInfo :: int where "LogLevelInfo = 1"

definition chanSize :: nat where "chanSize = 10"

definition es_NewServer :: everything where
  "es_NewServer = \<lparr>es_resourceSubscribers = [], es_logLevel = LogLevelDebug, es_updates = [],
     es_progress = [], es_logChan = [], es_done = False\<rparr>"

definition es_Info :: Info where "es_Info = \<lparr>info_name = ''everything'', info_version = ''1.0''\<rparr>"
definition es_RequireRootsListClient :: bool where "es_RequireRootsListClient = False"
definition es_RequireSamplingClient :: bool where "es_RequireSamplingClient = True"

text \<open>How a method ends.\<close>

datatype 'a outcome = Blocked | SlicePanic | CloseOfClosed | Returned "'a res" everything

definition es_Close :: "everything \<Rightarrow> unit outcome" where
  "es_Close st = (if es_done st then CloseOfClosed else Returned (Inr ()) (st\<lparr>es_done := True\<rparr>))"

section \<open>Logging\<close>

definition es_SetLogLevel :: "int \<Rightarrow> everything \<Rightarrow> everything" where
  "es_SetLogLevel level st = st\<lparr>es_logLevel := level\<rparr>"

text \<open>
  \<^verbatim>\<open>log\<close>: \<open>None\<close> if it blocks. With room in the channel and \<^verbatim>\<open>doneChan\<close> closed, both arms are ready
  and \<open>pick\<close> says whether the second is taken.
\<close>

definition es_log :: "bool \<Rightarrow> string \<Rightarrow> int \<Rightarrow> everything \<Rightarrow> everything option" where
  "es_log pick msg level st =
     (if level < es_logLevel st then Some st
      else
        let room = (length (es_logChan st) < chanSize) in
        if es_done st \<and> (pick \<or> \<not> room) then Some st
        else if room then
          Some (st\<lparr>es_logChan := es_logChan st @
            [\<lparr>lp_level = level, lp_logger = ''everything'', lp_data = \<lparr>ld_message = msg, ld_details = []\<rparr>\<rparr>]\<rparr>)
        else None)"

definition after_log :: "bool \<Rightarrow> string \<Rightarrow> int \<Rightarrow> (everything \<Rightarrow> 'a outcome) \<Rightarrow> everything \<Rightarrow> 'a outcome" where
  "after_log pick msg level k st = (case es_log pick msg level st of None \<Rightarrow> Blocked | Some st' \<Rightarrow> k st')"

text \<open>The server that reads \<^verbatim>\<open>LogStreams\<close> takes the oldest entry.\<close>

fun es_LogStreams :: "everything \<Rightarrow> (LogParams \<times> everything) option" where
  "es_LogStreams st = (case es_logChan st of [] \<Rightarrow> None | l # ls \<Rightarrow> Some (l, st\<lparr>es_logChan := ls\<rparr>))"

section \<open>Resources\<close>

definition pageSize :: int where "pageSize = 10"

definition resourceCompletions :: "(string \<times> string list) list" where
  "resourceCompletions = [(''resourceId'', [''1'', ''2'', ''3'', ''4'', ''5''])]"

text \<open>\<^verbatim>\<open>base64.StdEncoding\<close>.\<close>

definition b64_char :: "nat \<Rightarrow> char" where
  "b64_char n =
     (if n < 26 then char_of (65 + n) else if n < 52 then char_of (71 + n)
      else if n < 62 then char_of (n - 4) else if n = 62 then CHR ''+'' else CHR ''/'')"

fun b64_encode :: "nat list \<Rightarrow> string" where
  "b64_encode [] = []"
| "b64_encode [a] = [b64_char (a div 4), b64_char (a mod 4 * 16), CHR ''='', CHR ''='']"
| "b64_encode [a, b] =
     [b64_char (a div 4), b64_char (a mod 4 * 16 + b div 16), b64_char (b mod 16 * 4), CHR ''='']"
| "b64_encode (a # b # c # r) =
     [b64_char (a div 4), b64_char (a mod 4 * 16 + b div 16), b64_char (b mod 16 * 4 + c div 64),
      b64_char (c mod 64)] @ b64_encode r"

definition resource_uri :: "nat \<Rightarrow> string" where
  "resource_uri n = ''test://static/resource/'' @ show_nat n"

text \<open>The resource with index \<open>i\<close>; its number is \<open>i + 1\<close>.\<close>

definition genResource :: "nat \<Rightarrow> Resource" where
  "genResource i =
     (let uri = resource_uri (i + 1); name = ''Resource '' @ show_nat (i + 1) in
      if i mod 2 = 0 then
        Resource_zero\<lparr>re_uri := uri, re_name := name, re_mimeType := ''text/plain'',
          re_text := ''Resource '' @ show_nat (i + 1) @ '': This is a plain text resource''\<rparr>
      else
        Resource_zero\<lparr>re_uri := uri, re_name := name, re_mimeType := ''application/octet-stream'',
          re_blob := b64_encode (map of_char (''Resource '' @ show_nat (i + 1) @ '': This is a base64 blob''))\<rparr>)"

definition genResources :: "Resource list" where
  "genResources = map genResource [0..<100]"

definition es_ListResources :: "bool \<Rightarrow> ListResourcesParams \<Rightarrow> everything \<Rightarrow> ListResourcesResult outcome" where
  "es_ListResources pick params =
     after_log pick (''ListResources: '' @ lrp_cursor params) LogLevelDebug (\<lambda>st.
       let n = int (length genResources);
           startIndex = (if lrp_cursor params \<noteq> [] then fst (atoi (lrp_cursor params)) else 0);
           end0 = wrap64 (startIndex + pageSize);
           endIndex = (if n < end0 then n else end0)
       in if startIndex < 0 \<or> endIndex < startIndex then SlicePanic
          else Returned (Inr \<lparr>lrr_resources = Some (take (nat (endIndex - startIndex)) (drop (nat startIndex) genResources)),
                              lrr_nextCursor = (if endIndex < n then show_int endIndex else [])\<rparr>) st)"

definition es_ReadResource :: "bool \<Rightarrow> ReadResourceParams \<Rightarrow> everything \<Rightarrow> ReadResourceResult outcome" where
  "es_ReadResource pick params =
     after_log pick (''ReadResource: '' @ rrp_uri params) LogLevelDebug (\<lambda>st.
       let missing = Returned (Inl (ErrNew ''resource not found'')) st;
           arrStr = split_at (CHR ''/'') (rrp_uri params);
           index = fst (atoi (last arrStr))
       in if \<not> HasPrefix (rrp_uri params) ''test://static/resource/'' then missing
          else if length arrStr < 2 then missing
          else if index < 0 \<or> int (length genResources) \<le> index then missing
          else Returned (Inr \<lparr>rrr_contents = Some [genResources ! nat index]\<rparr>) st)"

definition es_ListResourceTemplates ::
    "bool \<Rightarrow> ListResourceTemplatesParams \<Rightarrow> everything \<Rightarrow> ListResourceTemplatesResult outcome" where
  "es_ListResourceTemplates pick params =
     after_log pick ''ListResourceTemplates'' LogLevelDebug (\<lambda>st.
       Returned (Inr \<lparr>lrtr_templates = Some
         [ResourceTemplate_zero\<lparr>rt_uriTemplate := ''test://static/resource/{id}'', rt_name := ''Static Resource'',
            rt_description := ''A status resource with numeric ID''\<rparr>]\<rparr>) st)"

definition completion_result :: "string list \<Rightarrow> CompletionResult" where
  "completion_result values =
     \<lparr>cr_completion = \<lparr>cn_values = (if values = [] then None else Some values), cn_hasMore = False\<rparr>\<rparr>"

definition es_CompletesResourceTemplate ::
    "bool \<Rightarrow> CompletesCompletionParams \<Rightarrow> everything \<Rightarrow> CompletionResult outcome" where
  "es_CompletesResourceTemplate pick params =
     after_log pick (''CompletesResourceTemplate: '' @ cref_name (ccp_ref params)) LogLevelDebug (\<lambda>st.
       case map_of resourceCompletions (cref_name (ccp_ref params)) of
         None \<Rightarrow> Returned (Inr CompletionResult_zero) st
       | Some completions \<Rightarrow>
           Returned (Inr (completion_result
             (filter (\<lambda>c. HasPrefix c (carg_value (ccp_argument params))) completions))) st)"

definition es_SubscribeResource :: "bool \<Rightarrow> SubscribeResourceParams \<Rightarrow> everything \<Rightarrow> unit outcome" where
  "es_SubscribeResource pick params =
     after_log pick (''SubscribeResource: '' @ srp_uri params) LogLevelDebug (\<lambda>st.
       Returned (Inr ()) (st\<lparr>es_resourceSubscribers := smap_store (srp_uri params) () (es_resourceSubscribers st)\<rparr>))"

definition es_UnsubscribeResource :: "bool \<Rightarrow> UnsubscribeResourceParams \<Rightarrow> everything \<Rightarrow> unit outcome" where
  "es_UnsubscribeResource pick params =
     after_log pick (''UnsubscribeResource: '' @ urp_uri params) LogLevelDebug (\<lambda>st.
       Returned (Inr ()) (st\<lparr>es_resourceSubscribers := smap_delete (urp_uri params) (es_resourceSubscribers st)\<rparr>))"

text \<open>
  One tick of \<^verbatim>\<open>simulateResourceUpdates\<close>: for every subscribed URI a log entry and then the update,
  or, if \<open>stop\<close> says so and \<^verbatim>\<open>doneChan\<close> is closed, the end of the round. \<open>None\<close>: it blocks.
\<close>

fun simulate_round :: "(string \<Rightarrow> bool) \<Rightarrow> string list \<Rightarrow> everything \<Rightarrow> everything option" where
  "simulate_round stop [] st = Some st"
| "simulate_round stop (uri # uris) st =
     (case es_log (stop uri) (''simulateResourceUpdates: Resource '' @ uri @ '' updated'') LogLevelDebug st of
        None \<Rightarrow> None
      | Some st' \<Rightarrow>
          if es_done st' \<and> stop uri then Some st'
          else simulate_round stop uris (st'\<lparr>es_updates := es_updates st' @ [uri]\<rparr>))"

definition simulateResourceUpdates :: "(string \<Rightarrow> bool) \<Rightarrow> everything \<Rightarrow> everything option" where
  "simulateResourceUpdates stop st =
     simulate_round stop (map fst (smap_range (es_resourceSubscribers st))) st"

section \<open>Prompts\<close>

definition PromptRoleUser :: string where "PromptRoleUser = ''user''"
definition PromptRoleAssistant :: string where "PromptRoleAssistant = ''assistant''"
definition ContentTypeImage :: string where "ContentTypeImage = ''image''"

definition promptList :: ListPromptResult where
  "promptList =
     \<lparr>lpr_prompts = Some
       [\<lparr>pr_name = ''simple-prompt'', pr_description = ''A prompt without arguments'', pr_arguments = []\<rparr>,
        \<lparr>pr_name = ''complex-prompt'', pr_description = ''A prompt with arguments'',
         pr_arguments =
           [\<lparr>pa_name = ''temperature'', pa_description = ''Temperature settings'', pa_required = True\<rparr>,
            \<lparr>pa_name = ''style'', pa_description = ''Output style'', pa_required = False\<rparr>]\<rparr>],
      lpr_nextCursor = []\<rparr>"

definition promptCompletions :: "(string \<times> string list) list" where
  "promptCompletions =
     [(''temperature'', [''0'', ''0.5'', ''0.7'', ''1.0'']),
      (''style'', [''casual'', ''formal'', ''technical'', ''friendly''])]"

definition es_ListPrompts :: "bool \<Rightarrow> bool \<Rightarrow> everything \<Rightarrow> ListPromptResult outcome" where
  "es_ListPrompts pick pick' =
     after_log pick ''ListPrompts'' LogLevelDebug
       (after_log pick' (''count prompts: '' @ show_nat (length (the (lpr_prompts promptList)))) LogLevelInfo
         (\<lambda>st. Returned (Inr promptList) st))"

definition image_content :: "string \<Rightarrow> Content" where
  "image_content tinyImage = Content_zero\<lparr>co_type := ContentTypeImage, co_data := tinyImage, co_mimeType := ''image/png''\<rparr>"

definition complex_prompt :: "string \<Rightarrow> string \<Rightarrow> string \<Rightarrow> GetPromptResult" where
  "complex_prompt tinyImage temperature style =
     \<lparr>gpr_description = ''A complex prompt with arguments'',
      gpr_messages =
        [\<lparr>pm_role = PromptRoleUser, pm_content = text_content
            (''This is a complex prompt with arguments: temperature='' @ temperature @ '', style='' @ style)\<rparr>,
         \<lparr>pm_role = PromptRoleAssistant, pm_content = text_content
            ([newline] @ ''I understand. You'' @ [CHR 0x27] @
             ''ve provided a complex prompt with temperature and style arguments. How would you like me to proceed?'' @
             [newline] @ ''            '')\<rparr>,
         \<lparr>pm_role = PromptRoleUser, pm_content = image_content tinyImage\<rparr>]\<rparr>"

definition es_GetPrompt ::
    "(string \<Rightarrow> 'f option) \<Rightarrow> ('f \<Rightarrow> string) \<Rightarrow> string \<Rightarrow> bool \<Rightarrow> GetPromptParams \<Rightarrow> everything \<Rightarrow> GetPromptResult outcome" where
  "es_GetPrompt parseFloat show2f tinyImage pick params =
     after_log pick (''GetPrompt: '' @ gpp_name params) LogLevelDebug (\<lambda>st.
       let args = (case gpp_arguments params of None \<Rightarrow> [] | Some m \<Rightarrow> m) in
       if gpp_name params = ''simple-prompt'' then
         Returned (Inr \<lparr>gpr_description = ''A simple prompt'',
           gpr_messages = [\<lparr>pm_role = PromptRoleUser,
             pm_content = text_content ''This is a simple prompt without arguments.''\<rparr>]\<rparr>) st
       else if gpp_name params = ''complex-prompt'' then
         (case smap_load args ''temperature'' of
            None \<Rightarrow> Returned (Inl (ErrNew ''temperature argument not found'')) st
          | Some temp \<Rightarrow>
              (case parseFloat temp of
                 None \<Rightarrow> Returned (Inl (ErrNew ''temperature argument is not a float64'')) st
               | Some temperature \<Rightarrow>
                   Returned (Inr (complex_prompt tinyImage (show2f temperature)
                     (case smap_load args ''style'' of None \<Rightarrow> ''casual'' | Some style \<Rightarrow> style))) st))
       else Returned (Inr GetPromptResult_zero) st)"

definition es_CompletesPrompt :: "bool \<Rightarrow> CompletesCompletionParams \<Rightarrow> everything \<Rightarrow> CompletionResult outcome" where
  "es_CompletesPrompt pick params =
     after_log pick (''CompletesPrompt: '' @ cref_name (ccp_ref params)) LogLevelDebug (\<lambda>st.
       case map_of promptCompletions (carg_name (ccp_argument params)) of
         None \<Rightarrow> Returned (Inr CompletionResult_zero) st
       | Some completions \<Rightarrow>
           Returned (Inr (completion_result
             (filter (\<lambda>c. carg_value (ccp_argument params) = [] \<or> HasPrefix c (carg_value (ccp_argument params)))
               completions))) st)"

section \<open>Tools\<close>

definition echoSchema :: json where
  "echoSchema =
     JObj [
       (''type'', JStr ''object''),
       (''properties'', JObj [(''message'', JObj [(''type'', JStr ''string'')])])]"

definition addSchema :: json where
  "addSchema =
     JObj [
       (''type'', JStr ''object''),
       (''properties'', JObj [
          (''a'', JObj [(''type'', JStr ''number'')]),
          (''b'', JObj [(''type'', JStr ''number'')])])]"

definition longRunningOperationSchema :: json where
  "longRunningOperationSchema =
     JObj [
       (''type'', JStr ''object''),
       (''properties'', JObj [
          (''duration'', JObj [(''type'', JStr ''number''), (''default'', JNum 10 0)]),
          (''steps'', JObj [(''type'', JStr ''number''), (''default'', JNum 5 0)])])]"

definition sampleLLMSchema :: json where
  "sampleLLMSchema =
     JObj [
       (''type'', JStr ''object''),
       (''properties'', JObj [
          (''prompt'', JObj [(''type'', JStr ''string'')]),
          (''maxTokens'', JObj [(''type'', JStr ''number''), (''default'', JNum 100 0)])])]"

definition es_toolList :: "json Tool list" where
  "es_toolList =
     [\<lparr>to_name = ''echo'',
        to_description = ''Echoes back the input'',
        to_inputSchema = Some echoSchema\<rparr>,
      \<lparr>to_name = ''add'',
        to_description = ''Adds two numbers'',
        to_inputSchema = Some addSchema\<rparr>,
      \<lparr>to_name = ''longRunningOperation'',
        to_description = ''Demonstrates a long running operation with progress updates'',
        to_inputSchema = Some longRunningOperationSchema\<rparr>,
      \<lparr>to_name = ''printEnv'',
        to_description = ''Prints all environment variables, helpful for debugging MCP server configuration'',
        to_inputSchema = None\<rparr>,
      \<lparr>to_name = ''sampleLLM'',
        to_description = ''Samples from an LLM using MCP's sampling feature'',
        to_inputSchema = Some sampleLLMSchema\<rparr>,
      \<lparr>to_name = ''getTinyImage'',
        to_description = ''Returns the MCP_TINY_IMAGE'',
        to_inputSchema = None\<rparr>]"

definition es_ListTools :: "bool \<Rightarrow> everything \<Rightarrow> json ListToolsResult outcome" where
  "es_ListTools pick =
     after_log pick ''ListTools'' LogLevelDebug (\<lambda>st.
       Returned (Inr \<lparr>ltr_tools = Some es_toolList, ltr_nextCursor = []\<rparr>) st)"

text \<open>
  An argument asserted to be a \<^verbatim>\<open>float64\<close>, the sum of two and the verb \<^verbatim>\<open>%f\<close> (six digits, exact value
  rounded half to even). An overflowing sum is an infinity.
\<close>

fun as_float :: "json option \<Rightarrow> f64" where
  "as_float (Some (JNum m k)) = (case f64_of_decimal m k of None \<Rightarrow> F64 0 0 | Some v \<Rightarrow> v)"
| "as_float _ = F64 0 0"

definition f64_ratio :: "int \<Rightarrow> int \<Rightarrow> nat \<times> nat" where
  "f64_ratio m e = (if 0 \<le> e then (nat \<bar>m\<bar> * 2 ^ nat e, 1) else (nat \<bar>m\<bar>, 2 ^ nat (- e)))"

definition f64_add :: "f64 \<Rightarrow> f64 \<Rightarrow> f64 option \<times> bool" where
  "f64_add a b =
     (let e = min (f64_exp a) (f64_exp b);
          m = f64_mant a * 2 ^ nat (f64_exp a - e) + f64_mant b * 2 ^ nat (f64_exp b - e);
          (p, q) = f64_ratio m e;
          (r, x) = f64_of_ratio p q
      in (if 971 < x \<or> (x = 971 \<and> 2 ^ 53 \<le> r) then None else Some (F64 (sgn m * int r) x), m < 0))"

definition show_f :: "f64 \<Rightarrow> string" where
  "show_f v =
     (let (p, q) = f64_ratio (f64_mant v) (f64_exp v);
          n = round_half_even (p * 10 ^ 6) q
      in (if f64_mant v < 0 then ''-'' else []) @ show_nat (n div 10 ^ 6) @ ''.'' @ fixed_digits 6 (n mod 10 ^ 6))"

definition show_sum :: "f64 option \<times> bool \<Rightarrow> string" where
  "show_sum r = (case r of (Some v, neg) \<Rightarrow> show_f v | (None, neg) \<Rightarrow> if neg then ''-Inf'' else ''+Inf'')"

definition callEcho :: "validator \<Rightarrow> CallToolParams \<Rightarrow> CallToolResult res" where
  "callEcho validate params =
     (case validation_error validate echoSchema params of
        Some e \<Rightarrow> Inl e
      | None \<Rightarrow> Inr (tool_text (as_string (argument params ''message''))))"

definition callAdd :: "validator \<Rightarrow> CallToolParams \<Rightarrow> CallToolResult res" where
  "callAdd validate params =
     (case validation_error validate addSchema params of
        Some e \<Rightarrow> Inl e
      | None \<Rightarrow>
          let a = as_float (argument params ''a''); b = as_float (argument params ''b'') in
          Inr (tool_text (''The sum of '' @ show_f a @ '' and '' @ show_f b @ '' is '' @ show_sum (f64_add a b))))"

text \<open>
  The loop of \<^verbatim>\<open>callLongRunningOperation\<close>. Per step with a progress token one of three arms: the
  report is taken (by the reader of \<^verbatim>\<open>progressChan\<close>, now or later), the context ended, or the
  server closed.
\<close>

datatype progress_arm = ReportTaken | CtxEnded go_error | ServerClosed

fun progress_loop ::
    "(nat \<Rightarrow> progress_arm) \<Rightarrow> MustString \<Rightarrow> f64 \<Rightarrow> nat \<Rightarrow> nat \<Rightarrow> go_error option \<times> ProgressParams list" where
  "progress_loop arm token steps i 0 = (None, [])"
| "progress_loop arm token steps i (Suc n) =
     (if token = [] then progress_loop arm token steps (Suc i) n
      else case arm i of
        ReportTaken \<Rightarrow>
          (case progress_loop arm token steps (Suc i) n of
             (e, ps) \<Rightarrow> (e, \<lparr>pp_progressToken = token,
                            pp_progress = as_float (Some (JNum (int (Suc i)) 0)), pp_total = steps\<rparr> # ps))
      | CtxEnded e \<Rightarrow> (Some e, [])
      | ServerClosed \<Rightarrow> (Some (ErrNew ''server closed''), []))"

definition callLongRunningOperation ::
    "validator \<Rightarrow> (nat \<Rightarrow> progress_arm) \<Rightarrow> CallToolParams \<Rightarrow> CallToolResult res \<times> ProgressParams list" where
  "callLongRunningOperation validate arm params =
     (case validation_error validate longRunningOperationSchema params of
        Some e \<Rightarrow> (Inl e, [])
      | None \<Rightarrow>
          let duration = as_float (argument params ''duration'');
              steps = as_float (argument params ''steps'')
          in case progress_loop arm (meta_progressToken (ctp_meta params)) steps 0 (nat (int_of_f64 steps)) of
               (Some e, ps) \<Rightarrow> (Inl e, ps)
             | (None, ps) \<Rightarrow>
                 (Inr (tool_text (''Long running operation completed. Duration: '' @ show_f duration @
                    '' seconds, Steps: '' @ show_f steps)), ps))"

fun join_lines :: "string list \<Rightarrow> string" where
  "join_lines [] = []"
| "join_lines [x] = x"
| "join_lines (x # y # xs) = x @ newline # join_lines (y # xs)"

definition callPrintEnv :: "string list \<Rightarrow> CallToolResult res" where
  "callPrintEnv environ = Inr (tool_text (''Environment variables:'' @ [newline] @ join_lines environ))"

definition sampling_params :: "string \<Rightarrow> f64 \<Rightarrow> SamplingParams" where
  "sampling_params prompt maxTokens =
     \<lparr>sp_messages = Some [\<lparr>sam_role = PromptRoleUser, sam_content =
        \<lparr>sco_type = ''text'', sco_text = ''Resource sampleLLM context: '' @ prompt, sco_data = [], sco_mimeType = []\<rparr>\<rparr>],
      sp_modelPreferences = \<lparr>smp_hints = None, smp_costPriority = 1, smp_speedPriority = 2,
        smp_intelligencePriority = 3\<rparr>,
      sp_systemPrompts = ''You are a helpful assistant.'', sp_maxTokens = int_of_f64 maxTokens\<rparr>"

text \<open>\<open>requestClient\<close> is what the server passes to the tool; \<open>uuid\<close> the id the tool gives the request.\<close>

definition callSampleLLM ::
    "validator \<Rightarrow> string \<Rightarrow> (JSONRPCMessage \<Rightarrow> JSONRPCMessage res) \<Rightarrow> CallToolParams \<Rightarrow> CallToolResult res" where
  "callSampleLLM validate uuid requestClient params =
     (case validation_error validate sampleLLMSchema params of
        Some e \<Rightarrow> Inl e
      | None \<Rightarrow>
          (case requestClient (JSONRPCMessage_zero\<lparr>msg_jsonrpc := JSONRPCVersion, msg_id := uuid,
                  msg_method := MethodSamplingCreateMessage,
                  msg_params := Some (enc_SamplingParams (sampling_params
                    (as_string (argument params ''prompt'')) (as_float (argument params ''maxTokens''))))\<rparr>) of
             Inl e \<Rightarrow> Inl (ErrWrap ''failed to request sampling: %w'' [e])
           | Inr resMsg \<Rightarrow>
               (case unmarshal dec_SamplingResult SamplingResult_zero (msg_result resMsg) of
                  Inl e \<Rightarrow> Inl (ErrWrap ''failed to unmarshal sampling result: %w'' [e])
                | Inr samplingResult \<Rightarrow> Inr (tool_text (sco_text (sres_content samplingResult))))))"

definition callGetTinyImage :: "string \<Rightarrow> CallToolResult res" where
  "callGetTinyImage tinyImage = Inr \<lparr>ctr_content = Some [image_content tinyImage], ctr_isError = False\<rparr>"

text \<open>What a tool call gets from outside.\<close>

record es_env =
  ee_validate :: validator
  ee_arm :: "nat \<Rightarrow> progress_arm"
  ee_environ :: "string list"
  ee_uuid :: string
  ee_requestClient :: "JSONRPCMessage \<Rightarrow> JSONRPCMessage res"
  ee_image :: string

definition es_CallTool :: "es_env \<Rightarrow> bool \<Rightarrow> CallToolParams \<Rightarrow> everything \<Rightarrow> CallToolResult outcome" where
  "es_CallTool ev pick params =
     after_log pick (''CallTool: '' @ ctp_name params) LogLevelDebug (\<lambda>st.
       if ctp_name params = ''echo'' then Returned (callEcho (ee_validate ev) params) st
       else if ctp_name params = ''add'' then Returned (callAdd (ee_validate ev) params) st
       else if ctp_name params = ''longRunningOperation'' then
         (case callLongRunningOperation (ee_validate ev) (ee_arm ev) params of
            (r, ps) \<Rightarrow> Returned r (st\<lparr>es_progress := es_progress st @ ps\<rparr>))
       else if ctp_name params = ''printEnv'' then Returned (callPrintEnv (ee_environ ev)) st
       else if ctp_name params = ''sampleLLM'' then
         Returned (callSampleLLM (ee_validate ev) (ee_uuid ev) (ee_requestClient ev) params) st
       else if ctp_name params = ''getTinyImage'' then Returned (callGetTinyImage (ee_image ev)) st
       else Returned (Inl (ErrNew (''tool not found: '' @ ctp_name params))) st)"

end
