(* ===== verification/EverythingProps.thy ===== *)
theory EverythingProps
  imports Everything
begin

text \<open>
  Properties of the everything server: paging through its resources, reading them by URI, where
  its methods block, its progress reports and its subscriptions.
\<close>

section \<open>Logging\<close>

lemma es_log_quiet: "level < es_logLevel st \<Longrightarrow> es_log pick msg level st = Some st"
  by (simp add: es_log_def)


definition log_blocked :: "int \<Rightarrow> everything \<Rightarrow> bool" where
  "log_blocked level st \<longleftrightarrow> es_logLevel st \<le> level \<and> chanSize \<le> length (es_logChan st) \<and> \<not> es_done st"

lemma es_log_None: "es_log pick msg level st = None \<longleftrightarrow> log_blocked level st"
  by (auto simp: es_log_def Let_def log_blocked_def split: if_splits)


section \<open>Paging\<close>

lemma atoi_in_int64: "in_int64 (fst (atoi s))"
  by (auto simp: atoi_def Let_def in_int64_def int64_min_def int64_max_def split: option.split prod.split)

lemma length_genResources [simp]: "length genResources = 100"
  by (simp add: genResources_def)

lemma show_nat_int: "show_nat n = show_int (int n)"
  by (simp add: show_int_def)

lemma small_int64: "n \<le> 100 \<Longrightarrow> in_int64 (int n)"
  by (simp add: in_int64_def int64_min_def int64_max_def)

lemma genResource_uri [simp]: "re_uri (genResource i) = resource_uri (i + 1)"
  by (simp add: genResource_def Let_def Resource_zero_def)

lemma distinct_uris: "distinct (map re_uri genResources)"
proof -
  have "inj_on resource_uri {1..100}"
    using show_int_inject small_int64 by (intro inj_onI) (fastforce simp: resource_uri_def show_nat_int)
  then have "inj_on (resource_uri \<circ> Suc) {0..<100}" by (intro comp_inj_on) (auto elim: inj_on_subset)
  then show ?thesis by (simp add: genResources_def distinct_map o_def)
qed

text \<open>The page the code cuts out, as a function of the start index.\<close>

lemma ListResources_page:
  assumes "es_log pick (''ListResources: '' @ lrp_cursor params) LogLevelDebug st = Some st'"
    and "start = (if lrp_cursor params = [] then 0 else fst (atoi (lrp_cursor params)))"
  shows "es_ListResources pick params st =
    (if 0 \<le> start \<and> start \<le> 100
     then Returned (Inr \<lparr>lrr_resources = Some (take 10 (drop (nat start) genResources)),
       lrr_nextCursor = (if start < 90 then show_int (start + 10) else [])\<rparr>) st'
     else SlicePanic)"
proof -
  have in64: "in_int64 start"
    using assms(2) atoi_in_int64 by (auto simp: in_int64_def int64_min_def int64_max_def split: if_splits)
  let ?sum = "wrap64 (start + pageSize)"
  let ?stop = "if 100 < ?sum then 100 else ?sum"
  have code: "es_ListResources pick params st =
      (if start < 0 \<or> ?stop < start then SlicePanic
       else Returned (Inr \<lparr>lrr_resources = Some (take (nat (?stop - start)) (drop (nat start) genResources)),
                          lrr_nextCursor = (if ?stop < 100 then show_int ?stop else [])\<rparr>) st')"
    using assms by (simp add: es_ListResources_def after_log_def Let_def)
  consider (low) "start < 0" | (mid) "0 \<le> start" "start \<le> 100" | (high) "100 < start" by linarith
  then show ?thesis
  proof cases
    case low
    then show ?thesis by (simp add: code)
  next
    case mid
    then have e: "?sum = start + 10"
      using wrap64_id [of "start + 10"] by (simp add: pageSize_def in_int64_def int64_min_def int64_max_def)
    show ?thesis
    proof (cases "start \<le> 90")
      case True
      with mid e show ?thesis by (auto simp: code)
    next
      case False
      then have "take (nat (100 - start)) (drop (nat start) genResources) = drop (nat start) genResources"
        "take 10 (drop (nat start) genResources) = drop (nat start) genResources"
        using mid by (simp_all add: nat_le_iff)
      with False mid e show ?thesis by (auto simp: code)
    qed
  next
    case high
    have "?sum < start \<or> 100 < ?sum"
    proof (cases "in_int64 (start + 10)")
      case True
      then show ?thesis using wrap64_id high by (simp add: pageSize_def)
    next
      case False
      have "int64_max < start + 10" using False in64 high by (simp add: in_int64_def int64_min_def)
      then have "(start + 10 + 2 ^ 63) mod 2 ^ 64 = start + 10 - 2 ^ 63"
        using in64 mod_pos_geq [of "2 ^ 64" "start + 10 + 2 ^ 63"]
          mod_pos_pos_trivial [of "start + 10 - 2 ^ 63" "2 ^ 64"]
        by (simp add: in_int64_def int64_max_def)
      then have "?sum = start + 10 - 2 ^ 64"
        by (simp add: wrap64_def pageSize_def)
      then show ?thesis by simp
    qed
    with high show ?thesis by (auto simp: code)
  qed
qed

text \<open>A client that follows the cursors until there is none, in at most \<open>fuel\<close> requests.\<close>

fun follow_pages :: "nat \<Rightarrow> string \<Rightarrow> everything \<Rightarrow> Resource list option" where
  "follow_pages 0 cursor st = None"
| "follow_pages (Suc fuel) cursor st =
     (case es_ListResources False \<lparr>lrp_cursor = cursor, lrp_meta = ParamsMeta_zero\<rparr> st of
        Returned (Inr page) st' \<Rightarrow>
          (if lrr_nextCursor page = [] then Some (the (lrr_resources page))
           else map_option ((@) (the (lrr_resources page))) (follow_pages fuel (lrr_nextCursor page) st'))
      | _ \<Rightarrow> None)"

text \<open>\<open>log_room n\<close>: the next \<open>n\<close> debug entries do not block.\<close>

definition log_room :: "nat \<Rightarrow> everything \<Rightarrow> bool" where
  "log_room n st \<longleftrightarrow> LogLevelDebug < es_logLevel st \<or> es_done st \<or> length (es_logChan st) + n \<le> chanSize"

lemma not_blocked_log:
  assumes "\<not> log_blocked level st"
  obtains st' where "es_log pick msg level st = Some st'"
  using assms es_log_None [of pick msg level st] by (cases "es_log pick msg level st") auto

lemma log_room_step:
  assumes "log_room (Suc n) st"
  obtains st' where "es_log pick msg LogLevelDebug st = Some st'" "log_room n st'"
proof -
  have "\<not> log_blocked LogLevelDebug st" using assms by (auto simp: log_room_def log_blocked_def)
  then obtain st' where st': "es_log pick msg LogLevelDebug st = Some st'" by (rule not_blocked_log)
  moreover have "log_room n st'"
    using assms st' by (auto simp: es_log_def Let_def log_room_def split: if_splits)
  ultimately show ?thesis by (rule that)
qed

text \<open>The page behind the cursor that page \<open>k - 1\<close> gives out.\<close>

definition page_cursor :: "nat \<Rightarrow> string" where
  "page_cursor k = (if k = 0 \<or> 9 < k then [] else show_int (10 * int k))"

lemma ListResources_at:
  assumes "es_log pick (''ListResources: '' @ page_cursor k) LogLevelDebug st = Some st'" "k < 10"
  shows "es_ListResources pick \<lparr>lrp_cursor = page_cursor k, lrp_meta = ParamsMeta_zero\<rparr> st =
    Returned (Inr \<lparr>lrr_resources = Some (take 10 (drop (10 * k) genResources)), lrr_nextCursor = page_cursor (Suc k)\<rparr>) st'"
proof -
  have "k \<noteq> 0 \<Longrightarrow> atoi (show_int (10 * int k)) = (10 * int k, False)"
    using assms(2) by (intro atoi_show_int) (simp add: in_int64_def int64_min_def int64_max_def)
  then show ?thesis
    using ListResources_page [where pick = pick and start = "10 * int k" and st = st and st' = st'
        and params = "\<lparr>lrp_cursor = page_cursor k, lrp_meta = ParamsMeta_zero\<rparr>"] assms
    by (auto simp: page_cursor_def nat_mult_distrib add.commute)
qed

lemma follow_from:
  assumes "log_room (10 - k) st" "k < 10"
  shows "follow_pages (10 - k) (page_cursor k) st = Some (drop (10 * k) genResources)"
  using assms
proof (induction "9 - k" arbitrary: k st)
  case (0 k)
  then have k: "k = 9" by simp
  with 0 have "log_room (Suc 0) st" by simp
  then obtain st' where "es_log False (''ListResources: '' @ page_cursor 9) LogLevelDebug st = Some st'"
    by (rule log_room_step)
  from ListResources_at [OF this] k show ?case by (simp add: page_cursor_def [of 10])
next
  case (Suc j k)
  then have k: "k < 9" "10 - k = Suc (10 - Suc k)" by simp_all
  with Suc(3) have "log_room (Suc (10 - Suc k)) st" by simp
  then obtain st' where l: "es_log False (''ListResources: '' @ page_cursor k) LogLevelDebug st = Some st'"
    and room: "log_room (10 - Suc k) st'" by (rule log_room_step)
  have "page_cursor (Suc k) \<noteq> []" using k by (simp add: page_cursor_def)
  moreover have "follow_pages (10 - Suc k) (page_cursor (Suc k)) st' = Some (drop (10 * Suc k) genResources)"
    using Suc(1) [of "Suc k" st'] Suc(2) k room by simp
  moreover have "take 10 (drop (10 * k) genResources) @ drop (10 * Suc k) genResources = drop (10 * k) genResources"
    by (metis append_take_drop_id drop_drop add.commute mult_Suc_right)
  ultimately show ?case using ListResources_at [OF l] k by simp
qed

text \<open>
  C34. A client that starts without a cursor and follows \<^verbatim>\<open>nextCursor\<close> stops after ten requests and
  has then received all hundred resources, each once and in order, provided the ten log entries
  do not block.
\<close>

theorem paging_terminates:
  assumes "LogLevelDebug < es_logLevel st \<or> es_done st \<or> es_logChan st = []"
  shows "follow_pages 10 [] st = Some genResources \<and> length genResources = 100 \<and> distinct (map re_uri genResources)"
proof -
  have "log_room 10 st" using assms by (auto simp: log_room_def chanSize_def)
  then have "follow_pages 10 [] st = Some genResources" using follow_from [of 0 st] by (simp add: page_cursor_def)
  moreover have "distinct (map re_uri genResources)" by (rule distinct_uris)
  ultimately show ?thesis by simp
qed

theorem paging_terminates_witness:
  "follow_pages 10 [] es_NewServer = Some genResources"
  using paging_terminates [of es_NewServer] by (simp add: es_NewServer_def)

text \<open>
  \<^verbatim>\<open>ListResources\<close> panics exactly for the cursors whose number (zero for text that is no number)
  is negative or above 100: the client's cursor is used as a slice bound unchecked.
\<close>

lemma cursor_panics_iff:
  "es_ListResources pick params st = SlicePanic \<longleftrightarrow>
     \<not> log_blocked LogLevelDebug st \<and> lrp_cursor params \<noteq> [] \<and> fst (atoi (lrp_cursor params)) \<notin> {0..100}"
proof (cases "log_blocked LogLevelDebug st")
  case True
  then have "es_log pick (''ListResources: '' @ lrp_cursor params) LogLevelDebug st = None" by (simp add: es_log_None)
  with True show ?thesis by (simp add: es_ListResources_def after_log_def)
next
  case False
  then obtain st' where "es_log pick (''ListResources: '' @ lrp_cursor params) LogLevelDebug st = Some st'"
    by (rule not_blocked_log)
  from ListResources_page [OF this refl] False show ?thesis by auto
qed

section \<open>Reading by URI\<close>

lemma resource_uri_split:
  "HasPrefix (resource_uri n) ''test://static/resource/''"
  "last (split_at (CHR ''/'') (resource_uri n)) = show_nat n"
  "2 \<le> length (split_at (CHR ''/'') (resource_uri n))"
proof -
  show "HasPrefix (resource_uri n) ''test://static/resource/''"
    by (simp add: HasPrefix_def resource_uri_def)
  have "CHR ''/'' \<notin> set (show_nat n)" using show_nat_digits by (fastforce simp: is_digit_def)
  then have s: "split_at (CHR ''/'') (resource_uri n) =
      split_at (CHR ''/'') ''test://static/resource'' @ [show_nat n]"
    using split_at_append [of "CHR ''/''" "show_nat n" "''test://static/resource''"] by (simp add: resource_uri_def)
  then show "last (split_at (CHR ''/'') (resource_uri n)) = show_nat n" by simp
  from s show "2 \<le> length (split_at (CHR ''/'') (resource_uri n))" by simp
qed

text \<open>
  \<^verbatim>\<open>ReadResource\<close> takes the number in the URI, which counts from 1, as an index, which counts
  from 0: for the URI of a listed resource it returns the resource after it, whose URI is another
  one, and for the last it fails with \<^verbatim>\<open>resource not found\<close>.
\<close>

lemma read_resource_off_by_one:
  assumes "i < 100" "\<not> log_blocked LogLevelDebug st" "rrp_uri params = re_uri (genResources ! i)"
  shows "\<exists>st'. es_ReadResource pick params st =
      Returned (if i = 99 then Inl (ErrNew ''resource not found'')
                else Inr \<lparr>rrr_contents = Some [genResources ! (i + 1)]\<rparr>) st' \<and>
      (i < 99 \<longrightarrow> re_uri (genResources ! (i + 1)) \<noteq> rrp_uri params)"
proof -
  have u: "rrp_uri params = resource_uri (i + 1)" using assms(1,3) by (simp add: genResources_def)
  have "atoi (show_nat (i + 1)) = (int (i + 1), False)"
    using assms(1) small_int64 [of "i + 1"] by (simp only: show_nat_int) (rule atoi_show_int, simp)
  then have a: "fst (atoi (show_nat (Suc i))) = 1 + int i" by simp
  obtain st' where "es_log pick (''ReadResource: '' @ rrp_uri params) LogLevelDebug st = Some st'"
    using assms(2) by (rule not_blocked_log)
  then have "es_ReadResource pick params st =
      Returned (if i = 99 then Inl (ErrNew ''resource not found'')
                else Inr \<lparr>rrr_contents = Some [genResources ! (i + 1)]\<rparr>) st'"
    using assms(1) resource_uri_split [of "Suc i"]
    by (auto simp: es_ReadResource_def after_log_def Let_def u a nat_add_distrib)
  moreover have "re_uri (genResources ! (i + 1)) \<noteq> rrp_uri params" if "i < 99"
    using that assms(3) nth_eq_iff_index_eq [OF distinct_uris, of "i + 1" i] by simp
  ultimately show ?thesis by blast
qed

section \<open>Where the methods block\<close>


section \<open>Progress reports\<close>

lemma progress_loop_reports:
  "progress_loop arm token steps i n = (e, ps) \<Longrightarrow>
     ps = map (\<lambda>j. \<lparr>pp_progressToken = token, pp_progress = as_float (Some (JNum (int j) 0)), pp_total = steps\<rparr>)
            [Suc i..<Suc i + length ps] \<and> length ps \<le> n \<and>
     (token = [] \<longrightarrow> ps = [] \<and> e = None) \<and> (token \<noteq> [] \<and> e = None \<longrightarrow> length ps = n)"
proof (induction n arbitrary: i e ps)
  case (Suc n)
  then show ?case
    by (fastforce simp del: upt_Suc simp: upt_conv_Cons
        split: if_splits progress_arm.splits prod.splits)
qed simp

text \<open>
  The progress reports of \<^verbatim>\<open>longRunningOperation\<close> carry the token of the request and count 1, 2, 3
  and so on, whatever the interleaving; if the tool succeeds there are as many as the argument
  \<^verbatim>\<open>steps\<close>, truncated, says, and without a token there is none.
\<close>

lemma progress_reports_count_up:
  assumes "callLongRunningOperation validate arm params = (r, ps)"
    and "token = meta_progressToken (ctp_meta params)" "steps = as_float (argument params ''steps'')"
  shows "ps = map (\<lambda>j. \<lparr>pp_progressToken = token, pp_progress = as_float (Some (JNum (int j) 0)), pp_total = steps\<rparr>)
            [1..<Suc (length ps)] \<and>
    length ps \<le> nat (int_of_f64 steps) \<and> (token = [] \<longrightarrow> ps = []) \<and>
    (token \<noteq> [] \<and> r = Inr res \<longrightarrow> length ps = nat (int_of_f64 steps))"
proof (cases "validation_error validate longRunningOperationSchema params")
  case None
  then obtain e where "progress_loop arm token steps 0 (nat (int_of_f64 steps)) = (e, ps)"
    and "r = Inr res \<Longrightarrow> e = None"
    using assms by (auto simp: callLongRunningOperation_def Let_def simp del: validation_error_None
        split: option.splits prod.splits)
  with progress_loop_reports [OF this(1)] show ?thesis by auto
next
  case (Some e)
  with assms show ?thesis by (auto simp: callLongRunningOperation_def)
qed

section \<open>Reachable states and updates\<close>



definition es_wf :: "everything \<Rightarrow> bool" where
  "es_wf st \<longleftrightarrow> length (es_logChan st) \<le> chanSize \<and> smap_wf (es_resourceSubscribers st)"



lemma es_wf_updates [simp]:
  "es_wf (st\<lparr>es_updates := us\<rparr>) = es_wf st" "es_wf (st\<lparr>es_progress := ps\<rparr>) = es_wf st"
  "es_wf (st\<lparr>es_logLevel := l\<rparr>) = es_wf st" "es_wf (st\<lparr>es_done := d\<rparr>) = es_wf st"
  by (simp_all add: es_wf_def)

lemma es_wf_subscribers [simp]:
  "es_wf st \<Longrightarrow> es_wf (st\<lparr>es_resourceSubscribers := smap_store uri () (es_resourceSubscribers st)\<rparr>)"
  "es_wf st \<Longrightarrow> es_wf (st\<lparr>es_resourceSubscribers := smap_delete uri (es_resourceSubscribers st)\<rparr>)"
  by (simp_all add: es_wf_def)







end
