(* ===== verification/Console.thy ===== *)
theory Console
  imports ToolArgs StdIO
begin

text \<open>
  Programs that talk to a user at a terminal, as the example programs do: they print, wait for a
  line, and call a server. What comes from outside during a run is the list \<open>co_in\<close>: the result of
  every read of standard input, and the interrupts. A program ends with a value, waits for input
  that does not come, panics, or runs on without reading (\<open>Spin\<close>).
\<close>

section \<open>Terminal\<close>

datatype tty_event = Chunk string | Eof | ReadFails go_error | Interrupt

text \<open>Printed text, and errors printed with \<^verbatim>\<open>%v\<close> or \<^verbatim>\<open>Print\<close>, kept as values.\<close>

datatype printed = Text string | ErrText go_error

text \<open>\<open>co_closed\<close>: \<^verbatim>\<open>ctx\<close> is cancelled and \<^verbatim>\<open>done\<close> is closed. \<open>co_world\<close> is all the rest.\<close>

record 'w console =
  co_in :: "tty_event list"
  co_out :: "printed list"
  co_closed :: bool
  co_world :: 'w

datatype scanned = GotLine string | Failed go_error | Interrupted | NoInput

text \<open>
  One call of \<^verbatim>\<open>Scan\<close> by a new \<^verbatim>\<open>bufio.Scanner\<close> on standard input: it reads until it has a newline and
  returns the line before it; what else it has read is lost with it. A scanner that meets the
  end of input with nothing read reports nothing, and only an interrupt ends the wait.
\<close>

fun scan_stdin :: "string \<Rightarrow> tty_event list \<Rightarrow> scanned \<times> tty_event list" where
  "scan_stdin buf [] = (NoInput, [])"
| "scan_stdin buf (Interrupt # es) = (Interrupted, es)"
| "scan_stdin buf (ReadFails e # es) = (if buf \<noteq> [] then GotLine (dropCR buf) else Failed e, es)"
| "scan_stdin buf (Eof # es) =
     (if buf \<noteq> [] then (GotLine (dropCR buf), es)
      else case dropWhile (\<lambda>e. e \<noteq> Interrupt) es of
        [] \<Rightarrow> (NoInput, [])
      | _ # es' \<Rightarrow> (Interrupted, es'))"
| "scan_stdin buf (Chunk c # es) =
     (let line = takeWhile (\<lambda>x. x \<noteq> nl) (buf @ c) in
      if maxScanTokenSize \<le> length line then (Failed errTooLong, es)
      else if nl \<in> set (buf @ c) then (GotLine (dropCR line), es)
      else scan_stdin (buf @ c) es)"

lemma scan_stdin_shrinks: "es \<noteq> [] \<Longrightarrow> length (snd (scan_stdin buf es)) < length es"
proof (induction buf es rule: scan_stdin.induct)
  case (4 buf es)
  then show ?case using length_dropWhile_le [of "\<lambda>e. e \<noteq> Interrupt" es] by (auto split: list.split)
next
  case (5 buf c es)
  then show ?case by (cases es) (auto simp: Let_def)
qed auto

section \<open>Programs\<close>

datatype ('a, 'w) act = Ret 'a "'w console" | Hang "'w console" | Crash "'w console" | Spin

type_synonym ('a, 'w) prog = "'w console \<Rightarrow> ('a, 'w) act"

definition ret :: "'a \<Rightarrow> ('a, 'w) prog" where "ret x = Ret x"

definition crash :: "('a, 'w) prog" where "crash = Crash"

definition bnd :: "('a, 'w) prog \<Rightarrow> ('a \<Rightarrow> ('b, 'w) prog) \<Rightarrow> ('b, 'w) prog" where
  "bnd p k st =
     (case p st of Ret x st' \<Rightarrow> k x st' | Hang st' \<Rightarrow> Hang st' | Crash st' \<Rightarrow> Crash st' | Spin \<Rightarrow> Spin)"

definition emit :: "printed \<Rightarrow> (unit, 'w) prog" where
  "emit p st = Ret () (st\<lparr>co_out := co_out st @ [p]\<rparr>)"

definition print_text :: "string \<Rightarrow> (unit, 'w) prog" where "print_text s = emit (Text s)"

definition println :: "string \<Rightarrow> (unit, 'w) prog" where "println s = emit (Text (s @ [nl]))"

fun each :: "('a \<Rightarrow> (unit, 'w) prog) \<Rightarrow> 'a list \<Rightarrow> (unit, 'w) prog" where
  "each f [] = ret ()"
| "each f (x # xs) = bnd (f x) (\<lambda>_. each f xs)"

abbreviation println_all :: "string list \<Rightarrow> (unit, 'w) prog" where
  "println_all \<equiv> each println"

definition print_failure :: "string \<Rightarrow> go_error \<Rightarrow> (unit, 'w) prog" where
  "print_failure what err = bnd (print_text what) (\<lambda>_. bnd (emit (ErrText err)) (\<lambda>_. println []))"

text \<open>A slice that may be nil, as the range loops and \<^verbatim>\<open>len\<close> see it.\<close>

definition slice_of :: "'a list option \<Rightarrow> 'a list" where
  "slice_of xs = (case xs of None \<Rightarrow> [] | Some ys \<Rightarrow> ys)"

lemma slice_of_simps [simp]: "slice_of None = []" "slice_of (Some xs) = xs"
  by (simp_all add: slice_of_def)

text \<open>A call to the server; the flag says that the context is cancelled. \<open>None\<close>: the process panics.\<close>

type_synonym ('p, 'r, 'w) client_method = "bool \<Rightarrow> 'p \<Rightarrow> 'w \<Rightarrow> ('r res \<times> 'w) option"

definition invoke :: "('p, 'r, 'w) client_method \<Rightarrow> 'p \<Rightarrow> ('r res, 'w) prog" where
  "invoke f params st =
     (case f (co_closed st) params (co_world st) of
        None \<Rightarrow> Crash st
      | Some (r, w) \<Rightarrow> Ret r (st\<lparr>co_world := w\<rparr>))"

text \<open>What the caller of a client method gets when the method of the server behind it ended with \<open>outcome\<close>.\<close>

definition tool_reply :: "go_error + 'a \<Rightarrow> 'a res" where
  "tool_reply outcome =
     (case outcome of
        Inr result \<Rightarrow> Inr result
      | Inl err \<Rightarrow> Inl (ErrWrap ''result error: %w''
          [ErrRPC jsonRPCInternalErrorCode errMsgInternalError [(''error'', AnyJson (JObj []))]]))"

definition errClosed :: go_error where "errClosed = ErrNew ''file already closed''"

text \<open>
  \<^verbatim>\<open>waitStdIOInput\<close>. \<open>onInterrupt\<close> is what the signal goroutine does to the rest of the state before the
  waiting program sees the closed channels. Once they are closed the wait returns at once: the
  new scanner has not read yet.
\<close>

definition waitStdIOInput :: "('w \<Rightarrow> 'w) \<Rightarrow> (string res, 'w) prog" where
  "waitStdIOInput onInterrupt st =
     (if co_closed st then Ret (Inl errClosed) st
      else case scan_stdin [] (co_in st) of
        (GotLine s, es) \<Rightarrow> Ret (Inr s) (st\<lparr>co_in := es\<rparr>)
      | (Failed e, es) \<Rightarrow> Ret (Inl e) (st\<lparr>co_in := es\<rparr>)
      | (Interrupted, es) \<Rightarrow>
          Ret (Inl errClosed) (st\<lparr>co_in := es, co_closed := True, co_world := onInterrupt (co_world st)\<rparr>)
      | (NoInput, es) \<Rightarrow> Hang (st\<lparr>co_in := es\<rparr>))"

text \<open>
  \<^verbatim>\<open>for { body }\<close> with the variables \<open>s\<close> that live across its rounds. A round that goes on without having
  read anything could go on for ever: the loop allows one round per event and one more, and \<open>Spin\<close>
  says that these were not enough.
\<close>

datatype ('s, 'a) flow = is_Continue: Continue 's | Finish 'a

fun repeat :: "nat \<Rightarrow> ('s \<Rightarrow> (('s, 'a) flow, 'w) prog) \<Rightarrow> 's \<Rightarrow> ('a, 'w) prog" where
  "repeat 0 body s = (\<lambda>st. Spin)"
| "repeat (Suc n) body s = bnd (body s) (\<lambda>r. case r of Continue s' \<Rightarrow> repeat n body s' | Finish x \<Rightarrow> ret x)"

definition loop :: "('s \<Rightarrow> (('s, 'a) flow, 'w) prog) \<Rightarrow> 's \<Rightarrow> ('a, 'w) prog" where
  "loop body s st = repeat (Suc (length (co_in st))) body s st"

abbreviation forever :: "((unit, 'a) flow, 'w) prog \<Rightarrow> ('a, 'w) prog" where
  "forever body \<equiv> loop (\<lambda>_. body) ()"

section \<open>Weakest preconditions\<close>

text \<open>
  \<open>wp p Q K st\<close>: from \<open>st\<close> the program does not spin, ends in \<open>Q\<close> if it ends, and in \<open>K\<close> if it panics.
\<close>

definition wp :: "('a, 'w) prog \<Rightarrow> ('a \<Rightarrow> 'w console \<Rightarrow> bool) \<Rightarrow> ('w console \<Rightarrow> bool) \<Rightarrow> 'w console \<Rightarrow> bool" where
  "wp p Q K st \<longleftrightarrow>
     (case p st of Ret x st' \<Rightarrow> Q x st' | Hang st' \<Rightarrow> True | Crash st' \<Rightarrow> K st' | Spin \<Rightarrow> False)"

lemma wp_ret [simp]: "wp (ret x) Q K st = Q x st"
  by (simp add: wp_def ret_def)

lemma wp_crash [simp]: "wp crash Q K st = K st"
  by (simp add: wp_def crash_def)

lemma wp_bnd [simp]: "wp (bnd p k) Q K st = wp p (\<lambda>x. wp (k x) Q K) K st"
  by (simp add: wp_def bnd_def split: act.split)

lemma wp_emit [simp]: "wp (emit x) Q K st = Q () (st\<lparr>co_out := co_out st @ [x]\<rparr>)"
  by (simp add: wp_def emit_def)

lemma wp_print [simp]:
  "wp (print_text s) Q K st = Q () (st\<lparr>co_out := co_out st @ [Text s]\<rparr>)"
  "wp (println s) Q K st = Q () (st\<lparr>co_out := co_out st @ [Text (s @ [nl])]\<rparr>)"
  by (simp_all add: print_text_def println_def)

lemma wp_println_all [simp]:
  "wp (println_all ls) Q K st = Q () (st\<lparr>co_out := co_out st @ map (\<lambda>s. Text (s @ [nl])) ls\<rparr>)"
  by (induction ls arbitrary: st) simp_all

lemma wp_invoke [simp]:
  "wp (invoke f params) Q K st =
     (case f (co_closed st) params (co_world st) of None \<Rightarrow> K st | Some (r, w) \<Rightarrow> Q r (st\<lparr>co_world := w\<rparr>))"
  by (simp add: wp_def invoke_def split: option.split)

lemma wp_if [simp]: "wp (if b then p else q) Q K st = (if b then wp p Q K st else wp q Q K st)"
  by simp

lemma wp_mono: "wp p Q K st \<Longrightarrow> (\<And>x st'. Q x st' \<Longrightarrow> Q' x st') \<Longrightarrow> (\<And>st'. K st' \<Longrightarrow> K' st') \<Longrightarrow> wp p Q' K' st"
  by (auto simp: wp_def split: act.splits)

section \<open>Programs that only use input up\<close>

named_theorems steady_rules \<open>rules for steady programs\<close>

text \<open>
  A steady program never spins, never puts input back, never reopens a closed console and closes it
  only on an interrupt; it may panic only if \<open>C\<close> allows it. A loop is steady if every round that goes on has read something.
\<close>

definition less_input :: "'w console \<Rightarrow> 'w console \<Rightarrow> bool" where
  "less_input st' st \<longleftrightarrow> length (co_in st') < length (co_in st)"

definition after :: "'w console \<Rightarrow> 'w console \<Rightarrow> bool" where
  "after st st' \<longleftrightarrow>
     length (co_in st') \<le> length (co_in st) \<and> set (co_in st') \<subseteq> set (co_in st) \<and> (co_closed st \<longrightarrow> co_closed st') \<and>
     (co_closed st' \<longrightarrow> co_closed st \<or> Interrupt \<in> set (co_in st))"

definition steady :: "bool \<Rightarrow> ('a, 'w) prog \<Rightarrow> bool" where
  "steady C p \<longleftrightarrow> (\<forall>st. wp p (\<lambda>_. after st) (\<lambda>_. C) st)"

definition progresses :: "(('s, 'a) flow, 'w) prog \<Rightarrow> bool" where
  "progresses p \<longleftrightarrow> (\<forall>st. wp p (\<lambda>r st'. is_Continue r \<longrightarrow> less_input st' st) (\<lambda>_. True) st)"

lemma after_refl [simp]: "after st st"
  by (simp add: after_def)

lemma after_trans: "after a b \<Longrightarrow> after b c \<Longrightarrow> after a c"
  by (auto simp: after_def)

lemma steady_ret [steady_rules]: "steady C (ret x)"
  by (simp add: steady_def)

lemma steady_crash [steady_rules]: "C \<Longrightarrow> steady C crash"
  by (simp add: steady_def)

lemma steady_emit [steady_rules]: "steady C (emit x)" "steady C (print_text s)" "steady C (println s)"
  by (simp_all add: steady_def after_def)

lemma steady_bnd [steady_rules]:
  assumes "steady C p" "\<And>x. steady C (k x)"
  shows "steady C (bnd p k)"
  unfolding steady_def
proof
  fix st
  from assms(1) have "wp p (\<lambda>_. after st) (\<lambda>_. C) st" by (simp add: steady_def)
  then show "wp (bnd p k) (\<lambda>_. after st) (\<lambda>_. C) st"
    unfolding wp_bnd
  proof (rule wp_mono)
    fix x st'
    assume "after st st'"
    moreover have "wp (k x) (\<lambda>_. after st') (\<lambda>_. C) st'" using assms(2) by (simp add: steady_def)
    ultimately show "wp (k x) (\<lambda>_. after st) (\<lambda>_. C) st'" by (auto elim: wp_mono after_trans)
  qed
qed

lemma steady_each [steady_rules]: "(\<And>x. steady C (f x)) \<Longrightarrow> steady C (each f xs)"
  by (induction xs) (auto intro: steady_rules)

lemma steady_failure [steady_rules]: "steady C (print_failure what err)"
  by (auto simp: print_failure_def intro!: steady_rules)

lemma scan_stdin_le: "scan_stdin buf es = (r, es') \<Longrightarrow> length es' \<le> length es"
  using scan_stdin_shrinks [of es buf] by (cases "es = []") auto

lemma scan_stdin_set: "scan_stdin buf es = (r, es') \<Longrightarrow> set es' \<subseteq> set es \<and> (r = Interrupted \<longrightarrow> Interrupt \<in> set es)"
proof (induction buf es arbitrary: r es' rule: scan_stdin.induct)
  case (4 buf es)
  have "Interrupt \<in> set es \<and> set xs \<subseteq> set es" if d: "dropWhile (\<lambda>e. e \<noteq> Interrupt) es = x # xs" for x xs
  proof -
    have "set (x # xs) \<subseteq> set es" using set_dropWhileD d by (metis subsetI)
    moreover have "x = Interrupt" using hd_dropWhile [of "\<lambda>e. e \<noteq> Interrupt" es] d by simp
    ultimately show ?thesis by simp
  qed
  with 4 show ?case by (auto split: if_splits list.splits)
next
  case (5 buf c es)
  then show ?case by (fastforce simp: Let_def split: if_splits)
qed (auto split: if_splits)

lemma steady_wait [steady_rules]: "steady C (waitStdIOInput f)"
  by (auto simp: steady_def wp_def waitStdIOInput_def after_def dest: scan_stdin_le scan_stdin_set
      split: prod.split scanned.split)

lemma steady_invoke [steady_rules]:
  assumes "C \<or> (\<forall>c w. f c params w \<noteq> None)"
  shows "steady C (invoke f params)"
proof -
  have "C" if "f c params w = None" for c w using assms that by metis
  then show ?thesis by (auto simp: steady_def wp_def invoke_def after_def split: option.split)
qed

lemma steady_if [steady_rules]: "steady C p \<Longrightarrow> steady C q \<Longrightarrow> steady C (if b then p else q)"
  by simp

lemma steady_sum [steady_rules]:
  "(\<And>x. steady C (f x)) \<Longrightarrow> (\<And>y. steady C (g y)) \<Longrightarrow> steady C (case r of Inl x \<Rightarrow> f x | Inr y \<Rightarrow> g y)"
  by (simp split: sum.split)

lemma steady_option [steady_rules]:
  "steady C p \<Longrightarrow> (\<And>x. steady C (f x)) \<Longrightarrow> steady C (case r of None \<Rightarrow> p | Some x \<Rightarrow> f x)"
  by (simp split: option.split)

lemma steady_list [steady_rules]:
  "steady C p \<Longrightarrow> (\<And>x xs. steady C (f x xs)) \<Longrightarrow> steady C (case r of [] \<Rightarrow> p | x # xs \<Rightarrow> f x xs)"
  by (simp split: list.split)

lemma steady_prod [steady_rules]:
  "(\<And>x y. steady C (f x y)) \<Longrightarrow> steady C (case r of (x, y) \<Rightarrow> f x y)"
  by (simp split: prod.split)

lemma repeat_ends:
  fixes body :: "'s \<Rightarrow> (('s, 'b) flow, 'w) prog"
  assumes "\<And>s. steady C (body s)" "\<And>s. progresses (body s)" "length (co_in st) < n"
  shows "wp (repeat n body s) (\<lambda>_. after st) (\<lambda>_. C) st"
  using assms(3)
proof (induction n arbitrary: s st)
  case (Suc n)
  let ?next = "\<lambda>r. case r of Continue s' \<Rightarrow> repeat n body s' | Finish x \<Rightarrow> ret x"
  have "wp (body s) (\<lambda>_. after st) (\<lambda>_. C) st"
    "wp (body s) (\<lambda>r st'. is_Continue r \<longrightarrow> less_input st' st) (\<lambda>_. True) st"
    using assms by (simp_all add: steady_def progresses_def)
  then have "wp (body s) (\<lambda>r st'. after st st' \<and> (is_Continue r \<longrightarrow> less_input st' st)) (\<lambda>_. C) st"
    by (auto simp: wp_def split: act.splits)
  then have "wp (body s) (\<lambda>r. wp (?next r) (\<lambda>_. after st) (\<lambda>_. C)) (\<lambda>_. C) st"
  proof (rule wp_mono)
    fix r :: "('s, 'b) flow" and st'
    assume r: "after st st' \<and> (is_Continue r \<longrightarrow> less_input st' st)"
    show "wp (?next r) (\<lambda>_. after st) (\<lambda>_. C) st'"
    proof (cases r)
      case (Continue s')
      with r Suc.prems have "length (co_in st') < n" by (simp add: less_input_def)
      from Suc.IH [OF this, of s'] r Continue show ?thesis by (auto elim!: wp_mono intro: after_trans)
    qed (use r in simp)
  qed
  then show ?case by simp
qed simp

lemma steady_loop [steady_rules]:
  assumes "\<And>s. steady C (body s)" "\<And>s. progresses (body s)"
  shows "steady C (loop body s)"
  unfolding steady_def
proof
  fix st
  have "wp (loop body s) Q K st = wp (repeat (Suc (length (co_in st))) body s) Q K st" for Q K
    by (simp only: wp_def loop_def)
  then show "wp (loop body s) (\<lambda>_. after st) (\<lambda>_. C) st"
    using repeat_ends [OF assms, of st "Suc (length (co_in st))"] by (simp del: repeat.simps)
qed

text \<open>Reasoning about the rounds of a loop: a wait that is answered has read something.\<close>

lemma steadyD: "steady C p \<Longrightarrow> (\<And>x st'. after st st' \<Longrightarrow> Q x st') \<Longrightarrow> (\<And>st'. C \<Longrightarrow> K st') \<Longrightarrow> wp p Q K st"
  unfolding steady_def by (erule allE [of _ st]) (erule wp_mono, auto)

lemma wp_waitI:
  assumes "co_closed st \<Longrightarrow> Q (Inl errClosed) st"
    and "\<And>r st'. less_input st' st \<Longrightarrow> after st st' \<Longrightarrow> Q r st'"
  shows "wp (waitStdIOInput f) Q K st"
proof (cases "co_closed st")
  case True
  with assms(1) show ?thesis by (simp add: wp_def waitStdIOInput_def)
next
  case False
  obtain r es where s: "scan_stdin [] (co_in st) = (r, es)" by fastforce
  have "length es < length (co_in st)" if "r \<noteq> NoInput"
    using s that scan_stdin_shrinks [of "co_in st" "[]"] by (cases "co_in st = []") auto
  with False s scan_stdin_le [OF s] scan_stdin_set [OF s] assms(2) show ?thesis
    by (auto simp: wp_def waitStdIOInput_def less_input_def after_def split: scanned.split)
qed

lemma progress_spent:
  "steady True p \<Longrightarrow> less_input st st0 \<Longrightarrow> wp p (\<lambda>r st'. is_Continue r \<longrightarrow> less_input st' st0) (\<lambda>_. True) st"
  by (erule steadyD) (auto simp: less_input_def after_def)

lemma steady_True: "steady C p \<Longrightarrow> steady True p"
  unfolding steady_def by (auto elim: wp_mono)

lemma progresses_bnd: "steady True p \<Longrightarrow> (\<And>x. progresses (k x)) \<Longrightarrow> progresses (bnd p k)"
  unfolding progresses_def wp_bnd
  by (intro allI, erule steadyD) (force simp: less_input_def after_def elim!: wp_mono allE)+

lemma progresses_finish: "\<not> is_Continue r \<Longrightarrow> progresses (ret r)"
  by (simp add: progresses_def)

section \<open>Programs that return\<close>

definition returns :: "('a, 'w) prog \<Rightarrow> ('a \<Rightarrow> 'w console \<Rightarrow> bool) \<Rightarrow> 'w console \<Rightarrow> bool" where
  "returns p Q st \<longleftrightarrow> (case p st of Ret x st' \<Rightarrow> Q x st' | _ \<Rightarrow> False)"

lemma returns_iff: "returns p Q st \<longleftrightarrow> (\<exists>x st'. p st = Ret x st' \<and> Q x st')"
  by (simp add: returns_def split: act.split)

lemma returns_ret [simp]: "returns (ret x) Q = Q x"
  by (rule ext) (simp add: returns_def ret_def)

lemma returns_bnd [simp]: "returns (bnd p k) Q st = returns p (\<lambda>x. returns (k x) Q) st"
  by (simp add: returns_def bnd_def split: act.split)

lemma returns_print [simp]:
  "returns (emit z) Q st = Q () (st\<lparr>co_out := co_out st @ [z]\<rparr>)"
  "returns (print_text s) Q st = Q () (st\<lparr>co_out := co_out st @ [Text s]\<rparr>)"
  "returns (println s) Q st = Q () (st\<lparr>co_out := co_out st @ [Text (s @ [nl])]\<rparr>)"
  by (simp_all add: returns_def emit_def print_text_def println_def)

lemma returns_if [simp]: "returns (if b then p else q) Q st = (if b then returns p Q st else returns q Q st)"
  by simp

lemma returns_println_all [simp]:
  "returns (println_all ls) Q st = Q () (st\<lparr>co_out := co_out st @ map (\<lambda>s. Text (s @ [nl])) ls\<rparr>)"
  by (induction ls arbitrary: st) simp_all

lemma returns_mono: "returns p Q st \<Longrightarrow> (\<And>x st'. Q x st' \<Longrightarrow> Q' x st') \<Longrightarrow> returns p Q' st"
  by (auto simp: returns_iff)

lemma returns_repeat: "returns (repeat n body s) Q st \<Longrightarrow> n \<le> m \<Longrightarrow> returns (repeat m body s) Q st"
proof (induction n arbitrary: m s st)
  case (Suc n)
  then obtain m' where m: "m = Suc m'" "n \<le> m'" by (cases m) auto
  with Suc show ?case by (auto elim!: returns_mono split: flow.splits)
qed (simp add: returns_def)

lemma returns_loop:
  assumes "returns (body s) (\<lambda>r st'. case r of
      Continue s' \<Rightarrow> less_input st' st \<and> returns (loop body s') Q st' | Finish x \<Rightarrow> Q x st') st"
  shows "returns (loop body s) Q st"
proof -
  have l: "returns (loop body s) Q st = returns (repeat (Suc (length (co_in st))) body s) Q st" for s st
    by (simp only: returns_def loop_def)
  have "returns (repeat (length (co_in st)) body s') Q st'" if "less_input st' st" "returns (loop body s') Q st'" for s' st'
    using that(2) unfolding l by (rule returns_repeat) (use that(1) in \<open>simp add: less_input_def\<close>)
  then have "returns (repeat (Suc (length (co_in st))) body s) Q st"
    using assms by (auto elim!: returns_mono split: flow.splits)
  then show ?thesis by (simp only: l)
qed

section \<open>Typed lines\<close>

definition typed_line :: "string \<Rightarrow> tty_event" where
  "typed_line l = Chunk (l @ [nl])"

definition line_ok :: "string \<Rightarrow> bool" where
  "line_ok l \<longleftrightarrow> nl \<notin> set l \<and> dropCR l = l \<and> length l < maxScanTokenSize"

lemma scan_typed: "line_ok l \<Longrightarrow> scan_stdin [] (typed_line l # es) = (GotLine l, es)"
  by (auto simp: typed_line_def line_ok_def Let_def takeWhile_append)

lemma println_all_eq: "println_all ls st = Ret () (st\<lparr>co_out := co_out st @ map (\<lambda>s. Text (s @ [nl])) ls\<rparr>)"
  by (induction ls arbitrary: st) (simp_all add: ret_def bnd_def println_def emit_def)

lemmas exec = bnd_def ret_def emit_def println_def print_text_def invoke_def println_all_eq

text \<open>An open console.\<close>

abbreviation con :: "tty_event list \<Rightarrow> printed list \<Rightarrow> 'w \<Rightarrow> 'w console" where
  "con es out w \<equiv> \<lparr>co_in = es, co_out = out, co_closed = False, co_world = w\<rparr>"

lemma wait_typed: "line_ok l \<Longrightarrow> waitStdIOInput f (con (typed_line l # es) out w) = Ret (Inr l) (con es out w)"
  by (simp add: waitStdIOInput_def scan_typed)

end
