(* ===== verification/FsClient.thy ===== *)
theory FsClient
  imports Console Filesystem ServerConfig Client
begin

text \<open>
  The example program for the filesystem server (\<^verbatim>\<open>src/example/filesystem\<close>): a menu of tools, a dialogue
  per tool that asks for the arguments and prints the result, and \<^verbatim>\<open>main\<close>, which puts client and
  server together. The client's methods are the fields of \<open>fs_peer\<close>.
\<close>

section \<open>The client\<close>

record 'w fs_peer =
  fp_Connect :: "'w \<Rightarrow> go_error option \<times> 'w"
  fp_ListTools :: "(ListToolsParams, json ListToolsResult, 'w) client_method"
  fp_CallTool :: "(CallToolParams, CallToolResult, 'w) client_method"
  fp_Close :: "'w \<Rightarrow> 'w"

definition fsx_newClient :: client where
  "fsx_newClient = NewClient \<lparr>info_name = ''fileserver-client'', info_version = ''1.0''\<rparr>
     \<lparr>sq_PromptServer = False, sq_ResourceServer = False, sq_ToolServer = True\<rparr> []"

text \<open>
  The steps all the dialogues share: ask for a line, and on an error print it and go back (the
  test for \<^verbatim>\<open>context.Canceled\<close> decides only whether it is printed); call the tool, and print its
  failure or the text for an empty result.
\<close>

definition ask :: "'w fs_peer \<Rightarrow> string \<Rightarrow> (string \<Rightarrow> (bool, 'w) prog) \<Rightarrow> (bool, 'w) prog" where
  "ask peer prompt k =
     bnd (println prompt) (\<lambda>_. bnd (waitStdIOInput (fp_Close peer)) (\<lambda>r.
       case r of
         Inl err \<Rightarrow>
           if errors_Is err ErrCanceled then ret False
           else bnd (emit (ErrText err)) (\<lambda>_. ret False)
       | Inr input \<Rightarrow> k input))"

definition tool_params :: "string \<Rightarrow> (string \<times> json) list \<Rightarrow> CallToolParams" where
  "tool_params name args = CallToolParams_zero\<lparr>ctp_name := name, ctp_arguments := Some args\<rparr>"

definition call_and_show ::
    "'w fs_peer \<Rightarrow> string \<Rightarrow> (string \<times> json) list \<Rightarrow> string \<Rightarrow> (Content list \<Rightarrow> (unit, 'w) prog) \<Rightarrow> (bool, 'w) prog" where
  "call_and_show peer name args none display =
     bnd (invoke (fp_CallTool peer) (tool_params name args)) (\<lambda>r.
       case r of
         Inl err \<Rightarrow> bnd (print_failure ''failed to call tool: '' err) (\<lambda>_. ret False)
       | Inr result \<Rightarrow>
           (case ctr_content result of
              None \<Rightarrow> bnd (println none) (\<lambda>_. ret False)
            | Some [] \<Rightarrow> bnd (println none) (\<lambda>_. ret False)
            | Some (c # cs) \<Rightarrow> bnd (display (c # cs)) (\<lambda>_. ret False)))"

definition show_first :: "Content list \<Rightarrow> (unit, 'w) prog" where
  "show_first cs = println (co_text (hd cs))"

definition show_all :: "Content list \<Rightarrow> (unit, 'w) prog" where
  "show_all cs = each (\<lambda>c. println (co_text c)) cs"

text \<open>A slice built by \<^verbatim>\<open>append\<close> from nil: without elements it is marshalled as null.\<close>

definition nil_slice :: "json list \<Rightarrow> json" where
  "nil_slice xs = (if xs = [] then JNull else JArr xs)"

definition fsx_callReadFile :: "'w fs_peer \<Rightarrow> (bool, 'w) prog" where
  "fsx_callReadFile peer =
     ask peer ''Enter relative path (from the root) to the file:'' (\<lambda>input.
       call_and_show peer ''read_file'' [(''path'', JStr input)] ''File is empty'' (\<lambda>cs.
         println (''File content of '' @ input @ '':'' @ [nl] @ co_text (hd cs))))"

fun join_with :: "string \<Rightarrow> string list \<Rightarrow> string" where
  "join_with sep [] = []"
| "join_with sep [x] = x"
| "join_with sep (x # y # xs) = x @ sep @ join_with sep (y # xs)"

definition fsx_callReadMultipleFiles :: "'w fs_peer \<Rightarrow> (bool, 'w) prog" where
  "fsx_callReadMultipleFiles peer =
     ask peer ''Enter relative path (from the root) to the files (comma-separated):'' (\<lambda>input.
       call_and_show peer ''read_multiple_files'' [(''paths'', JArr (map JStr (split_at (CHR '','') input)))]
         ''Files are empty'' (\<lambda>cs. println (join_with (''---'' @ [nl]) (map co_text cs))))"

definition fsx_callWriteFile :: "'w fs_peer \<Rightarrow> (bool, 'w) prog" where
  "fsx_callWriteFile peer =
     ask peer ''Enter relative path (from the root) to the file:'' (\<lambda>path.
       ask peer ''Enter content:'' (\<lambda>content.
         call_and_show peer ''write_file'' [(''content'', JStr content), (''path'', JStr path)]
           ''File is empty'' show_first))"

text \<open>The edits of a line, and the messages about the parts that are none.\<close>

fun parse_edits :: "string list \<Rightarrow> (json list, 'w) prog" where
  "parse_edits [] = ret []"
| "parse_edits (e # es) =
     (let edit = TrimSpace e;
          invalid = bnd (println (''Invalid edit: '' @ edit)) (\<lambda>_. parse_edits es)
      in if edit = [] then parse_edits es
         else case split_at (CHR '':'') edit of
           [a, b] \<Rightarrow>
             let oldText = TrimSpace a; newText = TrimSpace b in
             if oldText = [] \<or> newText = [] then invalid
             else bnd (parse_edits es)
               (\<lambda>js. ret (JObj [(''newText'', JStr newText), (''oldText'', JStr oldText)] # js))
         | _ \<Rightarrow> invalid)"

definition fsx_callEditFile :: "'w fs_peer \<Rightarrow> (bool, 'w) prog" where
  "fsx_callEditFile peer =
     ask peer ''Enter relative path (from the root) to the file:'' (\<lambda>path.
       ask peer ''Enter edits (old text:new text), each separated by a comma:'' (\<lambda>input.
         bnd (parse_edits (split_at (CHR '','') input)) (\<lambda>edits.
           call_and_show peer ''edit_file''
             [(''dryRun'', JBool False), (''edits'', nil_slice edits), (''path'', JStr path)]
             ''File is empty'' show_first)))"

definition fsx_callCreateDirectory :: "'w fs_peer \<Rightarrow> (bool, 'w) prog" where
  "fsx_callCreateDirectory peer =
     ask peer ''Enter relative path (from the root) to the directory:'' (\<lambda>input.
       call_and_show peer ''create_directory'' [(''path'', JStr input)] ''Directory is empty'' show_first)"

definition fsx_callListDirectory :: "'w fs_peer \<Rightarrow> (bool, 'w) prog" where
  "fsx_callListDirectory peer =
     ask peer ''Enter relative path (from the root) to the directory:'' (\<lambda>input.
       call_and_show peer ''list_directory'' [(''path'', JStr input)] ''Directory is empty'' show_all)"

definition fsx_callDirectoryTree :: "'w fs_peer \<Rightarrow> (bool, 'w) prog" where
  "fsx_callDirectoryTree peer =
     ask peer ''Enter relative path (from the root) to the directory:'' (\<lambda>input.
       call_and_show peer ''directory_tree'' [(''path'', JStr input)] ''Directory is empty'' show_all)"

definition fsx_callMoveFile :: "'w fs_peer \<Rightarrow> (bool, 'w) prog" where
  "fsx_callMoveFile peer =
     ask peer ''Enter relative path (from the root) to the source file:'' (\<lambda>path.
       ask peer ''Enter relative path (from the root) to the destination file:'' (\<lambda>destination.
         call_and_show peer ''move_file'' [(''destination'', JStr destination), (''source'', JStr path)]
           ''File is empty'' show_first))"

definition fsx_callSearchFiles :: "'w fs_peer \<Rightarrow> (bool, 'w) prog" where
  "fsx_callSearchFiles peer =
     ask peer ''Enter pattern:'' (\<lambda>pattern.
       ask peer ''Enter exclude patterns (comma-separated):'' (\<lambda>input.
         let excludePatterns = filter (\<lambda>p. p \<noteq> []) (map TrimSpace (split_at (CHR '','') input)) in
         call_and_show peer ''search_files''
           [(''excludePatterns'', nil_slice (map JStr excludePatterns)), (''path'', JStr pattern),
            (''pattern'', JStr pattern)] ''Directory is empty'' show_all))"

definition fsx_callGetFileInfo :: "'w fs_peer \<Rightarrow> (bool, 'w) prog" where
  "fsx_callGetFileInfo peer =
     ask peer ''Enter relative path (from the root) to the file:'' (\<lambda>input.
       call_and_show peer ''get_file_info'' [(''path'', JStr input)] ''File is empty'' show_first)"

definition fsx_callTool :: "'w fs_peer \<Rightarrow> string \<Rightarrow> (bool, 'w) prog" where
  "fsx_callTool peer name =
     (if name = ''read_file'' then fsx_callReadFile peer
      else if name = ''read_multiple_files'' then fsx_callReadMultipleFiles peer
      else if name = ''write_file'' then fsx_callWriteFile peer
      else if name = ''edit_file'' then fsx_callEditFile peer
      else if name = ''create_directory'' then fsx_callCreateDirectory peer
      else if name = ''list_directory'' then fsx_callListDirectory peer
      else if name = ''directory_tree'' then fsx_callDirectoryTree peer
      else if name = ''move_file'' then fsx_callMoveFile peer
      else if name = ''search_files'' then fsx_callSearchFiles peer
      else if name = ''get_file_info'' then fsx_callGetFileInfo peer
      else ret False)"

section \<open>The menu\<close>

definition tool_lines :: "json Tool list \<Rightarrow> string list" where
  "tool_lines tools = map (\<lambda>(i, t). show_nat (i + 1) @ ''. '' @ to_name t) (enumerate 0 tools)"

definition menu_lines :: "string list" where
  "menu_lines =
     [''Type one of the commands:'',
      ''- call <tool number>: Call the tool with the given number, eg. call 1'',
      ''- desc <tool number>: Show the description of the tool with the given number, eg. desc 1'',
      ''- exit: Exit the program'']"

text \<open>The end of a round: wait for the user before the menu comes again.\<close>

definition fsx_pause :: "'w fs_peer \<Rightarrow> ((unit, unit) flow, 'w) prog" where
  "fsx_pause peer =
     bnd (println ''Press enter to continue...'') (\<lambda>_. bnd (waitStdIOInput (fp_Close peer)) (\<lambda>r.
       case r of
         Inl err \<Rightarrow>
           if errors_Is err ErrCanceled then ret (Finish ())
           else bnd (emit (ErrText err)) (\<lambda>_. ret (Continue ()))
       | Inr _ \<Rightarrow> ret (Continue ())))"

definition fsx_tool :: "'w fs_peer \<Rightarrow> string \<Rightarrow> json Tool \<Rightarrow> ((unit, unit) flow, 'w) prog" where
  "fsx_tool peer command tool =
     (if command = ''call'' then
        bnd (fsx_callTool peer (to_name tool)) (\<lambda>exit. if exit then ret (Finish ()) else fsx_pause peer)
      else if command = ''desc'' then
        bnd (println (''Description for tool '' @ to_name tool @ '': '' @ to_description tool)) (\<lambda>_. fsx_pause peer)
      else fsx_pause peer)"

text \<open>A command of one word is handled first; after the message about more than two words the code goes on.\<close>

definition fsx_command :: "'w fs_peer \<Rightarrow> json Tool list \<Rightarrow> string \<Rightarrow> ((unit, unit) flow, 'w) prog" where
  "fsx_command peer tools input =
     (let arrInput = split_at (CHR '' '') input in
      if length arrInput = 1 then
        if hd arrInput = ''exit'' then ret (Finish ())
        else bnd (println (''Unknown command: '' @ input)) (\<lambda>_. ret (Continue ()))
      else
        bnd (if length arrInput \<noteq> 2 then println (''Invalid command: '' @ input) else ret ()) (\<lambda>_.
          case atoi (arrInput ! 1) of (toolNumber, bad) \<Rightarrow>
            if bad then bnd (println (''Invalid command: '' @ input)) (\<lambda>_. ret (Continue ()))
            else if toolNumber < 1 \<or> int (length tools) < toolNumber then
              bnd (println (''Tool with number '' @ show_int toolNumber @ '' not found'')) (\<lambda>_. ret (Continue ()))
            else fsx_tool peer (hd arrInput) (tools ! nat (toolNumber - 1))))"

definition fsx_round :: "'w fs_peer \<Rightarrow> ((unit, unit) flow, 'w) prog" where
  "fsx_round peer =
     bnd (invoke (fp_ListTools peer) ListToolsParams_zero) (\<lambda>r.
       case r of
         Inl err \<Rightarrow> bnd (print_failure ''failed to list tools: '' err) (\<lambda>_. ret (Finish ()))
       | Inr result \<Rightarrow>
           let tools = slice_of (ltr_tools result) in
           bnd (println []) (\<lambda>_. bnd (println_all (tool_lines tools)) (\<lambda>_.
           bnd (println []) (\<lambda>_. bnd (println_all menu_lines) (\<lambda>_.
           bnd (waitStdIOInput (fp_Close peer)) (\<lambda>r.
             case r of
               Inl err \<Rightarrow>
                 if errors_Is err ErrCanceled then ret (Finish ())
                 else bnd (emit (ErrText err)) (\<lambda>_. ret (Continue ()))
             | Inr input \<Rightarrow> fsx_command peer tools input))))))"

text \<open>
  \<^verbatim>\<open>stop\<close>. Its receiver is a pointer, but \<^verbatim>\<open>run\<close> and \<^verbatim>\<open>listenInterruptSignal\<close> work on copies of the client, so
  that each has its own flag \<^verbatim>\<open>closed\<close> and closes the shared channel \<^verbatim>\<open>done\<close>, whoever closed it before.
\<close>

definition fsx_stop :: "'w fs_peer \<Rightarrow> bool \<Rightarrow> (bool, 'w) prog" where
  "fsx_stop peer closed st =
     (if closed then Ret True st
      else if co_closed st then Crash st
      else Ret True (st\<lparr>co_closed := True, co_world := fp_Close peer (co_world st)\<rparr>))"

definition fsx_connect :: "'w fs_peer \<Rightarrow> (go_error option, 'w) prog" where
  "fsx_connect peer st =
     (case fp_Connect peer (co_world st) of (e, w) \<Rightarrow> Ret e (st\<lparr>co_world := w\<rparr>))"

definition fsx_run :: "'w fs_peer \<Rightarrow> (bool, 'w) prog" where
  "fsx_run peer =
     bnd (fsx_connect peer) (\<lambda>e.
       bnd (case e of
              Some err \<Rightarrow> print_failure ''failed to connect to server: '' err
            | None \<Rightarrow> forever (fsx_round peer))
         (\<lambda>_. fsx_stop peer False))"

section \<open>The program\<close>

text \<open>The peer that \<^verbatim>\<open>main\<close> builds: the filesystem server behind a client, on the files of the machine.\<close>

definition server_peer :: "env \<Rightarrow> fsServer \<Rightarrow> fnode fs_peer" where
  "server_peer ev s =
     \<lparr>fp_Connect = (\<lambda>fs. (None, fs)),
      fp_ListTools = (\<lambda>cancelled params fs.
        Some (if cancelled then Inl ErrCanceled else tool_reply (fs_ListTools s params), fs)),
      fp_CallTool = (\<lambda>cancelled params fs.
        Some (if cancelled then (Inl ErrCanceled, fs)
              else case fs_CallTool ev s params fs of (r, fs') \<Rightarrow> (tool_reply r, fs'))),
      fp_Close = (\<lambda>fs. fs)\<rparr>"

definition fsx_server_options :: "ServerOption list" where
  "fsx_server_options = [WithServerPingInterval (30 * second), WithToolServer (Some 0)]"

definition fsx_server :: "fsServer \<Rightarrow> server" where
  "fsx_server s = newServer \<lparr>us_Info = fs_Info s, us_RequireRootsListClient = fs_RequireRootsListClient s,
     us_RequireSamplingClient = fs_RequireSamplingClient s\<rparr> TransportStdIO fsx_server_options"

text \<open>
  \<^verbatim>\<open>main\<close>; the result \<open>False\<close> stands for \<^verbatim>\<open>os.Exit(1)\<close>. The goroutine of \<^verbatim>\<open>run\<close> is followed to its end; \<^verbatim>\<open>main\<close>
  itself waits until \<^verbatim>\<open>done\<close> is closed and then returns, so that it may end the process during the last step.
\<close>

definition fsx_main :: "env \<Rightarrow> string \<Rightarrow> (bool, fnode) prog" where
  "fsx_main ev path st =
     (if path = [] then bnd (println ''Error: path is required'') (\<lambda>_. ret False) st
      else case NewServer ev (co_world st) path of
        Inl err \<Rightarrow> bnd (print_failure ''Error: failed to create filesystem server: '' err) (\<lambda>_. ret False) st
      | Inr s \<Rightarrow> fsx_run (server_peer ev s) st)"

end
