(* ===== verification/EsClient.thy ===== *)
theory EsClient
  imports Console Everything ServerConfig Client
begin

text \<open>
  The example program for the everything server (\<^verbatim>\<open>src/example/everything\<close>): a client that keeps the
  notifications and log entries it gets, a menu with a dialogue for each part of the server, and
  \<^verbatim>\<open>main\<close>. The methods of the client and the callbacks it makes are fields of \<open>es_peer\<close>.
\<close>

section \<open>The client\<close>

text \<open>The fields \<^verbatim>\<open>notifications\<close> and \<^verbatim>\<open>logs\<close>, and what is behind the methods.\<close>

record 'w esx =
  ex_peer :: 'w
  ex_notifications :: "string list"
  ex_logs :: "string list"

text \<open>A call of one of the three receivers by the client library; the string is the time it happens at.\<close>

datatype callback = Updated string string | Progressed ProgressParams | Logged string LogParams

record 'w es_peer =
  ep_Connect :: "'w \<Rightarrow> go_error option \<times> 'w"
  ep_ListPrompts :: "(ListPromptsParams, ListPromptResult, 'w) client_method"
  ep_GetPrompt :: "(GetPromptParams, GetPromptResult, 'w) client_method"
  ep_CompletesPrompt :: "(CompletesCompletionParams, CompletionResult, 'w) client_method"
  ep_ListResources :: "(ListResourcesParams, ListResourcesResult, 'w) client_method"
  ep_ReadResource :: "(ReadResourceParams, ReadResourceResult, 'w) client_method"
  ep_SubscribeResource :: "(SubscribeResourceParams, unit, 'w) client_method"
  ep_UnsubscribeResource :: "(UnsubscribeResourceParams, unit, 'w) client_method"
  ep_ListTools :: "(ListToolsParams, json ListToolsResult, 'w) client_method"
  ep_CallTool :: "(CallToolParams, CallToolResult, 'w) client_method"
  ep_SetLogLevel :: "(int, unit, 'w) client_method"
  ep_callbacks :: "'w \<Rightarrow> callback list \<times> 'w"
  ep_uuid :: "'w \<Rightarrow> string \<times> 'w"

definition exitCommand :: string where "exitCommand = ''exit''"

definition esx_newClient :: client where
  "esx_newClient = NewClient \<lparr>info_name = ''everything-client'', info_version = ''1.0''\<rparr>
     \<lparr>sq_PromptServer = True, sq_ResourceServer = True, sq_ToolServer = True\<rparr>
     [WithClientPingInterval (30 * second), WithSamplingHandler (Some 0), WithResourceSubscribedWatcher (Some 0),
      WithProgressListener (Some 0), WithLogReceiver (Some 0)]"

text \<open>\<open>None\<close>: \<^verbatim>\<open>params.Messages[0]\<close> is out of range.\<close>

definition CreateSampleMessage :: "SamplingParams \<Rightarrow> SamplingResult option" where
  "CreateSampleMessage params =
     (case slice_of (sp_messages params) of
        [] \<Rightarrow> None
      | m # _ \<Rightarrow> Some
          \<lparr>sres_role = PromptRoleAssistant,
           sres_content = \<lparr>sco_type = ContentTypeText,
             sco_text = ''This is a sample message from external LLM for prompt '' @ [CHR 0x22] @
               sco_text (sam_content m) @ [CHR 0x22] @ '' with max tokens '' @ show_int (sp_maxTokens params),
             sco_data = [], sco_mimeType = []\<rparr>,
           sres_model = ''ai-overlord-1.0'', sres_stopReason = ''finished''\<rparr>)"

definition esx_OnResourceSubscribedChanged :: "string \<Rightarrow> string \<Rightarrow> 'w esx \<Rightarrow> 'w esx" where
  "esx_OnResourceSubscribedChanged now uri w =
     w\<lparr>ex_notifications := ex_notifications w @ [''Update for resource '' @ uri @ '' received at '' @ now]\<rparr>"

definition esx_OnProgress :: "ProgressParams \<Rightarrow> (unit, 'w) prog" where
  "esx_OnProgress params = println (''Progress: '' @ show_f (pp_progress params) @ ''/'' @ show_f (pp_total params))"

definition esx_OnLog :: "string \<Rightarrow> LogParams \<Rightarrow> 'w esx \<Rightarrow> 'w esx" where
  "esx_OnLog now params w =
     w\<lparr>ex_logs := ex_logs w @ [now @ '': Level '' @ show_int (lp_level params) @ '': '' @ ld_message (lp_data params)]\<rparr>"

section \<open>Calls and waits\<close>

definition on_world :: "('w \<Rightarrow> 'w) \<Rightarrow> (unit, 'w) prog" where
  "on_world f st = Ret () (st\<lparr>co_world := f (co_world st)\<rparr>)"

fun receive :: "callback \<Rightarrow> (unit, 'w esx) prog" where
  "receive (Updated now uri) = on_world (esx_OnResourceSubscribedChanged now uri)"
| "receive (Progressed params) = esx_OnProgress params"
| "receive (Logged now params) = on_world (esx_OnLog now params)"

text \<open>
  The callbacks run in goroutines of the client library. Those made since the last call or wait are
  received at the end of the next one, in their order.
\<close>

definition deliver :: "'w es_peer \<Rightarrow> (unit, 'w esx) prog" where
  "deliver peer st =
     (case ep_callbacks peer (ex_peer (co_world st)) of (cs, w) \<Rightarrow>
        each receive cs (st\<lparr>co_world := (co_world st)\<lparr>ex_peer := w\<rparr>\<rparr>))"

definition lift_method :: "('p, 'r, 'w) client_method \<Rightarrow> ('p, 'r, 'w esx) client_method" where
  "lift_method f cancelled params w =
     (case f cancelled params (ex_peer w) of None \<Rightarrow> None | Some (r, v) \<Rightarrow> Some (r, w\<lparr>ex_peer := v\<rparr>))"

definition es_call :: "'w es_peer \<Rightarrow> ('p, 'r, 'w) client_method \<Rightarrow> 'p \<Rightarrow> ('r res, 'w esx) prog" where
  "es_call peer f params =
     bnd (invoke (lift_method f) params) (\<lambda>r. bnd (deliver peer) (\<lambda>_. ret r))"

text \<open>
  A wait and the test of its error, as every dialogue has it: \<open>closed\<close> is what it returns if the console
  was closed, \<open>failed\<close> after it printed another error. The handler of an interrupt only cancels the
  context and closes \<^verbatim>\<open>done\<close>.
\<close>

definition await :: "'w es_peer \<Rightarrow> 'a \<Rightarrow> 'a \<Rightarrow> (string \<Rightarrow> ('a, 'w esx) prog) \<Rightarrow> ('a, 'w esx) prog" where
  "await peer closed failed k =
     bnd (waitStdIOInput (\<lambda>w. w)) (\<lambda>r. bnd (deliver peer) (\<lambda>_.
       case r of
         Inl err \<Rightarrow>
           if errors_Is err errClosed then ret closed
           else bnd (emit (ErrText err)) (\<lambda>_. ret failed)
       | Inr input \<Rightarrow> k input))"

definition press_enter :: "'w es_peer \<Rightarrow> (bool, 'w esx) prog" where
  "press_enter peer = bnd (println ''Press enter to continue...'') (\<lambda>_. await peer True False (\<lambda>_. ret False))"

section \<open>Prompts\<close>

definition ContentTypeResource :: string where "ContentTypeResource = ''resource''"

text \<open>The switch on the type of a content; slicing image data shorter than 50 bytes panics.\<close>

definition show_content :: "Content \<Rightarrow> (unit, 'w) prog" where
  "show_content c =
     (if co_type c = ContentTypeText then println (''Message: '' @ co_text c)
      else if co_type c = ContentTypeImage then
        if length (co_data c) < 50 then crash
        else println (''Truncated image data: '' @ take 50 (co_data c) @ ''...'')
      else if co_type c = ContentTypeResource then println ''Message: Resource''
      else ret ())"

definition completion_params :: "string \<Rightarrow> string \<Rightarrow> CompletesCompletionParams" where
  "completion_params field input =
     \<lparr>ccp_ref = \<lparr>cref_type = CompletionRefPrompt, cref_name = ''complex-prompt'', cref_uri = []\<rparr>,
      ccp_argument = \<lparr>carg_name = field, carg_value = input\<rparr>\<rparr>"

text \<open>The result \<open>None\<close> asks the caller to exit; so does the word \<^verbatim>\<open>exit\<close>.\<close>

definition autocomplete_round :: "'w es_peer \<Rightarrow> string \<Rightarrow> ((unit, string option) flow, 'w esx) prog" where
  "autocomplete_round peer field =
     bnd (print_text (''Insert a '' @ field @ '':'')) (\<lambda>_.
       await peer (Finish None) (Continue ()) (\<lambda>input.
         if input = exitCommand then ret (Finish None)
         else bnd (es_call peer (ep_CompletesPrompt peer) (completion_params field input)) (\<lambda>r.
           case r of
             Inl err \<Rightarrow> bnd (print_failure ''Failed to get autocomplete: '' err) (\<lambda>_. ret (Continue ()))
           | Inr ac \<Rightarrow>
               let vs = slice_of (cn_values (cr_completion ac)) in
               if vs = [] then
                 bnd (println_all [[], ''Your input is not found in the list of possible completions, input an empty string to list all possible completions.''])
                   (\<lambda>_. ret (Continue ()))
               else if input \<in> set vs then ret (Finish (Some input))
               else bnd (println_all ([[], ''Autocomplete:''] @ vs @ [[]])) (\<lambda>_. ret (Continue ())))))"

definition runPromptAutocomplete :: "'w es_peer \<Rightarrow> string \<Rightarrow> (string option, 'w esx) prog" where
  "runPromptAutocomplete peer field = forever (autocomplete_round peer field)"

definition runComplexPrompt :: "'w es_peer \<Rightarrow> (GetPromptParams option, 'w esx) prog" where
  "runComplexPrompt peer =
     bnd (println_all [[], ''Pardon the implementation of '' @ [CHR 0x27] @ ''autocomplete'' @ [CHR 0x27] @
            '' in this example, but it'' @ [CHR 0x27] @ ''s a good idea to implement it in your own client.'']) (\<lambda>_.
     bnd (runPromptAutocomplete peer ''temperature'') (\<lambda>t.
       case t of None \<Rightarrow> ret None | Some temperature \<Rightarrow>
     bnd (runPromptAutocomplete peer ''style'') (\<lambda>s.
       case s of None \<Rightarrow> ret None | Some style \<Rightarrow>
     bnd (println_all [''Temperature: '' @ temperature, ''Style: '' @ style]) (\<lambda>_.
       ret (Some (GetPromptParams_zero\<lparr>gpp_name := ''complex-prompt'',
         gpp_arguments := Some [(''style'', style), (''temperature'', temperature)]\<rparr>))))))"

definition show_message :: "PromptMessage \<Rightarrow> (unit, 'w) prog" where
  "show_message m =
     bnd (println_all [''---'', ''Role: '' @ pm_role m]) (\<lambda>_.
     bnd (show_content (pm_content m)) (\<lambda>_. println ''---''))"

definition get_prompt :: "'w es_peer \<Rightarrow> GetPromptParams \<Rightarrow> (bool, 'w esx) prog" where
  "get_prompt peer params =
     bnd (es_call peer (ep_GetPrompt peer) params) (\<lambda>r.
       case r of
         Inl err \<Rightarrow> bnd (print_failure ''Failed to get prompt: '' err) (\<lambda>_. ret False)
       | Inr pr \<Rightarrow>
           bnd (println_all [[], ''Prompt Messages:'']) (\<lambda>_.
           bnd (each show_message (gpr_messages pr)) (\<lambda>_. press_enter peer)))"

text \<open>\<^verbatim>\<open>log.Printf\<close> writes the time before the line.\<close>

definition runPrompts :: "'w es_peer \<Rightarrow> (bool, 'w esx) prog" where
  "runPrompts peer =
     bnd (es_call peer (ep_ListPrompts peer) ListPromptsParams_zero) (\<lambda>r.
       case r of
         Inl err \<Rightarrow> bnd (print_failure ''failed to list prompts: '' err) (\<lambda>_. ret True)
       | Inr listPrompts \<Rightarrow>
           let prompts = slice_of (lpr_prompts listPrompts) in
           bnd (println_all ([[], ''List Prompts'', []] @ map (\<lambda>p. ''Prompt: '' @ pr_name p) prompts @ [[]])) (\<lambda>_.
           bnd (print_text ''Enter prompt name (type exit to go back):'') (\<lambda>_.
           await peer True False (\<lambda>input.
             if input = exitCommand then ret False
             else case find (\<lambda>p. pr_name p = input) prompts of
               None \<Rightarrow> bnd (println (''Invalid prompt name: '' @ input)) (\<lambda>_. ret False)
             | Some prompt \<Rightarrow>
                 bnd (if pr_name prompt = ''complex-prompt'' then runComplexPrompt peer
                      else ret (Some (GetPromptParams_zero\<lparr>gpp_name := pr_name prompt\<rparr>)))
                   (\<lambda>params. case params of None \<Rightarrow> ret True | Some params \<Rightarrow> get_prompt peer params)))))"

section \<open>Resources\<close>

definition resource_help :: "string list" where
  "resource_help =
     [[], ''Enter one of the following commands:'',
      ''- read <resourceURI>: Read the content of the resource'',
      ''- subscribe <resourceURI>: Subscribe to updates for the resource (nop if already subscribed)'',
      ''- unsubscribe <resourceURI>: Unsubscribe from updates for the resource (nop if not subscribed)'',
      ''- next: Go to the next page (return to first page if already at the last page)'',
      ''- exit: Go back to the main menu'']"

text \<open>The message of success is printed after a failure too.\<close>

definition subscribe :: "'w es_peer \<Rightarrow> string \<Rightarrow> (bool, 'w esx) prog" where
  "subscribe peer uri =
     bnd (es_call peer (ep_SubscribeResource peer) \<lparr>srp_uri = uri\<rparr>) (\<lambda>r.
     bnd (case r of Inl err \<Rightarrow> print_failure ''Failed to subscribe to resource: '' err | Inr _ \<Rightarrow> ret ()) (\<lambda>_.
     bnd (println (''Subscribed to resource '' @ uri @ '', check Notifications for updates'')) (\<lambda>_. ret False)))"

definition unsubscribe :: "'w es_peer \<Rightarrow> string \<Rightarrow> (bool, 'w esx) prog" where
  "unsubscribe peer uri =
     bnd (es_call peer (ep_UnsubscribeResource peer) \<lparr>urp_uri = uri\<rparr>) (\<lambda>r.
     bnd (case r of Inl err \<Rightarrow> print_failure ''Failed to unsubscribe from resource: '' err | Inr _ \<Rightarrow> ret ()) (\<lambda>_.
     bnd (println (''Unsubscribed from resource '' @ uri)) (\<lambda>_. ret False)))"

definition resource_data :: "Resource \<Rightarrow> string" where
  "resource_data rs =
     (if re_mimeType rs = ''text/plain'' then re_text rs
      else if re_mimeType rs = ''application/octet-stream'' then
        ''Binary data of length '' @ show_nat (length (re_blob rs))
      else ''Unknown data type: '' @ re_mimeType rs)"

definition data_title :: "string \<Rightarrow> string" where
  "data_title uri = ''Data for resource '' @ uri @ '':''"

definition read_resource :: "'w es_peer \<Rightarrow> string \<Rightarrow> (bool, 'w esx) prog" where
  "read_resource peer uri =
     bnd (es_call peer (ep_ReadResource peer) \<lparr>rrp_uri = uri, rrp_meta = ParamsMeta_zero\<rparr>) (\<lambda>r.
       case r of
         Inl err \<Rightarrow> bnd (print_failure ''Failed to get resource: '' err) (\<lambda>_. ret False)
       | Inr result \<Rightarrow>
           (case slice_of (rrr_contents result) of
              [] \<Rightarrow> bnd (println ''Resource is empty'') (\<lambda>_. ret False)
            | rs # _ \<Rightarrow>
                bnd (println_all [[], data_title uri, resource_data rs])
                  (\<lambda>_. press_enter peer)))"

definition resource_command :: "'w es_peer \<Rightarrow> Resource list \<Rightarrow> string \<Rightarrow> (bool, 'w esx) prog" where
  "resource_command peer resources input =
     (let inputArr = split_at (CHR '' '') input in
      if length inputArr < 2 then bnd (println (''Invalid command: '' @ input)) (\<lambda>_. ret False)
      else case find (\<lambda>r. re_uri r = inputArr ! 1) resources of
        None \<Rightarrow> bnd (println (''Invalid resourceURI: '' @ input)) (\<lambda>_. ret False)
      | Some resource \<Rightarrow>
          if hd inputArr = ''subscribe'' then subscribe peer (re_uri resource)
          else if hd inputArr = ''unsubscribe'' then unsubscribe peer (re_uri resource)
          else read_resource peer (re_uri resource))"

text \<open>One round of \<^verbatim>\<open>runResources\<close>; only \<^verbatim>\<open>next\<close> goes round again, with another cursor.\<close>

definition resources_round :: "'w es_peer \<Rightarrow> string \<Rightarrow> ((string, bool) flow, 'w esx) prog" where
  "resources_round peer cursor =
     bnd (es_call peer (ep_ListResources peer) \<lparr>lrp_cursor = cursor, lrp_meta = ParamsMeta_zero\<rparr>) (\<lambda>r.
       case r of
         Inl err \<Rightarrow> bnd (print_failure ''failed to list resources: '' err) (\<lambda>_. ret (Finish True))
       | Inr listResources \<Rightarrow>
           let resources = slice_of (lrr_resources listResources) in
           bnd (println_all ([[], ''List Resources'', []] @
                  map (\<lambda>r. ''Resource URI: '' @ re_uri r) resources @ resource_help)) (\<lambda>_.
           await peer (Finish True) (Finish False) (\<lambda>input.
             if input = exitCommand then ret (Finish False)
             else if input = ''next'' then ret (Continue (lrr_nextCursor listResources))
             else bnd (resource_command peer resources input) (\<lambda>exit. ret (Finish exit)))))"

definition runResources :: "'w es_peer \<Rightarrow> (bool, 'w esx) prog" where
  "runResources peer = loop (resources_round peer) []"

section \<open>Tools\<close>

text \<open>
  What \<^verbatim>\<open>strconv.ParseFloat\<close> makes of a string: an error, a value that \<^verbatim>\<open>json.Marshal\<close> refuses (an
  infinity or not a number), or a number.
\<close>

datatype parsed_float = NotFloat | NoJson | Number json

definition no_json :: go_error where
  "no_json = ErrWrap ''failed to marshal params: %w'' [ErrNew ''json: unsupported value'']"

text \<open>
  Parameters with two floats: parameters that cannot be marshalled are the error that \<^verbatim>\<open>CallTool\<close> returns for
  them before it sends anything; \<open>None\<close> stands for \<^verbatim>\<open>Invalid input\<close>.
\<close>

definition float_args ::
    "(json \<Rightarrow> json \<Rightarrow> CallToolParams) \<Rightarrow> parsed_float \<Rightarrow> parsed_float \<Rightarrow> CallToolParams res option" where
  "float_args k a b =
     (case a of NotFloat \<Rightarrow> None
      | NoJson \<Rightarrow> (case b of NotFloat \<Rightarrow> None | _ \<Rightarrow> Some (Inl no_json))
      | Number x \<Rightarrow> (case b of NotFloat \<Rightarrow> None | NoJson \<Rightarrow> Some (Inl no_json) | Number y \<Rightarrow> Some (Inr (k x y))))"

definition invalid_input :: "string \<Rightarrow> ((unit, 'a) flow, 'w) prog" where
  "invalid_input input = bnd (println (''Invalid input: '' @ input)) (\<lambda>_. ret (Continue ()))"

definition example_params :: "string \<Rightarrow> (string \<times> json) list \<Rightarrow> CallToolParams" where
  "example_params name args = CallToolParams_zero\<lparr>ctp_name := name, ctp_arguments := Some args\<rparr>"

definition toolEchoParams :: "'w es_peer \<Rightarrow> (CallToolParams res option, 'w esx) prog" where
  "toolEchoParams peer =
     forever (bnd (println ''Enter the message to echo:'') (\<lambda>_.
       await peer (Finish None) (Continue ()) (\<lambda>input.
         ret (Finish (Some (Inr (example_params ''echo'' [(''message'', JStr input)])))))))"

definition toolAddParams :: "(string \<Rightarrow> parsed_float) \<Rightarrow> 'w es_peer \<Rightarrow> (CallToolParams res option, 'w esx) prog" where
  "toolAddParams parseFloat peer =
     forever (bnd (println ''Enter two numbers to add (separated by space):'') (\<lambda>_.
       await peer (Finish None) (Continue ()) (\<lambda>input.
         case split_at (CHR '' '') input of
           [x, y] \<Rightarrow>
             (case float_args (\<lambda>a b. example_params ''add'' [(''a'', a), (''b'', b)]) (parseFloat x) (parseFloat y) of
                None \<Rightarrow> invalid_input input
              | Some params \<Rightarrow> ret (Finish (Some params)))
         | _ \<Rightarrow> invalid_input input)))"

definition new_uuid :: "'w es_peer \<Rightarrow> (string, 'w esx) prog" where
  "new_uuid peer st =
     (case ep_uuid peer (ex_peer (co_world st)) of (u, w) \<Rightarrow>
        Ret u (st\<lparr>co_world := (co_world st)\<lparr>ex_peer := w\<rparr>\<rparr>))"

definition toolLongRunningOperationParams ::
    "(string \<Rightarrow> parsed_float) \<Rightarrow> 'w es_peer \<Rightarrow> (CallToolParams res option, 'w esx) prog" where
  "toolLongRunningOperationParams parseFloat peer =
     forever (bnd (println ''Enter duration and steps (separated by space):'') (\<lambda>_.
       await peer (Finish None) (Continue ()) (\<lambda>input.
         case split_at (CHR '' '') input of
           [x, y] \<Rightarrow>
             (case float_args (\<lambda>duration steps. example_params ''longRunningOperation''
                     [(''duration'', duration), (''steps'', steps)]) (parseFloat x) (parseFloat y) of
                None \<Rightarrow> invalid_input input
              | Some params \<Rightarrow> bnd (new_uuid peer) (\<lambda>uuid.
                  ret (Finish (Some (map_sum id (\<lambda>q. q\<lparr>ctp_meta := \<lparr>meta_progressToken = uuid\<rparr>\<rparr>) params)))))
         | _ \<Rightarrow> invalid_input input)))"

definition toolSampleLLMParams ::
    "(string \<Rightarrow> parsed_float) \<Rightarrow> 'w es_peer \<Rightarrow> (CallToolParams res option, 'w esx) prog" where
  "toolSampleLLMParams parseFloat peer =
     forever (bnd (println ''Enter the prompt:'') (\<lambda>_.
       await peer (Finish None) (Continue ()) (\<lambda>prompt.
         bnd (println ''Enter the max tokens:'') (\<lambda>_.
           await peer (Finish None) (Continue ()) (\<lambda>input.
             case parseFloat input of
               NotFloat \<Rightarrow> invalid_input input
             | NoJson \<Rightarrow> ret (Finish (Some (Inl no_json)))
             | Number maxTokens \<Rightarrow> ret (Finish (Some (Inr (example_params ''sampleLLM''
                 [(''maxTokens'', maxTokens), (''prompt'', JStr prompt)])))))))))"

definition tool_dialogue ::
    "(string \<Rightarrow> parsed_float) \<Rightarrow> 'w es_peer \<Rightarrow> string \<Rightarrow> (CallToolParams res option, 'w esx) prog" where
  "tool_dialogue parseFloat peer name =
     (if name = ''echo'' then toolEchoParams peer
      else if name = ''add'' then toolAddParams parseFloat peer
      else if name = ''longRunningOperation'' then toolLongRunningOperationParams parseFloat peer
      else if name = ''sampleLLM'' then toolSampleLLMParams parseFloat peer
      else ret (Some (Inr (CallToolParams_zero\<lparr>ctp_name := name\<rparr>))))"

definition show_tool_content :: "Content \<Rightarrow> (unit, 'w) prog" where
  "show_tool_content c = bnd (println ''---'') (\<lambda>_. bnd (show_content c) (\<lambda>_. println ''---''))"

definition call_tool :: "'w es_peer \<Rightarrow> CallToolParams res \<Rightarrow> (bool, 'w esx) prog" where
  "call_tool peer params =
     bnd (case params of Inl err \<Rightarrow> ret (Inl err) | Inr q \<Rightarrow> es_call peer (ep_CallTool peer) q) (\<lambda>r.
       case r of
         Inl err \<Rightarrow> bnd (print_failure ''Failed to call tool: '' err) (\<lambda>_. ret False)
       | Inr tr \<Rightarrow>
           bnd (println_all [[], ''Tool Results:'']) (\<lambda>_.
           bnd (each show_tool_content (slice_of (ctr_content tr))) (\<lambda>_. press_enter peer)))"

definition runTools :: "(string \<Rightarrow> parsed_float) \<Rightarrow> 'w es_peer \<Rightarrow> (bool, 'w esx) prog" where
  "runTools parseFloat peer =
     bnd (es_call peer (ep_ListTools peer) ListToolsParams_zero) (\<lambda>r.
       case r of
         Inl err \<Rightarrow> bnd (print_failure ''failed to list tools: '' err) (\<lambda>_. ret True)
       | Inr listTools \<Rightarrow>
           let tools = slice_of (ltr_tools listTools) in
           bnd (println_all ([[], ''List Tools'', []] @ map (\<lambda>t. ''Tool: '' @ to_name t) tools @ [[]])) (\<lambda>_.
           bnd (print_text ''Enter tool name to call (type exit to go back):'') (\<lambda>_.
           await peer True False (\<lambda>input.
             if input = exitCommand then ret False
             else case find (\<lambda>t. to_name t = input) tools of
               None \<Rightarrow> bnd (println (''Invalid tool name: '' @ input)) (\<lambda>_. ret False)
             | Some tool \<Rightarrow>
                 bnd (tool_dialogue parseFloat peer (to_name tool)) (\<lambda>params.
                   case params of None \<Rightarrow> ret True | Some params \<Rightarrow> call_tool peer params)))))"

section \<open>Notifications and logs\<close>

definition runNotifications :: "(unit, 'w esx) prog" where
  "runNotifications st =
     (let ns = ex_notifications (co_world st) in
      println_all ([] # (if ns = [] then [''No notifications received'']
                         else [''List Notifications'', []] @ map (\<lambda>n. ''Notification: '' @ n) ns)) st)"

definition logLevels :: "string list" where
  "logLevels = [''debug'', ''info'', ''notice'', ''warning'', ''error'', ''critical'', ''alert'', ''emergency'']"

text \<open>The switch on the word: its position in the list, and for any other word the zero value.\<close>

definition level_of :: "string \<Rightarrow> int" where
  "level_of word = (case find (\<lambda>(i, l). l = word) (enumerate 0 logLevels) of None \<Rightarrow> 0 | Some (i, _) \<Rightarrow> int i)"

definition show_logs :: "(unit, 'w esx) prog" where
  "show_logs st =
     (let ls = ex_logs (co_world st) in
      println_all ([] # (if ls = [] then [''No logs received''] else [''List Logs'', []] @ ls)) st)"

definition logs_round :: "'w es_peer \<Rightarrow> ((unit, bool) flow, 'w esx) prog" where
  "logs_round peer =
     bnd show_logs (\<lambda>_.
     bnd (println_all [[], ''Enter log level to set, available log levels: '' @ join_comma logLevels @
            '' (type exit to go back):'']) (\<lambda>_.
     await peer (Finish True) (Continue ()) (\<lambda>input.
       if input = exitCommand then ret (Finish False)
       else bnd (es_call peer (ep_SetLogLevel peer) (level_of input)) (\<lambda>r.
         case r of
           Inl err \<Rightarrow> bnd (print_failure ''Failed to set log level: '' err) (\<lambda>_. ret (Continue ()))
         | Inr _ \<Rightarrow> bnd (println (''Log level set to '' @ input)) (\<lambda>_. ret (Finish False))))))"

definition runLogs :: "'w es_peer \<Rightarrow> (bool, 'w esx) prog" where
  "runLogs peer = forever (logs_round peer)"

section \<open>The menu\<close>

definition esx_command :: "(string \<Rightarrow> parsed_float) \<Rightarrow> 'w es_peer \<Rightarrow> string \<Rightarrow> (bool, 'w esx) prog" where
  "esx_command parseFloat peer input =
     (if input = ''1'' then runPrompts peer
      else if input = ''2'' then runResources peer
      else if input = ''3'' then runTools parseFloat peer
      else if input = ''4'' then bnd runNotifications (\<lambda>_. ret False)
      else if input = ''5'' then runLogs peer
      else if input = ''6'' then ret True
      else bnd (println ''Invalid command'') (\<lambda>_. ret False))"

definition esx_menu :: "string list" where
  "esx_menu = [[], ''1. Prompts'', ''2. Resources'', ''3. Tools'', ''4. Notifications'', ''5. Server Log'', ''6. Exit'', []]"

definition esx_round :: "(string \<Rightarrow> parsed_float) \<Rightarrow> 'w es_peer \<Rightarrow> ((unit, unit) flow, 'w esx) prog" where
  "esx_round parseFloat peer =
     bnd (println_all esx_menu) (\<lambda>_.
     bnd (print_text ''Enter command number: '') (\<lambda>_.
     await peer (Finish ()) (Continue ()) (\<lambda>input.
       bnd (esx_command parseFloat peer input) (\<lambda>exit. ret (if exit then Finish () else Continue ())))))"

text \<open>\<^verbatim>\<open>stop\<close>: here the flag \<^verbatim>\<open>closed\<close> is shared, so that \<^verbatim>\<open>done\<close> is closed once.\<close>

definition esx_stop :: "(unit, 'w) prog" where
  "esx_stop st = Ret () (st\<lparr>co_closed := True\<rparr>)"

definition esx_connect :: "'w es_peer \<Rightarrow> (go_error option, 'w esx) prog" where
  "esx_connect peer st =
     (case ep_Connect peer (ex_peer (co_world st)) of (e, w) \<Rightarrow>
        Ret e (st\<lparr>co_world := (co_world st)\<lparr>ex_peer := w\<rparr>\<rparr>))"

definition esx_run :: "(string \<Rightarrow> parsed_float) \<Rightarrow> 'w es_peer \<Rightarrow> (unit, 'w esx) prog" where
  "esx_run parseFloat peer =
     bnd (println ''Connecting to server...'') (\<lambda>_.
     bnd (esx_connect peer) (\<lambda>e.
     bnd (case e of
            Some err \<Rightarrow> print_failure ''failed to connect to server: '' err
          | None \<Rightarrow> bnd (print_text ''Connected to server'') (\<lambda>_. forever (esx_round parseFloat peer)))
       (\<lambda>_. esx_stop)))"

section \<open>The program\<close>

text \<open>
  The answer of the client to a sampling request of the server. The server's tool sends one message,
  so that the handler does not panic; the error stands in for that case.
\<close>

definition answer_sampling :: "JSONRPCMessage \<Rightarrow> JSONRPCMessage res" where
  "answer_sampling msg =
     (case unmarshal dec_SamplingParams SamplingParams_zero (msg_params msg) of
        Inl e \<Rightarrow> Inl e
      | Inr params \<Rightarrow>
          (case CreateSampleMessage params of
             None \<Rightarrow> Inl (ErrNew ''index out of range'')
           | Some result \<Rightarrow> Inr (JSONRPCMessage_zero\<lparr>msg_jsonrpc := JSONRPCVersion, msg_id := msg_id msg,
               msg_result := Some (enc_SamplingResult result)\<rparr>)))"

text \<open>
  What the run gets from outside the two components: what a tool call gets, \<^verbatim>\<open>ParseFloat\<close> followed by
  \<^verbatim>\<open>%.2f\<close>, the ticks of the server's simulation between two deliveries, the clock and \<^verbatim>\<open>uuid.New\<close>.
\<close>

record es_outside =
  eo_env :: es_env
  eo_temperature :: "string \<Rightarrow> string option"
  eo_between :: "everything \<Rightarrow> everything"
  eo_clock :: "everything \<Rightarrow> string"
  eo_uuid :: "everything \<Rightarrow> string"

text \<open>
  A method of the server behind the client. A cancelled context ends the call at once, a server that
  blocks lets it time out, and a panic of the server ends the process they share.
\<close>

definition via_client :: "('p \<Rightarrow> everything \<Rightarrow> 'r outcome) \<Rightarrow> ('p, 'r, everything) client_method" where
  "via_client m cancelled params es =
     (if cancelled then Some (Inl ErrCanceled, es)
      else case m params es of
        Returned r es' \<Rightarrow> Some (tool_reply r, es')
      | Blocked \<Rightarrow> Some (Inl (ErrNew ''request timeout''), es)
      | SlicePanic \<Rightarrow> None
      | CloseOfClosed \<Rightarrow> None)"

text \<open>
  The callbacks: the updates, the progress reports and the log entries sent since the last
  delivery. The server's listeners empty the channels.
\<close>

definition server_callbacks :: "es_outside \<Rightarrow> everything \<Rightarrow> callback list \<times> everything" where
  "server_callbacks ext es0 =
     (let es = eo_between ext es0; now = eo_clock ext es in
      (map (Updated now) (es_updates es) @ map Progressed (es_progress es) @ map (Logged now) (es_logChan es),
       es\<lparr>es_updates := [], es_progress := [], es_logChan := []\<rparr>))"

definition es_server_peer :: "es_outside \<Rightarrow> everything es_peer" where
  "es_server_peer ext =
     \<lparr>ep_Connect = (\<lambda>es. (None, es)),
      ep_ListPrompts = via_client (\<lambda>_. es_ListPrompts False False),
      ep_GetPrompt = via_client (es_GetPrompt (eo_temperature ext) (\<lambda>s. s) (ee_image (eo_env ext)) False),
      ep_CompletesPrompt = via_client (es_CompletesPrompt False),
      ep_ListResources = via_client (es_ListResources False),
      ep_ReadResource = via_client (es_ReadResource False),
      ep_SubscribeResource = via_client (es_SubscribeResource False),
      ep_UnsubscribeResource = via_client (es_UnsubscribeResource False),
      ep_ListTools = via_client (\<lambda>_. es_ListTools False),
      ep_CallTool = via_client (es_CallTool ((eo_env ext)\<lparr>ee_requestClient := answer_sampling\<rparr>) False),
      ep_SetLogLevel = (\<lambda>_ level es. Some (Inr (), es_SetLogLevel level es)),
      ep_callbacks = server_callbacks ext,
      ep_uuid = (\<lambda>es. (eo_uuid ext es, es))\<rparr>"

definition port :: string where "port = ''8080''"

definition baseURL :: string where "baseURL = ''http://localhost:'' @ port"

definition esx_server_options :: "ServerOption list" where
  "esx_server_options =
     [WithServerPingInterval (30 * second), WithPromptServer (Some 0), WithResourceServer (Some 0),
      WithToolServer (Some 0), WithResourceSubscribedUpdater (Some 0), WithProgressReporter (Some 0),
      WithLogHandler (Some 0)]"

definition esx_server :: server where
  "esx_server = newServer \<lparr>us_Info = es_Info, us_RequireRootsListClient = es_RequireRootsListClient,
     us_RequireSamplingClient = es_RequireSamplingClient\<rparr> TransportSSE esx_server_options"

text \<open>
  \<^verbatim>\<open>main\<close>, from the newly made server on, which can listen on its port. The goroutine of \<^verbatim>\<open>run\<close> is followed to its end before the
  messages of the shutdown, which \<^verbatim>\<open>main\<close> prints as soon as \<^verbatim>\<open>done\<close> is closed; \<open>shutdown\<close> is what the HTTP
  server's \<^verbatim>\<open>Shutdown\<close> returns. \<^verbatim>\<open>Close\<close> of the client does nothing to the server's state.
\<close>

definition esx_close :: "(unit, everything esx) prog" where
  "esx_close st =
     (case es_Close (ex_peer (co_world st)) of
        Returned _ es \<Rightarrow> Ret () (st\<lparr>co_world := (co_world st)\<lparr>ex_peer := es\<rparr>\<rparr>)
      | _ \<Rightarrow> Crash st)"

definition esx_main ::
    "(string \<Rightarrow> parsed_float) \<Rightarrow> es_outside \<Rightarrow> go_error option \<Rightarrow> (unit, everything esx) prog" where
  "esx_main parseFloat ext shutdown =
     bnd (println_all [''Server starting on :'' @ port, ''Server started'']) (\<lambda>_.
     bnd (esx_run parseFloat (es_server_peer ext)) (\<lambda>_.
     bnd (println_all [''Client requested shutdown...'', ''Shutting down server...'']) (\<lambda>_.
     bnd esx_close (\<lambda>_.
       case shutdown of
         Some err \<Rightarrow> bnd (print_text ''Server forced to shutdown: '') (\<lambda>_. emit (ErrText err))
       | None \<Rightarrow> println ''Server exited gracefully''))))"

end
