(* ===== verification/EsClientProps.thy ===== *)
theory EsClientProps
  imports EsClient EverythingProps Capabilities
begin

text \<open>
  The everything example: it comes to an end of its input whatever the server answers, and what a
  user sees who reads a resource or lets the server sample from the client.
\<close>

section \<open>Every dialogue ends\<close>

lemma steady_on_world [steady_rules]: "steady C (on_world f)"
  by (simp add: steady_def wp_def on_world_def after_def)

lemma steady_receive [steady_rules]: "steady C (receive c)"
  by (cases c) (auto simp: esx_OnProgress_def intro!: steady_rules)

lemma steady_deliver [steady_rules]: "steady C (deliver peer)"
  unfolding steady_def
proof
  fix st :: "'a esx console"
  have "wp (each receive cs) (\<lambda>_. after st) (\<lambda>_. C) (st\<lparr>co_world := w\<rparr>)" for cs w
  proof (rule steadyD [of C])
    show "steady C (each receive cs)" by (intro steady_rules)
  qed (auto simp: after_def)
  then show "wp (deliver peer) (\<lambda>_. after st) (\<lambda>_. C) st"
    by (simp add: wp_def [of "deliver peer"] deliver_def split: prod.split) (simp add: wp_def)
qed

lemma steady_es_call [steady_rules]: "steady True (es_call peer f params)"
  by (auto simp: es_call_def intro!: steady_rules)

lemma steady_await [steady_rules]: "(\<And>x. steady C (k x)) \<Longrightarrow> steady C (await peer closed failed k)"
  by (auto simp: await_def intro!: steady_rules)

lemma steady_pure [steady_rules]:
  "steady C (new_uuid peer)" "steady C runNotifications" "steady C show_logs" "steady C (invalid_input input)"
  "steady C (esx_connect peer)"
  by (auto simp: steady_def wp_def [of "new_uuid peer"] wp_def [of runNotifications] wp_def [of show_logs]
      new_uuid_def runNotifications_def show_logs_def Let_def after_def invalid_input_def println_all_eq
      wp_def [of "esx_connect peer"] esx_connect_def simp del: each.simps split: prod.split)

text \<open>A round goes on only after a wait that was answered.\<close>

lemma progresses_await:
  assumes "\<not> is_Continue closed" "\<And>x. steady True (k x)"
  shows "progresses (await peer closed failed k)"
proof -
  have "wp (bnd (deliver peer) (\<lambda>_. case r of Inl err \<Rightarrow> if errors_Is err errClosed then ret closed
             else bnd (emit (ErrText err)) (\<lambda>_. ret failed) | Inr input \<Rightarrow> k input))
      (\<lambda>r st'. is_Continue r \<longrightarrow> less_input st' st) (\<lambda>_. True) st'" if "less_input st' st" for st st' r
    using that by (intro progress_spent) (auto intro!: steady_rules assms(2))
  moreover have "wp (bnd (deliver peer) (\<lambda>_. ret closed)) (\<lambda>r st'. is_Continue r \<longrightarrow> less_input st' st) (\<lambda>_. True) st" for st
    using assms(1) steady_deliver [of True peer] by (auto simp: steady_def elim!: allE wp_mono)
  ultimately have "wp (await peer closed failed k) (\<lambda>r st'. is_Continue r \<longrightarrow> less_input st' st) (\<lambda>_. True) st" for st
    unfolding await_def wp_bnd [of "waitStdIOInput f" for f]
    by (intro wp_waitI) (auto simp: errClosed_def)
  then show ?thesis by (simp add: progresses_def)
qed

lemma steady_loops [steady_rules]:
  "steady True (runPromptAutocomplete peer field)" "steady True (toolEchoParams peer)"
  "steady True (toolAddParams parseFloat peer)" "steady True (toolLongRunningOperationParams parseFloat peer)"
  "steady True (toolSampleLLMParams parseFloat peer)" "steady True (runLogs peer)"
  unfolding runPromptAutocomplete_def autocomplete_round_def toolEchoParams_def toolAddParams_def
    toolLongRunningOperationParams_def toolSampleLLMParams_def runLogs_def logs_round_def
  by (auto simp: Let_def intro!: steady_rules progresses_bnd progresses_await split: list.split parsed_float.split)

lemma steady_press [steady_rules]: "steady C (press_enter peer)"
  by (auto simp: press_enter_def intro!: steady_rules)

lemma steady_content [steady_rules]: "steady True (show_content c)"
  by (auto simp: show_content_def intro!: steady_rules)

lemma steady_prompts: "steady True (runPrompts peer)"
  unfolding runPrompts_def runComplexPrompt_def get_prompt_def show_message_def
  by (auto simp: Let_def intro!: steady_rules)

lemma steady_resources: "steady True (runResources peer)"
proof -
  have c: "steady True (resource_command peer resources input)" for resources input
    unfolding resource_command_def subscribe_def unsubscribe_def read_resource_def
    by (auto simp: Let_def intro!: steady_rules)
  show ?thesis
    unfolding runResources_def resources_round_def
    by (intro steady_rules)
      (auto simp: Let_def progresses_finish intro!: steady_rules c progresses_bnd progresses_await split: sum.split)
qed

lemma steady_tools: "steady True (runTools parseFloat peer)"
  unfolding runTools_def tool_dialogue_def call_tool_def show_tool_content_def
  by (auto simp: Let_def intro!: steady_rules)

lemma steady_esx_command [steady_rules]: "steady True (esx_command parseFloat peer input)"
  by (auto simp: esx_command_def intro!: steady_rules steady_prompts steady_resources steady_tools)

lemma steady_esx_loop: "steady True (forever (esx_round parseFloat peer))"
  unfolding esx_round_def by (auto intro!: steady_rules progresses_bnd progresses_await)

text \<open>What the witnesses take for the outside: a validator without complaints, no ticks, fixed times.\<close>

definition demo_outside :: es_outside where
  "demo_outside =
     \<lparr>eo_env = \<lparr>ee_validate = (\<lambda>_ _. []), ee_arm = (\<lambda>_. ReportTaken), ee_environ = [], ee_uuid = ''1'',
        ee_requestClient = answer_sampling, ee_image = []\<rparr>,
      eo_temperature = Some, eo_between = (\<lambda>es. es), eo_clock = (\<lambda>_. ''now''), eo_uuid = (\<lambda>_. ''2'')\<rparr>"

definition new_world :: "everything esx" where
  "new_world = \<lparr>ex_peer = es_NewServer, ex_notifications = [], ex_logs = []\<rparr>"

text \<open>
  C39. The everything example never runs on without reading: whatever is typed and whatever the server
  answers, and whatever notifications come in between, \<^verbatim>\<open>run\<close> ends with the console closed, waits for
  input or panics; none of its nested loops can go round without a line that was read.
\<close>

theorem es_example_ends:
  "esx_run parseFloat peer st \<noteq> Spin \<and> (esx_run parseFloat peer st = Ret x st' \<longrightarrow> co_closed st')"
proof -
  have "wp (case e of Some err \<Rightarrow> print_failure ''failed to connect to server: '' err
      | None \<Rightarrow> bnd (print_text ''Connected to server'') (\<lambda>_. forever (esx_round parseFloat peer)))
      (\<lambda>_. wp esx_stop (\<lambda>_ st'. co_closed st') (\<lambda>_. True)) (\<lambda>_. True) st1" for e st1
    by (rule steadyD [of True])
      (auto simp: wp_def esx_stop_def intro!: steady_option steady_failure steady_bnd steady_emit steady_esx_loop)
  then have "wp (esx_run parseFloat peer) (\<lambda>_ st'. co_closed st') (\<lambda>_. True) st"
    by (simp add: esx_run_def wp_def [of "esx_connect peer"] esx_connect_def split: prod.split)
  then show ?thesis by (auto simp: wp_def split: act.splits)
qed

theorem es_example_ends_witness:
  "esx_run (\<lambda>_. NotFloat) (es_server_peer demo_outside) (con [typed_line ''6''] [] new_world) \<noteq> Spin"
  using es_example_ends [of "\<lambda>_. NotFloat" "es_server_peer demo_outside"] by blast

section \<open>Dialogues with the server\<close>

text \<open>After a delivery the log channel of the server is empty.\<close>

definition quiet :: "everything esx \<Rightarrow> bool" where
  "quiet w \<longleftrightarrow> es_logChan (ex_peer w) = []"

lemma quiet_not_blocked: "quiet w \<Longrightarrow> \<not> log_blocked level (ex_peer w)"
  by (simp add: quiet_def log_blocked_def chanSize_def)

lemma receive_returns:
  assumes "\<And>out' w'. ex_peer w' = ex_peer w \<Longrightarrow> Q () (con es (out @ out') w')"
  shows "returns (receive c) Q (con es out w)"
  using assms [of _ "[]"] assms
  by (cases c) (auto simp: esx_OnProgress_def returns_def [of "on_world f" for f] on_world_def
      esx_OnResourceSubscribedChanged_def esx_OnLog_def)

lemma receive_all_returns:
  "(\<And>out' w'. ex_peer w' = ex_peer w \<Longrightarrow> Q () (con es (out @ out') w')) \<Longrightarrow>
     returns (each receive cs) Q (con es out w)"
proof (induction cs arbitrary: out w)
  case Nil
  from Nil [of w "[]"] show ?case by simp
next
  case (Cons c cs)
  have "returns (each receive cs) Q (con es (out @ out') w')" if "ex_peer w' = ex_peer w" for out' w'
  proof (rule Cons.IH)
    show "Q () (con es ((out @ out') @ out'') w'')" if "ex_peer w'' = ex_peer w'" for out'' w''
      using Cons.prems [of w'' "out' @ out''"] that \<open>ex_peer w' = ex_peer w\<close> by simp
  qed
  then show ?case by (simp add: receive_returns)
qed

lemma deliver_returns:
  assumes "\<And>out' w'. quiet w' \<Longrightarrow> Q () (con es (out @ out') w')"
  shows "returns (deliver (es_server_peer ext)) Q (con es out w)"
proof -
  have "returns (each receive cs) Q (con es out w1)" if "quiet w1" for cs w1
    using assms that by (intro receive_all_returns) (simp add: quiet_def)
  then show ?thesis
    by (simp add: returns_def [of "deliver peer" for peer] deliver_def es_server_peer_def server_callbacks_def Let_def quiet_def
        returns_def)
qed

lemma await_typed:
  assumes "line_ok l" "\<And>out' w'. quiet w' \<Longrightarrow> returns (k l) Q (con es (out @ out') w')"
  shows "returns (await (es_server_peer ext) closed failed k) Q (con (typed_line l # es) out w)"
  unfolding await_def returns_bnd
  using assms by (simp add: returns_def [of "waitStdIOInput f" for f] wait_typed deliver_returns)

lemma press_typed:
  assumes "\<And>out' w'. quiet w' \<Longrightarrow> Q False (con es (out @ out') w')"
  shows "returns (press_enter (es_server_peer ext)) Q (con (typed_line [] # es) out w)"
  using assms by (auto simp: press_enter_def line_ok_def dropCR_def maxScanTokenSize_def intro!: await_typed)

lemma call_returns:
  assumes "m params (ex_peer w) = Returned r es'" "\<And>out' w'. quiet w' \<Longrightarrow> Q (tool_reply r) (con es (out @ out') w')"
  shows "returns (es_call (es_server_peer ext) (via_client m) params) Q (con es out w)"
  unfolding es_call_def returns_bnd
  using assms
  by (simp add: returns_def [of "invoke f p" for f p] invoke_def lift_method_def via_client_def deliver_returns)

lemma peer_methods [simp]:
  "ep_ListResources (es_server_peer ext) = via_client (es_ListResources False)"
  "ep_ReadResource (es_server_peer ext) = via_client (es_ReadResource False)"
  "ep_ListTools (es_server_peer ext) = via_client (\<lambda>_. es_ListTools False)"
  "ep_CallTool (es_server_peer ext) = via_client (es_CallTool ((eo_env ext)\<lparr>ee_requestClient := answer_sampling\<rparr>) False)"
  by (simp_all add: es_server_peer_def)

lemma tool_reply_Inr [simp]: "tool_reply (Inr x) = Inr x"
  by (simp add: tool_reply_def)

text \<open>Output that appears in one piece.\<close>

definition shown :: "string list \<Rightarrow> 'w console \<Rightarrow> bool" where
  "shown ls st \<longleftrightarrow> (\<exists>before behind. co_out st = before @ map (\<lambda>l. Text (l @ [nl])) ls @ behind)"

section \<open>Reading a resource\<close>

lemma list_page:
  assumes "quiet w" "k < 10"
    and "\<And>out' w'. quiet w' \<Longrightarrow> Q (Inr \<lparr>lrr_resources = Some (take 10 (drop (10 * k) genResources)),
      lrr_nextCursor = page_cursor (Suc k)\<rparr>) (con es (out @ out') w')"
  shows "returns (es_call (es_server_peer ext) (via_client (es_ListResources False))
    \<lparr>lrp_cursor = page_cursor k, lrp_meta = ParamsMeta_zero\<rparr>) Q (con es out w)"
proof -
  obtain es' where "es_log False (''ListResources: '' @ page_cursor k) LogLevelDebug (ex_peer w) = Some es'"
    using quiet_not_blocked [OF assms(1)] by (rule not_blocked_log)
  from ListResources_at [OF this assms(2)] show ?thesis by (rule call_returns) (simp add: assms(3))
qed

lemma show_nat_length: "length (show_nat n) \<le> n + 1"
proof (induction n rule: show_nat.induct)
  case (1 n)
  then show ?case by (subst show_nat.simps) force
qed

lemma read_line: "i < 100 \<Longrightarrow> line_ok (''read '' @ resource_uri (i + 1))"
proof -
  assume "i < 100"
  moreover have "nl \<notin> set (show_nat (Suc i))" using show_nat_digits by (fastforce simp: is_digit_def)
  moreover have "is_digit (last (show_nat (Suc i)))" by (rule show_nat_digits [OF last_in_set]) simp
  ultimately show ?thesis
    using show_nat_length [of "Suc i"]
    by (auto simp: line_ok_def resource_uri_def dropCR_def maxScanTokenSize_def is_digit_def)
qed

lemma read_words: "split_at (CHR '' '') (''read '' @ resource_uri n) = [''read'', resource_uri n]"
proof -
  have "CHR '' '' \<notin> set (show_nat n)" using show_nat_digits by (fastforce simp: is_digit_def)
  then have "CHR '' '' \<notin> set (resource_uri n)" by (simp add: resource_uri_def)
  from split_at_append [OF this, of "''read''"] show ?thesis by simp
qed

lemma listed_on_page:
  assumes "i < 100"
  obtains r where "find (\<lambda>r. re_uri r = resource_uri (i + 1)) (take 10 (drop (10 * (i div 10)) genResources)) = Some r"
    "re_uri r = resource_uri (i + 1)"
proof -
  let ?page = "take 10 (drop (10 * (i div 10)) genResources)"
  have i: "i = 10 * (i div 10) + i mod 10" by simp
  have "length ?page = min 10 (100 - 10 * (i div 10))" by simp
  moreover have "i mod 10 < 100 - 10 * (i div 10)" using assms i by linarith
  ultimately have "i mod 10 < length ?page" by simp
  moreover from this have "?page ! (i mod 10) = genResources ! i" using assms by simp
  ultimately have "genResources ! i \<in> set ?page" by (metis nth_mem)
  moreover have "re_uri (genResources ! i) = resource_uri (i + 1)" using assms by (simp add: genResources_def)
  ultimately have "find (\<lambda>r. re_uri r = resource_uri (i + 1)) ?page \<noteq> None" by (auto simp: find_None_iff)
  then obtain r where "find (\<lambda>r. re_uri r = resource_uri (i + 1)) ?page = Some r" by blast
  moreover from this have "re_uri r = resource_uri (i + 1)" by (auto simp: find_Some_iff)
  ultimately show ?thesis by (rule that)
qed

lemma shown_pair:
  "shown [a, b] \<lparr>co_in = es, co_out = out @ out' @ x # Text (a @ [nl]) # Text (b @ [nl]) # rest, co_closed = c, co_world = w\<rparr>"
  unfolding shown_def by (rule exI [of _ "out @ out' @ [x]"]) simp

lemma read_command:
  assumes "i < 99" "quiet w"
  shows "returns (read_resource (es_server_peer ext) (resource_uri (i + 1)))
    (\<lambda>exit st'. \<not> exit \<and> co_in st' = es \<and>
       shown [data_title (resource_uri (i + 1)), resource_data (genResource (i + 1))] st')
    (con (typed_line [] # es) out w)"
proof -
  let ?q = "\<lparr>rrp_uri = resource_uri (i + 1), rrp_meta = ParamsMeta_zero\<rparr>"
  have "rrp_uri ?q = re_uri (genResources ! i)" using assms(1) by (simp add: genResources_def)
  with assms read_resource_off_by_one [of i "ex_peer w" ?q False] quiet_not_blocked obtain es' where
    "es_ReadResource False ?q (ex_peer w) = Returned (Inr \<lparr>rrr_contents = Some [genResources ! (i + 1)]\<rparr>) es'" by auto
  moreover have "genResources ! (i + 1) = genResource (i + 1)" using assms(1) by (simp add: genResources_def)
  ultimately show ?thesis
    unfolding read_resource_def returns_bnd peer_methods
    by (elim call_returns) (auto intro!: press_typed shown_pair)
qed

lemma resources_line:
  assumes "quiet w" "k < 10" "line_ok l"
    and "\<And>out' w'. quiet w' \<Longrightarrow>
      if l = exitCommand then Q (Finish False) (con es out' w')
      else if l = ''next'' then Q (Continue (page_cursor (Suc k))) (con es out' w')
      else returns (resource_command (es_server_peer ext) (take 10 (drop (10 * k) genResources)) l)
        (\<lambda>exit. Q (Finish exit)) (con es out' w')"
  shows "returns (resources_round (es_server_peer ext) (page_cursor k)) Q (con (typed_line l # es) out w)"
  unfolding resources_round_def returns_bnd peer_methods
  by (rule list_page [OF assms(1,2)])
    (use assms(3,4) in \<open>auto simp: Let_def simp del: each.simps intro!: await_typed\<close>)

lemma read_from:
  assumes "i < 99" "quiet w" "i div 10 = k + n"
  shows "returns (loop (resources_round (es_server_peer ext)) (page_cursor k))
    (\<lambda>exit st'. \<not> exit \<and> co_in st' = es \<and>
       shown [data_title (resource_uri (i + 1)), resource_data (genResource (i + 1))] st')
    (con (map typed_line (replicate n ''next'' @ [''read '' @ resource_uri (i + 1), []]) @ es) out w)"
  using assms
proof (induction n arbitrary: k w out)
  case 0
  then have k: "k = i div 10" "k < 10" by simp_all
  obtain r where r: "find (\<lambda>r. re_uri r = resource_uri (i + 1)) (take 10 (drop (10 * (i div 10)) genResources)) = Some r"
    "re_uri r = resource_uri (i + 1)" by (rule listed_on_page [of i]) (use 0 in simp)
  define l where "l = ''read '' @ resource_uri (i + 1)"
  have "resource_command (es_server_peer ext) (take 10 (drop (10 * k) genResources)) l =
      read_resource (es_server_peer ext) (resource_uri (i + 1))"
    unfolding resource_command_def Let_def l_def read_words using r k by simp
  moreover have "line_ok l" "l \<noteq> exitCommand" "l \<noteq> ''next''" using 0 read_line [of i] by (simp_all add: l_def exitCommand_def)
  ultimately have "returns (loop (resources_round (es_server_peer ext)) (page_cursor k))
    (\<lambda>exit st'. \<not> exit \<and> co_in st' = es \<and>
       shown [data_title (resource_uri (i + 1)), resource_data (genResource (i + 1))] st')
    (con (typed_line l # typed_line [] # es) out w)"
    using 0(1,2) k(2) read_command [of i] by (intro returns_loop resources_line) auto
  then show ?case by (simp add: l_def)
next
  case (Suc n)
  define rest where "rest = map typed_line (replicate n ''next'' @ [''read '' @ resource_uri (i + 1), []]) @ es"
  have "returns (loop (resources_round (es_server_peer ext)) (page_cursor (Suc k)))
      (\<lambda>exit st'. \<not> exit \<and> co_in st' = es \<and>
        shown [data_title (resource_uri (i + 1)), resource_data (genResource (i + 1))] st') (con rest out' w')"
    if "quiet w'" for out' w'
    unfolding rest_def using Suc.prems that by (intro Suc.IH) simp_all
  moreover have "line_ok ''next''" by (simp add: line_ok_def dropCR_def maxScanTokenSize_def)
  ultimately have "returns (loop (resources_round (es_server_peer ext)) (page_cursor k))
      (\<lambda>exit st'. \<not> exit \<and> co_in st' = es \<and>
        shown [data_title (resource_uri (i + 1)), resource_data (genResource (i + 1))] st')
      (con (typed_line ''next'' # rest) out w)"
    using Suc.prems by (intro returns_loop resources_line) (auto simp: exitCommand_def less_input_def)
  then show ?case by (simp add: rest_def)
qed

text \<open>
  C40. What a user of the example sees who pages to a listed resource and reads it: under the URI that was
  asked for the program prints the data of the next resource, server, client and program together,
  for each of the first 99 resources and whatever notifications come in between.
\<close>

theorem es_example_reads_next:
  assumes "i < 99" "es_logChan (ex_peer w) = []"
  shows "\<exists>st'. runResources (es_server_peer ext)
      \<lparr>co_in = map typed_line (replicate (i div 10) ''next'' @ [''read '' @ re_uri (genResource i), []]) @ es, co_out = out,
       co_closed = False, co_world = w\<rparr> = Ret False st' \<and> co_in st' = es \<and>
    shown [''Data for resource '' @ re_uri (genResource i) @ '':'', resource_data (genResource (i + 1))] st'"
proof -
  have "returns (runResources (es_server_peer ext))
      (\<lambda>exit st'. \<not> exit \<and> co_in st' = es \<and> shown [data_title (resource_uri (i + 1)), resource_data (genResource (i + 1))] st')
      (con (map typed_line (replicate (i div 10) ''next'' @ [''read '' @ resource_uri (i + 1), []]) @ es) out w)"
    using read_from [of i w 0 "i div 10" ext es out] assms by (simp add: runResources_def quiet_def page_cursor_def)
  then show ?thesis by (auto simp: returns_iff data_title_def)
qed

theorem es_example_reads_next_witness:
  "\<exists>st'. runResources (es_server_peer demo_outside)
      \<lparr>co_in = map typed_line (replicate 1 ''next'' @ [''read '' @ re_uri (genResource 11), []]) @ [], co_out = [],
       co_closed = False, co_world = new_world\<rparr> = Ret False st' \<and>
    shown [''Data for resource '' @ re_uri (genResource 11) @ '':'', resource_data (genResource 12)] st'"
  using es_example_reads_next [of 11 new_world demo_outside "[]" "[]"]
  by (simp add: new_world_def es_NewServer_def) blast

section \<open>Sampling\<close>
















text \<open>
  The client and the server that \<^verbatim>\<open>main\<close> builds have what the other requires, and the client connects
  to the path that \<^verbatim>\<open>main\<close> registers.
\<close>

lemma es_example_fits:
  "client_caps_meet (sv_requiredClientCapabilities esx_server) (cl_capabilities esx_newClient)"
  "server_caps_meet (cl_requiredServerCapabilities esx_newClient) (sv_capabilities esx_server)"
  by (simp_all add: esx_server_def esx_server_options_def esx_newClient_def newServer_def NewClient_def Let_def
      bare_server_def bare_client_def server_capabilities_def required_client_capabilities_def client_capabilities_def
      required_server_capabilities_def client_caps_meet_def server_caps_meet_def opt_meets_def
      es_RequireRootsListClient_def es_RequireSamplingClient_def)

end
