(* ===== verification/Spec2Isabelle.thy ===== *)
theory Spec2Isabelle
  imports ServerProps ServerTypes ProtocolProps ClientProps FilesystemProps StdIO SSEProps EverythingProps
    FsClientProps EsClientProps
begin

text \<open>
  A verification development of go-mcp, a Go library for the Model Context Protocol
  (\<^verbatim>\<open>src/pkg/mcp\<close>) with two servers built on it (\<^verbatim>\<open>src/pkg/servers\<close>) and an example program for each
  (\<^verbatim>\<open>src/example\<close>).

  \<^bold>\<open>The program.\<close> A server (\<^verbatim>\<open>server.go\<close>) and a client (\<^verbatim>\<open>client.go\<close>) exchange JSON-RPC messages
  (\<^verbatim>\<open>mcp.go\<close>) over a transport: lines of JSON on standard input and output (\<^verbatim>\<open>stdio.go\<close>) or an event
  stream with HTTP posts (\<^verbatim>\<open>sse.go\<close>). Both peers run many goroutines: the server a listen loop and a
  ping loop per session, one goroutine per request that calls user code, broadcasters and a
  progress listener; the client a message loop, a ping loop and one goroutine per call. User code
  is an implementation of the server interfaces; the filesystem server and the everything server
  are two of them. The example programs run a server and a client in one process and put a menu on
  a terminal before the client.

  \<^bold>\<open>The theories.\<close> Each group is named with the source it models.

  \<^item> \<^verbatim>\<open>Prelude\<close>: the JSON and error types, \<^verbatim>\<open>sync.Map\<close> as the locale \<open>sync_map\<close> and its model, shared lemmas.
  \<^item> \<^verbatim>\<open>Numbers\<close>: 64-bit integers, \<^verbatim>\<open>float64\<close> as mantissa and exponent with correct rounding, decimal printing and
    \<^verbatim>\<open>strconv.Atoi\<close>. \<^verbatim>\<open>Json\<close>: struct decoding and encoding of \<^verbatim>\<open>encoding/json\<close>, with the round-trip contract of
    a codec as a locale. \<^verbatim>\<open>JsonText\<close>: the text form; printing and parsing are inverse for every value.
  \<^item> \<^verbatim>\<open>Protocol\<close>, \<^verbatim>\<open>Capabilities\<close>, \<^verbatim>\<open>Results\<close>: the messages, parameters, capabilities and results of \<^verbatim>\<open>mcp.go\<close>
    as records with their codecs. \<^verbatim>\<open>ProtocolProps\<close>: round trips, and what happens to numeric ids.
  \<^item> \<^verbatim>\<open>Context\<close>: Go contexts as a locale (cancellation reaches exactly the descendants) and its model.
  \<^item> \<^verbatim>\<open>ServerConfig\<close>, \<^verbatim>\<open>Server\<close>, \<^verbatim>\<open>ServerDispatch\<close>: options and construction, then every handler of \<^verbatim>\<open>server.go\<close>
    as a function on the state record, and the dispatch \<^verbatim>\<open>handleMsg\<close>. \<^verbatim>\<open>ServerRun\<close>: the goroutines as events;
    \<open>exec_event\<close> performs one and \<open>reach\<close> holds the states of all interleavings. \<^verbatim>\<open>ServerInv\<close> and \<^verbatim>\<open>ServerSafety\<close>:
    the invariants by rule induction. \<^verbatim>\<open>ServerTypes\<close>: the shape of responses. \<^verbatim>\<open>ServerExample\<close>: a concrete run for the witnesses. \<^verbatim>\<open>ServerProps\<close>: the properties.
  \<^item> \<^verbatim>\<open>Client\<close>, \<^verbatim>\<open>ClientRun\<close>, \<^verbatim>\<open>ClientInv\<close>, \<^verbatim>\<open>ClientProps\<close>: the same for \<^verbatim>\<open>client.go\<close>.
  \<^item> \<^verbatim>\<open>Transport\<close>: one direction of a transport as the locale \<open>message_link\<close>, a queue. \<^verbatim>\<open>StdIO\<close>: \<^verbatim>\<open>stdio.go\<close> and its
    interpretation of the link. \<^verbatim>\<open>SSE\<close>, \<^verbatim>\<open>SSEProps\<close>: \<^verbatim>\<open>sse.go\<close>, with query strings, both HTTP handlers and the
    listening goroutine.
  \<^item> \<^verbatim>\<open>FilePath\<close>, \<^verbatim>\<open>OsFs\<close>: \<^verbatim>\<open>path/filepath\<close> (\<^verbatim>\<open>Clean\<close>, \<^verbatim>\<open>Join\<close>, \<^verbatim>\<open>Match\<close>) and \<^verbatim>\<open>os\<close> on a tree of files, the latter behind
    the locale \<open>file_tree\<close>. \<^verbatim>\<open>ToolArgs\<close>: arguments and results of tools. \<^verbatim>\<open>FilesystemTools\<close>, \<^verbatim>\<open>Filesystem\<close>,
    \<^verbatim>\<open>FilesystemInv\<close>, \<^verbatim>\<open>FilesystemProps\<close>: \<^verbatim>\<open>servers/filesystem\<close>, all ten tools.
  \<^item> \<^verbatim>\<open>Everything\<close>, \<^verbatim>\<open>EverythingProps\<close>: \<^verbatim>\<open>servers/everything\<close>, prompts, resources, tools, logging, subscriptions.
  \<^item> \<^verbatim>\<open>Console\<close>: programs on a terminal, with printing, the wait for a line (\<^verbatim>\<open>waitStdIOInput\<close>), calls and loops;
    weakest preconditions for them, and when a program only uses its input up. \<^verbatim>\<open>FsClient\<close>, \<^verbatim>\<open>FsClientProps\<close>:
    \<^verbatim>\<open>example/filesystem\<close>, where the locale \<open>tool_peer\<close> says what it relies on of the client's methods and the
    filesystem server behind a client interprets it. \<^verbatim>\<open>EsClient\<close>, \<^verbatim>\<open>EsClientProps\<close>: \<^verbatim>\<open>example/everything\<close>, with its
    callbacks, every dialogue and \<^verbatim>\<open>main\<close>.
  \<^item> This theory: properties that need both peers.

  \<^bold>\<open>What the theorems show.\<close> Over all interleavings of the server: responses are solicited and well typed, user code
  and callbacks run only for initialized sessions, a reply completes only its own request, no
  panic before the stop (with the components there), the stop ends every context, a change is
  broadcast to every session, progress goes to its requester. Of the client: a response is
  matched to its request, \<^verbatim>\<open>Connect\<close> succeeds only with a fitting server, and a stray response
  leaves it deaf. Dispatch equals a lookup in a method table. Messages and parameters survive the
  wire; the handshake succeeds exactly when both sides fit; a tool call arrives and returns. The
  transports deliver what was sent, in order, to the session it was sent to. The tools of the
  filesystem server do what their specification over the tree says, and stay below the root for
  paths that do not climb. Paging of the everything server terminates with every resource, and a
  tick updates the subscribed URIs. The example programs never run on without reading input; in the
  one a file written through the menu is read back, in the other a sampling request travels to
  the server, to the client and back to the screen. Where the code does not do what it means to, the theorem
  states what it does: cancellation has no effect, dot-dots leave the root, large ids collide,
  long lines end the transport, a full log blocks every method, a resource is read one too far,
  an interrupt makes the filesystem example close a channel twice.

  \<^bold>\<open>Choices.\<close> A channel operation is one atomic step; a goroutine that waits for ever is a task that
  never moves. \<^verbatim>\<open>sync.Map.Range\<close> sees one state of the map. What the environment decides (time, ids
  from \<^verbatim>\<open>uuid\<close>, the outcome of a write, the answer of user code, the arm \<^verbatim>\<open>select\<close> takes) is an argument of the
  operation or a field of the event, so a theorem holds for every choice; freshness of ids is a
  guard of the events that draw them. Strings are byte strings in valid UTF-8, and case folding of
  member names is that of ASCII. A JSON object is the list of its members in the order they are
  written. Numbers in \<^verbatim>\<open>any\<close> values stay exact decimals and become \<^verbatim>\<open>float64\<close> where the code converts them.
  The JSON parser takes the length of its input as fuel, which the round trip shows to be enough
  for every printed value. \<open>follow_pages\<close> takes the number of requests as fuel; ten suffice. A loop of an
  example program has one round per event of its input and one more; a run that would need
  another ends in \<open>Spin\<close>, and the termination theorems exclude it. There interrupts are seen at
  waits, a closed console answers a wait at once, and callbacks are delivered at the end of the
  next call or wait. File
  systems have no links, permissions or concurrent changes by others.

  \<^bold>\<open>Parameters.\<close> Code outside the repository is an argument: the JSON schema validator of the tools,
  and the event reader of go-sse, of which \<open>reads_frames\<close> states what the client relies on. So are
  \<^verbatim>\<open>strconv.ParseFloat\<close>, the clock, \<^verbatim>\<open>uuid.New\<close> and the ticks of the everything server for its example program.

  \<^bold>\<open>Not modelled.\<close> Durations and timers, which are choices of the environment; the HTTP protocol below requests
  and responses; whether \<^verbatim>\<open>url.Parse\<close> accepts a text; modification times and the sizes of directories, which
  \<^verbatim>\<open>get_file_info\<close> takes from its environment; in the example programs the race between \<^verbatim>\<open>main\<close>, which returns
  when \<^verbatim>\<open>done\<close> is closed, and the last step of \<^verbatim>\<open>run\<close>, and a server that cannot listen on its port.
\<close>

section \<open>Both peers together\<close>

text \<open>What a message is after it has been marshalled by one peer and unmarshalled by the other.\<close>

definition over_wire :: "JSONRPCMessage \<Rightarrow> JSONRPCMessage res" where
  "over_wire m = unmarshal dec_JSONRPCMessage JSONRPCMessage_zero (Some (enc_JSONRPCMessage m))"

lemma over_wire_ok: "msg_ok m \<Longrightarrow> over_wire m = Inr (wire_msg m)"
  by (simp add: over_wire_def unmarshal_def dec_enc_JSONRPCMessage)

lemma wire_msg_fields [simp]:
  "msg_result (wire_msg m) = msg_result m" "msg_params (wire_msg m) = msg_params m"
  "msg_id (wire_msg m) = msg_id m" "msg_method (wire_msg m) = msg_method m"
  "msg_jsonrpc (wire_msg m) = msg_jsonrpc m"
  "msg_error (wire_msg m) = map_option wire_error (msg_error m)"
  by (simp_all add: wire_msg_def)

lemma Client_initialize_None:
  "fst (Client_initialize c (Inr m) None cs) = None \<longleftrightarrow> accepts c m"
  unfolding Client_initialize_def accepts_def
  by (auto simp: Let_def refuse_effect(2) checkCapabilities_None [symmetric] Client_sendNotification_def
      wrap_out_def split: option.split sum.split)

text \<open>
  C4. The handshake of the two peers succeeds exactly when each has what the other requires: the
  client's \<^verbatim>\<open>initialize\<close> message, decoded by the server, makes the server send one message, which,
  decoded by the client, makes the client's \<^verbatim>\<open>initialize\<close> return nil if and only if the client
  offers the capabilities the server requires and the server those the client requires.
\<close>

theorem handshake_succeeds_iff:
  assumes "sr_panic st = None" "\<not> sr_errsClosed st"
  shows "\<exists>q m m'.
     unmarshal dec_initializeParams initializeParams_zero (msg_params (initialize_msg c)) = Inr q \<and>
     sr_sent (handleInitialize p i q (sv_capabilities s) (sv_requiredClientCapabilities s) (sv_info s) None st) =
       sr_sent st @ [(\<lparr>sm_sessionID = ss_id (sess_at st p), sm_msg = m\<rparr>, None)] \<and>
     msg_id m = i \<and> over_wire m = Inr m' \<and>
     (fst (Client_initialize c (Inr m') None cs) = None \<longleftrightarrow>
        client_caps_meet (sv_requiredClientCapabilities s) (cl_capabilities c) \<and>
        server_caps_meet (cl_requiredServerCapabilities c) (sv_capabilities s))"
proof -
  let ?q = "\<lparr>ip_protocolVersion = protocolVersion, ip_capabilities = cl_capabilities c,
            ip_clientInfo = cl_info c\<rparr>"
  let ?r = "\<lparr>ir_protocolVersion = protocolVersion, ir_capabilities = sv_capabilities s,
            ir_serverInfo = sv_info s\<rparr>"
  let ?fits = "client_caps_meet (sv_requiredClientCapabilities s) (cl_capabilities c)"
  have q: "unmarshal dec_initializeParams initializeParams_zero (msg_params (initialize_msg c)) = Inr ?q"
    by (simp add: initialize_msg_def ipc.unmarshal_round_trip)
  from handleInitialize_message [OF assms, of p i ?q "sv_capabilities s" "sv_requiredClientCapabilities s"
      "sv_info s" None]
  obtain m where m: "sr_sent (handleInitialize p i ?q (sv_capabilities s)
        (sv_requiredClientCapabilities s) (sv_info s) None st) =
        sr_sent st @ [(\<lparr>sm_sessionID = ss_id (sess_at st p), sm_msg = m\<rparr>, None)]" "msg_id m = i"
      "if ?fits then msg_error m = None \<and> msg_result m = Some (enc_initializeResult ?r)
       else msg_result m = None \<and> (\<exists>e x. msg_error m = Some e \<and>
              err_code e = jsonRPCInvalidParamsCode \<and> err_data e = error_data x)"
    by auto
  have "msg_ok m"
    using m(3) by (auto simp: msg_ok_def error_ok_def error_data_def jsonRPCInvalidParamsCode_def
        in_int64_def int64_min_def int64_max_def split: if_splits)
  then have w: "over_wire m = Inr (wire_msg m)" by (rule over_wire_ok)
  have "accepts c (wire_msg m) \<longleftrightarrow> ?fits \<and> server_caps_meet (cl_requiredServerCapabilities c) (sv_capabilities s)"
    using m(3) by (auto simp: accepts_def irc.unmarshal_round_trip split: if_splits)
  with q m(1,2) w show ?thesis by (auto simp: Client_initialize_None)
qed

theorem handshake_succeeds_iff_witness:
  "\<exists>m'. fst (Client_initialize demo_client (Inr m') None cst_init) = None \<and> msg_error m' = None"
proof -
  let ?st = "demo_state demo_open"
  have h: "sr_panic ?st = None" "\<not> sr_errsClosed ?st" by code_simp+
  have fit: "client_caps_meet (sv_requiredClientCapabilities demo_server) (cl_capabilities demo_client)"
    "server_caps_meet (cl_requiredServerCapabilities demo_client) (sv_capabilities demo_server)"
    by (simp_all add: client_caps_meet_def server_caps_meet_def opt_meets_def demo_server_def demo_client_def
        newServer_def NewClient_def bare_server_def bare_client_def Let_def server_capabilities_def
        required_client_capabilities_def client_capabilities_def required_server_capabilities_def
        defaultServerWriteTimeout_def defaultServerReadTimeout_def second_def
        defaultClientWriteTimeout_def defaultClientReadTimeout_def defaultClientPingInterval_def)
  from handshake_succeeds_iff [OF h, of demo_client 0 "''1''" demo_server cst_init]
  obtain m m' where m: "msg_id m = ''1''" "over_wire m = Inr m'"
    "fst (Client_initialize demo_client (Inr m') None cst_init) = None"
    using fit by auto
  then have "accepts demo_client m'" by (simp add: Client_initialize_None)
  then have "msg_error m' = None" by (simp add: accepts_def)
  with m(3) show ?thesis by blast
qed






section \<open>The server over standard output\<close>

lemma response_msg_ok:
  assumes "reach s st" "(sm, out) \<in> set (sr_sent st)" "msg_method (sm_msg sm) = []"
  shows "msg_ok (sm_msg sm)"
proof -
  have "response_shape (sm_msg sm)" using ty.always [OF assms(1)] assms(2,3) by (auto simp: typed_def)
  then show ?thesis
    by (auto simp: response_shape_def msg_ok_def error_ok_def error_data_def in_int64_def int64_min_def int64_max_def
        jsonRPCInvalidParamsCode_def jsonRPCInternalErrorCode_def split: option.splits)
qed

text \<open>
  C12. The server over standard output: if the messages a reachable server has sent are written by
  the transport's \<^verbatim>\<open>Send\<close>, each at most 64 KiB long, and requests and notifications carry no error
  member, then \<^verbatim>\<open>Start\<close> on the other side hands over exactly these messages, in the order sent.
\<close>

theorem server_output_over_stdio:
  assumes "reach s st"
    and "list_all (\<lambda>(sm, out). sm_sessionID sm = ''1'' \<and> length (frame (sm_msg sm)) \<le> 65536 \<and>
           (msg_method (sm_msg sm) \<noteq> [] \<longrightarrow> msg_error (sm_msg sm) = None)) (sr_sent st)"
  shows "sn_delivered (StdIO_Start (\<lambda>_. False) answer None
      (fold (\<lambda>(sm, out) w. snd (StdIO_Send (sm_msg sm) None None w)) (sr_sent st) [])) =
    map (\<lambda>(sm, out). \<lparr>sm_sessionID = sm_sessionID sm, sm_msg = wire_msg (sm_msg sm)\<rparr>) (sr_sent st)"
proof -
  let ?ms = "map (\<lambda>x. sm_msg (fst x)) (sr_sent st)"
  have "line_fits (sm_msg sm)" if "(sm, out) \<in> set (sr_sent st)" for sm out
  proof (cases "msg_method (sm_msg sm) = []")
    case True
    with that assms show ?thesis
      using response_msg_ok [OF assms(1) that] by (auto simp: line_fits_def maxScanTokenSize_def list_all_iff)
  next
    case False
    with that assms(2) have "msg_error (sm_msg sm) = None" "length (frame (sm_msg sm)) \<le> 65536"
      by (auto simp: list_all_iff)
    then show ?thesis by (simp add: line_fits_def msg_ok_def maxScanTokenSize_def)
  qed
  then have "list_all line_fits ?ms" by (auto simp: list_all_iff)
  from stdio.link_is_queue [OF this, of answer] show ?thesis
    using assms(2) by (auto simp: stdio_received_def fold_map comp_def case_prod_unfold stdioSession_def list_all_iff)
qed

definition demo_stdio :: "event list" where
  "demo_stdio = [EContext, ESession 0 ''1'', EMessage ''1'' (demo_msg ''7'' methodPing JNull), ERun 0 None]"

theorem server_output_over_stdio_witness:
  "sn_delivered (StdIO_Start (\<lambda>_. False) (\<lambda>_. None) None
      (fold (\<lambda>(sm, out) w. snd (StdIO_Send (sm_msg sm) None None w)) (sr_sent (demo_state demo_stdio)) [])) =
    [\<lparr>sm_sessionID = ''1'', sm_msg = JSONRPCMessage_zero\<lparr>msg_jsonrpc := JSONRPCVersion, msg_id := ''7'', msg_result := Some JNull\<rparr>\<rparr>]"
proof -
  let ?m = "JSONRPCMessage_zero\<lparr>msg_jsonrpc := JSONRPCVersion, msg_id := ''7'', msg_result := Some JNull\<rparr>"
  have r: "run demo_server demo_stdio srv_init \<noteq> None" by code_simp
  have sent: "sr_sent (demo_state demo_stdio) = [(\<lparr>sm_sessionID = ''1'', sm_msg = ?m\<rparr>, None)]" by code_simp
  have "length (frame ?m) \<le> 65536"
    by (simp add: frame_def enc_JSONRPCMessage_def JSONRPCMessage_zero_def JSONRPCVersion_def omit_defs
        show_string_def escape_char_def)
  then have "list_all (\<lambda>(sm, out). sm_sessionID sm = ''1'' \<and> length (frame (sm_msg sm)) \<le> 65536 \<and>
      (msg_method (sm_msg sm) \<noteq> [] \<longrightarrow> msg_error (sm_msg sm) = None)) (sr_sent (demo_state demo_stdio))"
    by (simp add: sent JSONRPCMessage_zero_def)
  from server_output_over_stdio [OF demo_reach [OF r] this, of "\<lambda>_. None"] show ?thesis
    by (simp add: sent wire_msg_def JSONRPCMessage_zero_def)
qed

end
